(* ===== verification/Prelude.thy ===== *)
theory Prelude
  imports Main "HOL-Library.Word" "HOL-Library.Monad_Syntax"
begin

text \<open>
  Shared vocabulary of the development: the names of the machine types, the collections the
  component theories put their simplification rules into, and the generic lemmas on
  \<^theory_text>\<open>List.find\<close>, options and 32-bit words that more than one component uses.

  A Rust \<open>Result<T, E>\<close> is the sum \<open>'e + 't\<close> (\<open>Inl\<close> is \<open>Err\<close>), an \<open>Option<T>\<close> is
  \<open>'t option\<close>, a \<open>u32\<close> is a 32-bit word. A computation that may trap (a panic, which on the
  Soroban host aborts the invocation) returns \<open>'t option\<close> with \<open>None\<close> for the trap.
  Strings are byte lists, as Rust's UTF-8 \<open>str\<close> is.
\<close>

section \<open>Types\<close>

type_synonym u32 = "32 word"

text \<open>
  A Soroban \<open>Address\<close> is opaque to the program, which only compares, clones and stores it. It is
  named here by its strkey text (\<open>G...\<close> for an account, \<open>C...\<close> for a contract), the form in which
  the operator CLI passes it around.
\<close>

type_synonym address = string

section \<open>Collections of rules\<close>

named_theorems enum_simps \<open>definitions of the total functions on the closed enumerations\<close>
named_theorems read_simps \<open>what the typed storage reads return\<close>
named_theorems spec_simps \<open>definitions of the abstract specification\<close>
named_theorems text_simps \<open>definitions of the string functions of the CLI\<close>

section \<open>Searching a table by a key\<close>

text \<open>
  \<open>ALL.iter().copied().find(|x| key(x) == k)\<close>: the parse functions of the program search a
  constant table for the entry with a given key. Injectivity of the key on the table is what
  makes the search invert the key function.
\<close>

locale keyed_table =
  fixes table :: "'a list"
    and key :: "'a \<Rightarrow> 'k"
  assumes key_inj: "\<And>x y. x \<in> set table \<Longrightarrow> y \<in> set table \<Longrightarrow> key x = key y \<Longrightarrow> x = y"
begin

lemma lookup_key:
  assumes "x \<in> set table"
  shows "List.find (\<lambda>y. key y = key x) table = Some x"
proof -
  have "List.find (\<lambda>y. key y = key x) table \<noteq> None"
    using assms by (auto simp: find_None_iff)
  then obtain y where y: "List.find (\<lambda>y. key y = key x) table = Some y"
    by blast
  then have "y \<in> set table" and "key y = key x"
    by (auto simp: find_Some_iff)
  with assms have "y = x"
    by (auto intro: key_inj)
  with y show ?thesis by simp
qed

lemma lookup_sound: "List.find (\<lambda>y. key y = k) table = Some x \<Longrightarrow> key x = k \<and> x \<in> set table"
  by (auto simp: find_Some_iff)

lemma lookup_iff:
  "List.find (\<lambda>y. key y = k) table = Some x \<longleftrightarrow> key x = k \<and> x \<in> set table"
  using lookup_key lookup_sound by blast

lemma lookup_none: "List.find (\<lambda>y. key y = k) table = None \<longleftrightarrow> k \<notin> key ` set table"
  by (auto simp: find_None_iff)

end

section \<open>Options\<close>

lemma bind_Some_iff: "Option.bind m f = Some y \<longleftrightarrow> (\<exists>x. m = Some x \<and> f x = Some y)"
  by (cases m) auto

lemma bind_eq_Some_cases:
  assumes "Option.bind m f = Some y"
  obtains x where "m = Some x" and "f x = Some y"
  using assms by (cases m) auto

section \<open>Checked arithmetic on 32-bit words\<close>

text \<open>
  The workspace's release profile keeps \<open>overflow-checks = true\<close>, so \<open>a + b\<close> on \<open>u32\<close> panics when
  the sum does not fit.
\<close>

definition checked_add :: "u32 \<Rightarrow> u32 \<Rightarrow> u32 option" where
  "checked_add a b = (if unat a + unat b < 2 ^ 32 then Some (a + b) else None)"

lemma checked_add_Some: "checked_add a b = Some c \<Longrightarrow> unat c = unat a + unat b"
  by (auto simp: checked_add_def unat_word_ariths split: if_splits)

lemma checked_add_None: "checked_add a b = None \<longleftrightarrow> 2 ^ 32 \<le> unat a + unat b"
  by (auto simp: checked_add_def)

lemma checked_add_one: "checked_add a 1 = (if a = 4294967295 then None else Some (a + 1))"
proof -
  have "unat a < 2 ^ 32" using unsigned_less [of a] by simp
  moreover have "a = 4294967295 \<longleftrightarrow> unat a = 4294967295"
    by (simp add: word_unat_eq_iff)
  ultimately show ?thesis
    by (auto simp: checked_add_def)
qed

end
