(* ===== verification/Hook_Core.thy ===== *)
theory Hook_Core
  imports Prelude
begin

text \<open>
  The environment-free domain model, crate \<^verbatim>\<open>crates/hook-core\<close>: the gated operations and the
  parties they name (\<^verbatim>\<open>operation.rs\<close>), the gate class of a role (\<^verbatim>\<open>party.rs\<close>), the decision type
  and its combination (\<^verbatim>\<open>decision.rs\<close>), the rejection reasons with their names, codes and parse
  functions (\<^verbatim>\<open>reason.rs\<close>) and the evaluation contexts (\<^verbatim>\<open>context.rs\<close>).

  The closed enumerations are datatypes with the source's constructors; the derived order of
  an enumeration (\<^verbatim>\<open>#[derive(Ord)]\<close>) is the order of its variants and is given as an instance
  of the library's \<^theory_text>\<open>linorder\<close>.
\<close>

section \<open>Party roles (\<^verbatim>\<open>party.rs\<close>)\<close>

datatype party_role = Account | From | To | Spender

datatype gate_class = Full | PolicyOnly

fun role_name :: "party_role \<Rightarrow> string" where
  "role_name Account = ''account''"
| "role_name From = ''from''"
| "role_name To = ''to''"
| "role_name Spender = ''spender''"

fun role_gate_class :: "party_role \<Rightarrow> gate_class" where
  "role_gate_class Account = Full"
| "role_gate_class From = Full"
| "role_gate_class To = Full"
| "role_gate_class Spender = PolicyOnly"

definition holds_funds :: "party_role \<Rightarrow> bool" where
  "holds_funds role = (case role_gate_class role of Full \<Rightarrow> True | PolicyOnly \<Rightarrow> False)"

fun gate_class_display :: "gate_class \<Rightarrow> string" where
  "gate_class_display Full = ''full''"
| "gate_class_display PolicyOnly = ''policy_only''"

lemma holds_funds_iff [simp]: "holds_funds role \<longleftrightarrow> role \<noteq> Spender"
  by (cases role) (simp_all add: holds_funds_def)

section \<open>Operations (\<^verbatim>\<open>operation.rs\<close>)\<close>

datatype operation = Register | Deposit | Merge | Transfer | TransferFrom | Withdraw

fun operation_name :: "operation \<Rightarrow> string" where
  "operation_name Register = ''register''"
| "operation_name Deposit = ''deposit''"
| "operation_name Merge = ''merge''"
| "operation_name Transfer = ''transfer''"
| "operation_name TransferFrom = ''transfer_from''"
| "operation_name Withdraw = ''withdraw''"

fun parties :: "operation \<Rightarrow> party_role list" where
  "parties Register = [Account]"
| "parties Merge = [Account]"
| "parties Deposit = [From, To]"
| "parties Transfer = [From, To]"
| "parties Withdraw = [From, To]"
| "parties TransferFrom = [Spender, From, To]"

definition is_bilateral :: "operation \<Rightarrow> bool" where
  "is_bilateral op = (case op of
      Deposit \<Rightarrow> True | Transfer \<Rightarrow> True | TransferFrom \<Rightarrow> True | Withdraw \<Rightarrow> True
    | _ \<Rightarrow> False)"

lemma parties_nonempty [simp]: "parties op \<noteq> []"
  by (cases op) simp_all

lemma parties_distinct: "distinct (parties op)"
  by (cases op) simp_all

text \<open>
  The spender comes first, so a delegated operation with a non-compliant spender is stopped
  before any fund-holder gate; every operation names a fund holder.
\<close>

lemma spender_first: "Spender \<in> set (parties op) \<Longrightarrow> hd (parties op) = Spender"
  by (cases op) simp_all

lemma parties_hold_funds: "\<exists>role\<in>set (parties op). holds_funds role"
  by (cases op) simp_all

lemma bilateral_parties: "is_bilateral op \<longleftrightarrow> From \<in> set (parties op) \<and> To \<in> set (parties op)"
  by (cases op) (simp_all add: is_bilateral_def)

section \<open>Rejection reasons (\<^verbatim>\<open>reason.rs\<close>)\<close>

datatype rejection_reason =
    UnboundToken
  | PolicyDenied
  | AccountFrozen
  | SpenderNotAuthorized
  | SacAuthorizationFailed
  | InvalidConfiguration
  | PolicyUnavailable

definition ALL_REASONS :: "rejection_reason list" where
  "ALL_REASONS =
     [UnboundToken, PolicyDenied, AccountFrozen, SpenderNotAuthorized, SacAuthorizationFailed,
      InvalidConfiguration, PolicyUnavailable]"

fun reason_name :: "rejection_reason \<Rightarrow> string" where
  "reason_name UnboundToken = ''unbound_token''"
| "reason_name PolicyDenied = ''policy_denied''"
| "reason_name AccountFrozen = ''account_frozen''"
| "reason_name SpenderNotAuthorized = ''spender_not_authorized''"
| "reason_name SacAuthorizationFailed = ''sac_authorization_failed''"
| "reason_name InvalidConfiguration = ''invalid_configuration''"
| "reason_name PolicyUnavailable = ''policy_unavailable''"

fun reason_code :: "rejection_reason \<Rightarrow> u32" where
  "reason_code UnboundToken = 2"
| "reason_code PolicyDenied = 3"
| "reason_code AccountFrozen = 4"
| "reason_code SpenderNotAuthorized = 5"
| "reason_code SacAuthorizationFailed = 8"
| "reason_code InvalidConfiguration = 9"
| "reason_code PolicyUnavailable = 10"

definition reason_from_name :: "string \<Rightarrow> rejection_reason option" where
  "reason_from_name name = List.find (\<lambda>reason. reason_name reason = name) ALL_REASONS"

definition reason_from_code :: "u32 \<Rightarrow> rejection_reason option" where
  "reason_from_code code = List.find (\<lambda>reason. reason_code reason = code) ALL_REASONS"

lemma set_ALL_REASONS [simp]: "set ALL_REASONS = UNIV"
proof (rule set_eqI)
  fix r :: rejection_reason
  show "r \<in> set ALL_REASONS \<longleftrightarrow> r \<in> UNIV"
    by (cases r) (simp_all add: ALL_REASONS_def)
qed

lemma reason_name_inj: "reason_name r = reason_name r' \<Longrightarrow> r = r'"
  by (cases r; cases r') simp_all

lemma reason_code_inj: "reason_code r = reason_code r' \<Longrightarrow> r = r'"
  by (cases r; cases r') simp_all

interpretation reason_names: keyed_table ALL_REASONS reason_name
  by unfold_locales (rule reason_name_inj)

interpretation reason_codes: keyed_table ALL_REASONS reason_code
  by unfold_locales (rule reason_code_inj)

lemma reason_from_name_iff: "reason_from_name n = Some r \<longleftrightarrow> n = reason_name r"
  unfolding reason_from_name_def reason_names.lookup_iff by auto

lemma reason_from_code_iff: "reason_from_code c = Some r \<longleftrightarrow> c = reason_code r"
  unfolding reason_from_code_def reason_codes.lookup_iff by auto

lemma range_reason_code: "range reason_code = {2, 3, 4, 5, 8, 9, 10}"
proof -
  have "range reason_code = reason_code ` set ALL_REASONS" by simp
  also have "\<dots> = {2, 3, 4, 5, 8, 9, 10}"
    unfolding ALL_REASONS_def by (simp add: insert_commute)
  finally show ?thesis .
qed

lemma reason_from_code_None: "reason_from_code c = None \<longleftrightarrow> c \<notin> {2, 3, 4, 5, 8, 9, 10}"
  unfolding reason_from_code_def reason_codes.lookup_none
  by (simp only: set_ALL_REASONS range_reason_code)

text \<open>
  The derived order of the enumeration (\<^verbatim>\<open>#[derive(Ord)]\<close>) compares the positions of the variants;
  it is the order of the codes, and the table lists the reasons in it.
\<close>

fun reason_rank :: "rejection_reason \<Rightarrow> nat" where
  "reason_rank UnboundToken = 0"
| "reason_rank PolicyDenied = 1"
| "reason_rank AccountFrozen = 2"
| "reason_rank SpenderNotAuthorized = 3"
| "reason_rank SacAuthorizationFailed = 4"
| "reason_rank InvalidConfiguration = 5"
| "reason_rank PolicyUnavailable = 6"

lemma reason_rank_inj: "reason_rank r = reason_rank r' \<Longrightarrow> r = r'"
  by (cases r; cases r') simp_all

instantiation rejection_reason :: linorder
begin

definition less_eq_rejection_reason :: "rejection_reason \<Rightarrow> rejection_reason \<Rightarrow> bool" where
  "r \<le> r' \<longleftrightarrow> reason_rank r \<le> reason_rank r'"

definition less_rejection_reason :: "rejection_reason \<Rightarrow> rejection_reason \<Rightarrow> bool" where
  "r < r' \<longleftrightarrow> reason_rank r < reason_rank r'"

instance
  by standard (auto simp: less_eq_rejection_reason_def less_rejection_reason_def
      intro: reason_rank_inj)

end

lemma reason_order_is_code_order: "r \<le> r' \<longleftrightarrow> reason_code r \<le> reason_code r'"
  by (cases r; cases r') (simp_all add: less_eq_rejection_reason_def)

lemma ALL_REASONS_sorted: "sorted ALL_REASONS" "distinct ALL_REASONS"
  by (simp_all add: ALL_REASONS_def less_eq_rejection_reason_def)

section \<open>Decisions (\<^verbatim>\<open>decision.rs\<close>)\<close>

datatype compliance_decision = Allow | Deny rejection_reason

definition is_allowed :: "compliance_decision \<Rightarrow> bool" where
  "is_allowed d = (case d of Allow \<Rightarrow> True | Deny _ \<Rightarrow> False)"

fun decision_reason :: "compliance_decision \<Rightarrow> rejection_reason option" where
  "decision_reason Allow = None"
| "decision_reason (Deny reason) = Some reason"

fun and_then :: "compliance_decision \<Rightarrow> compliance_decision \<Rightarrow> compliance_decision" where
  "and_then (Deny r) nxt = Deny r"
| "and_then Allow nxt = nxt"

lemma is_allowed_simps [simp]: "is_allowed Allow" "\<not> is_allowed (Deny r)"
  by (simp_all add: is_allowed_def)

lemma is_allowed_iff: "is_allowed d \<longleftrightarrow> d = Allow"
  by (cases d) simp_all

lemma and_then_Allow [simp]: "and_then d Allow = d"
  by (cases d) simp_all

lemma and_then_assoc: "and_then (and_then a b) c = and_then a (and_then b c)"
  by (cases a) simp_all

lemma and_then_allowed: "and_then a b = Allow \<longleftrightarrow> a = Allow \<and> b = Allow"
  by (cases a) simp_all

text \<open>The left-to-right combination of a list of decisions is the first denial.\<close>

definition first_denial :: "compliance_decision list \<Rightarrow> compliance_decision" where
  "first_denial ds = foldr and_then ds Allow"

lemma first_denial_simps [simp]:
  "first_denial [] = Allow"
  "first_denial (d # ds) = and_then d (first_denial ds)"
  by (simp_all add: first_denial_def)

lemma first_denial_Allow: "first_denial ds = Allow \<longleftrightarrow> (\<forall>d\<in>set ds. d = Allow)"
  by (induction ds) (simp_all add: and_then_allowed)

lemma first_denial_find:
  "first_denial ds = (case List.find (\<lambda>d. \<not> is_allowed d) ds of None \<Rightarrow> Allow | Some d \<Rightarrow> d)"
proof (induction ds)
  case Nil
  show ?case by simp
next
  case (Cons d ds)
  then show ?case by (cases d) simp_all
qed

section \<open>Contexts (\<^verbatim>\<open>context.rs\<close>)\<close>

record 't hook_context =
  ctx_token :: 't
  ctx_operation :: operation

record operation_context =
  gate_operation :: operation
  gate_role :: party_role

definition new_hook_context :: "'t \<Rightarrow> operation \<Rightarrow> 't hook_context" where
  "new_hook_context tk op = \<lparr>ctx_token = tk, ctx_operation = op\<rparr>"

definition new_operation_context :: "operation \<Rightarrow> party_role \<Rightarrow> operation_context" where
  "new_operation_context op role = \<lparr>gate_operation = op, gate_role = role\<rparr>"

definition operation_contexts :: "'t hook_context \<Rightarrow> operation_context list" where
  "operation_contexts ctx =
     map (\<lambda>role. new_operation_context (ctx_operation ctx) role) (parties (ctx_operation ctx))"

lemma operation_contexts_roles:
  "map gate_role (operation_contexts ctx) = parties (ctx_operation ctx)"
  by (simp add: operation_contexts_def new_operation_context_def comp_def)

end
