(* ===== verification/Soroban_Host.thy ===== *)
theory Soroban_Host
  imports Prelude
begin

text \<open>
  The boundary to the Soroban host. \<^verbatim>\<open>soroban-sdk\<close> is not part of the repository, so the calls the
  program makes on \<^verbatim>\<open>Env\<close> (instance and persistent storage, TTL extension, \<^verbatim>\<open>require_auth\<close>, event
  publication, \<^verbatim>\<open>try_invoke_contract\<close>) are the fields of a record that every definition of the
  contract takes as its argument, and what the program relies on is the locale \<open>soroban_host\<close>:
  the documented laws of these calls, stated on what can be observed of a host state (the
  entries, the event log).

  \<open>view_host\<close> adds that external calls answer like views. \<open>ledger_host\<close> is a concrete host: it
  interprets both locales and is what witnesses run on. \<open>tracing\<close> turns a host into one that also
  records every cross-contract call.
\<close>

section \<open>The calls of the host\<close>

text \<open>
  The result of \<^verbatim>\<open>try_invoke_contract::<bool, Error>\<close>: \<open>Inr (Inr b)\<close> is \<^verbatim>\<open>Ok(Ok(b))\<close>,
  \<open>Inr (Inl _)\<close> is \<^verbatim>\<open>Ok(Err(_))\<close> (the callee returned a value that is no \<open>bool\<close>) and \<open>Inl _\<close> is
  \<^verbatim>\<open>Err(_)\<close> (the callee reverted, trapped or does not exist).
\<close>

datatype invoke_error = Abort | ContractCode u32

datatype conversion_error = ConversionError

type_synonym view_result = "invoke_error + (conversion_error + bool)"

record ('s, 'k, 'v, 'e) host =
  instance_has :: "'s \<Rightarrow> 'k \<Rightarrow> bool"
  instance_get :: "'s \<Rightarrow> 'k \<Rightarrow> 'v option"
  instance_set :: "'s \<Rightarrow> 'k \<Rightarrow> 'v \<Rightarrow> 's"
  persistent_has :: "'s \<Rightarrow> 'k \<Rightarrow> bool"
  persistent_get :: "'s \<Rightarrow> 'k \<Rightarrow> 'v option"
  persistent_set :: "'s \<Rightarrow> 'k \<Rightarrow> 'v \<Rightarrow> 's"
  persistent_remove :: "'s \<Rightarrow> 'k \<Rightarrow> 's"
  persistent_ttl :: "'s \<Rightarrow> 'k \<Rightarrow> u32"
  extend_ttl :: "'s \<Rightarrow> 'k \<Rightarrow> u32 \<Rightarrow> u32 \<Rightarrow> 's"
  authorized :: "'s \<Rightarrow> address \<Rightarrow> bool"
  require_auth :: "'s \<Rightarrow> address \<Rightarrow> 's option"
  published :: "'s \<Rightarrow> 'e list"
  publish_event :: "'s \<Rightarrow> 'e \<Rightarrow> 's"
  try_invoke :: "'s \<Rightarrow> address \<Rightarrow> string \<Rightarrow> address list \<Rightarrow> view_result \<times> 's"

text \<open>
  \<^verbatim>\<open>get::<K, V>\<close> converts the stored value to \<open>V\<close> and panics when the conversion fails: the outer
  option is that trap.
\<close>

definition typed_get :: "('v \<Rightarrow> 'a option) \<Rightarrow> 'v option \<Rightarrow> 'a option option" where
  "typed_get conv raw = (case raw of None \<Rightarrow> Some None | Some v \<Rightarrow> map_option Some (conv v))"

lemma typed_get_simps [simp]:
  "typed_get conv None = Some None"
  "typed_get conv (Some v) = map_option Some (conv v)"
  by (simp_all add: typed_get_def)

section \<open>What is observed of a host state\<close>

definition same_entries :: "('s, 'k, 'v, 'e) host \<Rightarrow> 's \<Rightarrow> 's \<Rightarrow> bool" where
  "same_entries H e e' \<longleftrightarrow>
     instance_get H e' = instance_get H e \<and> persistent_get H e' = persistent_get H e"

definition quiet :: "('s, 'k, 'v, 'e) host \<Rightarrow> 's \<Rightarrow> 's \<Rightarrow> bool" where
  "quiet H e e' \<longleftrightarrow> same_entries H e e' \<and> published H e' = published H e"

lemma quiet_refl [simp]: "quiet H e e"
  by (simp add: quiet_def same_entries_def)

lemma quiet_trans: "quiet H e e' \<Longrightarrow> quiet H e' e'' \<Longrightarrow> quiet H e e''"
  by (simp add: quiet_def same_entries_def)

lemma quietD:
  assumes "quiet H e e'"
  shows "instance_get H e' = instance_get H e" "persistent_get H e' = persistent_get H e"
    "published H e' = published H e"
  using assms by (simp_all add: quiet_def same_entries_def)

section \<open>The laws of the host\<close>

locale soroban_host =
  fixes H :: "('s, 'k, 'v, 'e) host"
  assumes instance_has: "instance_has H e k \<longleftrightarrow> instance_get H e k \<noteq> None"
    and persistent_has: "persistent_has H e k \<longleftrightarrow> persistent_get H e k \<noteq> None"
    and instance_get_set:
      "instance_get H (instance_set H e k v) = (instance_get H e)(k := Some v)"
    and persistent_get_instance_set:
      "persistent_get H (instance_set H e k v) = persistent_get H e"
    and published_instance_set: "published H (instance_set H e k v) = published H e"
    and instance_get_persistent_set:
      "instance_get H (persistent_set H e k v) = instance_get H e"
    and persistent_get_set:
      "persistent_get H (persistent_set H e k v) = (persistent_get H e)(k := Some v)"
    and published_persistent_set: "published H (persistent_set H e k v) = published H e"
    and instance_get_remove: "instance_get H (persistent_remove H e k) = instance_get H e"
    and persistent_get_remove:
      "persistent_get H (persistent_remove H e k) = (persistent_get H e)(k := None)"
    and published_remove: "published H (persistent_remove H e k) = published H e"
    and quiet_extend_ttl: "quiet H e (extend_ttl H e k threshold extend_to)"
    and ttl_kept: "persistent_ttl H e k \<le> persistent_ttl H (extend_ttl H e k' threshold extend_to) k"
    and ttl_renewed:
      "persistent_get H e k \<noteq> None \<Longrightarrow> threshold \<le> extend_to \<Longrightarrow>
       persistent_ttl H e k < threshold \<Longrightarrow>
       persistent_ttl H (extend_ttl H e k threshold extend_to) k = extend_to"
    and require_auth_iff: "require_auth H e a = None \<longleftrightarrow> \<not> authorized H e a"
    and quiet_require_auth: "require_auth H e a = Some e' \<Longrightarrow> quiet H e e'"
    and same_entries_publish: "same_entries H e (publish_event H e ev)"
    and published_publish: "published H (publish_event H e ev) = published H e @ [ev]"
    and quiet_try_invoke: "quiet H e (snd (try_invoke H e callee func args))"
begin

lemmas get_set_laws =
  instance_get_set persistent_get_instance_set instance_get_persistent_set persistent_get_set
  instance_get_remove persistent_get_remove

lemmas published_laws =
  published_instance_set published_persistent_set published_remove published_publish

lemma publish_entries:
  "instance_get H (publish_event H e ev) = instance_get H e"
  "persistent_get H (publish_event H e ev) = persistent_get H e"
  using same_entries_publish [of e ev] by (simp_all add: same_entries_def)

lemmas host_laws = get_set_laws published_laws publish_entries instance_has persistent_has

lemma quiet_try_invoke': "try_invoke H e callee func args = (r, e') \<Longrightarrow> quiet H e e'"
  using quiet_try_invoke [of e callee func args] by simp

lemma require_auth_cases:
  obtains (trap) "require_auth H e a = None" and "\<not> authorized H e a"
  | (signed) e' where "require_auth H e a = Some e'" and "authorized H e a" and "quiet H e e'"
  using require_auth_iff [of e a] quiet_require_auth [of e a]
  by (cases "require_auth H e a") auto

end

text \<open>
  The external policy and the SAC are consulted through views. A host whose views are pure
  answers a call the same way after a TTL extension or another view call; only results that
  compare several calls with one function of the answers use this.
\<close>

definition same_views :: "('s, 'k, 'v, 'e) host \<Rightarrow> 's \<Rightarrow> 's \<Rightarrow> bool" where
  "same_views H e e' \<longleftrightarrow>
     (\<forall>callee func args. fst (try_invoke H e' callee func args) = fst (try_invoke H e callee func args))"

lemma same_views_refl [simp]: "same_views H e e"
  by (simp add: same_views_def)

lemma same_views_trans: "same_views H e e' \<Longrightarrow> same_views H e' e'' \<Longrightarrow> same_views H e e''"
  by (simp add: same_views_def)

locale view_host = soroban_host H
  for H :: "('s, 'k, 'v, 'e) host" +
  assumes same_views_extend: "same_views H e (extend_ttl H e k threshold extend_to)"
    and same_views_invoke: "same_views H e (snd (try_invoke H e callee func args))"

section \<open>A concrete host\<close>

text \<open>
  Entries in two maps, a TTL per key, the addresses that signed the invocation, the event log
  and the answers of the other contracts.
\<close>

record ('k, 'v, 'e) ledger =
  l_instance :: "'k \<Rightarrow> 'v option"
  l_persistent :: "'k \<Rightarrow> 'v option"
  l_ttl :: "'k \<Rightarrow> u32"
  l_signers :: "address list"
  l_events :: "'e list"
  l_views :: "address \<Rightarrow> string \<Rightarrow> address list \<Rightarrow> view_result"

definition ledger_host :: "(('k, 'v, 'e) ledger, 'k, 'v, 'e) host" where
  "ledger_host =
    \<lparr>instance_has = (\<lambda>e k. l_instance e k \<noteq> None),
     instance_get = l_instance,
     instance_set = (\<lambda>e k v. e\<lparr>l_instance := (l_instance e)(k := Some v)\<rparr>),
     persistent_has = (\<lambda>e k. l_persistent e k \<noteq> None),
     persistent_get = l_persistent,
     persistent_set = (\<lambda>e k v. e\<lparr>l_persistent := (l_persistent e)(k := Some v)\<rparr>),
     persistent_remove = (\<lambda>e k. e\<lparr>l_persistent := (l_persistent e)(k := None)\<rparr>),
     persistent_ttl = l_ttl,
     extend_ttl = (\<lambda>e k threshold to.
       if l_persistent e k \<noteq> None \<and> l_ttl e k < threshold \<and> l_ttl e k < to
       then e\<lparr>l_ttl := (l_ttl e)(k := to)\<rparr> else e),
     authorized = (\<lambda>e a. a \<in> set (l_signers e)),
     require_auth = (\<lambda>e a. if a \<in> set (l_signers e) then Some e else None),
     published = l_events,
     publish_event = (\<lambda>e ev. e\<lparr>l_events := l_events e @ [ev]\<rparr>),
     try_invoke = (\<lambda>e callee func args. (l_views e callee func args, e))\<rparr>"

interpretation ledger: soroban_host ledger_host
  by unfold_locales (auto simp: ledger_host_def quiet_def same_entries_def split: if_splits)

interpretation ledger_view: view_host ledger_host
  by unfold_locales (auto simp: ledger_host_def same_views_def)

section \<open>Recording cross-contract calls\<close>

record call =
  call_target :: address
  call_func :: string
  call_args :: "address list"
  call_answer :: view_result

definition tracing :: "('s, 'k, 'v, 'e) host \<Rightarrow> ('s \<times> call list, 'k, 'v, 'e) host" where
  "tracing H =
    \<lparr>instance_has = (\<lambda>e. instance_has H (fst e)),
     instance_get = (\<lambda>e. instance_get H (fst e)),
     instance_set = (\<lambda>e k v. (instance_set H (fst e) k v, snd e)),
     persistent_has = (\<lambda>e. persistent_has H (fst e)),
     persistent_get = (\<lambda>e. persistent_get H (fst e)),
     persistent_set = (\<lambda>e k v. (persistent_set H (fst e) k v, snd e)),
     persistent_remove = (\<lambda>e k. (persistent_remove H (fst e) k, snd e)),
     persistent_ttl = (\<lambda>e. persistent_ttl H (fst e)),
     extend_ttl = (\<lambda>e k threshold to. (extend_ttl H (fst e) k threshold to, snd e)),
     authorized = (\<lambda>e. authorized H (fst e)),
     require_auth = (\<lambda>e a. map_option (\<lambda>e'. (e', snd e)) (require_auth H (fst e) a)),
     published = (\<lambda>e. published H (fst e)),
     publish_event = (\<lambda>e ev. (publish_event H (fst e) ev, snd e)),
     try_invoke = (\<lambda>e c f args.
       case try_invoke H (fst e) c f args of
         (r, e') \<Rightarrow>
           (r, (e', snd e @ [\<lparr>call_target = c, call_func = f, call_args = args, call_answer = r\<rparr>])))\<rparr>"

lemma tracing_simps [simp]:
  "instance_has (tracing H) e = instance_has H (fst e)"
  "instance_get (tracing H) e = instance_get H (fst e)"
  "instance_set (tracing H) e k v = (instance_set H (fst e) k v, snd e)"
  "persistent_has (tracing H) e = persistent_has H (fst e)"
  "persistent_get (tracing H) e = persistent_get H (fst e)"
  "persistent_set (tracing H) e k v = (persistent_set H (fst e) k v, snd e)"
  "persistent_remove (tracing H) e k = (persistent_remove H (fst e) k, snd e)"
  "persistent_ttl (tracing H) e = persistent_ttl H (fst e)"
  "extend_ttl (tracing H) e k lo hi = (extend_ttl H (fst e) k lo hi, snd e)"
  "authorized (tracing H) e = authorized H (fst e)"
  "require_auth (tracing H) e a = map_option (\<lambda>e'. (e', snd e)) (require_auth H (fst e) a)"
  "published (tracing H) e = published H (fst e)"
  "publish_event (tracing H) e ev = (publish_event H (fst e) ev, snd e)"
  by (simp_all add: tracing_def)

lemma try_invoke_tracing:
  "try_invoke (tracing H) e c f args =
     (fst (try_invoke H (fst e) c f args),
      (snd (try_invoke H (fst e) c f args),
       snd e @ [\<lparr>call_target = c, call_func = f, call_args = args,
                 call_answer = fst (try_invoke H (fst e) c f args)\<rparr>]))"
  by (simp add: tracing_def split: prod.splits)

lemma quiet_tracing [simp]: "quiet (tracing H) e e' \<longleftrightarrow> quiet H (fst e) (fst e')"
  by (simp add: quiet_def same_entries_def)

context soroban_host
begin

lemma tracing_laws: "soroban_host (tracing H)"
proof unfold_locales
  fix e a e'
  assume "require_auth (tracing H) e a = Some e'"
  then show "quiet (tracing H) e e'"
    using quiet_require_auth [of "fst e" a] by auto
next
  fix e :: "'s \<times> call list" and c f args
  show "quiet (tracing H) e (snd (try_invoke (tracing H) e c f args))"
    by (simp add: try_invoke_tracing quiet_try_invoke)
qed (use host_laws quiet_extend_ttl ttl_kept ttl_renewed require_auth_iff same_entries_publish
      in \<open>auto simp: same_entries_def\<close>)

end

lemma soroban_host_tracing: "soroban_host H \<Longrightarrow> soroban_host (tracing H)"
  by (rule soroban_host.tracing_laws)

end
