(* ===== verification/Events.thy ===== *)
theory Events
  imports Soroban_Host
begin

text \<open>
  The audit events of the contract, crate \<^verbatim>\<open>crates/events\<close>. Each event struct is a constructor
  whose arguments are the struct's fields in order; each \<^verbatim>\<open>emit_*\<close> function builds its event and
  publishes it. The topic and data encoding that \<^verbatim>\<open>#[contractevent]\<close> generates is not modelled.

  \<open>replay\<close> is the reader's side: what an indexer that folds the event log knows of the
  enforcement state.
\<close>

section \<open>Event structs and emitters\<close>

datatype event =
    InitializedEv address
  | AccountFrozenEv address address
  | AccountUnfrozenEv address address
  | TokenBoundEv address
  | TokenUnboundEv address
  | ComplianceConfigChangedEv "address option" bool

definition emit_initialized :: "('s, 'k, 'v, event) host \<Rightarrow> 's \<Rightarrow> address \<Rightarrow> 's" where
  "emit_initialized H e a = publish_event H e (InitializedEv a)"

definition emit_account_frozen ::
  "('s, 'k, 'v, event) host \<Rightarrow> 's \<Rightarrow> address \<Rightarrow> address \<Rightarrow> 's" where
  "emit_account_frozen H e tk acc = publish_event H e (AccountFrozenEv tk acc)"

definition emit_account_unfrozen ::
  "('s, 'k, 'v, event) host \<Rightarrow> 's \<Rightarrow> address \<Rightarrow> address \<Rightarrow> 's" where
  "emit_account_unfrozen H e tk acc = publish_event H e (AccountUnfrozenEv tk acc)"

definition emit_token_bound :: "('s, 'k, 'v, event) host \<Rightarrow> 's \<Rightarrow> address \<Rightarrow> 's" where
  "emit_token_bound H e tk = publish_event H e (TokenBoundEv tk)"

definition emit_token_unbound :: "('s, 'k, 'v, event) host \<Rightarrow> 's \<Rightarrow> address \<Rightarrow> 's" where
  "emit_token_unbound H e tk = publish_event H e (TokenUnboundEv tk)"

definition emit_compliance_config_changed ::
  "('s, 'k, 'v, event) host \<Rightarrow> 's \<Rightarrow> address option \<Rightarrow> bool \<Rightarrow> 's" where
  "emit_compliance_config_changed H e pol sac =
     publish_event H e (ComplianceConfigChangedEv pol sac)"

lemmas emit_defs =
  emit_initialized_def emit_account_frozen_def emit_account_unfrozen_def emit_token_bound_def
  emit_token_unbound_def emit_compliance_config_changed_def

section \<open>Reading the log back\<close>

record audit_view =
  seen_admin :: "address option"
  seen_config :: "(address option \<times> bool) option"
  seen_bound :: "address \<Rightarrow> bool"
  seen_frozen :: "address \<Rightarrow> address \<Rightarrow> bool"

definition blank_view :: audit_view where
  "blank_view = \<lparr>seen_admin = None, seen_config = None, seen_bound = (\<lambda>_. False),
     seen_frozen = (\<lambda>_ _. False)\<rparr>"

fun replay_event :: "audit_view \<Rightarrow> event \<Rightarrow> audit_view" where
  "replay_event v (InitializedEv a) = v\<lparr>seen_admin := Some a\<rparr>"
| "replay_event v (AccountFrozenEv tk acc) =
     v\<lparr>seen_frozen := (seen_frozen v)(tk := (seen_frozen v tk)(acc := True))\<rparr>"
| "replay_event v (AccountUnfrozenEv tk acc) =
     v\<lparr>seen_frozen := (seen_frozen v)(tk := (seen_frozen v tk)(acc := False))\<rparr>"
| "replay_event v (TokenBoundEv tk) = v\<lparr>seen_bound := (seen_bound v)(tk := True)\<rparr>"
| "replay_event v (TokenUnboundEv tk) = v\<lparr>seen_bound := (seen_bound v)(tk := False)\<rparr>"
| "replay_event v (ComplianceConfigChangedEv pol sac) = v\<lparr>seen_config := Some (pol, sac)\<rparr>"

definition replay :: "event list \<Rightarrow> audit_view" where
  "replay evs = foldl replay_event blank_view evs"

lemma replay_snoc [simp]: "replay (evs @ [ev]) = replay_event (replay evs) ev"
  by (simp add: replay_def)

lemma replay_Nil [simp]: "replay [] = blank_view"
  by (simp add: replay_def)

fun is_config_change :: "event \<Rightarrow> bool" where
  "is_config_change (ComplianceConfigChangedEv _ _) = True"
| "is_config_change _ = False"

definition config_changes :: "event list \<Rightarrow> nat" where
  "config_changes evs = length (filter is_config_change evs)"

lemma config_changes_append [simp]:
  "config_changes [] = 0"
  "config_changes (evs @ evs') = config_changes evs + config_changes evs'"
  "config_changes [ev] = (if is_config_change ev then 1 else 0)"
  by (simp_all add: config_changes_def)

end
