(* ===== verification/Storage.thy ===== *)
theory Storage
  imports Events
begin

text \<open>
  The contract's state and its access functions, crate \<^verbatim>\<open>crates/storage\<close>: the key enumeration
  (\<^verbatim>\<open>keys.rs\<close>), the admin authority (\<^verbatim>\<open>admin.rs\<close>), the layout version (\<^verbatim>\<open>versions.rs\<close>), the compliance
  configuration and its counter (\<^verbatim>\<open>config.rs\<close>), the token bindings (\<^verbatim>\<open>bindings.rs\<close>), the freeze flags
  (\<^verbatim>\<open>freeze.rs\<close>) and the read-time TTL renewal (\<^verbatim>\<open>touch\<close> in \<^verbatim>\<open>lib.rs\<close>).

  \<open>enforcement\<close> is the abstract state these functions implement and \<open>state_of\<close> reads it off the
  host's entries; \<open>well_typed\<close> is the type invariant of the entries under which no read traps.
  The access functions are handed to their clients through two interfaces, a \<open>storage_cell\<close> per
  instance entry and an \<open>entry_table\<close> per family of persistent entries.
\<close>

section \<open>Keys and stored values\<close>

datatype data_key =
    Admin
  | Config
  | ConfigVersion
  | Version
  | TokenBinding address
  | Freeze address address

fun data_key_class :: "data_key \<Rightarrow> string" where
  "data_key_class Admin = ''instance''"
| "data_key_class Config = ''instance''"
| "data_key_class ConfigVersion = ''instance''"
| "data_key_class Version = ''instance''"
| "data_key_class (TokenBinding _) = ''persistent''"
| "data_key_class (Freeze _ _) = ''persistent''"

record compliance_config =
  cfg_policy :: "address option"
  cfg_sac_passthrough :: bool

definition disabled :: compliance_config where
  "disabled = \<lparr>cfg_policy = None, cfg_sac_passthrough = False\<rparr>"

record token_binding =
  binding_sac :: "address option"

text \<open>The host stores untyped values; these are the types the contract stores.\<close>

datatype stored =
    VAddress address
  | VConfig compliance_config
  | VU32 u32
  | VBinding token_binding
  | VBool bool

fun to_address :: "stored \<Rightarrow> address option" where
  "to_address (VAddress a) = Some a"
| "to_address _ = None"

fun to_config :: "stored \<Rightarrow> compliance_config option" where
  "to_config (VConfig c) = Some c"
| "to_config _ = None"

fun to_u32 :: "stored \<Rightarrow> u32 option" where
  "to_u32 (VU32 n) = Some n"
| "to_u32 _ = None"

fun to_binding :: "stored \<Rightarrow> token_binding option" where
  "to_binding (VBinding b) = Some b"
| "to_binding _ = None"

type_synonym 's chost = "('s, data_key, stored, event) host"

section \<open>TTL renewal\<close>

definition DAY_IN_LEDGERS :: u32 where
  "DAY_IN_LEDGERS = 17280"

definition TTL_EXTEND_TO :: u32 where
  "TTL_EXTEND_TO = 30 * DAY_IN_LEDGERS"

definition TTL_THRESHOLD :: u32 where
  "TTL_THRESHOLD = TTL_EXTEND_TO - DAY_IN_LEDGERS"

definition touch :: "'s chost \<Rightarrow> 's \<Rightarrow> data_key \<Rightarrow> 's" where
  "touch H e key =
     (if persistent_has H e key then extend_ttl H e key TTL_THRESHOLD TTL_EXTEND_TO else e)"

section \<open>Admin authority and layout version\<close>

definition stored_admin :: "'s chost \<Rightarrow> 's \<Rightarrow> address option option" where
  "stored_admin H e =
     (if instance_has H e Admin then typed_get to_address (instance_get H e Admin) else Some None)"

definition set_admin :: "'s chost \<Rightarrow> 's \<Rightarrow> address \<Rightarrow> 's" where
  "set_admin H e a = instance_set H e Admin (VAddress a)"

definition VERSION :: u32 where
  "VERSION = 1"

definition storage_version :: "'s chost \<Rightarrow> 's \<Rightarrow> u32 option option" where
  "storage_version H e =
     (if instance_has H e Version then typed_get to_u32 (instance_get H e Version) else Some None)"

definition set_version :: "'s chost \<Rightarrow> 's \<Rightarrow> u32 \<Rightarrow> 's" where
  "set_version H e v = instance_set H e Version (VU32 v)"

section \<open>Compliance configuration\<close>

definition compliance_config :: "'s chost \<Rightarrow> 's \<Rightarrow> compliance_config option option" where
  "compliance_config H e =
     (if instance_has H e Config then typed_get to_config (instance_get H e Config) else Some None)"

definition set_compliance_config :: "'s chost \<Rightarrow> 's \<Rightarrow> compliance_config \<Rightarrow> 's option" where
  "set_compliance_config H e cfg = do {
     let e = instance_set H e Config (VConfig cfg);
     recorded \<leftarrow> storage_version H e;
     Some (if recorded = None then set_version H e VERSION else e)
   }"

definition storage_config_version :: "'s chost \<Rightarrow> 's \<Rightarrow> u32 option option" where
  "storage_config_version H e =
     (if instance_has H e ConfigVersion then typed_get to_u32 (instance_get H e ConfigVersion)
      else Some None)"

definition bump_config_version :: "'s chost \<Rightarrow> 's \<Rightarrow> 's option" where
  "bump_config_version H e = do {
     current \<leftarrow> storage_config_version H e;
     bumped \<leftarrow> checked_add (case current of None \<Rightarrow> 0 | Some n \<Rightarrow> n) 1;
     Some (instance_set H e ConfigVersion (VU32 bumped))
   }"

section \<open>Token bindings\<close>

definition token_binding :: "'s chost \<Rightarrow> 's \<Rightarrow> address \<Rightarrow> (token_binding option \<times> 's) option" where
  "token_binding H e tk =
     (let key = TokenBinding tk in
      if persistent_has H e key
      then (let e = touch H e key in
            map_option (\<lambda>b. (b, e)) (typed_get to_binding (persistent_get H e key)))
      else Some (None, e))"

definition is_token_bound :: "'s chost \<Rightarrow> 's \<Rightarrow> address \<Rightarrow> (bool \<times> 's) option" where
  "is_token_bound H e tk = do {
     (binding, e) \<leftarrow> token_binding H e tk;
     Some (binding \<noteq> None, e)
   }"

definition storage_bind :: "'s chost \<Rightarrow> 's \<Rightarrow> address \<Rightarrow> address option \<Rightarrow> 's" where
  "storage_bind H e tk sac = persistent_set H e (TokenBinding tk) (VBinding \<lparr>binding_sac = sac\<rparr>)"

definition storage_unbind :: "'s chost \<Rightarrow> 's \<Rightarrow> address \<Rightarrow> 's" where
  "storage_unbind H e tk =
     (let key = TokenBinding tk in
      if persistent_has H e key then persistent_remove H e key else e)"

section \<open>Freeze flags\<close>

definition storage_is_frozen :: "'s chost \<Rightarrow> 's \<Rightarrow> address \<Rightarrow> address \<Rightarrow> bool \<times> 's" where
  "storage_is_frozen H e tk acc =
     (let key = Freeze tk acc in
      if persistent_has H e key then (True, touch H e key) else (False, e))"

definition storage_freeze :: "'s chost \<Rightarrow> 's \<Rightarrow> address \<Rightarrow> address \<Rightarrow> 's" where
  "storage_freeze H e tk acc = persistent_set H e (Freeze tk acc) (VBool True)"

definition storage_unfreeze :: "'s chost \<Rightarrow> 's \<Rightarrow> address \<Rightarrow> address \<Rightarrow> 's" where
  "storage_unfreeze H e tk acc =
     (let key = Freeze tk acc in
      if persistent_has H e key then persistent_remove H e key else e)"

section \<open>The abstract state\<close>

record enforcement =
  st_admin :: "address option"
  st_config :: "compliance_config option"
  st_config_version :: "u32 option"
  st_version :: "u32 option"
  st_bindings :: "address \<Rightarrow> token_binding option"
  st_frozen :: "address \<Rightarrow> address \<Rightarrow> bool"

definition state_of :: "'s chost \<Rightarrow> 's \<Rightarrow> enforcement" where
  "state_of H e =
    \<lparr>st_admin = Option.bind (instance_get H e Admin) to_address,
     st_config = Option.bind (instance_get H e Config) to_config,
     st_config_version = Option.bind (instance_get H e ConfigVersion) to_u32,
     st_version = Option.bind (instance_get H e Version) to_u32,
     st_bindings = (\<lambda>tk. Option.bind (persistent_get H e (TokenBinding tk)) to_binding),
     st_frozen = (\<lambda>tk acc. persistent_get H e (Freeze tk acc) \<noteq> None)\<rparr>"

fun key_value_ok :: "data_key \<Rightarrow> stored \<Rightarrow> bool" where
  "key_value_ok Admin v = (to_address v \<noteq> None)"
| "key_value_ok Config v = (to_config v \<noteq> None)"
| "key_value_ok ConfigVersion v = (to_u32 v \<noteq> None)"
| "key_value_ok Version v = (to_u32 v \<noteq> None)"
| "key_value_ok (TokenBinding _) v = (to_binding v \<noteq> None)"
| "key_value_ok (Freeze _ _) v = (v = VBool True)"

definition well_typed :: "'s chost \<Rightarrow> 's \<Rightarrow> bool" where
  "well_typed H e \<longleftrightarrow>
     (\<forall>k v. instance_get H e k = Some v \<longrightarrow> data_key_class k = ''instance'' \<and> key_value_ok k v) \<and>
     (\<forall>k v. persistent_get H e k = Some v \<longrightarrow> data_key_class k = ''persistent'' \<and> key_value_ok k v)"

lemma quiet_state_of: "quiet H e e' \<Longrightarrow> state_of H e' = state_of H e"
  by (simp add: quiet_def same_entries_def state_of_def)

lemma quiet_well_typed: "quiet H e e' \<Longrightarrow> well_typed H e' = well_typed H e"
  by (simp add: quiet_def same_entries_def well_typed_def)

lemma well_typed_instanceD:
  "well_typed H e \<Longrightarrow> instance_get H e k = Some v \<Longrightarrow> key_value_ok k v"
  by (simp add: well_typed_def)

lemma well_typed_persistentD:
  "well_typed H e \<Longrightarrow> persistent_get H e k = Some v \<Longrightarrow> key_value_ok k v"
  by (simp add: well_typed_def)

section \<open>Interfaces\<close>

text \<open>
  A \<open>storage_cell\<close> is a singleton entry with a typed, possibly trapping read: in a well-typed state
  the read returns, and it returns what was written last.
\<close>

locale storage_cell =
  fixes read :: "'s \<Rightarrow> 'a option option"
    and "write" :: "'s \<Rightarrow> 'a \<Rightarrow> 's"
    and ok :: "'s \<Rightarrow> bool"
  assumes read_total: "ok e \<Longrightarrow> read e \<noteq> None"
    and read_write: "read (write e v) = Some (Some v)"
    and write_ok: "ok e \<Longrightarrow> ok (write e v)"
begin

lemma read_cases:
  assumes "ok e"
  obtains (absent) "read e = Some None" | (present) v where "read e = Some (Some v)"
  using read_total [OF assms] by (cases "read e"; cases "the (read e)") auto

lemma last_write_wins: "read (write (write e v) w) = Some (Some w)"
  by (rule read_write)

end

text \<open>
  An \<open>entry_table\<close> is a family of entries with a key each: writing or deleting one key is an update
  of a map, so it leaves every other key alone.
\<close>

locale entry_table =
  fixes entries :: "'s \<Rightarrow> 'k \<Rightarrow> 'v option"
    and insert :: "'s \<Rightarrow> 'k \<Rightarrow> 'v \<Rightarrow> 's"
    and delete :: "'s \<Rightarrow> 'k \<Rightarrow> 's"
    and ok :: "'s \<Rightarrow> bool"
  assumes entries_insert: "entries (insert e k v) = (entries e)(k := Some v)"
    and entries_delete: "entries (delete e k) = (entries e)(k := None)"
    and insert_ok: "ok e \<Longrightarrow> ok (insert e k v)"
    and delete_ok: "ok e \<Longrightarrow> ok (delete e k)"
begin

lemma isolation:
  assumes "k' \<noteq> k"
  shows "entries (insert e k v) k' = entries e k'" and "entries (delete e k) k' = entries e k'"
  using assms by (simp_all add: entries_insert entries_delete)

lemma delete_insert: "entries e k = None \<Longrightarrow> entries (delete (insert e k v) k) = entries e"
  by (simp add: entries_insert entries_delete fun_upd_idem)

lemma delete_idempotent: "entries (delete (delete e k) k) = entries (delete e k)"
  by (simp add: entries_delete)

lemma insert_commute:
  "k' \<noteq> k \<Longrightarrow> entries (insert (insert e k v) k' v') = entries (insert (insert e k' v') k v)"
  by (simp add: entries_insert fun_upd_twist)

end

section \<open>The access functions implement the abstract state\<close>

locale contract_host = soroban_host H
  for H :: "'s chost"
begin

lemma quiet_touch: "quiet H e (touch H e k)"
  by (simp add: touch_def quiet_extend_ttl)

lemma state_touch [simp]: "state_of H (touch H e k) = state_of H e"
  by (rule quiet_state_of [OF quiet_touch])

lemma well_typed_touch [simp]: "well_typed H (touch H e k) = well_typed H e"
  by (rule quiet_well_typed [OF quiet_touch])

lemma published_touch [simp]: "published H (touch H e k) = published H e"
  by (rule quietD(3) [OF quiet_touch])

text \<open>Reads.\<close>

lemma typed_read:
  assumes "well_typed H e" and "\<And>v. key_value_ok k v \<Longrightarrow> conv v \<noteq> None"
  shows "(if instance_has H e k then typed_get conv (instance_get H e k) else Some None)
    = Some (Option.bind (instance_get H e k) conv)"
proof (cases "instance_get H e k")
  case None
  then show ?thesis by (simp add: instance_has)
next
  case (Some v)
  then obtain x where "conv v = Some x"
    using well_typed_instanceD [OF assms(1) Some] assms(2) by blast
  with Some show ?thesis by (simp add: instance_has)
qed

lemma stored_admin_eq [simp]:
  "well_typed H e \<Longrightarrow> stored_admin H e = Some (st_admin (state_of H e))"
  unfolding stored_admin_def by (subst typed_read) (simp_all add: state_of_def)

lemma storage_version_eq [simp]:
  "well_typed H e \<Longrightarrow> storage_version H e = Some (st_version (state_of H e))"
  unfolding storage_version_def by (subst typed_read) (simp_all add: state_of_def)

lemma compliance_config_eq [simp]:
  "well_typed H e \<Longrightarrow> compliance_config H e = Some (st_config (state_of H e))"
  unfolding compliance_config_def by (subst typed_read) (simp_all add: state_of_def)

lemma storage_config_version_eq [simp]:
  "well_typed H e \<Longrightarrow> storage_config_version H e = Some (st_config_version (state_of H e))"
  unfolding storage_config_version_def by (subst typed_read) (simp_all add: state_of_def)

lemma touch_absent: "\<not> persistent_has H e k \<Longrightarrow> touch H e k = e"
  by (simp add: touch_def)

lemma token_binding_eq [simp]:
  assumes "well_typed H e"
  shows "token_binding H e tk = Some (st_bindings (state_of H e) tk, touch H e (TokenBinding tk))"
proof (cases "persistent_get H e (TokenBinding tk)")
  case None
  then show ?thesis
    by (simp add: token_binding_def state_of_def persistent_has touch_absent)
next
  case (Some v)
  then obtain b where "to_binding v = Some b"
    using well_typed_persistentD [OF assms Some] by auto
  with Some show ?thesis
    by (simp add: token_binding_def state_of_def persistent_has quietD [OF quiet_touch] Let_def)
qed

lemma is_token_bound_eq [simp]:
  "well_typed H e \<Longrightarrow>
   is_token_bound H e tk = Some (st_bindings (state_of H e) tk \<noteq> None, touch H e (TokenBinding tk))"
  by (simp add: is_token_bound_def)

lemma storage_is_frozen_eq [simp]:
  "storage_is_frozen H e tk acc = (st_frozen (state_of H e) tk acc, touch H e (Freeze tk acc))"
  by (simp add: storage_is_frozen_def state_of_def persistent_has touch_absent Let_def)

text \<open>Writes.\<close>

lemma set_admin_state [simp]: "state_of H (set_admin H e a) = (state_of H e)\<lparr>st_admin := Some a\<rparr>"
  by (simp add: set_admin_def state_of_def host_laws)

lemma set_version_state [simp]:
  "state_of H (set_version H e v) = (state_of H e)\<lparr>st_version := Some v\<rparr>"
  by (simp add: set_version_def state_of_def host_laws)

lemma instance_set_config_state:
  "state_of H (instance_set H e Config (VConfig c)) = (state_of H e)\<lparr>st_config := Some c\<rparr>"
  by (simp add: state_of_def host_laws)

lemma instance_set_config_version_state:
  "state_of H (instance_set H e ConfigVersion (VU32 n)) = (state_of H e)\<lparr>st_config_version := Some n\<rparr>"
  by (simp add: state_of_def host_laws)

lemma storage_bind_state [simp]:
  "state_of H (storage_bind H e tk sac) =
     (state_of H e)\<lparr>st_bindings := (st_bindings (state_of H e))(tk := Some \<lparr>binding_sac = sac\<rparr>)\<rparr>"
  by (auto simp: storage_bind_def state_of_def host_laws fun_eq_iff)

lemma storage_unbind_state [simp]:
  "state_of H (storage_unbind H e tk) =
     (state_of H e)\<lparr>st_bindings := (st_bindings (state_of H e))(tk := None)\<rparr>"
  by (auto simp: storage_unbind_def state_of_def host_laws fun_eq_iff Let_def)

lemma storage_freeze_state [simp]:
  "state_of H (storage_freeze H e tk acc) = (state_of H e)\<lparr>st_frozen :=
     (st_frozen (state_of H e))(tk := (st_frozen (state_of H e) tk)(acc := True))\<rparr>"
  by (auto simp: storage_freeze_def state_of_def host_laws fun_eq_iff)

lemma storage_unfreeze_state [simp]:
  "state_of H (storage_unfreeze H e tk acc) = (state_of H e)\<lparr>st_frozen :=
     (st_frozen (state_of H e))(tk := (st_frozen (state_of H e) tk)(acc := False))\<rparr>"
  by (auto simp: storage_unfreeze_def state_of_def host_laws fun_eq_iff Let_def)

lemma publish_state [simp]: "state_of H (publish_event H e ev) = state_of H e"
  by (simp add: state_of_def host_laws)

text \<open>The type invariant.\<close>

lemma well_typed_instance_set:
  "well_typed H e \<Longrightarrow> data_key_class k = ''instance'' \<Longrightarrow> key_value_ok k v \<Longrightarrow>
   well_typed H (instance_set H e k v)"
  by (simp add: well_typed_def host_laws)

lemma well_typed_persistent_set:
  "well_typed H e \<Longrightarrow> data_key_class k = ''persistent'' \<Longrightarrow> key_value_ok k v \<Longrightarrow>
   well_typed H (persistent_set H e k v)"
  by (simp add: well_typed_def host_laws)

lemma well_typed_remove: "well_typed H e \<Longrightarrow> well_typed H (persistent_remove H e k)"
  by (simp add: well_typed_def host_laws)

lemma well_typed_writes [simp]:
  assumes "well_typed H e"
  shows "well_typed H (set_admin H e a)" "well_typed H (set_version H e v)"
    "well_typed H (instance_set H e Config (VConfig c))"
    "well_typed H (instance_set H e ConfigVersion (VU32 n))"
    "well_typed H (storage_bind H e tk sac)" "well_typed H (storage_unbind H e tk)"
    "well_typed H (storage_freeze H e tk acc)" "well_typed H (storage_unfreeze H e tk acc)"
    "well_typed H (publish_event H e ev)"
proof -
  show "well_typed H (publish_event H e ev)"
    using assms by (simp add: well_typed_def host_laws)
qed (use assms in \<open>simp_all add: set_admin_def set_version_def storage_bind_def storage_unbind_def
      storage_freeze_def storage_unfreeze_def well_typed_instance_set well_typed_persistent_set
      well_typed_remove Let_def\<close>)

lemma published_writes [simp]:
  "published H (set_admin H e a) = published H e"
  "published H (set_version H e v) = published H e"
  "published H (storage_bind H e tk sac) = published H e"
  "published H (storage_unbind H e tk) = published H e"
  "published H (storage_freeze H e tk acc) = published H e"
  "published H (storage_unfreeze H e tk acc) = published H e"
  by (simp_all add: set_admin_def set_version_def storage_bind_def storage_unbind_def
      storage_freeze_def storage_unfreeze_def host_laws Let_def)

text \<open>The two configuration writes, as the transitions they make.\<close>

lemma set_compliance_config_eq:
  assumes "well_typed H e"
  obtains e' where "set_compliance_config H e cfg = Some e'" and "well_typed H e'"
    and "published H e' = published H e"
    and "state_of H e' = (state_of H e)\<lparr>st_config := Some cfg,
           st_version := (case st_version (state_of H e) of None \<Rightarrow> Some VERSION | v \<Rightarrow> v)\<rparr>"
proof -
  let ?e = "instance_set H e Config (VConfig cfg)"
  let ?e' = "if st_version (state_of H ?e) = None then set_version H ?e VERSION else ?e"
  have wt: "well_typed H ?e" using assms by simp
  show ?thesis
  proof (rule that [of ?e'])
    show "set_compliance_config H e cfg = Some ?e'"
      using wt by (simp add: set_compliance_config_def Let_def)
    show "well_typed H ?e'" using wt by simp
    show "published H ?e' = published H e" by (simp add: host_laws)
    show "state_of H ?e' = (state_of H e)\<lparr>st_config := Some cfg,
        st_version := (case st_version (state_of H e) of None \<Rightarrow> Some VERSION | v \<Rightarrow> v)\<rparr>"
      by (auto simp: instance_set_config_state split: option.splits)
  qed
qed

lemma bump_config_version_eq:
  assumes "well_typed H e"
  shows "bump_config_version H e =
    map_option (\<lambda>n. instance_set H e ConfigVersion (VU32 n))
      (checked_add (case st_config_version (state_of H e) of None \<Rightarrow> 0 | Some n \<Rightarrow> n) 1)"
  using assms by (simp add: bump_config_version_def map_conv_bind_option comp_def)

end

interpretation ledger_contract: contract_host ledger_host
  by unfold_locales

section \<open>The interfaces, provided\<close>

sublocale contract_host \<subseteq> admin_cell: storage_cell "stored_admin H" "set_admin H" "well_typed H"
proof unfold_locales
  fix e a
  show "stored_admin H (set_admin H e a) = Some (Some a)"
    by (simp add: set_admin_def stored_admin_def host_laws)
qed simp_all

sublocale contract_host \<subseteq> version_cell: storage_cell "storage_version H" "set_version H" "well_typed H"
proof unfold_locales
  fix e v
  show "storage_version H (set_version H e v) = Some (Some v)"
    by (simp add: set_version_def storage_version_def host_laws)
qed simp_all

sublocale contract_host \<subseteq> binding_table: entry_table
  "\<lambda>e. st_bindings (state_of H e)" "\<lambda>e tk b. storage_bind H e tk (binding_sac b)" "storage_unbind H"
  "well_typed H"
  by unfold_locales auto

definition freeze_entries :: "'s chost \<Rightarrow> 's \<Rightarrow> address \<times> address \<Rightarrow> unit option" where
  "freeze_entries H e k = (if st_frozen (state_of H e) (fst k) (snd k) then Some () else None)"

sublocale contract_host \<subseteq> freeze_table: entry_table
  "freeze_entries H" "\<lambda>e k _. storage_freeze H e (fst k) (snd k)"
  "\<lambda>e k. storage_unfreeze H e (fst k) (snd k)" "well_typed H"
  by unfold_locales (auto simp: freeze_entries_def fun_eq_iff)

end
