(* ===== verification/Authorization.thy ===== *)
theory Authorization
  imports Hook_Core Storage
begin

text \<open>
  The two authority gates, crate \<^verbatim>\<open>crates/authorization\<close>: the administrative gate (\<^verbatim>\<open>admin.rs\<close>) and
  the enforcement-scope gate of a token (\<^verbatim>\<open>token.rs\<close>). Both return a \<open>Result\<close> over the rejection
  reasons; a missing signature is no result but a trap of the host.
\<close>

definition is_initialized :: "'s chost \<Rightarrow> 's \<Rightarrow> bool option" where
  "is_initialized H e = map_option (\<lambda>a. a \<noteq> None) (stored_admin H e)"

definition require_admin :: "'s chost \<Rightarrow> 's \<Rightarrow> ((rejection_reason + unit) \<times> 's) option" where
  "require_admin H e = do {
     a \<leftarrow> stored_admin H e;
     case a of
       None \<Rightarrow> Some (Inl InvalidConfiguration, e)
     | Some a \<Rightarrow> do {
         e \<leftarrow> require_auth H e a;
         Some (Inr (), e)
       }
   }"

definition require_token_bound ::
  "'s chost \<Rightarrow> 's \<Rightarrow> address \<Rightarrow> ((rejection_reason + unit) \<times> 's) option" where
  "require_token_bound H e tk = do {
     (bound, e) \<leftarrow> is_token_bound H e tk;
     Some (if bound then Inr () else Inl UnboundToken, e)
   }"

context contract_host
begin

lemma is_initialized_eq [simp]:
  "well_typed H e \<Longrightarrow> is_initialized H e = Some (st_admin (state_of H e) \<noteq> None)"
  by (simp add: is_initialized_def)

text \<open>
  The admin gate has three outcomes: no admin recorded, an admin that did not sign (a trap), and an
  admin that did.
\<close>

lemma require_admin_cases [consumes 1, case_names uninitialized unsigned signed]:
  assumes "well_typed H e"
  obtains (uninitialized) "st_admin (state_of H e) = None"
      and "require_admin H e = Some (Inl InvalidConfiguration, e)"
  | (unsigned) a where "st_admin (state_of H e) = Some a" and "\<not> authorized H e a"
      and "require_admin H e = None"
  | (signed) a e' where "st_admin (state_of H e) = Some a" and "authorized H e a"
      and "require_admin H e = Some (Inr (), e')" and "quiet H e e'"
proof (cases "st_admin (state_of H e)")
  case None
  with assms show ?thesis
    by (intro uninitialized) (simp_all add: require_admin_def)
next
  case (Some a)
  show ?thesis
  proof (cases rule: require_auth_cases [of e a])
    case trap
    with assms Some show ?thesis
      by (intro unsigned) (simp_all add: require_admin_def)
  next
    case (signed e')
    with assms Some show ?thesis
      by (intro that(3) [of a e']) (simp_all add: require_admin_def)
  qed
qed

lemma require_token_bound_eq [simp]:
  "well_typed H e \<Longrightarrow> require_token_bound H e tk =
     Some (if st_bindings (state_of H e) tk = None then Inl UnboundToken else Inr (),
           touch H e (TokenBinding tk))"
  by (simp add: require_token_bound_def)

end

end
