(* ===== verification/Policy_Client.thy ===== *)
theory Policy_Client
  imports Hook_Core Soroban_Host
begin

text \<open>
  The two cross-contract views the enforcement pipeline consults: the external policy (crate
  \<^verbatim>\<open>crates/policy-client\<close>) and the underlying Stellar Asset Contract (\<^verbatim>\<open>crates/compliance/src/sac.rs\<close>).
  Both fail closed: whatever is not a boolean answer is an error.
\<close>

definition POLICY_FN :: string where
  "POLICY_FN = ''is_authorized''"

record policy_client =
  pc_address :: address

definition policy_client_new :: "address \<Rightarrow> policy_client" where
  "policy_client_new a = \<lparr>pc_address = a\<rparr>"

definition policy_is_authorized ::
  "('s, 'k, 'v, 'e) host \<Rightarrow> 's \<Rightarrow> address \<Rightarrow> address \<Rightarrow> address
     \<Rightarrow> (rejection_reason + bool) \<times> 's" where
  "policy_is_authorized H e policy_address acc tk =
     (case try_invoke H e policy_address POLICY_FN [acc, tk] of
       (Inr (Inr ok), e) \<Rightarrow> (Inr ok, e)
     | (Inr (Inl _), e) \<Rightarrow> (Inl PolicyUnavailable, e)
     | (Inl _, e) \<Rightarrow> (Inl PolicyUnavailable, e))"

definition policy_client_is_authorized ::
  "policy_client \<Rightarrow> ('s, 'k, 'v, 'e) host \<Rightarrow> 's \<Rightarrow> address \<Rightarrow> address
     \<Rightarrow> (rejection_reason + bool) \<times> 's" where
  "policy_client_is_authorized c H e acc tk = policy_is_authorized H e (pc_address c) acc tk"

definition SAC_AUTHORIZED_FN :: string where
  "SAC_AUTHORIZED_FN = ''authorized''"

definition sac_is_authorized ::
  "('s, 'k, 'v, 'e) host \<Rightarrow> 's \<Rightarrow> address \<Rightarrow> address \<Rightarrow> (rejection_reason + bool) \<times> 's" where
  "sac_is_authorized H e sac acc =
     (case try_invoke H e sac SAC_AUTHORIZED_FN [acc] of
       (Inr (Inr ok), e) \<Rightarrow> (Inr ok, e)
     | (Inr (Inl _), e) \<Rightarrow> (Inl SacAuthorizationFailed, e)
     | (Inl _, e) \<Rightarrow> (Inl SacAuthorizationFailed, e))"

text \<open>How an answer of a view is read: \<open>err\<close> is the reason an unusable answer stands for.\<close>

definition read_answer :: "rejection_reason \<Rightarrow> view_result \<Rightarrow> rejection_reason + bool" where
  "read_answer err r = (case r of Inr (Inr ok) \<Rightarrow> Inr ok | _ \<Rightarrow> Inl err)"

lemma policy_is_authorized_eq:
  "policy_is_authorized H e p acc tk =
     (read_answer PolicyUnavailable (fst (try_invoke H e p POLICY_FN [acc, tk])),
      snd (try_invoke H e p POLICY_FN [acc, tk]))"
  by (auto simp: policy_is_authorized_def read_answer_def split: prod.splits sum.splits)

lemma sac_is_authorized_eq:
  "sac_is_authorized H e sac acc =
     (read_answer SacAuthorizationFailed (fst (try_invoke H e sac SAC_AUTHORIZED_FN [acc])),
      snd (try_invoke H e sac SAC_AUTHORIZED_FN [acc]))"
  by (auto simp: sac_is_authorized_def read_answer_def split: prod.splits sum.splits)

lemma read_answer_authorized: "read_answer err r = Inr True \<longleftrightarrow> r = Inr (Inr True)"
  by (auto simp: read_answer_def split: sum.splits)

lemma read_answer_error: "read_answer err r = Inl err' \<Longrightarrow> err' = err"
  by (auto simp: read_answer_def split: sum.splits)

end
