(* ===== verification/Compliance.thy ===== *)
theory Compliance
  imports Authorization Policy_Client
begin

text \<open>
  The enforcement pipeline, \<^verbatim>\<open>crates/compliance/src/evaluator.rs\<close>: the gates of one party in their
  order (\<open>screen_party\<close>), the loop over the parties that stops at the first denial (\<open>screen_loop\<close>),
  the whole evaluation (\<open>evaluate\<close>) and its entry per operation.

  \<open>decide\<close> is the abstract specification, a pure function of the enforcement state and of the
  answers of the external views; \<open>evaluate_decide\<close> is the refinement. The lemmas before it hold for
  every host, also one whose policy changes its mind between two calls.
\<close>

section \<open>The gates of one party\<close>

definition freeze_gate ::
  "'s chost \<Rightarrow> address \<Rightarrow> party_role \<Rightarrow> address \<Rightarrow> 's \<Rightarrow> compliance_decision \<times> 's" where
  "freeze_gate H tk role acc e =
     (if holds_funds role
      then (case storage_is_frozen H e tk acc of
              (True, e) \<Rightarrow> (Deny AccountFrozen, e)
            | (False, e) \<Rightarrow> (Allow, e))
      else (Allow, e))"

definition policy_gate ::
  "'s chost \<Rightarrow> address \<Rightarrow> party_role \<Rightarrow> address \<Rightarrow> compliance_config \<Rightarrow> 's
     \<Rightarrow> compliance_decision \<times> 's" where
  "policy_gate H tk role acc cfg e =
     (case cfg_policy cfg of
        None \<Rightarrow> (Allow, e)
      | Some pol \<Rightarrow>
          (case policy_is_authorized H e pol acc tk of
             (Inr True, e) \<Rightarrow> (Allow, e)
           | (Inr False, e) \<Rightarrow>
               (Deny (if role = Spender then SpenderNotAuthorized else PolicyDenied), e)
           | (Inl reason, e) \<Rightarrow> (Deny reason, e)))"

definition sac_gate ::
  "'s chost \<Rightarrow> party_role \<Rightarrow> address \<Rightarrow> compliance_config \<Rightarrow> address option \<Rightarrow> 's
     \<Rightarrow> compliance_decision \<times> 's" where
  "sac_gate H role acc cfg sac e =
     (if holds_funds role \<and> cfg_sac_passthrough cfg
      then (case sac of
              None \<Rightarrow> (Allow, e)
            | Some sac \<Rightarrow>
                (case sac_is_authorized H e sac acc of
                   (Inr True, e) \<Rightarrow> (Allow, e)
                 | (Inr False, e) \<Rightarrow> (Deny SacAuthorizationFailed, e)
                 | (Inl _, e) \<Rightarrow> (Deny SacAuthorizationFailed, e)))
      else (Allow, e))"

text \<open>An early return: what follows a gate runs only when the gate allows.\<close>

definition gate_then ::
  "('s \<Rightarrow> compliance_decision \<times> 's) \<Rightarrow> ('s \<Rightarrow> compliance_decision \<times> 's)
     \<Rightarrow> 's \<Rightarrow> compliance_decision \<times> 's" where
  "gate_then g h e = (case g e of (Deny reason, e) \<Rightarrow> (Deny reason, e) | (Allow, e) \<Rightarrow> h e)"

definition screen_party ::
  "'s chost \<Rightarrow> address \<Rightarrow> party_role \<Rightarrow> address \<Rightarrow> compliance_config \<Rightarrow> address option \<Rightarrow> 's
     \<Rightarrow> compliance_decision \<times> 's" where
  "screen_party H tk role acc cfg sac =
     gate_then (freeze_gate H tk role acc)
       (gate_then (policy_gate H tk role acc cfg) (sac_gate H role acc cfg sac))"

section \<open>The evaluation\<close>

fun screen_loop ::
  "'s chost \<Rightarrow> address \<Rightarrow> compliance_config \<Rightarrow> address option \<Rightarrow> (party_role \<times> address) list
     \<Rightarrow> compliance_decision \<Rightarrow> 's \<Rightarrow> compliance_decision \<times> 's" where
  "screen_loop H tk cfg sac [] decision e = (decision, e)"
| "screen_loop H tk cfg sac ((role, acc) # rest) decision e =
     (if \<not> is_allowed decision then (decision, e)
      else (case screen_party H tk role acc cfg sac e of
              (decision, e) \<Rightarrow> screen_loop H tk cfg sac rest decision e))"

definition evaluate ::
  "'s chost \<Rightarrow> 's \<Rightarrow> address \<Rightarrow> operation \<Rightarrow> address list \<Rightarrow> (compliance_decision \<times> 's) option" where
  "evaluate H e tk op accs = do {
     stored_cfg \<leftarrow> compliance_config H e;
     case stored_cfg of
       None \<Rightarrow> Some (Deny InvalidConfiguration, e)
     | Some cfg \<Rightarrow> do {
         (scope, e) \<leftarrow> require_token_bound H e tk;
         case scope of
           Inl reason \<Rightarrow> Some (Deny reason, e)
         | Inr _ \<Rightarrow> do {
             (binding, e) \<leftarrow> token_binding H e tk;
             let sac = Option.bind binding binding_sac;
             let roles = parties op;
             if length roles \<noteq> length accs then Some (Deny InvalidConfiguration, e)
             else Some (screen_loop H tk cfg sac (zip roles accs) Allow e)
           }
       }
   }"

definition evaluate_register ::
  "'s chost \<Rightarrow> 's \<Rightarrow> address \<Rightarrow> address \<Rightarrow> (compliance_decision \<times> 's) option" where
  "evaluate_register H e tk acc = evaluate H e tk Register [acc]"

definition evaluate_deposit ::
  "'s chost \<Rightarrow> 's \<Rightarrow> address \<Rightarrow> address \<Rightarrow> address \<Rightarrow> (compliance_decision \<times> 's) option" where
  "evaluate_deposit H e tk src dst = evaluate H e tk Deposit [src, dst]"

definition evaluate_transfer ::
  "'s chost \<Rightarrow> 's \<Rightarrow> address \<Rightarrow> address \<Rightarrow> address \<Rightarrow> (compliance_decision \<times> 's) option" where
  "evaluate_transfer H e tk src dst = evaluate H e tk Transfer [src, dst]"

definition evaluate_withdraw ::
  "'s chost \<Rightarrow> 's \<Rightarrow> address \<Rightarrow> address \<Rightarrow> (compliance_decision \<times> 's) option" where
  "evaluate_withdraw H e tk acc = evaluate H e tk Withdraw [acc, acc]"

definition evaluate_merge ::
  "'s chost \<Rightarrow> 's \<Rightarrow> address \<Rightarrow> address \<Rightarrow> (compliance_decision \<times> 's) option" where
  "evaluate_merge H e tk acc = evaluate H e tk Merge [acc]"

definition evaluate_transfer_from ::
  "'s chost \<Rightarrow> 's \<Rightarrow> address \<Rightarrow> address \<Rightarrow> address \<Rightarrow> address
     \<Rightarrow> (compliance_decision \<times> 's) option" where
  "evaluate_transfer_from H e tk spender src dst =
     evaluate H e tk TransferFrom [spender, src, dst]"

lemmas evaluate_entry_defs =
  evaluate_register_def evaluate_deposit_def evaluate_transfer_def evaluate_withdraw_def
  evaluate_merge_def evaluate_transfer_from_def

section \<open>Specification\<close>

text \<open>
  \<open>views\<close> is what the other contracts answer. \<open>party_verdict\<close> is the outcome of screening one party,
  \<open>decide\<close> that of the whole operation: the first denial in the canonical order.
\<close>

type_synonym views = "address \<Rightarrow> string \<Rightarrow> address list \<Rightarrow> view_result"

definition policy_verdict :: "views \<Rightarrow> compliance_config \<Rightarrow> address \<Rightarrow> party_role \<Rightarrow> address
    \<Rightarrow> compliance_decision" where
  "policy_verdict ask cfg tk role acc =
     (case cfg_policy cfg of
        None \<Rightarrow> Allow
      | Some pol \<Rightarrow>
          (case ask pol POLICY_FN [acc, tk] of
             Inr (Inr True) \<Rightarrow> Allow
           | Inr (Inr False) \<Rightarrow>
               Deny (if holds_funds role then PolicyDenied else SpenderNotAuthorized)
           | _ \<Rightarrow> Deny PolicyUnavailable))"

definition sac_verdict :: "views \<Rightarrow> compliance_config \<Rightarrow> address option \<Rightarrow> party_role \<Rightarrow> address
    \<Rightarrow> compliance_decision" where
  "sac_verdict ask cfg sac role acc =
     (case sac of
        Some sac \<Rightarrow>
          if holds_funds role \<and> cfg_sac_passthrough cfg \<and> ask sac SAC_AUTHORIZED_FN [acc] \<noteq> Inr (Inr True)
          then Deny SacAuthorizationFailed else Allow
      | None \<Rightarrow> Allow)"

definition freeze_verdict :: "enforcement \<Rightarrow> address \<Rightarrow> party_role \<Rightarrow> address \<Rightarrow> compliance_decision" where
  "freeze_verdict st tk role acc =
     (if holds_funds role \<and> st_frozen st tk acc then Deny AccountFrozen else Allow)"

definition party_verdict ::
  "enforcement \<Rightarrow> views \<Rightarrow> compliance_config \<Rightarrow> address option \<Rightarrow> address \<Rightarrow> party_role \<times> address
     \<Rightarrow> compliance_decision" where
  "party_verdict st ask cfg sac tk p =
     and_then (freeze_verdict st tk (fst p) (snd p))
       (and_then (policy_verdict ask cfg tk (fst p) (snd p)) (sac_verdict ask cfg sac (fst p) (snd p)))"

definition decide ::
  "enforcement \<Rightarrow> views \<Rightarrow> address \<Rightarrow> operation \<Rightarrow> address list \<Rightarrow> compliance_decision" where
  "decide st ask tk op accs =
     (case st_config st of
        None \<Rightarrow> Deny InvalidConfiguration
      | Some cfg \<Rightarrow>
          (case st_bindings st tk of
             None \<Rightarrow> Deny UnboundToken
           | Some b \<Rightarrow>
               if length (parties op) \<noteq> length accs then Deny InvalidConfiguration
               else first_denial
                 (map (party_verdict st ask cfg (binding_sac b) tk) (zip (parties op) accs))))"

definition views_of :: "('s, 'k, 'v, 'e) host \<Rightarrow> 's \<Rightarrow> views" where
  "views_of H e c f args = fst (try_invoke H e c f args)"

section \<open>The gate interface\<close>

text \<open>
  What the pipeline needs of a gate on any host: it writes no entry and publishes no event.
\<close>

locale quiet_gate =
  fixes H :: "'s chost"
    and gate :: "'s \<Rightarrow> compliance_decision \<times> 's"
  assumes keeps: "quiet H e (snd (gate e))"
begin

lemma state_after: "state_of H (snd (gate e)) = state_of H e"
  by (rule quiet_state_of [OF keeps])

lemma then_keeps:
  assumes "\<And>e. quiet H e (snd (h e))"
  shows "quiet H e (snd (gate_then gate h e))"
  using keeps [of e] assms
  by (auto simp: gate_then_def split: prod.splits compliance_decision.splits elim!: quiet_trans)

end

text \<open>
  On a host whose views are pure, a gate moreover implements a verdict, a function of the
  enforcement state and of the answers of the views. Gates compose: an early return is
  \<open>and_then\<close> of the verdicts.
\<close>

locale verdict_gate = quiet_gate H gate
  for H :: "'s chost" and gate :: "'s \<Rightarrow> compliance_decision \<times> 's" +
  fixes verdict :: "enforcement \<Rightarrow> views \<Rightarrow> compliance_decision"
  assumes implements: "fst (gate e) = verdict (state_of H e) (views_of H e)"
    and keeps_views: "same_views H e (snd (gate e))"
begin

lemma views_after: "views_of H (snd (gate e)) = views_of H e"
  using keeps_views [of e] by (simp add: same_views_def views_of_def fun_eq_iff)

end

lemma verdict_gate_then:
  assumes g: "verdict_gate H g v" and h: "verdict_gate H h w"
  shows "verdict_gate H (gate_then g h) (\<lambda>st ask. and_then (v st ask) (w st ask))"
proof -
  have qg: "quiet_gate H g" and qh: "quiet_gate H h"
    using g h by (simp_all add: verdict_gate_def)
  show ?thesis
  proof unfold_locales
    fix e
    show "quiet H e (snd (gate_then g h e))"
      by (rule quiet_gate.then_keeps [OF qg]) (rule quiet_gate.keeps [OF qh])
    have fg: "fst (g e) = v (state_of H e) (views_of H e)"
      by (rule verdict_gate.implements [OF g])
    have fh: "fst (h (snd (g e))) = w (state_of H e) (views_of H e)"
      using verdict_gate.implements [OF h, of "snd (g e)"] quiet_gate.state_after [OF qg, of e]
        verdict_gate.views_after [OF g, of e] by simp
    show "fst (gate_then g h e) = and_then (v (state_of H e) (views_of H e)) (w (state_of H e) (views_of H e))"
      using fg fh by (cases "g e"; cases "fst (g e)") (auto simp: gate_then_def split: prod.splits)
    show "same_views H e (snd (gate_then g h e))"
      using verdict_gate.keeps_views [OF g, of e] verdict_gate.keeps_views [OF h, of "snd (g e)"]
      by (cases "g e"; cases "fst (g e)") (auto simp: gate_then_def elim: same_views_trans)
  qed
qed

section \<open>Evaluation on any host\<close>

sublocale contract_host \<subseteq> freeze_gate: quiet_gate H "freeze_gate H tk role acc" for tk role acc
  by unfold_locales (simp add: freeze_gate_def quiet_touch split: bool.splits)

sublocale contract_host \<subseteq> policy_gate: quiet_gate H "policy_gate H tk role acc cfg"
  for tk role acc cfg
  by unfold_locales
    (auto simp: policy_gate_def policy_is_authorized_eq quiet_try_invoke
      split: option.splits sum.splits bool.splits)

sublocale contract_host \<subseteq> sac_gate: quiet_gate H "sac_gate H role acc cfg sac"
  for role acc cfg sac
  by unfold_locales
    (auto simp: sac_gate_def sac_is_authorized_eq quiet_try_invoke
      split: option.splits sum.splits bool.splits)

sublocale contract_host \<subseteq> party_gate: quiet_gate H "screen_party H tk role acc cfg sac"
  for tk role acc cfg sac
proof unfold_locales
  fix e
  show "quiet H e (snd (screen_party H tk role acc cfg sac e))"
    unfolding screen_party_def
    by (rule freeze_gate.then_keeps) (rule policy_gate.then_keeps, rule sac_gate.keeps)
qed

context contract_host
begin

lemma screen_loop_quiet: "quiet H e (snd (screen_loop H tk cfg sac ps d e))"
proof (induction ps arbitrary: d e)
  case Nil
  show ?case by simp
next
  case (Cons p ps)
  obtain role acc where p: "p = (role, acc)" by (cases p)
  show ?case
    using Cons.IH [of "snd (screen_party H tk role acc cfg sac e)" "fst (screen_party H tk role acc cfg sac e)"]
      party_gate.keeps [of e tk role acc cfg sac]
    by (auto simp: p split: prod.splits elim!: quiet_trans)
qed

text \<open>A denied loop stays denied; an allowing loop screened every party in some equivalent state.\<close>

lemma screen_loop_denied [simp]:
  "screen_loop H tk cfg sac ps (Deny r) e = (Deny r, e)"
  by (cases ps) auto

lemma screen_loop_Allow:
  assumes "fst (screen_loop H tk cfg sac ps Allow e) = Allow" and "(role, acc) \<in> set ps"
  shows "\<exists>e'. quiet H e e' \<and> fst (screen_party H tk role acc cfg sac e') = Allow"
  using assms
proof (induction ps arbitrary: e)
  case Nil
  then show ?case by simp
next
  case (Cons p ps)
  obtain role' acc' where p: "p = (role', acc')" by (cases p)
  let ?s = "screen_party H tk role' acc' cfg sac e"
  have allow: "fst ?s = Allow"
    using Cons.prems(1) by (cases "fst ?s") (auto simp: p split: prod.splits)
  then have rest: "fst (screen_loop H tk cfg sac ps Allow (snd ?s)) = Allow"
    using Cons.prems(1) by (auto simp: p split: prod.splits)
  show ?case
  proof (cases "(role, acc) = p")
    case True
    with allow p show ?thesis by (intro exI [of _ e]) simp
  next
    case False
    with Cons.prems(2) have "(role, acc) \<in> set ps" by auto
    from Cons.IH [OF rest this] show ?thesis
      using party_gate.keeps [of e tk role' acc' cfg sac] by (blast intro: quiet_trans)
  qed
qed

lemma screen_party_frozen:
  assumes "holds_funds role" and "st_frozen (state_of H e) tk acc"
  shows "fst (screen_party H tk role acc cfg sac e) = Deny AccountFrozen"
  using assms by (simp add: screen_party_def gate_then_def freeze_gate_def)

lemma evaluate_eq:
  assumes "well_typed H e"
  shows "evaluate H e tk op accs = Some
    (case st_config (state_of H e) of
       None \<Rightarrow> (Deny InvalidConfiguration, e)
     | Some cfg \<Rightarrow>
         (case st_bindings (state_of H e) tk of
            None \<Rightarrow> (Deny UnboundToken, touch H e (TokenBinding tk))
          | Some b \<Rightarrow>
              (let e' = touch H (touch H e (TokenBinding tk)) (TokenBinding tk) in
               if length (parties op) \<noteq> length accs then (Deny InvalidConfiguration, e')
               else screen_loop H tk cfg (binding_sac b) (zip (parties op) accs) Allow e')))"
proof (cases "st_config (state_of H e)")
  case None
  with assms show ?thesis by (simp add: evaluate_def)
next
  case (Some cfg)
  with assms show ?thesis
    by (cases "st_bindings (state_of H e) tk") (simp_all add: evaluate_def Let_def)
qed

lemma quiet_touch2: "quiet H e (touch H (touch H e k) k)"
  by (rule quiet_trans [OF quiet_touch quiet_touch])

text \<open>
  The evaluation always reaches a decision, and reaching it neither writes an entry nor publishes an
  event, whatever the decision is.
\<close>

lemma evaluate_total:
  assumes "well_typed H e"
  shows "\<exists>d e'. evaluate H e tk op accs = Some (d, e') \<and> quiet H e e'"
proof -
  have "quiet H e (snd (screen_loop H tk cfg sac ps d (touch H (touch H e k) k)))" for cfg sac ps d k
    by (rule quiet_trans [OF quiet_touch2 screen_loop_quiet])
  then show ?thesis
    using quiet_touch2 [of e "TokenBinding tk"]
    by (auto simp: evaluate_eq [OF assms] Let_def quiet_touch split: option.splits)
       (metis prod.collapse)
qed

lemma evaluate_allowed:
  assumes wt: "well_typed H e" and ev: "evaluate H e tk op accs = Some (Allow, e')"
  obtains cfg b where "st_config (state_of H e) = Some cfg" and "st_bindings (state_of H e) tk = Some b"
    and "length accs = length (parties op)"
    and "\<And>role acc. (role, acc) \<in> set (zip (parties op) accs) \<Longrightarrow>
           \<exists>e''. quiet H e e'' \<and> fst (screen_party H tk role acc cfg (binding_sac b) e'') = Allow"
proof -
  obtain cfg where cfg: "st_config (state_of H e) = Some cfg"
    using ev by (cases "st_config (state_of H e)") (auto simp: evaluate_eq [OF wt])
  obtain b where b: "st_bindings (state_of H e) tk = Some b"
    using ev by (cases "st_bindings (state_of H e) tk") (auto simp: evaluate_eq [OF wt] cfg)
  let ?e = "touch H (touch H e (TokenBinding tk)) (TokenBinding tk)"
  have len: "length accs = length (parties op)"
    using ev by (auto simp: evaluate_eq [OF wt] cfg b Let_def split: if_splits)
  have "fst (screen_loop H tk cfg (binding_sac b) (zip (parties op) accs) Allow ?e) = Allow"
    using ev len by (simp add: evaluate_eq [OF wt] cfg b Let_def)
  note loop = screen_loop_Allow [OF this]
  show ?thesis
    by (rule that [OF cfg b len]) (blast dest: loop intro: quiet_trans [OF quiet_touch2])
qed

lemma evaluate_frozen:
  assumes "well_typed H e" and "evaluate H e tk op accs = Some (Allow, e')"
    and "(role, acc) \<in> set (zip (parties op) accs)" and "holds_funds role"
  shows "\<not> st_frozen (state_of H e) tk acc"
proof (rule evaluate_allowed [OF assms(1,2)])
  fix cfg b
  assume "\<And>role acc. (role, acc) \<in> set (zip (parties op) accs) \<Longrightarrow>
    \<exists>e''. quiet H e e'' \<and> fst (screen_party H tk role acc cfg (binding_sac b) e'') = Allow"
  from this [OF assms(3)] obtain e'' where "quiet H e e''"
    and allow: "fst (screen_party H tk role acc cfg (binding_sac b) e'') = Allow"
    by (elim exE conjE)
  then show ?thesis
    using screen_party_frozen [OF assms(4), of e'' tk acc cfg "binding_sac b"] by (auto simp: quiet_state_of)
qed

end

section \<open>Evaluation on a host with pure views: the refinement\<close>

locale view_contract_host = contract_host H + view_host H
  for H :: "'s chost"
begin

lemma same_views_touch: "same_views H e (touch H e k)"
  by (simp add: touch_def same_views_extend)

lemma views_of_touch [simp]: "views_of H (touch H e k) = views_of H e"
  using same_views_touch [of e k] by (simp add: same_views_def views_of_def fun_eq_iff)

end

interpretation ledger_view_contract: view_contract_host ledger_host
  by unfold_locales

sublocale view_contract_host \<subseteq> freeze_step: verdict_gate H "freeze_gate H tk role acc"
  "\<lambda>st ask. freeze_verdict st tk role acc" for tk role acc
  by unfold_locales
    (auto simp: freeze_gate_def freeze_verdict_def same_views_touch split: bool.splits)

sublocale view_contract_host \<subseteq> policy_step: verdict_gate H "policy_gate H tk role acc cfg"
  "\<lambda>st ask. policy_verdict ask cfg tk role acc" for tk role acc cfg
  by unfold_locales
    (auto simp: policy_gate_def policy_verdict_def policy_is_authorized_eq read_answer_def views_of_def
      same_views_invoke split: option.splits sum.splits bool.splits)

sublocale view_contract_host \<subseteq> sac_step: verdict_gate H "sac_gate H role acc cfg sac"
  "\<lambda>st ask. sac_verdict ask cfg sac role acc" for role acc cfg sac
  by unfold_locales
    (auto simp: sac_gate_def sac_verdict_def sac_is_authorized_eq read_answer_def views_of_def
      same_views_invoke split: option.splits sum.splits bool.splits)

sublocale view_contract_host \<subseteq> party_step: verdict_gate H "screen_party H tk role acc cfg sac"
  "\<lambda>st ask. party_verdict st ask cfg sac tk (role, acc)" for tk role acc cfg sac
  unfolding screen_party_def party_verdict_def fst_conv snd_conv
  by (rule verdict_gate_then [OF freeze_step.verdict_gate_axioms
        verdict_gate_then [OF policy_step.verdict_gate_axioms sac_step.verdict_gate_axioms]])

context view_contract_host
begin

lemma gates_implement:
  "verdict_gate H (freeze_gate H tk role acc) (\<lambda>st ask. freeze_verdict st tk role acc)"
  "verdict_gate H (policy_gate H tk role acc cfg) (\<lambda>st ask. policy_verdict ask cfg tk role acc)"
  "verdict_gate H (sac_gate H role acc cfg sac) (\<lambda>st ask. sac_verdict ask cfg sac role acc)"
  by unfold_locales

lemma screen_loop_step:
  "screen_loop H tk cfg sac (p # ps) Allow e =
     screen_loop H tk cfg sac ps (party_verdict (state_of H e) (views_of H e) cfg sac tk p)
       (snd (screen_party H tk (fst p) (snd p) cfg sac e))"
  using party_step.implements [of tk "fst p" "snd p" cfg sac e]
  by (cases p) (auto split: prod.splits)

lemma screen_loop_verdict:
  "fst (screen_loop H tk cfg sac ps Allow e) =
     first_denial (map (party_verdict (state_of H e) (views_of H e) cfg sac tk) ps)"
proof (induction ps arbitrary: e)
  case Nil
  show ?case by simp
next
  case (Cons p ps)
  let ?e' = "snd (screen_party H tk (fst p) (snd p) cfg sac e)"
  have same: "state_of H ?e' = state_of H e" "views_of H ?e' = views_of H e"
    by (rule party_gate.state_after, rule party_step.views_after)
  show ?case
    using Cons.IH [of ?e'] same
    by (cases "party_verdict (state_of H e) (views_of H e) cfg sac tk p")
      (simp_all add: screen_loop_step del: screen_loop.simps)
qed

lemma evaluate_decide:
  assumes "well_typed H e"
  shows "map_option fst (evaluate H e tk op accs) = Some (decide (state_of H e) (views_of H e) tk op accs)"
  by (auto simp: evaluate_eq [OF assms] decide_def Let_def screen_loop_verdict split: option.splits)

end

section \<open>Which calls an evaluation makes\<close>

text \<open>
  The cross-contract calls of one party, and of a party list, as functions of the state and of the
  answers: the policy is asked unless the party is frozen, the SAC only after the policy agreed, and
  no party after the first denied one is asked about at all.
\<close>

definition ask_call :: "views \<Rightarrow> address \<Rightarrow> string \<Rightarrow> address list \<Rightarrow> call" where
  "ask_call ask c f args = \<lparr>call_target = c, call_func = f, call_args = args, call_answer = ask c f args\<rparr>"

definition policy_calls :: "views \<Rightarrow> compliance_config \<Rightarrow> address \<Rightarrow> address \<Rightarrow> call list" where
  "policy_calls ask cfg tk acc =
     (case cfg_policy cfg of None \<Rightarrow> [] | Some pol \<Rightarrow> [ask_call ask pol POLICY_FN [acc, tk]])"

definition sac_calls :: "views \<Rightarrow> compliance_config \<Rightarrow> address option \<Rightarrow> party_role \<Rightarrow> address \<Rightarrow> call list" where
  "sac_calls ask cfg sac role acc =
     (case sac of
        Some sac \<Rightarrow> if holds_funds role \<and> cfg_sac_passthrough cfg
                    then [ask_call ask sac SAC_AUTHORIZED_FN [acc]] else []
      | None \<Rightarrow> [])"

definition party_calls ::
  "enforcement \<Rightarrow> views \<Rightarrow> compliance_config \<Rightarrow> address option \<Rightarrow> address \<Rightarrow> party_role \<times> address
     \<Rightarrow> call list" where
  "party_calls st ask cfg sac tk p =
     (if freeze_verdict st tk (fst p) (snd p) \<noteq> Allow then []
      else policy_calls ask cfg tk (snd p) @
        (if policy_verdict ask cfg tk (fst p) (snd p) \<noteq> Allow then []
         else sac_calls ask cfg sac (fst p) (snd p)))"

fun loop_calls ::
  "enforcement \<Rightarrow> views \<Rightarrow> compliance_config \<Rightarrow> address option \<Rightarrow> address \<Rightarrow> (party_role \<times> address) list
     \<Rightarrow> call list" where
  "loop_calls st ask cfg sac tk [] = []"
| "loop_calls st ask cfg sac tk (p # ps) =
     party_calls st ask cfg sac tk p @
       (if party_verdict st ask cfg sac tk p = Allow then loop_calls st ask cfg sac tk ps else [])"

definition evaluation_calls ::
  "enforcement \<Rightarrow> views \<Rightarrow> address \<Rightarrow> operation \<Rightarrow> address list \<Rightarrow> call list" where
  "evaluation_calls st ask tk op accs =
     (case (st_config st, st_bindings st tk) of
        (Some cfg, Some b) \<Rightarrow>
          if length (parties op) = length accs
          then loop_calls st ask cfg (binding_sac b) tk (zip (parties op) accs) else []
      | _ \<Rightarrow> [])"

text \<open>A gate on a tracing host moreover appends a list of calls that its verdict's data determine.\<close>

locale traced_gate = verdict_gate "tracing H" gate verdict
  for H :: "'s chost" and gate :: "'s \<times> call list \<Rightarrow> compliance_decision \<times> ('s \<times> call list)"
    and verdict :: "enforcement \<Rightarrow> views \<Rightarrow> compliance_decision" +
  fixes calls :: "enforcement \<Rightarrow> views \<Rightarrow> call list"
  assumes traces:
    "snd (snd (gate e)) = snd e @ calls (state_of (tracing H) e) (views_of (tracing H) e)"

lemma traced_gate_then:
  assumes g: "traced_gate H g v cs" and h: "traced_gate H h w ds"
  shows "traced_gate H (gate_then g h) (\<lambda>st ask. and_then (v st ask) (w st ask))
    (\<lambda>st ask. cs st ask @ (if v st ask \<noteq> Allow then [] else ds st ask))"
proof -
  have vg: "verdict_gate (tracing H) g v" and vh: "verdict_gate (tracing H) h w"
    using g h by (simp_all add: traced_gate_def)
  have qg: "quiet_gate (tracing H) g" using vg by (simp add: verdict_gate_def)
  have trace: "snd (snd (gate_then g h e)) =
      snd e @ (cs (state_of (tracing H) e) (views_of (tracing H) e) @
        (if v (state_of (tracing H) e) (views_of (tracing H) e) \<noteq> Allow then []
         else ds (state_of (tracing H) e) (views_of (tracing H) e)))" for e
    using traced_gate.traces [OF g, of e] traced_gate.traces [OF h, of "snd (g e)"]
      verdict_gate.implements [OF vg, of e] quiet_gate.state_after [OF qg, of e]
      verdict_gate.views_after [OF vg, of e]
    by (cases "g e"; cases "fst (g e)") (auto simp: gate_then_def)
  show ?thesis
    by (intro traced_gate.intro verdict_gate_then [OF vg vh] traced_gate_axioms.intro) (rule trace)
qed

lemma touch_tracing [simp]: "touch (tracing H) e k = (touch H (fst e) k, snd e)"
  by (simp add: touch_def prod_eq_iff)

lemma state_of_tracing [simp]: "state_of (tracing H) e = state_of H (fst e)"
  by (simp add: state_of_def)

lemma well_typed_tracing [simp]: "well_typed (tracing H) e = well_typed H (fst e)"
  by (simp add: well_typed_def)

lemma views_of_tracing [simp]: "views_of (tracing H) e = views_of H (fst e)"
  by (simp add: views_of_def fun_eq_iff try_invoke_tracing)

lemma same_views_tracing [simp]: "same_views (tracing H) e e' = same_views H (fst e) (fst e')"
  by (simp add: same_views_def try_invoke_tracing)

context view_contract_host
begin

lemma tracing_view_contract: "view_contract_host (tracing H)"
  by (intro view_contract_host.intro contract_host.intro view_host.intro tracing_laws
      view_host_axioms.intro)
    (simp_all add: same_views_extend same_views_invoke try_invoke_tracing)

lemmas tracing_gates = view_contract_host.gates_implement [OF tracing_view_contract]

lemma freeze_gate_traced:
  "traced_gate H (freeze_gate (tracing H) tk role acc) (\<lambda>st ask. freeze_verdict st tk role acc)
     (\<lambda>st ask. [])"
  by (intro traced_gate.intro traced_gate_axioms.intro tracing_gates)
    (simp add: freeze_gate_def storage_is_frozen_def Let_def split: if_splits)

lemma policy_gate_traced:
  "traced_gate H (policy_gate (tracing H) tk role acc cfg) (\<lambda>st ask. policy_verdict ask cfg tk role acc)
     (\<lambda>st ask. policy_calls ask cfg tk acc)"
  by (intro traced_gate.intro traced_gate_axioms.intro tracing_gates)
    (auto simp: policy_gate_def policy_calls_def policy_is_authorized_eq try_invoke_tracing ask_call_def
      views_of_def split: option.splits sum.splits bool.splits)

lemma sac_gate_traced:
  "traced_gate H (sac_gate (tracing H) role acc cfg sac) (\<lambda>st ask. sac_verdict ask cfg sac role acc)
     (\<lambda>st ask. sac_calls ask cfg sac role acc)"
  by (intro traced_gate.intro traced_gate_axioms.intro tracing_gates)
    (auto simp: sac_gate_def sac_calls_def sac_is_authorized_eq try_invoke_tracing ask_call_def
      views_of_def split: option.splits sum.splits bool.splits)

lemma party_calls_append:
  "[] @ (if freeze_verdict st tk role acc \<noteq> Allow then []
    else policy_calls ask cfg tk acc @
      (if policy_verdict ask cfg tk role acc \<noteq> Allow then [] else sac_calls ask cfg sac role acc))
   = party_calls st ask cfg sac tk (role, acc)"
  by (simp add: party_calls_def)

lemma screen_party_traced:
  "traced_gate H (screen_party (tracing H) tk role acc cfg sac)
     (\<lambda>st ask. party_verdict st ask cfg sac tk (role, acc))
     (\<lambda>st ask. party_calls st ask cfg sac tk (role, acc))"
  unfolding screen_party_def party_verdict_def fst_conv snd_conv party_calls_append [symmetric]
  by (rule traced_gate_then [OF freeze_gate_traced
        traced_gate_then [OF policy_gate_traced sac_gate_traced]])

lemma screen_loop_calls:
  "snd (snd (screen_loop (tracing H) tk cfg sac ps Allow e)) =
     snd e @ loop_calls (state_of H (fst e)) (views_of H (fst e)) cfg sac tk ps"
proof (induction ps arbitrary: e)
  case Nil
  show ?case by simp
next
  case (Cons p ps)
  let ?e' = "snd (screen_party (tracing H) tk (fst p) (snd p) cfg sac e)"
  note step = view_contract_host.screen_loop_step [OF tracing_view_contract]
  note gate = screen_party_traced [of tk "fst p" "snd p" cfg sac]
  have v: "verdict_gate (tracing H) (screen_party (tracing H) tk (fst p) (snd p) cfg sac)
      (\<lambda>st ask. party_verdict st ask cfg sac tk (fst p, snd p))"
    using gate by (simp add: traced_gate_def)
  then have q: "quiet_gate (tracing H) (screen_party (tracing H) tk (fst p) (snd p) cfg sac)"
    by (simp add: verdict_gate_def)
  have same: "state_of H (fst ?e') = state_of H (fst e)" "views_of H (fst ?e') = views_of H (fst e)"
    using quiet_gate.state_after [OF q, of e] verdict_gate.views_after [OF v, of e] by simp_all
  show ?case
    using Cons.IH [of ?e'] same traced_gate.traces [OF gate, of e]
    by (cases "party_verdict (state_of H (fst e)) (views_of H (fst e)) cfg sac tk p")
      (simp_all add: step contract_host.screen_loop_denied [OF view_contract_host.axioms(1) [OF tracing_view_contract]]
        del: screen_loop.simps)
qed

lemma evaluate_calls:
  assumes "well_typed H e"
  shows "map_option (\<lambda>r. snd (snd r)) (evaluate (tracing H) (e, cs) tk op accs) =
    Some (cs @ evaluation_calls (state_of H e) (views_of H e) tk op accs)"
proof -
  note eq = contract_host.evaluate_eq [OF view_contract_host.axioms(1) [OF tracing_view_contract]]
  have wt: "well_typed (tracing H) (e, cs)" using assms by simp
  show ?thesis
    by (auto simp: eq [OF wt] evaluation_calls_def Let_def screen_loop_calls split: option.splits)
qed

end

text \<open>The calls of an evaluation in the words of the parties.\<close>

lemma loop_calls_bound:
  "length (filter (\<lambda>c. call_func c = POLICY_FN) (loop_calls st ask cfg sac tk ps)) \<le> length ps"
  "length (loop_calls st ask cfg sac tk ps) \<le> 2 * length ps"
proof -
  have one: "length (filter (\<lambda>c. call_func c = POLICY_FN) (party_calls st ask cfg sac tk p)) \<le> 1" for p
    by (auto simp: party_calls_def policy_calls_def sac_calls_def ask_call_def POLICY_FN_def
        SAC_AUTHORIZED_FN_def split: option.splits)
  have two: "length (party_calls st ask cfg sac tk p) \<le> 2" for p
    by (auto simp: party_calls_def policy_calls_def sac_calls_def split: option.splits)
  show "length (filter (\<lambda>c. call_func c = POLICY_FN) (loop_calls st ask cfg sac tk ps)) \<le> length ps"
  proof (induction ps)
    case (Cons p ps)
    then show ?case using one [of p] by auto
  qed simp
  show "length (loop_calls st ask cfg sac tk ps) \<le> 2 * length ps"
  proof (induction ps)
    case (Cons p ps)
    then show ?case using two [of p] by auto
  qed simp
qed

lemma loop_calls_allowed:
  assumes "first_denial (map (party_verdict st ask cfg sac tk) ps) = Allow" and "cfg_policy cfg = Some pol"
  shows "filter (\<lambda>c. call_func c = POLICY_FN) (loop_calls st ask cfg sac tk ps) =
    map (\<lambda>p. ask_call ask pol POLICY_FN [snd p, tk]) ps"
  using assms(1)
proof (induction ps)
  case (Cons p ps)
  have p: "party_verdict st ask cfg sac tk p = Allow" using Cons.prems by (simp add: and_then_allowed)
  then have "filter (\<lambda>c. call_func c = POLICY_FN) (party_calls st ask cfg sac tk p) =
      [ask_call ask pol POLICY_FN [snd p, tk]]"
    using assms(2)
    by (auto simp: party_verdict_def and_then_allowed party_calls_def policy_calls_def sac_calls_def
        ask_call_def POLICY_FN_def SAC_AUTHORIZED_FN_def split: option.splits)
  with Cons p show ?case by (simp add: and_then_allowed)
qed simp

end
