(* ===== verification/Contract.thy ===== *)
theory Contract
  imports Compliance
begin

text \<open>
  The deployed contract, \<^verbatim>\<open>contracts/compliance-hooks/src/lib.rs\<close>: its error surface, its entry points
  in the source's order (deployment and administration, freeze administration, the six hooks, the
  public reads) and the three private helpers they share.

  A mutating entry point returns \<open>None\<close> when the invocation traps (a host authorization error, an
  overflow, an ill-typed entry), \<open>Some (Inl err, e)\<close> for \<^verbatim>\<open>Err(err)\<close> and \<open>Some (Inr (), e)\<close> for \<^verbatim>\<open>Ok(())\<close>.
  \<open>dispatch\<close> routes an invocation to its entry point and \<open>invoke\<close> is what the host commits: the
  effects of an \<^verbatim>\<open>Ok\<close>, nothing otherwise.
\<close>

section \<open>Errors\<close>

datatype contract_error =
    UnboundTokenErr
  | PolicyDeniedErr
  | AccountFrozenErr
  | SpenderNotAuthorizedErr
  | SacAuthorizationFailedErr
  | InvalidConfigurationErr
  | PolicyUnavailableErr
  | AlreadyInitializedErr

fun error_code :: "contract_error \<Rightarrow> u32" where
  "error_code UnboundTokenErr = 2"
| "error_code PolicyDeniedErr = 3"
| "error_code AccountFrozenErr = 4"
| "error_code SpenderNotAuthorizedErr = 5"
| "error_code SacAuthorizationFailedErr = 8"
| "error_code InvalidConfigurationErr = 9"
| "error_code PolicyUnavailableErr = 10"
| "error_code AlreadyInitializedErr = 12"

fun from_reason :: "rejection_reason \<Rightarrow> contract_error" where
  "from_reason UnboundToken = UnboundTokenErr"
| "from_reason PolicyDenied = PolicyDeniedErr"
| "from_reason AccountFrozen = AccountFrozenErr"
| "from_reason SpenderNotAuthorized = SpenderNotAuthorizedErr"
| "from_reason SacAuthorizationFailed = SacAuthorizationFailedErr"
| "from_reason InvalidConfiguration = InvalidConfigurationErr"
| "from_reason PolicyUnavailable = PolicyUnavailableErr"

type_synonym 's reply = "((contract_error + unit) \<times> 's) option"

section \<open>Private helpers\<close>

definition admin_gate :: "'s chost \<Rightarrow> 's \<Rightarrow> 's reply" where
  "admin_gate H e = do {
     (r, e) \<leftarrow> require_admin H e;
     Some (map_sum from_reason id r, e)
   }"

definition scope_gate :: "'s chost \<Rightarrow> 's \<Rightarrow> address \<Rightarrow> 's reply" where
  "scope_gate H e tk = do {
     cfg \<leftarrow> compliance_config H e;
     if cfg = None then Some (Inl InvalidConfigurationErr, e)
     else do {
       (bound, e) \<leftarrow> is_token_bound H e tk;
       Some (if \<not> bound then (Inl UnboundTokenErr, e) else (Inr (), e))
     }
   }"

definition enforce :: "compliance_decision \<Rightarrow> contract_error + unit" where
  "enforce d = (case d of Allow \<Rightarrow> Inr () | Deny reason \<Rightarrow> Inl (from_reason reason))"

text \<open>The \<^verbatim>\<open>?\<close> operator: an \<^verbatim>\<open>Err\<close> returns early.\<close>

definition try_then :: "'s reply \<Rightarrow> ('s \<Rightarrow> 's reply) \<Rightarrow> 's reply" where
  "try_then g k = (case g of
      None \<Rightarrow> None
    | Some (Inl err, e) \<Rightarrow> Some (Inl err, e)
    | Some (Inr _, e) \<Rightarrow> k e)"

lemma try_then_simps [simp]:
  "try_then None k = None"
  "try_then (Some (Inl err, e)) k = Some (Inl err, e)"
  "try_then (Some (Inr u, e)) k = k e"
  by (simp_all add: try_then_def)

section \<open>Deployment and administration\<close>

definition initialize :: "'s chost \<Rightarrow> 's \<Rightarrow> address \<Rightarrow> 's reply" where
  "initialize H e adm = do {
     started \<leftarrow> is_initialized H e;
     if started then Some (Inl AlreadyInitializedErr, e)
     else do {
       e \<leftarrow> require_auth H e adm;
       let e = set_admin H e adm;
       let e = set_version H e VERSION;
       let e = emit_initialized H e adm;
       Some (Inr (), e)
     }
   }"

definition set_config :: "'s chost \<Rightarrow> 's \<Rightarrow> address option \<Rightarrow> bool \<Rightarrow> 's reply" where
  "set_config H e pol passthrough = try_then (admin_gate H e) (\<lambda>e. do {
     let nxt = \<lparr>cfg_policy = pol, cfg_sac_passthrough = passthrough\<rparr>;
     current \<leftarrow> compliance_config H e;
     if current = Some nxt then Some (Inr (), e)
     else do {
       e \<leftarrow> set_compliance_config H e nxt;
       e \<leftarrow> bump_config_version H e;
       let e = emit_compliance_config_changed H e (cfg_policy nxt) (cfg_sac_passthrough nxt);
       Some (Inr (), e)
     }
   })"

definition bind_token :: "'s chost \<Rightarrow> 's \<Rightarrow> address \<Rightarrow> address option \<Rightarrow> 's reply" where
  "bind_token H e tk sac = try_then (admin_gate H e) (\<lambda>e. do {
     (binding, e) \<leftarrow> token_binding H e tk;
     let same = (case map_option (\<lambda>b. binding_sac b = sac) binding of None \<Rightarrow> False | Some s \<Rightarrow> s);
     if same then Some (Inr (), e)
     else do {
       let e = storage_bind H e tk sac;
       let e = emit_token_bound H e tk;
       Some (Inr (), e)
     }
   })"

definition unbind_token :: "'s chost \<Rightarrow> 's \<Rightarrow> address \<Rightarrow> 's reply" where
  "unbind_token H e tk = try_then (admin_gate H e) (\<lambda>e. do {
     (bound, e) \<leftarrow> is_token_bound H e tk;
     if \<not> bound then Some (Inr (), e)
     else do {
       let e = storage_unbind H e tk;
       let e = emit_token_unbound H e tk;
       Some (Inr (), e)
     }
   })"

section \<open>Freeze administration\<close>

definition freeze :: "'s chost \<Rightarrow> 's \<Rightarrow> address \<Rightarrow> address \<Rightarrow> 's reply" where
  "freeze H e tk acc = try_then (admin_gate H e) (\<lambda>e. try_then (scope_gate H e tk) (\<lambda>e.
     (case storage_is_frozen H e tk acc of (frozen, e) \<Rightarrow>
        if \<not> frozen then
          (let e = storage_freeze H e tk acc;
               e = emit_account_frozen H e tk acc
           in Some (Inr (), e))
        else Some (Inr (), e))))"

definition unfreeze :: "'s chost \<Rightarrow> 's \<Rightarrow> address \<Rightarrow> address \<Rightarrow> 's reply" where
  "unfreeze H e tk acc = try_then (admin_gate H e) (\<lambda>e. try_then (scope_gate H e tk) (\<lambda>e.
     (case storage_is_frozen H e tk acc of (frozen, e) \<Rightarrow>
        if frozen then
          (let e = storage_unfreeze H e tk acc;
               e = emit_account_unfrozen H e tk acc
           in Some (Inr (), e))
        else Some (Inr (), e))))"

section \<open>Hook entry points\<close>

definition before_register :: "'s chost \<Rightarrow> 's \<Rightarrow> address \<Rightarrow> address \<Rightarrow> 's reply" where
  "before_register H e tk acc = map_option (map_prod enforce id) (evaluate_register H e tk acc)"

definition before_deposit :: "'s chost \<Rightarrow> 's \<Rightarrow> address \<Rightarrow> address \<Rightarrow> address \<Rightarrow> 's reply" where
  "before_deposit H e tk src dst = map_option (map_prod enforce id) (evaluate_deposit H e tk src dst)"

definition before_transfer :: "'s chost \<Rightarrow> 's \<Rightarrow> address \<Rightarrow> address \<Rightarrow> address \<Rightarrow> 's reply" where
  "before_transfer H e tk src dst = map_option (map_prod enforce id) (evaluate_transfer H e tk src dst)"

definition before_withdraw :: "'s chost \<Rightarrow> 's \<Rightarrow> address \<Rightarrow> address \<Rightarrow> 's reply" where
  "before_withdraw H e tk acc = map_option (map_prod enforce id) (evaluate_withdraw H e tk acc)"

definition before_merge :: "'s chost \<Rightarrow> 's \<Rightarrow> address \<Rightarrow> address \<Rightarrow> 's reply" where
  "before_merge H e tk acc = map_option (map_prod enforce id) (evaluate_merge H e tk acc)"

definition before_transfer_from ::
  "'s chost \<Rightarrow> 's \<Rightarrow> address \<Rightarrow> address \<Rightarrow> address \<Rightarrow> address \<Rightarrow> 's reply" where
  "before_transfer_from H e tk spender src dst =
     map_option (map_prod enforce id) (evaluate_transfer_from H e tk spender src dst)"

section \<open>Public reads\<close>

definition read_admin :: "'s chost \<Rightarrow> 's \<Rightarrow> address option option" where
  "read_admin H e = stored_admin H e"

definition read_token_is_bound :: "'s chost \<Rightarrow> 's \<Rightarrow> address \<Rightarrow> (bool \<times> 's) option" where
  "read_token_is_bound H e tk = is_token_bound H e tk"

definition read_initialized :: "'s chost \<Rightarrow> 's \<Rightarrow> bool option" where
  "read_initialized H e = is_initialized H e"

definition read_state_version :: "'s chost \<Rightarrow> 's \<Rightarrow> u32 option" where
  "read_state_version H e =
     map_option (\<lambda>v. case v of None \<Rightarrow> 0 | Some n \<Rightarrow> n) (storage_version H e)"

definition read_config :: "'s chost \<Rightarrow> 's \<Rightarrow> compliance_config option option" where
  "read_config H e = compliance_config H e"

definition read_config_version :: "'s chost \<Rightarrow> 's \<Rightarrow> u32 option" where
  "read_config_version H e =
     map_option (\<lambda>v. case v of None \<Rightarrow> 0 | Some n \<Rightarrow> n) (storage_config_version H e)"

definition read_is_frozen :: "'s chost \<Rightarrow> 's \<Rightarrow> address \<Rightarrow> address \<Rightarrow> bool \<times> 's" where
  "read_is_frozen H e tk acc = storage_is_frozen H e tk acc"

section \<open>Invocations\<close>

datatype entry_call =
    Initialize address
  | SetConfig "address option" bool
  | BindToken address "address option"
  | UnbindToken address
  | FreezeAccount address address
  | UnfreezeAccount address address
  | BeforeRegister address address
  | BeforeDeposit address address address
  | BeforeTransfer address address address
  | BeforeWithdraw address address
  | BeforeMerge address address
  | BeforeTransferFrom address address address address

fun dispatch :: "'s chost \<Rightarrow> 's \<Rightarrow> entry_call \<Rightarrow> 's reply" where
  "dispatch H e (Initialize adm) = initialize H e adm"
| "dispatch H e (SetConfig pol passthrough) = set_config H e pol passthrough"
| "dispatch H e (BindToken tk sac) = bind_token H e tk sac"
| "dispatch H e (UnbindToken tk) = unbind_token H e tk"
| "dispatch H e (FreezeAccount tk acc) = freeze H e tk acc"
| "dispatch H e (UnfreezeAccount tk acc) = unfreeze H e tk acc"
| "dispatch H e (BeforeRegister tk acc) = before_register H e tk acc"
| "dispatch H e (BeforeDeposit tk src dst) = before_deposit H e tk src dst"
| "dispatch H e (BeforeTransfer tk src dst) = before_transfer H e tk src dst"
| "dispatch H e (BeforeWithdraw tk acc) = before_withdraw H e tk acc"
| "dispatch H e (BeforeMerge tk acc) = before_merge H e tk acc"
| "dispatch H e (BeforeTransferFrom tk spender src dst) = before_transfer_from H e tk spender src dst"

definition invoke :: "'s chost \<Rightarrow> 's \<Rightarrow> entry_call \<Rightarrow> 's" where
  "invoke H e c = (case dispatch H e c of Some (Inr _, e') \<Rightarrow> e' | _ \<Rightarrow> e)"

text \<open>What a hook call asks the pipeline to evaluate.\<close>

fun hook_of :: "entry_call \<Rightarrow> (address \<times> operation \<times> address list) option" where
  "hook_of (BeforeRegister tk acc) = Some (tk, Register, [acc])"
| "hook_of (BeforeDeposit tk src dst) = Some (tk, Deposit, [src, dst])"
| "hook_of (BeforeTransfer tk src dst) = Some (tk, Transfer, [src, dst])"
| "hook_of (BeforeWithdraw tk acc) = Some (tk, Withdraw, [acc, acc])"
| "hook_of (BeforeMerge tk acc) = Some (tk, Merge, [acc])"
| "hook_of (BeforeTransferFrom tk spender src dst) = Some (tk, TransferFrom, [spender, src, dst])"
| "hook_of _ = None"

lemmas hook_defs =
  before_register_def before_deposit_def before_transfer_def before_withdraw_def before_merge_def
  before_transfer_from_def

lemma dispatch_hook:
  "hook_of c = Some (tk, op, accs) \<Longrightarrow>
   dispatch H e c = map_option (map_prod enforce id) (evaluate H e tk op accs)"
  by (cases c) (auto simp: hook_defs evaluate_entry_defs)

lemma hook_arity: "hook_of c = Some (tk, op, accs) \<Longrightarrow> length accs = length (parties op)"
  by (cases c) auto

lemma hook_operation: "\<exists>c. hook_of c = Some (tk, op, map (\<lambda>_. acc) (parties op))"
proof (cases op)
  case Register then show ?thesis by (intro exI [of _ "BeforeRegister tk acc"]) simp
next
  case Deposit then show ?thesis by (intro exI [of _ "BeforeDeposit tk acc acc"]) simp
next
  case Transfer then show ?thesis by (intro exI [of _ "BeforeTransfer tk acc acc"]) simp
next
  case Withdraw then show ?thesis by (intro exI [of _ "BeforeWithdraw tk acc"]) simp
next
  case Merge then show ?thesis by (intro exI [of _ "BeforeMerge tk acc"]) simp
next
  case TransferFrom
  then show ?thesis by (intro exI [of _ "BeforeTransferFrom tk acc acc acc"]) simp
qed

section \<open>The error surface\<close>

lemma from_reason_code: "error_code (from_reason r) = reason_code r"
  by (cases r) simp_all

lemma error_code_inj: "error_code x = error_code y \<Longrightarrow> x = y"
  by (cases x; cases y) simp_all

lemma error_code_from_reason:
  "reason_from_code (error_code err) = Some r \<longleftrightarrow> err = from_reason r"
  unfolding reason_from_code_iff from_reason_code [symmetric] by (auto dest: error_code_inj)

end
