(* ===== verification/Text.thy ===== *)
theory Text
  imports Prelude "HOL-Library.Sublist"
begin

text \<open>
  The functions of Rust's \<^verbatim>\<open>str\<close> and \<^verbatim>\<open>fmt\<close> that the operator CLI uses, on UTF-8 byte lists:
  \<^verbatim>\<open>lines\<close>, \<^verbatim>\<open>trim\<close>, \<^verbatim>\<open>trim_matches\<close>, \<^verbatim>\<open>find\<close>, \<^verbatim>\<open>join\<close>, the decimal rendering and parsing of \<^verbatim>\<open>u32\<close> and
  the \<^verbatim>\<open>{:?}\<close> rendering of strings.

  \<^verbatim>\<open>trim\<close> removes the characters with the Unicode White_Space property, each given by its UTF-8
  encoding; on valid UTF-8 an encoding at either end of the bytes is that character.
\<close>

section \<open>Characters\<close>

definition newline :: char where "newline = CHR 0x0A"

definition carriage_return :: char where "carriage_return = CHR 0x0D"

definition is_ascii_digit :: "char \<Rightarrow> bool" where
  "is_ascii_digit c = (48 \<le> (of_char c :: nat) \<and> (of_char c :: nat) \<le> 57)"

definition is_ascii_uppercase :: "char \<Rightarrow> bool" where
  "is_ascii_uppercase c = (65 \<le> (of_char c :: nat) \<and> (of_char c :: nat) \<le> 90)"

text \<open>The non-ASCII characters of the CLI's messages.\<close>

definition EM_DASH :: string where "EM_DASH = [CHR 0xE2, CHR 0x80, CHR 0x94]"

definition ELLIPSIS :: string where "ELLIPSIS = [CHR 0xE2, CHR 0x80, CHR 0xA6]"

definition ARROW :: string where "ARROW = [CHR 0xE2, CHR 0x86, CHR 0x92]"

definition AT_LEAST :: string where "AT_LEAST = [CHR 0xE2, CHR 0x89, CHR 0xA5]"

definition CROSS_MARK :: string where "CROSS_MARK = [CHR 0xE2, CHR 0x9D, CHR 0x8C]"

lemmas glyph_defs = EM_DASH_def ELLIPSIS_def ARROW_def AT_LEAST_def CROSS_MARK_def

section \<open>Lines\<close>

text \<open>
  \<^verbatim>\<open>split_inclusive('\n')\<close> followed by removing the terminator of each piece; a carriage return is
  removed only before a line feed, and nothing follows a final line feed.
\<close>

definition strip_cr :: "string \<Rightarrow> string" where
  "strip_cr l = (if l \<noteq> [] \<and> last l = carriage_return then butlast l else l)"

fun text_lines_from :: "string \<Rightarrow> string \<Rightarrow> string list" where
  "text_lines_from acc [] = (if acc = [] then [] else [rev acc])"
| "text_lines_from acc (c # cs) =
     (if c = newline then strip_cr (rev acc) # text_lines_from [] cs
      else text_lines_from (c # acc) cs)"

definition text_lines :: "string \<Rightarrow> string list" where
  "text_lines s = text_lines_from [] s"

lemma text_lines_from_append:
  "newline \<notin> set l \<Longrightarrow> text_lines_from acc (l @ newline # s) = strip_cr (rev acc @ l) # text_lines_from [] s"
  by (induction l arbitrary: acc) auto

lemma text_lines_cons:
  "newline \<notin> set l \<Longrightarrow> text_lines (l @ newline # s) = strip_cr l # text_lines s"
  by (simp add: text_lines_def text_lines_from_append)

lemma text_lines_from_last:
  "newline \<notin> set l \<Longrightarrow> text_lines_from acc l = (if rev acc @ l = [] then [] else [rev acc @ l])"
  by (induction l arbitrary: acc) auto

lemma text_lines_single: "newline \<notin> set l \<Longrightarrow> l \<noteq> [] \<Longrightarrow> text_lines l = [l]"
  by (simp add: text_lines_def text_lines_from_last)

lemma text_lines_Nil [simp]: "text_lines [] = []"
  by (simp add: text_lines_def)

section \<open>Trimming\<close>

definition whitespace :: "string list" where
  "whitespace =
     [[CHR 0x09], [CHR 0x0A], [CHR 0x0B], [CHR 0x0C], [CHR 0x0D], [CHR 0x20],
      [CHR 0xC2, CHR 0x85], [CHR 0xC2, CHR 0xA0], [CHR 0xE1, CHR 0x9A, CHR 0x80],
      [CHR 0xE2, CHR 0x80, CHR 0x80], [CHR 0xE2, CHR 0x80, CHR 0x81], [CHR 0xE2, CHR 0x80, CHR 0x82],
      [CHR 0xE2, CHR 0x80, CHR 0x83], [CHR 0xE2, CHR 0x80, CHR 0x84], [CHR 0xE2, CHR 0x80, CHR 0x85],
      [CHR 0xE2, CHR 0x80, CHR 0x86], [CHR 0xE2, CHR 0x80, CHR 0x87], [CHR 0xE2, CHR 0x80, CHR 0x88],
      [CHR 0xE2, CHR 0x80, CHR 0x89], [CHR 0xE2, CHR 0x80, CHR 0x8A], [CHR 0xE2, CHR 0x80, CHR 0xA8],
      [CHR 0xE2, CHR 0x80, CHR 0xA9], [CHR 0xE2, CHR 0x80, CHR 0xAF], [CHR 0xE2, CHR 0x81, CHR 0x9F],
      [CHR 0xE3, CHR 0x80, CHR 0x80]]"

function strip_front :: "string list \<Rightarrow> string \<Rightarrow> string" where
  "strip_front ws s =
     (case List.find (\<lambda>w. w \<noteq> [] \<and> prefix w s) ws of
        None \<Rightarrow> s
      | Some w \<Rightarrow> strip_front ws (drop (length w) s))"
  by pat_completeness auto

termination
proof (relation "measure (\<lambda>(ws, s). length s)")
  show "wf (measure (\<lambda>(ws, s). length s))" by simp
next
  fix ws :: "string list" and s w :: string
  assume "List.find (\<lambda>w. w \<noteq> [] \<and> prefix w s) ws = Some w"
  then have "w \<noteq> []" and "prefix w s" by (auto simp: find_Some_iff)
  then have "0 < length w" and "length w \<le> length s" by (auto dest: prefix_length_le)
  then have "length s - length w < length s" by arith
  then show "((ws, drop (length w) s), (ws, s)) \<in> measure (\<lambda>(ws, s). length s)" by simp
qed

declare strip_front.simps [simp del]

definition text_trim :: "string \<Rightarrow> string" where
  "text_trim s = rev (strip_front (map rev whitespace) (rev (strip_front whitespace s)))"

lemma strip_front_None: "\<forall>w\<in>set ws. w = [] \<or> \<not> prefix w s \<Longrightarrow> strip_front ws s = s"
  by (subst strip_front.simps) (auto simp: find_None_iff split: option.splits dest!: find_Some_iff [THEN iffD1])

text \<open>A text whose first and last byte are printable ASCII is left alone.\<close>

lemma text_trim_id:
  assumes "s \<noteq> []" and "32 < (of_char (hd s) :: nat)" and "(of_char (hd s) :: nat) < 127"
    and "32 < (of_char (last s) :: nat)" and "(of_char (last s) :: nat) < 127"
  shows "text_trim s = s"
proof -
  have front: "strip_front whitespace s = s"
  proof (rule strip_front_None)
    show "\<forall>w\<in>set whitespace. w = [] \<or> \<not> prefix w s"
      using assms by (cases s) (auto simp: whitespace_def)
  qed
  have "strip_front (map rev whitespace) (rev s) = rev s"
  proof (rule strip_front_None)
    show "\<forall>w\<in>set (map rev whitespace). w = [] \<or> \<not> prefix w (rev s)"
      using assms by (cases s rule: rev_cases) (auto simp: whitespace_def)
  qed
  with front show ?thesis by (simp add: text_trim_def)
qed

lemma text_trim_Nil [simp]: "text_trim [] = []"
  by (simp add: text_trim_def strip_front_None)

definition trim_quotes :: "string \<Rightarrow> string" where
  "trim_quotes s = rev (dropWhile (\<lambda>c. c = CHR 0x22) (rev (dropWhile (\<lambda>c. c = CHR 0x22) s)))"

section \<open>Searching and joining\<close>

definition starts_with :: "char \<Rightarrow> string \<Rightarrow> bool" where
  "starts_with c s = (case s of [] \<Rightarrow> False | x # _ \<Rightarrow> x = c)"

fun text_find :: "string \<Rightarrow> string \<Rightarrow> nat option" where
  "text_find pat [] = (if pat = [] then Some 0 else None)"
| "text_find pat (c # cs) = (if prefix pat (c # cs) then Some 0 else map_option Suc (text_find pat cs))"

lemma text_find_Some: "text_find pat s = Some n \<Longrightarrow> n \<le> length s \<and> prefix pat (drop n s)"
  by (induction pat s arbitrary: n rule: text_find.induct) (auto split: if_splits)

lemma text_find_None: "text_find pat s = None \<longleftrightarrow> \<not> sublist pat s"
  by (induction pat s rule: text_find.induct) (auto simp: sublist_Cons_right)

lemma text_find_append:
  assumes "\<And>n. n < length pre \<Longrightarrow> \<not> prefix pat (drop n (pre @ pat @ post))"
  shows "text_find pat (pre @ pat @ post) = Some (length pre)"
  using assms
proof (induction pre)
  case Nil
  have "prefix pat (pat @ post)" by simp
  then show ?case by (cases "pat @ post") (auto simp del: prefix_def)
next
  case (Cons c pre)
  have "\<not> prefix pat (c # pre @ pat @ post)" using Cons.prems [of 0] by simp
  moreover have "text_find pat (pre @ pat @ post) = Some (length pre)"
  proof (rule Cons.IH)
    fix n assume "n < length pre"
    with Cons.prems [of "Suc n"] show "\<not> prefix pat (drop n (pre @ pat @ post))" by simp
  qed
  ultimately show ?case by simp
qed

fun text_join :: "string \<Rightarrow> string list \<Rightarrow> string" where
  "text_join sep [] = []"
| "text_join sep [s] = s"
| "text_join sep (s # t # ss) = s @ sep @ text_join sep (t # ss)"

section \<open>Numbers\<close>

definition digit_char :: "nat \<Rightarrow> char" where
  "digit_char d = char_of (48 + d)"

definition digit_value :: "char \<Rightarrow> nat" where
  "digit_value c = of_char c - 48"

fun nat_text :: "nat \<Rightarrow> string" where
  "nat_text n = (if n < 10 then [digit_char n] else nat_text (n div 10) @ [digit_char (n mod 10)])"

declare nat_text.simps [simp del]

definition u32_text :: "u32 \<Rightarrow> string" where
  "u32_text n = nat_text (unat n)"

definition digits_value :: "string \<Rightarrow> nat" where
  "digits_value ds = foldl (\<lambda>v c. 10 * v + digit_value c) 0 ds"

text \<open>\<^verbatim>\<open>str::parse::<u32>\<close>: an optional plus sign, at least one digit, only digits, no overflow.\<close>

definition parse_u32 :: "string \<Rightarrow> u32 option" where
  "parse_u32 s =
     (let ds = (if starts_with (CHR 0x2B) s \<and> tl s \<noteq> [] then tl s else s) in
      if ds \<noteq> [] \<and> list_all is_ascii_digit ds \<and> digits_value ds < 2 ^ 32
      then Some (of_nat (digits_value ds)) else None)"

lemma of_char_digit: "d < 10 \<Longrightarrow> (of_char (digit_char d) :: nat) = 48 + d"
  by (simp add: digit_char_def)

lemma digit_char_digit: "d < 10 \<Longrightarrow> is_ascii_digit (digit_char d) \<and> digit_value (digit_char d) = d"
  by (simp add: is_ascii_digit_def digit_value_def of_char_digit)

lemma digits_value_snoc: "digits_value (ds @ [c]) = 10 * digits_value ds + digit_value c"
  by (simp add: digits_value_def)

lemma nat_text_digits: "list_all is_ascii_digit (nat_text n) \<and> nat_text n \<noteq> [] \<and> digits_value (nat_text n) = n"
proof (induction n rule: nat_text.induct)
  case (1 n)
  show ?case
  proof (cases "n < 10")
    case True
    then have "nat_text n = [digit_char n]" by (simp add: nat_text.simps)
    with True show ?thesis by (simp add: digit_char_digit digits_value_def)
  next
    case False
    then have "nat_text n = nat_text (n div 10) @ [digit_char (n mod 10)]" by (subst nat_text.simps) simp
    with 1 False show ?thesis by (simp add: digit_char_digit digits_value_snoc)
  qed
qed

lemma parse_u32_text: "parse_u32 (u32_text n) = Some n"
proof -
  have d: "list_all is_ascii_digit (u32_text n)" "u32_text n \<noteq> []" "digits_value (u32_text n) = unat n"
    using nat_text_digits [of "unat n"] by (simp_all add: u32_text_def)
  moreover from d have "\<not> starts_with (CHR 0x2B) (u32_text n)"
    by (cases "u32_text n") (auto simp: starts_with_def is_ascii_digit_def)
  moreover have "unat n < 4294967296" using unsigned_less [of n, where ?'a = nat] by simp
  ultimately show ?thesis by (simp add: parse_u32_def)
qed

section \<open>Debug rendering\<close>

text \<open>
  \<^verbatim>\<open>{:?}\<close> of a string: quoted, with the escapes of \<^verbatim>\<open>char::escape_debug\<close> for ASCII. Bytes of
  non-ASCII characters are kept (\<^verbatim>\<open>escape_debug\<close> would escape the unprintable ones among them); the
  rendering occurs in messages only.
\<close>

definition hex_digit :: "nat \<Rightarrow> char" where
  "hex_digit d = char_of (if d < 10 then 48 + d else 87 + d)"

definition debug_char :: "char \<Rightarrow> string" where
  "debug_char c =
     (let n = (of_char c :: nat) in
      if n = 0 then [CHR 0x5C, CHR ''0'']
      else if n = 9 then [CHR 0x5C, CHR ''t'']
      else if n = 10 then [CHR 0x5C, CHR ''n'']
      else if n = 13 then [CHR 0x5C, CHR ''r'']
      else if n = 34 \<or> n = 92 then [CHR 0x5C, c]
      else if n < 32 \<or> n = 127 then
        [CHR 0x5C, CHR ''u'', CHR 0x7B] @ (if n < 16 then [hex_digit n] else [hex_digit (n div 16), hex_digit (n mod 16)])
        @ [CHR 0x7D]
      else [c])"

definition debug_text :: "string \<Rightarrow> string" where
  "debug_text s = [CHR 0x22] @ concat (map debug_char s) @ [CHR 0x22]"

definition bool_text :: "bool \<Rightarrow> string" where
  "bool_text b = (if b then ''true'' else ''false'')"

definition pad_left_2 :: "string \<Rightarrow> string" where
  "pad_left_2 s = replicate (2 - length s) (CHR 0x20) @ s"

end
