(* ===== verification/Cli_Host.thy ===== *)
theory Cli_Host
  imports Text
begin

text \<open>
  The operator CLI's outside: the \<^verbatim>\<open>stellar\<close> binary behind the \<^verbatim>\<open>Runner\<close> trait
  (\<^verbatim>\<open>cli/src/stellar.rs\<close>), standard output, the environment, the file system and \<^verbatim>\<open>serde_json\<close>. None
  of it is code of the repository, so it is a record of functions that the definitions of the CLI
  take as their argument; nothing is assumed about it.

  A fallible action threads the outside world and returns \<open>Inl message\<close> for \<^verbatim>\<open>Err(message)\<close>.
  \<open>recording\<close> wraps a host so that it also logs what the CLI did, in order.
\<close>

record run_outcome =
  run_ok :: bool
  run_stdout :: string
  run_stderr :: string

record 'w cli_host =
  run_stellar :: "'w \<Rightarrow> string list \<Rightarrow> (string + run_outcome) \<times> 'w"
  print_line :: "'w \<Rightarrow> string \<Rightarrow> 'w"
  env_var :: "'w \<Rightarrow> string \<Rightarrow> string option"
  path_exists :: "'w \<Rightarrow> string \<Rightarrow> bool"
  read_file :: "'w \<Rightarrow> string \<Rightarrow> string + string"
  write_file :: "'w \<Rightarrow> string \<Rightarrow> string \<Rightarrow> (string + unit) \<times> 'w"

type_synonym ('w, 'a) action = "'w \<Rightarrow> (string + 'a) \<times> 'w"

section \<open>Sequencing\<close>

definition done_with :: "'a \<Rightarrow> ('w, 'a) action" where
  "done_with x w = (Inr x, w)"

definition fail_with :: "string \<Rightarrow> ('w, 'a) action" where
  "fail_with msg w = (Inl msg, w)"

text \<open>The \<^verbatim>\<open>?\<close> operator of the CLI's functions.\<close>

definition and_do :: "('w, 'a) action \<Rightarrow> ('a \<Rightarrow> ('w, 'b) action) \<Rightarrow> ('w, 'b) action" where
  "and_do m k w = (case m w of (Inl msg, w) \<Rightarrow> (Inl msg, w) | (Inr x, w) \<Rightarrow> k x w)"

definition println :: "'w cli_host \<Rightarrow> string \<Rightarrow> ('w, unit) action" where
  "println C line w = (Inr (), print_line C w line)"

text \<open>\<^verbatim>\<open>e?\<close> for a pure \<^verbatim>\<open>Result\<close>.\<close>

definition lift_result :: "string + 'a \<Rightarrow> ('w, 'a) action" where
  "lift_result r w = (r, w)"

definition map_err :: "(string \<Rightarrow> string) \<Rightarrow> ('w, 'a) action \<Rightarrow> ('w, 'a) action" where
  "map_err f m w = (case m w of (Inl msg, w) \<Rightarrow> (Inl (f msg), w) | (Inr x, w) \<Rightarrow> (Inr x, w))"

fun for_each :: "'a list \<Rightarrow> ('a \<Rightarrow> ('w, unit) action) \<Rightarrow> ('w, unit) action" where
  "for_each [] body = done_with ()"
| "for_each (x # xs) body = and_do (body x) (\<lambda>_. for_each xs body)"

lemma and_do_simps [simp]:
  "and_do (done_with x) k = k x"
  "and_do (fail_with msg) k = fail_with msg"
  "and_do (lift_result (Inr x)) k = k x"
  "and_do (lift_result (Inl msg)) k = fail_with msg"
  by (simp_all add: and_do_def done_with_def fail_with_def lift_result_def fun_eq_iff)

lemma and_do_assoc: "and_do (and_do m k) h = and_do m (\<lambda>x. and_do (k x) h)"
  by (auto simp: and_do_def fun_eq_iff split: prod.splits sum.splits)

lemma and_do_Inr:
  "and_do m k w = (Inr y, w') \<longleftrightarrow> (\<exists>x w''. m w = (Inr x, w'') \<and> k x w'' = (Inr y, w'))"
  by (auto simp: and_do_def split: prod.splits sum.splits)

section \<open>Recording what happened\<close>

datatype effect =
    Ran "string list" "string + run_outcome"
  | Printed string
  | Wrote string string

definition recording :: "'w cli_host \<Rightarrow> ('w \<times> effect list) cli_host" where
  "recording C =
    \<lparr>run_stellar = (\<lambda>w args. case run_stellar C (fst w) args of
       (r, w') \<Rightarrow> (r, (w', snd w @ [Ran args r]))),
     print_line = (\<lambda>w line. (print_line C (fst w) line, snd w @ [Printed line])),
     env_var = (\<lambda>w. env_var C (fst w)),
     path_exists = (\<lambda>w. path_exists C (fst w)),
     read_file = (\<lambda>w. read_file C (fst w)),
     write_file = (\<lambda>w path text. case write_file C (fst w) path text of
       (r, w') \<Rightarrow> (r, (w', snd w @ [Wrote path text])))\<rparr>"

text \<open>
  What an action on a recording host can do: it only appends to the log, and every effect it
  appends satisfies \<open>P\<close>.
\<close>

definition only_does :: "(effect \<Rightarrow> bool) \<Rightarrow> ('w \<times> effect list \<Rightarrow> 'r \<times> ('w \<times> effect list)) \<Rightarrow> bool" where
  "only_does P m \<longleftrightarrow> (\<forall>w. \<exists>es. snd (snd (m w)) = snd w @ es \<and> (\<forall>ef\<in>set es. P ef))"

lemma only_doesD:
  assumes "only_does P m" and "m (w, []) = (r, (w', es))" and "ef \<in> set es"
  shows "P ef"
  using assms unfolding only_does_def by (metis append_Nil snd_conv)

lemma only_does_done [simp, intro]: "only_does P (done_with x)"
  by (simp add: only_does_def done_with_def)

lemma only_does_fail [simp, intro]: "only_does P (fail_with msg)"
  by (simp add: only_does_def fail_with_def)

lemma only_does_lift [simp, intro]: "only_does P (lift_result r)"
  by (simp add: only_does_def lift_result_def)

lemma only_does_and_do [intro]:
  assumes "only_does P m" and "\<And>x. only_does P (k x)"
  shows "only_does P (and_do m k)"
  unfolding only_does_def
proof
  fix w
  obtain r w1 where m: "m w = (r, w1)" by (cases "m w")
  obtain es where es: "snd w1 = snd w @ es" "\<forall>ef\<in>set es. P ef"
    using assms(1) m unfolding only_does_def by (metis snd_conv)
  show "\<exists>es. snd (snd (and_do m k w)) = snd w @ es \<and> (\<forall>ef\<in>set es. P ef)"
  proof (cases r)
    case (Inl msg)
    with m es show ?thesis by (auto simp: and_do_def)
  next
    case (Inr x)
    obtain es' where "snd (snd (k x w1)) = snd w1 @ es'" "\<forall>ef\<in>set es'. P ef"
      using assms(2) [of x] unfolding only_does_def by blast
    with m es Inr show ?thesis by (auto simp: and_do_def intro!: exI [of _ "es @ es'"])
  qed
qed

lemma snd_map_err [simp]: "snd (map_err f m w) = snd (m w)"
  by (simp add: map_err_def split: prod.splits sum.splits)

lemma only_does_map_err [intro]: "only_does P m \<Longrightarrow> only_does P (map_err f m)"
  by (simp add: only_does_def)

lemma only_does_for_each [intro]: "(\<And>x. only_does P (body x)) \<Longrightarrow> only_does P (for_each xs body)"
  by (induction xs) auto

lemma only_does_println [intro]: "(\<And>line. P (Printed line)) \<Longrightarrow> only_does P (println (recording C) line)"
  by (simp add: only_does_def println_def recording_def)

lemma only_does_run [intro]:
  "(\<And>r. P (Ran args r)) \<Longrightarrow> only_does P (\<lambda>w. run_stellar (recording C) w args)"
  by (auto simp: only_does_def recording_def split: prod.splits)

lemma only_does_write [intro]:
  "P (Wrote path text) \<Longrightarrow> only_does P (\<lambda>w. write_file (recording C) w path text)"
  by (auto simp: only_does_def recording_def split: prod.splits)

lemma only_does_return [simp, intro]: "only_does P (\<lambda>w. (x, w))"
  by (simp add: only_does_def)

lemma only_does_bind:
  assumes "only_does P m" and "\<And>x. only_does P (k x)"
  shows "only_does P (\<lambda>w. case m w of (x, w) \<Rightarrow> k x w)"
  unfolding only_does_def
proof
  fix w
  obtain x w1 where m: "m w = (x, w1)" by (cases "m w")
  obtain es where es: "snd w1 = snd w @ es" "\<forall>ef\<in>set es. P ef"
    using assms(1) m unfolding only_does_def by (metis snd_conv)
  obtain es' where "snd (snd (k x w1)) = snd w1 @ es'" "\<forall>ef\<in>set es'. P ef"
    using assms(2) [of x] unfolding only_does_def by blast
  with m es show "\<exists>es. snd (snd (case m w of (x, w) \<Rightarrow> k x w)) = snd w @ es \<and> (\<forall>ef\<in>set es. P ef)"
    by (auto intro!: exI [of _ "es @ es'"])
qed

lemma only_does_sum:
  assumes "\<And>x. only_does P (f x)" and "\<And>y. only_does P (g y)"
  shows "only_does P (\<lambda>w. case s of Inl x \<Rightarrow> f x w | Inr y \<Rightarrow> g y w)"
  using assms by (cases s) simp_all

lemma only_does_weaken: "only_does P m \<Longrightarrow> (\<And>ef. P ef \<Longrightarrow> Q ef) \<Longrightarrow> only_does Q m"
  unfolding only_does_def by blast

end
