(* ===== verification/Cli_Config.thy ===== *)
theory Cli_Config
  imports Cli_Host
begin

text \<open>
  The deployment configuration record and its queries, \<^verbatim>\<open>cli/src/config.rs\<close>. The mapping between a
  record and its JSON text is generated by \<^verbatim>\<open>serde\<close>; it is the parameter \<open>json\<close> of the loading and saving
  functions. Paths are the lossy strings the CLI converts them to.
\<close>

section \<open>The record\<close>

record policy_entry =
  policy_contract_id :: string

record admin_entry =
  admin_public_key :: string
  admin_stellar_identity :: "string option"
  admin_secret_key_env :: "string option"

record token_entry =
  token_alias :: string
  token_contract_id :: string
  token_sac_contract_id :: "string option"

record deployment =
  dep_network :: string
  dep_rpc_url :: string
  dep_network_passphrase :: string
  dep_hooks_contract_id :: string
  dep_policy :: "policy_entry option"
  dep_sac_passthrough :: bool
  dep_admin :: admin_entry
  dep_tokens :: "token_entry list"

record json_codec =
  config_from_str :: "string \<Rightarrow> string + deployment"
  config_to_string_pretty :: "deployment \<Rightarrow> string + string"
  json_policy_field :: "string \<Rightarrow> string option"

section \<open>Loading and saving\<close>

definition config_load :: "'w cli_host \<Rightarrow> json_codec \<Rightarrow> string \<Rightarrow> ('w, deployment) action" where
  "config_load C J path w =
     (case read_file C w path of
        Inl err \<Rightarrow> (Inl (''cannot read config '' @ path @ '': '' @ err), w)
      | Inr raw \<Rightarrow>
          (case config_from_str J raw of
             Inl err \<Rightarrow> (Inl (''invalid config '' @ path @ '': '' @ err), w)
           | Inr cfg \<Rightarrow> (Inr cfg, w)))"

definition config_save :: "'w cli_host \<Rightarrow> json_codec \<Rightarrow> deployment \<Rightarrow> string \<Rightarrow> ('w, unit) action" where
  "config_save C J cfg path =
     and_do (map_err (\<lambda>err. ''cannot serialize config: '' @ err) (lift_result (config_to_string_pretty J cfg)))
       (\<lambda>raw. map_err (\<lambda>err. ''cannot write config '' @ path @ '': '' @ err)
          (\<lambda>w. write_file C w path (raw @ [newline])))"

section \<open>Queries\<close>

definition resolve_token :: "deployment \<Rightarrow> string \<Rightarrow> string + string" where
  "resolve_token cfg arg =
     (case List.find (\<lambda>t. token_alias t = arg) (dep_tokens cfg) of
        Some t \<Rightarrow> Inr (token_contract_id t)
      | None \<Rightarrow>
          if starts_with (CHR ''C'') arg \<or> starts_with (CHR ''G'') arg then Inr arg
          else
            (let aliases = map token_alias (dep_tokens cfg) in
             Inl (''unknown token '' @ debug_text arg @ '': not an alias ('' @
               (if aliases = [] then ''no tokens configured'' else text_join '', '' aliases) @
               '') and not a C'' @ ELLIPSIS @ ''/G'' @ ELLIPSIS @ '' address'')))"

definition sac_for :: "deployment \<Rightarrow> string \<Rightarrow> string option" where
  "sac_for cfg arg =
     Option.bind (List.find (\<lambda>t. token_alias t = arg) (dep_tokens cfg)) token_sac_contract_id"

definition admin_source :: "'w cli_host \<Rightarrow> 'w \<Rightarrow> deployment \<Rightarrow> string option \<Rightarrow> string + string" where
  "admin_source C w cfg explicit =
     (case explicit of
        Some s \<Rightarrow> Inr s
      | None \<Rightarrow>
          (case admin_stellar_identity (dep_admin cfg) of
             Some name \<Rightarrow> Inr name
           | None \<Rightarrow>
               (case admin_secret_key_env (dep_admin cfg) of
                  Some env \<Rightarrow>
                    (case env_var C w env of
                       Some secret \<Rightarrow>
                         if secret \<noteq> [] then Inr secret
                         else Inl (''config names admin secret in $'' @ env @ '', which is not set'')
                     | None \<Rightarrow> Inl (''config names admin secret in $'' @ env @ '', which is not set''))
                | None \<Rightarrow>
                    Inl ''no admin source: pass --source, set admin.stellar_identity, or admin.secret_key_env in the config'')))"

section \<open>What the queries return\<close>

text \<open>
  The token list is a table keyed by alias (\<^theory_text>\<open>keyed_table\<close> of \<^theory_text>\<open>Prelude\<close>) as long as no alias is
  listed twice; then resolving the alias of a listed token yields that token's own data.
\<close>

lemma distinct_aliases_keyed:
  "distinct (map token_alias ts) \<Longrightarrow> keyed_table ts token_alias"
  by unfold_locales (auto simp: distinct_map dest: inj_onD)

lemma resolves_alias:
  assumes "distinct (map token_alias (dep_tokens cfg))" and "t \<in> set (dep_tokens cfg)"
  shows "resolve_token cfg (token_alias t) = Inr (token_contract_id t)"
    and "sac_for cfg (token_alias t) = token_sac_contract_id t"
  using keyed_table.lookup_key [OF distinct_aliases_keyed [OF assms(1)] assms(2)]
  by (simp_all add: resolve_token_def sac_for_def)

lemma find_alias_None:
  "List.find (\<lambda>t. token_alias t = arg) ts = None \<longleftrightarrow> arg \<notin> token_alias ` set ts"
  by (auto simp: find_None_iff)

lemma resolve_token_cases:
  obtains (listed) t where "t \<in> set (dep_tokens cfg)" and "token_alias t = arg"
      and "resolve_token cfg arg = Inr (token_contract_id t)"
  | (literal) "arg \<notin> token_alias ` set (dep_tokens cfg)"
      and "starts_with (CHR ''C'') arg \<or> starts_with (CHR ''G'') arg" and "resolve_token cfg arg = Inr arg"
  | (unknown) msg where "arg \<notin> token_alias ` set (dep_tokens cfg)"
      and "\<not> (starts_with (CHR ''C'') arg \<or> starts_with (CHR ''G'') arg)" and "resolve_token cfg arg = Inl msg"
proof (cases "List.find (\<lambda>t. token_alias t = arg) (dep_tokens cfg)")
  case (Some t)
  then have "t \<in> set (dep_tokens cfg)" and "token_alias t = arg" by (auto simp: find_Some_iff)
  with Some show ?thesis by (intro listed [of t]) (simp_all add: resolve_token_def)
next
  case None
  then have fresh: "arg \<notin> token_alias ` set (dep_tokens cfg)" by (rule find_alias_None [THEN iffD1])
  show ?thesis
  proof (cases "starts_with (CHR ''C'') arg \<or> starts_with (CHR ''G'') arg")
    case True
    with None have "resolve_token cfg arg = Inr arg" by (simp add: resolve_token_def)
    with fresh True show ?thesis by (rule literal)
  next
    case False
    with None obtain msg where "resolve_token cfg arg = Inl msg" by (simp add: resolve_token_def Let_def)
    with fresh False show ?thesis by (rule unknown)
  qed
qed

end
