(* ===== verification/Cli_Stellar.thy ===== *)
theory Cli_Stellar
  imports Contract Cli_Config
begin

text \<open>
  The bridge to the stellar CLI, \<^verbatim>\<open>cli/src/stellar.rs\<close>: the argument vectors, the value of an
  invocation, the address and contract-id recognizers, and the decoding of contract reverts into
  the stable reasons. The running of the binary itself is \<open>run_stellar\<close> of \<^theory_text>\<open>Cli_Host\<close>.
\<close>

section \<open>Outcomes\<close>

definition combined :: "run_outcome \<Rightarrow> string" where
  "combined r = run_stdout r @ [newline] @ run_stderr r"

text \<open>\<^verbatim>\<open>lines().map(str::trim).rev().find(|l| !l.is_empty())\<close>\<close>

definition last_nonempty :: "string \<Rightarrow> string option" where
  "last_nonempty s = List.find (\<lambda>l. l \<noteq> []) (rev (map text_trim (text_lines s)))"

definition outcome_value :: "run_outcome \<Rightarrow> string option" where
  "outcome_value r = last_nonempty (run_stdout r)"

section \<open>Argument vectors\<close>

definition param_args :: "(string \<times> string) list \<Rightarrow> string list" where
  "param_args params = concat (map (\<lambda>(name, val). [''--'' @ name, val]) params)"

definition view_args ::
  "string \<Rightarrow> string \<Rightarrow> string \<Rightarrow> string \<Rightarrow> (string \<times> string) list \<Rightarrow> string list" where
  "view_args source_account contract_id network func params =
     [''contract'', ''invoke'', ''--id'', contract_id, ''--source-account'', source_account,
      ''--send=no'', ''--network'', network, ''--'', func] @ param_args params"

definition is_stellar_address :: "string \<Rightarrow> bool" where
  "is_stellar_address s \<longleftrightarrow>
     length s = 56 \<and> (starts_with (CHR ''G'') s \<or> starts_with (CHR ''C'') s) \<and>
     list_all (\<lambda>c. is_ascii_uppercase c \<or> is_ascii_digit c) s"

definition address_param :: "string \<Rightarrow> string" where
  "address_param addr = addr"

definition opt_address :: "string option \<Rightarrow> string" where
  "opt_address addr = (case addr of Some a \<Rightarrow> [CHR 0x22] @ a @ [CHR 0x22] | None \<Rightarrow> ''null'')"

definition boolean_param :: "bool \<Rightarrow> string" where
  "boolean_param b = bool_text b"

definition invoke_args ::
  "string option \<Rightarrow> string \<Rightarrow> string \<Rightarrow> string \<Rightarrow> (string \<times> string) list \<Rightarrow> string list" where
  "invoke_args source hooks_id network func params =
     [''contract'', ''invoke'', ''--id'', hooks_id] @
     (case source of Some s \<Rightarrow> [''--source'', s] | None \<Rightarrow> []) @
     [''--network'', network, ''--'', func] @ param_args params"

definition deploy_args :: "string \<Rightarrow> string \<Rightarrow> string \<Rightarrow> (string \<times> string) list \<Rightarrow> string list" where
  "deploy_args wasm source network constructor =
     [''contract'', ''deploy'', ''--wasm'', wasm, ''--source'', source, ''--network'', network] @
     (if constructor \<noteq> [] then [''--''] @ param_args constructor else [])"

definition parse_deployed_id :: "string \<Rightarrow> string option" where
  "parse_deployed_id out =
     List.find (\<lambda>l. length l = 56 \<and> starts_with (CHR ''C'') l \<and>
         list_all (\<lambda>c. is_ascii_uppercase c \<or> is_ascii_digit c) l)
       (rev (map text_trim (text_lines out)))"

definition network_add_args :: "string \<Rightarrow> string \<Rightarrow> string \<Rightarrow> string list" where
  "network_add_args network rpc_url passphrase =
     [''network'', ''add'', network, ''--rpc-url'', rpc_url, ''--network-passphrase'', passphrase]"

definition network_list_args :: "string list" where
  "network_list_args = [''network'', ''ls'']"

section \<open>Contract reverts\<close>

datatype contract_revert = Rejection rejection_reason | AlreadyInitialized | Unknown u32

definition revert_from_code :: "u32 \<Rightarrow> contract_revert" where
  "revert_from_code code =
     (case reason_from_code code of
        Some reason \<Rightarrow> Rejection reason
      | None \<Rightarrow> if code = 12 then AlreadyInitialized else Unknown code)"

definition describe :: "contract_revert \<Rightarrow> string" where
  "describe revert = (case revert of
      Rejection r \<Rightarrow>
        ''contract error #'' @ u32_text (reason_code r) @ '': '' @ reason_name r @ '' '' @ EM_DASH @
        '' see docs/errors.md''
    | AlreadyInitialized \<Rightarrow>
        ''contract error #12: already_initialized '' @ EM_DASH @
        '' initialize runs once; re-init is an admin-rotation attempt''
    | Unknown code \<Rightarrow> ''contract error #'' @ u32_text code @ '': undocumented code'')"

definition revert_marker :: string where
  "revert_marker = ''Error(Contract, #''"

fun decode_lines :: "string list \<Rightarrow> contract_revert option" where
  "decode_lines [] = None"
| "decode_lines (line # rest) =
     (case text_find revert_marker line of
        None \<Rightarrow> decode_lines rest
      | Some idx \<Rightarrow>
          (let tail = drop (idx + length revert_marker) line;
               digits = takeWhile is_ascii_digit tail
           in if digits = [] then decode_lines rest
              else (case parse_u32 digits of
                      None \<Rightarrow> None
                    | Some code \<Rightarrow> Some (revert_from_code code))))"

definition decode_contract_error :: "string \<Rightarrow> contract_revert option" where
  "decode_contract_error s = decode_lines (text_lines s)"

definition interpret_outcome :: "run_outcome \<Rightarrow> string + string option" where
  "interpret_outcome r =
     (if run_ok r then Inr (outcome_value r)
      else
        (let s = combined r in
         case decode_contract_error s of
           Some revert \<Rightarrow> Inl (describe revert)
         | None \<Rightarrow>
             (case last_nonempty s of
                Some tail \<Rightarrow> Inl tail
              | None \<Rightarrow> Inl ''stellar CLI failed without output'')))"

section \<open>Decoding inverts reporting\<close>

definition revert_of :: "contract_error \<Rightarrow> contract_revert" where
  "revert_of err =
     (case reason_from_code (error_code err) of Some r \<Rightarrow> Rejection r | None \<Rightarrow> AlreadyInitialized)"

lemma revert_from_error_code: "revert_from_code (error_code err) = revert_of err"
proof -
  have "reason_from_code (error_code err) = None \<longleftrightarrow> err = AlreadyInitializedErr"
    unfolding reason_from_code_None by (cases err) simp_all
  then show ?thesis
    by (cases "reason_from_code (error_code err)") (auto simp: revert_from_code_def revert_of_def)
qed

lemma revert_of_reason: "revert_of (from_reason r) = Rejection r"
proof -
  have "reason_from_code (error_code (from_reason r)) = Some r"
    by (simp add: error_code_from_reason)
  then show ?thesis by (simp add: revert_of_def)
qed

lemma decode_lines_skip:
  "\<not> sublist revert_marker line \<Longrightarrow> decode_lines (line # rest) = decode_lines rest"
  by (simp add: text_find_None [symmetric])

lemma decode_lines_hit:
  assumes "text_find revert_marker line = Some idx"
    and "drop (idx + length revert_marker) line = u32_text code @ rest'"
    and "rest' = [] \<or> \<not> is_ascii_digit (hd rest')"
  shows "decode_lines (line # rest) = Some (revert_from_code code)"
proof -
  have digits: "list_all is_ascii_digit (u32_text code)" "u32_text code \<noteq> []"
    using nat_text_digits [of "unat code"] by (simp_all add: u32_text_def)
  have "takeWhile is_ascii_digit (u32_text code @ rest') = u32_text code"
    using digits(1) assms(3) by (cases rest') (auto simp: list_all_iff takeWhile_append)
  with assms(1,2) digits(2) show ?thesis
    by (simp add: Let_def parse_u32_text)
qed

text \<open>The text a failed invocation reports, whatever surrounds the marker.\<close>

definition revert_line :: "string \<Rightarrow> contract_error \<Rightarrow> string \<Rightarrow> string" where
  "revert_line before err after = before @ revert_marker @ u32_text (error_code err) @ '')'' @ after"

lemma sublist_marker_drop: "prefix revert_marker (drop n s) \<Longrightarrow> sublist revert_marker s"
  by (auto simp: prefix_def sublist_def) (metis append_assoc append_take_drop_id)

text \<open>The marker starts with a capital E and holds no other one, so it cannot overlap itself.\<close>

lemma find_marker:
  assumes "\<not> sublist revert_marker before"
  shows "text_find revert_marker (before @ revert_marker @ rest) = Some (length before)"
proof (rule text_find_append)
  fix n
  assume n: "n < length before"
  show "\<not> prefix revert_marker (drop n (before @ revert_marker @ rest))"
  proof
    assume p: "prefix revert_marker (drop n (before @ revert_marker @ rest))"
    let ?u = "drop n before"
    have u: "?u \<noteq> []" using n by simp
    have p': "prefix revert_marker (?u @ revert_marker @ rest)" using p n by simp
    show False
    proof (cases "length revert_marker \<le> length ?u")
      case True
      have "prefix ?u (?u @ revert_marker @ rest)" by simp
      from prefix_length_prefix [OF p' this True] have "prefix revert_marker ?u" .
      with assms show False by (meson sublist_marker_drop)
    next
      case False
      then have len: "length ?u < length revert_marker" by simp
      from p' obtain z where "?u @ revert_marker @ rest = revert_marker @ z" by (auto simp: prefix_def)
      then have "revert_marker ! length ?u = (?u @ revert_marker @ rest) ! length ?u"
        using len by (metis nth_append)
      then have "revert_marker ! length ?u = CHR ''E''"
        by (simp add: nth_append revert_marker_def)
      moreover have "0 < length ?u" using u by simp
      moreover have "\<forall>i\<in>{1..<17}. revert_marker ! i \<noteq> CHR ''E''"
        by (simp add: revert_marker_def atLeastLessThan_nat_numeral numeral_eq_Suc nth_Cons')
      moreover have "length ?u < 17" using len by (simp add: revert_marker_def)
      ultimately show False by auto
    qed
  qed
qed

lemma decode_revert_line:
  assumes "\<forall>l\<in>set earlier. \<not> sublist revert_marker l" and "\<not> sublist revert_marker before"
  shows "decode_lines (earlier @ revert_line before err after # later) = Some (revert_of err)"
  using assms(1)
proof (induction earlier)
  case Nil
  have "decode_lines (revert_line before err after # later) = Some (revert_from_code (error_code err))"
    by (rule decode_lines_hit [OF find_marker [OF assms(2), of "u32_text (error_code err) @ '')'' @ after",
          folded revert_line_def], where rest' = "'')'' @ after"])
      (simp_all add: revert_line_def is_ascii_digit_def)
  then show ?case by (simp add: revert_from_error_code)
next
  case (Cons l earlier)
  then show ?case by (simp only: append_Cons decode_lines_skip list.set_intros ball_simps)
      (simp add: decode_lines_skip del: decode_lines.simps)
qed

text \<open>At the level of the whole text: the marker may be anywhere, on any line, of what was printed.\<close>

lemma sublist_within: "sublist pat a \<Longrightarrow> sublist pat (x @ a @ y)"
  unfolding sublist_def by (metis append.assoc)

lemma sublist_strip_cr:
  assumes "sublist pat (strip_cr l)"
  shows "sublist pat l"
proof (cases "l \<noteq> [] \<and> last l = carriage_return")
  case True
  then have "l = [] @ strip_cr l @ [last l]"
    using append_butlast_last_id [of l] by (simp add: strip_cr_def)
  with sublist_within [OF assms, of "[]" "[last l]"] show ?thesis by simp
next
  case False
  with assms show ?thesis by (auto simp: strip_cr_def split: if_splits)
qed

lemma first_line_split:
  assumes "newline \<notin> set z" and "z \<noteq> []" and "last z \<noteq> carriage_return"
  shows "\<exists>a rest. text_lines (z @ after) = (z @ a) # rest \<and> prefix a after"
proof (cases "newline \<in> set after")
  case False
  with assms have "text_lines (z @ after) = [z @ after]" by (intro text_lines_single) auto
  then show ?thesis by (intro exI [of _ after] exI [of _ "[]"]) simp
next
  case True
  then obtain a b where after: "after = a @ newline # b" "newline \<notin> set a" by (meson split_list_first)
  have "text_lines (z @ after) = strip_cr (z @ a) # text_lines b"
    using text_lines_cons [of "z @ a" b] assms(1) after by simp
  moreover have "strip_cr (z @ a) = z @ strip_cr a"
    using assms(2,3) by (cases a rule: rev_cases) (auto simp: strip_cr_def butlast_append)
  moreover have "prefix (strip_cr a) after"
    using after by (auto simp: strip_cr_def prefix_def) (metis append.assoc append_butlast_last_id)
  ultimately show ?thesis by auto
qed

lemma decode_revert_text:
  assumes "\<not> sublist revert_marker before"
  shows "decode_contract_error (revert_line before err after) = Some (revert_of err)"
  using assms
proof (induction "length before" arbitrary: before rule: less_induct)
  case less
  show ?case
  proof (cases "newline \<in> set before")
    case True
    then obtain l b where b: "before = l @ newline # b" "newline \<notin> set l" by (meson split_list_first)
    have "text_lines (revert_line before err after) = strip_cr l # text_lines (revert_line b err after)"
      using text_lines_cons [OF b(2)] b(1) by (simp add: revert_line_def)
    moreover have "\<not> sublist revert_marker (strip_cr l)"
      using less.prems b(1) sublist_strip_cr [of revert_marker l] sublist_within [of revert_marker l "[]"] by auto
    moreover have "\<not> sublist revert_marker b"
      using less.prems b(1) sublist_within [of revert_marker b "l @ [newline]" "[]"] by auto
    moreover have "length b < length before" using b(1) by simp
    ultimately show ?thesis
      using less.hyps [of b] by (simp add: decode_contract_error_def decode_lines_skip del: decode_lines.simps)
  next
    case False
    let ?z = "before @ revert_marker @ u32_text (error_code err) @ '')''"
    have "newline \<notin> set (u32_text (error_code err))"
      using nat_text_digits [of "unat (error_code err)"]
      by (auto simp: u32_text_def list_all_iff is_ascii_digit_def newline_def)
    with False have "newline \<notin> set ?z" by (auto simp: revert_marker_def newline_def)
    from first_line_split [OF this, of after] obtain a rest where
      "text_lines (?z @ after) = (?z @ a) # rest"
      by (auto simp: carriage_return_def)
    then have "text_lines (revert_line before err after) = revert_line before err a # rest"
      by (simp add: revert_line_def)
    then show ?thesis
      using decode_revert_line [of "[]", OF _ less.prems] by (simp add: decode_contract_error_def)
  qed
qed

end
