(* ===== verification/Cli_Verify.thy ===== *)
theory Cli_Verify
  imports Cli_Stellar
begin

text \<open>
  The deployment smoke test of the CLI, \<^verbatim>\<open>cli/src/main.rs\<close> (\<^verbatim>\<open>view\<close>, \<^verbatim>\<open>gate\<close>, \<^verbatim>\<open>verify\<close>,
  \<^verbatim>\<open>print_report\<close>). \<^verbatim>\<open>verify\<close> pushes its checks in sections; every section is a definition here that
  returns the checks it pushes, and \<open>verify\<close> appends them in the source's order with its two early
  returns. A section threads the outside world but cannot fail.
\<close>

section \<open>Checks\<close>

datatype status = Pass | Fail | Skip

record check =
  check_name :: string
  check_status :: status
  check_detail :: string

definition check_pass :: "string \<Rightarrow> string \<Rightarrow> check" where
  "check_pass name detail = \<lparr>check_name = name, check_status = Pass, check_detail = detail\<rparr>"

definition check_fail :: "string \<Rightarrow> string \<Rightarrow> check" where
  "check_fail name detail = \<lparr>check_name = name, check_status = Fail, check_detail = detail\<rparr>"

definition check_skip :: "string \<Rightarrow> string \<Rightarrow> check" where
  "check_skip name detail = \<lparr>check_name = name, check_status = Skip, check_detail = detail\<rparr>"

lemmas check_defs = check_pass_def check_fail_def check_skip_def

datatype gate_outcome = Allowed | Denied contract_revert

type_synonym ('w, 'a) probe = "'w \<Rightarrow> 'a \<times> 'w"

section \<open>Simulated calls\<close>

definition no_output :: string where
  "no_output = ''stellar CLI failed without output''"

definition view ::
  "'w cli_host \<Rightarrow> string \<Rightarrow> string \<Rightarrow> string \<Rightarrow> string \<Rightarrow> (string \<times> string) list \<Rightarrow> ('w, string) action" where
  "view C source_account contract_id network func params w =
     (let args = view_args source_account contract_id network func params in
      case run_stellar C w args of
        (Inl err, w) \<Rightarrow> (Inl err, w)
      | (Inr r, w) \<Rightarrow>
          if run_ok r
          then (Inr (case outcome_value r of None \<Rightarrow> [] | Some v \<Rightarrow> v), w)
          else
            (let s = combined r in
             case decode_contract_error s of
               Some revert \<Rightarrow> (Inl (describe revert), w)
             | None \<Rightarrow> (Inl (case last_nonempty s of Some l \<Rightarrow> l | None \<Rightarrow> no_output), w)))"

definition gate ::
  "'w cli_host \<Rightarrow> string \<Rightarrow> string \<Rightarrow> string \<Rightarrow> string \<Rightarrow> (string \<times> string) list
     \<Rightarrow> ('w, gate_outcome) action" where
  "gate C source_account contract_id network func params w =
     (let args = view_args source_account contract_id network func params in
      case run_stellar C w args of
        (Inl err, w) \<Rightarrow> (Inl err, w)
      | (Inr r, w) \<Rightarrow>
          if run_ok r then (Inr Allowed, w)
          else
            (let s = combined r in
             case decode_contract_error s of
               Some revert \<Rightarrow> (Inr (Denied revert), w)
             | None \<Rightarrow> (Inl (case last_nonempty s of Some l \<Rightarrow> l | None \<Rightarrow> no_output), w)))"

definition unquote :: "string \<Rightarrow> string" where
  "unquote s = trim_quotes (text_trim s)"

section \<open>The sections of \<^verbatim>\<open>verify\<close>\<close>

definition check_initialized :: "string \<Rightarrow> check" where
  "check_initialized initialized =
     (if unquote initialized = ''true''
      then check_pass ''initialized'' (''initialize has run '' @ EM_DASH @ '' the admin seat is claimed'')
      else check_fail ''initialized''
        (''initialized returned '' @ debug_text (unquote initialized) @
         '': initialize never ran, so every hook fails closed''))"

definition check_admin :: "'w cli_host \<Rightarrow> deployment \<Rightarrow> string \<Rightarrow> ('w, check list) probe" where
  "check_admin C cfg source_account w =
     (case view C source_account (dep_hooks_contract_id cfg) (dep_network cfg) ''admin'' [] w of
        (Inr raw, w) \<Rightarrow>
          (let admin = unquote raw in
           ([if admin = admin_public_key (dep_admin cfg)
             then check_pass ''admin matches the config'' (''on-chain admin '' @ admin)
             else check_fail ''admin matches the config''
               (''config records '' @ admin_public_key (dep_admin cfg) @ '' but the contract reports '' @ admin @
                '' '' @ EM_DASH @ '' one of the two is stale'')], w))
      | (Inl err, w) \<Rightarrow> ([check_fail ''admin matches the config'' err], w))"

definition check_recorded_policy :: "deployment \<Rightarrow> string option \<Rightarrow> check list" where
  "check_recorded_policy cfg policy =
     (case (policy, dep_policy cfg) of
        (Some live, Some recorded) \<Rightarrow>
          if live \<noteq> policy_contract_id recorded
          then [check_fail ''recorded policy matches the contract''
                  (''config records '' @ policy_contract_id recorded @ '' but the contract uses '' @ live @ '' '' @
                   EM_DASH @ '' update the deployment record'')]
          else [check_pass ''recorded policy matches the contract'' (''both name '' @ live)]
      | _ \<Rightarrow> [])"

definition check_config ::
  "'w cli_host \<Rightarrow> json_codec \<Rightarrow> deployment \<Rightarrow> string \<Rightarrow> ('w, bool \<times> check list) probe" where
  "check_config C J cfg source_account w =
     (case view C source_account (dep_hooks_contract_id cfg) (dep_network cfg) ''config'' [] w of
        (Inr raw, w) \<Rightarrow>
          if unquote raw = ''null'' \<or> text_trim raw = []
          then ((False, [check_fail ''compliance configuration present''
            ''set_config has never run: the contract is inert and every hook reverts #9 (invalid_configuration)'']), w)
          else
            (let policy = json_policy_field J raw;
                 described = (case policy of
                     Some i \<Rightarrow> ''policy gate '' @ ARROW @ '' '' @ i
                   | None \<Rightarrow> ''no policy gate (fail-closed on bindings and freeze only)'')
             in ((True, check_pass ''compliance configuration present'' described #
                    check_recorded_policy cfg policy), w))
      | (Inl err, w) \<Rightarrow> ((False, [check_fail ''compliance configuration present'' err]), w))"

definition check_version :: "string \<Rightarrow> string \<Rightarrow> u32 \<Rightarrow> string \<Rightarrow> check" where
  "check_version func label floor_value raw =
     (case parse_u32 (text_trim raw) of
        Some version \<Rightarrow>
          if floor_value \<le> version then check_pass label (func @ '' = '' @ u32_text version)
          else check_fail label
            (func @ '' = '' @ u32_text version @ '', expected '' @ AT_LEAST @ '' '' @ u32_text floor_value)
      | None \<Rightarrow>
          check_fail label (func @ '' returned '' @ debug_text (text_trim raw) @ '', which is not a u32''))"

fun check_versions ::
  "'w cli_host \<Rightarrow> deployment \<Rightarrow> string \<Rightarrow> (string \<times> string \<times> u32) list \<Rightarrow> ('w, check list) probe" where
  "check_versions C cfg source_account [] w = ([], w)"
| "check_versions C cfg source_account ((func, label, floor_value) # rest) w =
     (case view C source_account (dep_hooks_contract_id cfg) (dep_network cfg) func [] w of
        (Inr raw, w) \<Rightarrow>
          (case check_versions C cfg source_account rest w of
             (cs, w) \<Rightarrow> (check_version func label floor_value raw # cs, w))
      | (Inl err, w) \<Rightarrow>
          (case check_versions C cfg source_account rest w of (cs, w) \<Rightarrow> (check_fail label err # cs, w)))"

definition version_floors :: "(string \<times> string \<times> u32) list" where
  "version_floors =
     [(''config_version'', ''config_version'', 1), (''state_version'', ''state_version'', 1)]"

definition check_binding :: "token_entry \<Rightarrow> string + string \<Rightarrow> check" where
  "check_binding t answer =
     (let name = ''token '' @ token_alias t @ '' bound'' in
      case answer of
        Inr val \<Rightarrow>
          if unquote val = ''true''
          then check_pass name (token_contract_id t @ '' is in enforcement scope'')
          else check_fail name
            (''token_is_bound returned '' @ debug_text (unquote val) @ '' for '' @ token_contract_id t @ '' '' @
             EM_DASH @ '' the token is not gated, so its operations are not screened'')
      | Inl err \<Rightarrow> check_fail name err)"

fun check_bindings ::
  "'w cli_host \<Rightarrow> deployment \<Rightarrow> string \<Rightarrow> token_entry list \<Rightarrow> ('w, check list) probe" where
  "check_bindings C cfg source_account [] w = ([], w)"
| "check_bindings C cfg source_account (t # ts) w =
     (case view C source_account (dep_hooks_contract_id cfg) (dep_network cfg) ''token_is_bound''
             [(''token'', address_param (token_contract_id t))] w of
        (answer, w) \<Rightarrow>
          (case check_bindings C cfg source_account ts w of (cs, w) \<Rightarrow> (check_binding t answer # cs, w)))"

definition check_tokens :: "'w cli_host \<Rightarrow> deployment \<Rightarrow> string \<Rightarrow> ('w, check list) probe" where
  "check_tokens C cfg source_account w =
     (case check_bindings C cfg source_account (dep_tokens cfg) w of
        (cs, w) \<Rightarrow>
          ((if dep_tokens cfg = [] then [check_skip ''token bindings'' ''no tokens listed in the config''] else []) @ cs, w))"

definition judge_probe :: "string \<Rightarrow> string + gate_outcome \<Rightarrow> check" where
  "judge_probe probe answer =
     (case answer of
        Inr Allowed \<Rightarrow>
          check_fail ''fail-closed probe''
            (''the contract allowed before_transfer on unbound token '' @ probe @ '' '' @ EM_DASH @
             '' fail-closed is broken (docs/security.md)'')
      | Inr (Denied (Rejection reason)) \<Rightarrow>
          (let expected = (reason_name reason = ''unbound_token'');
               detail = ''before_transfer on unbound token '' @ probe @ '' refused with #'' @
                 u32_text (reason_code reason) @ '' '' @ reason_name reason
           in if expected then check_pass ''fail-closed probe'' detail
              else check_fail ''fail-closed probe'' (detail @ '' '' @ EM_DASH @ '' expected #2 unbound_token''))
      | Inr (Denied revert) \<Rightarrow>
          check_fail ''fail-closed probe'' (''unexpected refusal: '' @ describe revert)
      | Inl err \<Rightarrow> check_fail ''fail-closed probe'' err)"

definition check_probe :: "'w cli_host \<Rightarrow> deployment \<Rightarrow> string \<Rightarrow> ('w, check list) probe" where
  "check_probe C cfg source_account w =
     (let hooks = dep_hooks_contract_id cfg; network = dep_network cfg;
          probe = admin_public_key (dep_admin cfg) in
      case view C source_account hooks network ''token_is_bound'' [(''token'', address_param probe)] w of
        (Inr val, w) \<Rightarrow>
          if unquote val = ''true''
          then ([check_fail ''fail-closed probe''
                  (''the admin address '' @ probe @ '' is bound as a token, so it cannot serve as the unbound probe '' @
                   EM_DASH @ '' investigate why an admin key entered enforcement scope'')], w)
          else
            (case gate C source_account hooks network ''before_transfer''
                    [(''token'', address_param probe), (''from'', address_param probe), (''to'', address_param probe)] w of
               (answer, w) \<Rightarrow> ([judge_probe probe answer], w))
      | (Inl err, w) \<Rightarrow> ([check_fail ''fail-closed probe'' err], w))"

definition judge_sample :: "token_entry \<Rightarrow> string \<Rightarrow> string + gate_outcome \<Rightarrow> check" where
  "judge_sample t account answer =
     (let name = ''gate sample on '' @ token_alias t in
      case answer of
        Inr Allowed \<Rightarrow> check_pass name (''before_transfer('' @ account @ '') allowed'')
      | Inr (Denied (Rejection reason)) \<Rightarrow>
          (let undecidable = (reason = InvalidConfiguration \<or> reason = PolicyUnavailable);
               detail = ''the gate refused #'' @ u32_text (reason_code reason) @ '' '' @ reason_name reason
           in if undecidable
              then check_fail name (detail @ '' '' @ EM_DASH @ '' enforcement cannot reach a decision'')
              else check_pass name (detail @ '' '' @ EM_DASH @ '' the gate is live and refusing''))
      | Inr (Denied revert) \<Rightarrow> check_fail name (''unexpected refusal: '' @ describe revert)
      | Inl err \<Rightarrow> check_fail name err)"

fun check_samples ::
  "'w cli_host \<Rightarrow> deployment \<Rightarrow> string \<Rightarrow> string \<Rightarrow> token_entry list \<Rightarrow> ('w, check list) probe" where
  "check_samples C cfg source_account account [] w = ([], w)"
| "check_samples C cfg source_account account (t # ts) w =
     (case gate C source_account (dep_hooks_contract_id cfg) (dep_network cfg) ''before_transfer''
             [(''token'', address_param (token_contract_id t)), (''from'', address_param account),
              (''to'', address_param account)] w of
        (answer, w) \<Rightarrow>
          (case check_samples C cfg source_account account ts w of
             (cs, w) \<Rightarrow> (judge_sample t account answer # cs, w)))"

definition check_sample ::
  "'w cli_host \<Rightarrow> deployment \<Rightarrow> string \<Rightarrow> string option \<Rightarrow> bool \<Rightarrow> ('w, check list) probe" where
  "check_sample C cfg source_account account configured w =
     (case account of
        None \<Rightarrow>
          ([check_skip ''gate sample''
             (''pass --account G'' @ ELLIPSIS @ '' to observe a real enforcement decision'')], w)
      | Some account \<Rightarrow>
          if \<not> configured then ([check_skip ''gate sample'' ''no compliance configuration to sample''], w)
          else check_samples C cfg source_account account (dep_tokens cfg) w)"

definition verify ::
  "'w cli_host \<Rightarrow> json_codec \<Rightarrow> deployment \<Rightarrow> string \<Rightarrow> string option \<Rightarrow> ('w, check list) probe" where
  "verify C J cfg source_account account w =
     (let hooks = dep_hooks_contract_id cfg; network = dep_network cfg in
      case view C source_account hooks network ''initialized'' [] w of
        (Inl err, w) \<Rightarrow> ([check_fail ''contract reachable'' err], w)
      | (Inr initialized, w) \<Rightarrow>
          (let reachable = [check_pass ''contract reachable'' (hooks @ '' answered on '' @ network)];
               started = [check_initialized initialized];
               (admin, w) = check_admin C cfg source_account w;
               ((configured, config), w) = check_config C J cfg source_account w;
               (versions, w) = check_versions C cfg source_account version_floors w;
               (tokens, w) = check_tokens C cfg source_account w;
               (probe, w) = check_probe C cfg source_account w;
               (sample, w) = check_sample C cfg source_account account configured w
           in (reachable @ started @ admin @ config @ versions @ tokens @ probe @ sample, w)))"

section \<open>The report\<close>

definition status_tag :: "status \<Rightarrow> string" where
  "status_tag s = (case s of Pass \<Rightarrow> ''PASS'' | Fail \<Rightarrow> ''FAIL'' | Skip \<Rightarrow> ''SKIP'')"

definition count_status :: "status \<Rightarrow> check list \<Rightarrow> nat" where
  "count_status s cs = length (filter (\<lambda>c. check_status c = s) cs)"

definition print_check :: "'w cli_host \<Rightarrow> check \<Rightarrow> ('w, unit) action" where
  "print_check C c =
     and_do (println C (''  '' @ status_tag (check_status c) @ ''  '' @ check_name c))
       (\<lambda>_. if check_detail c \<noteq> [] then println C (''        '' @ check_detail c) else done_with ())"

definition print_report ::
  "'w cli_host \<Rightarrow> check list \<Rightarrow> deployment \<Rightarrow> string \<Rightarrow> ('w, unit) action" where
  "print_report C cs cfg source_account =
     and_do (println C (''safeguard-hooks verify '' @ EM_DASH @ '' read-only, no secret key'')) (\<lambda>_.
     and_do (println C (''network: '' @ dep_network cfg)) (\<lambda>_.
     and_do (println C (''hooks contract: '' @ dep_hooks_contract_id cfg)) (\<lambda>_.
     and_do (println C (''source account: '' @ source_account @ '' (simulated, never signs)'')) (\<lambda>_.
     and_do (println C []) (\<lambda>_.
     and_do (for_each cs (print_check C)) (\<lambda>_.
     and_do (println C []) (\<lambda>_.
     println C (nat_text (count_status Pass cs) @ '' passed, '' @ nat_text (count_status Fail cs) @ '' failed, '' @
       nat_text (count_status Skip cs) @ '' skipped''))))))))"

section \<open>What the smoke test does to the outside\<close>

text \<open>A view argument vector of a deployment, simulated from \<open>source_account\<close>.\<close>

definition is_view_of :: "deployment \<Rightarrow> string \<Rightarrow> effect \<Rightarrow> bool" where
  "is_view_of cfg source_account ef \<longleftrightarrow>
     (case ef of
        Ran args _ \<Rightarrow>
          take 10 args = [''contract'', ''invoke'', ''--id'', dep_hooks_contract_id cfg, ''--source-account'',
            source_account, ''--send=no'', ''--network'', dep_network cfg, ''--'']
      | _ \<Rightarrow> False)"

lemma view_args_is_view:
  "is_view_of cfg source_account
     (Ran (view_args source_account (dep_hooks_contract_id cfg) (dep_network cfg) func params) r)"
  by (simp add: is_view_of_def view_args_def)

lemma view_does:
  "only_does (is_view_of cfg source_account)
     (view (recording C) source_account (dep_hooks_contract_id cfg) (dep_network cfg) func params)"
  unfolding view_def Let_def
  by (intro only_does_bind only_does_run only_does_sum view_args_is_view)
    (auto simp: only_does_def split: option.splits)

lemma gate_does:
  "only_does (is_view_of cfg source_account)
     (gate (recording C) source_account (dep_hooks_contract_id cfg) (dep_network cfg) func params)"
  unfolding gate_def Let_def
  by (intro only_does_bind only_does_run only_does_sum view_args_is_view)
    (auto simp: only_does_def split: option.splits)

lemma check_versions_does:
  "only_does (is_view_of cfg source_account) (check_versions (recording C) cfg source_account fs)"
proof (induction fs)
  case Nil
  have "check_versions (recording C) cfg source_account [] = (\<lambda>w. ([], w))" by (simp add: fun_eq_iff)
  then show ?case by simp
next
  case (Cons f fs)
  obtain func label floor_value where f: "f = (func, label, floor_value)" by (cases f)
  show ?case
    unfolding f check_versions.simps [abs_def]
    by (intro only_does_bind only_does_sum view_does Cons.IH only_does_return)
qed

lemma check_bindings_does:
  "only_does (is_view_of cfg source_account) (check_bindings (recording C) cfg source_account ts)"
proof (induction ts)
  case Nil
  have "check_bindings (recording C) cfg source_account [] = (\<lambda>w. ([], w))" by (simp add: fun_eq_iff)
  then show ?case by simp
next
  case (Cons t ts)
  show ?case
    unfolding check_bindings.simps [abs_def]
    by (intro only_does_bind view_does Cons.IH only_does_return)
qed

lemma check_samples_does:
  "only_does (is_view_of cfg source_account) (check_samples (recording C) cfg source_account account ts)"
proof (induction ts)
  case Nil
  have "check_samples (recording C) cfg source_account account [] = (\<lambda>w. ([], w))" by (simp add: fun_eq_iff)
  then show ?case by simp
next
  case (Cons t ts)
  show ?case
    unfolding check_samples.simps [abs_def]
    by (intro only_does_bind gate_does Cons.IH only_does_return)
qed

lemma check_admin_does:
  "only_does (is_view_of cfg source_account) (check_admin (recording C) cfg source_account)"
  unfolding check_admin_def [abs_def] Let_def
  by (intro only_does_bind only_does_sum view_does only_does_return)

lemma check_config_does:
  "only_does (is_view_of cfg source_account) (check_config (recording C) J cfg source_account)"
  unfolding check_config_def [abs_def] Let_def
  by (intro only_does_bind only_does_sum view_does) (auto simp: only_does_def)

lemma check_tokens_does:
  "only_does (is_view_of cfg source_account) (check_tokens (recording C) cfg source_account)"
  unfolding check_tokens_def [abs_def] by (intro only_does_bind check_bindings_does only_does_return)

lemma only_does_if:
  "only_does P m \<Longrightarrow> only_does P n \<Longrightarrow> only_does P (\<lambda>w. if b then m w else n w)"
  by (cases b) simp_all

lemma only_does_pair:
  "(\<And>x y. only_does P (k x y)) \<Longrightarrow> only_does P (case p of (x, y) \<Rightarrow> k x y)"
  by (cases p) simp

lemma check_probe_does:
  "only_does (is_view_of cfg source_account) (check_probe (recording C) cfg source_account)"
  unfolding check_probe_def [abs_def] Let_def
  by (intro only_does_bind only_does_sum only_does_if view_does gate_does only_does_return)

lemma check_sample_does:
  "only_does (is_view_of cfg source_account) (check_sample (recording C) cfg source_account account configured)"
  by (cases account; cases configured)
    (simp_all add: check_sample_def [abs_def] check_samples_does [unfolded eta_contract_eq])

lemma verify_does:
  "only_does (is_view_of cfg source_account) (verify (recording C) J cfg source_account account)"
  unfolding verify_def [abs_def] Let_def
  by (intro only_does_bind only_does_sum only_does_return view_does check_admin_does check_config_does
      check_versions_does check_tokens_does check_probe_does check_sample_does only_does_pair)

end
