(* ===== verification/Cli_App.thy ===== *)
theory Cli_App
  imports Cli_Verify
begin

text \<open>
  The command surface of the operator CLI, \<^verbatim>\<open>cli/src/main.rs\<close>: the parsed command line, the admin
  commands and reads of \<^verbatim>\<open>App\<close>, the one-command bring-up \<^verbatim>\<open>run_deploy\<close>, the network registration and
  the routing of \<^verbatim>\<open>run\<close> and \<^verbatim>\<open>main\<close>. Parsing the arguments is \<^verbatim>\<open>clap\<close>'s; the model starts from its
  result.
\<close>

section \<open>The parsed command line\<close>

record deploy_options =
  opt_hooks_wasm :: string
  opt_sample_policy_wasm :: "string option"
  opt_policy_blocked :: "string option"
  opt_policy_id :: "string option"
  opt_no_policy :: bool
  opt_sac_passthrough :: "bool option"
  opt_save :: bool

datatype command =
    Init
  | Configure "string option" bool "bool option"
  | Bind string "string option"
  | Unbind string
  | FreezeCmd string string
  | UnfreezeCmd string string
  | DeployCmd deploy_options
  | Show "string option" "string option"
  | Verify "string option" "string option"
  | Errors "u32 option"

record cli =
  cli_config :: string
  cli_source :: "string option"
  cli_stellar_bin :: string
  cli_command :: command

record app =
  app_config :: deployment
  app_config_path :: string
  app_source :: string

section \<open>Invocations\<close>

definition app_invoke ::
  "'w cli_host \<Rightarrow> app \<Rightarrow> string \<Rightarrow> (string \<times> string) list \<Rightarrow> ('w, string option) action" where
  "app_invoke C A func params =
     and_do (\<lambda>w. run_stellar C w (invoke_args (Some (app_source A)) (dep_hooks_contract_id (app_config A))
                                    (dep_network (app_config A)) func params))
       (\<lambda>r. lift_result (interpret_outcome r))"

definition app_read ::
  "'w cli_host \<Rightarrow> app \<Rightarrow> string \<Rightarrow> (string \<times> string) list \<Rightarrow> ('w, string option) action" where
  "app_read C A func params = app_invoke C A func params"

definition send_raw :: "'w cli_host \<Rightarrow> string list \<Rightarrow> ('w, run_outcome) action" where
  "send_raw C args =
     and_do (\<lambda>w. run_stellar C w args)
       (\<lambda>r. if run_ok r then done_with r
            else fail_with (case interpret_outcome r of Inl msg \<Rightarrow> msg | Inr _ \<Rightarrow> ''stellar CLI failed''))"

section \<open>Admin commands\<close>

definition app_init :: "'w cli_host \<Rightarrow> app \<Rightarrow> ('w, unit) action" where
  "app_init C A =
     (let admin = admin_public_key (dep_admin (app_config A)) in
      and_do (app_invoke C A ''initialize'' [(''admin'', address_param admin)])
        (\<lambda>_. println C (''initialized with admin '' @ admin)))"

definition policy_line :: "string option \<Rightarrow> bool \<Rightarrow> string" where
  "policy_line pol sac = (case pol of
      Some i \<Rightarrow> ''policy set to '' @ i @ ''; sac_passthrough='' @ bool_text sac
    | None \<Rightarrow> ''policy gate disabled; sac_passthrough='' @ bool_text sac)"

definition app_configure :: "'w cli_host \<Rightarrow> app \<Rightarrow> string option \<Rightarrow> bool \<Rightarrow> ('w, unit) action" where
  "app_configure C A pol sac =
     and_do (app_invoke C A ''set_config''
               [(''policy'', opt_address pol), (''sac_passthrough'', boolean_param sac)])
       (\<lambda>_. println C (policy_line pol sac))"

definition app_bind :: "'w cli_host \<Rightarrow> app \<Rightarrow> string \<Rightarrow> string option \<Rightarrow> ('w, unit) action" where
  "app_bind C A tk sac =
     and_do (lift_result (resolve_token (app_config A) tk)) (\<lambda>i.
       let sac = (case sac of Some s \<Rightarrow> Some s | None \<Rightarrow> sac_for (app_config A) tk) in
       and_do (app_invoke C A ''bind_token'' [(''token'', address_param i), (''sac'', opt_address sac)])
         (\<lambda>_. println C (''bound '' @ i)))"

definition app_unbind :: "'w cli_host \<Rightarrow> app \<Rightarrow> string \<Rightarrow> ('w, unit) action" where
  "app_unbind C A tk =
     and_do (lift_result (resolve_token (app_config A) tk)) (\<lambda>i.
       and_do (app_invoke C A ''unbind_token'' [(''token'', address_param i)])
         (\<lambda>_. println C (''unbound '' @ i)))"

definition app_freeze_op :: "'w cli_host \<Rightarrow> app \<Rightarrow> string \<Rightarrow> string \<Rightarrow> string \<Rightarrow> ('w, unit) action" where
  "app_freeze_op C A func tk account =
     and_do (lift_result (resolve_token (app_config A) tk)) (\<lambda>i.
       and_do (app_invoke C A func [(''token'', address_param i), (''account'', address_param account)])
         (\<lambda>_. println C ((if func = ''freeze'' then ''froze'' else ''unfroze'') @ '' '' @ account @ '' on '' @ i)))"

definition app_freeze :: "'w cli_host \<Rightarrow> app \<Rightarrow> string \<Rightarrow> string \<Rightarrow> ('w, unit) action" where
  "app_freeze C A tk account = app_freeze_op C A ''freeze'' tk account"

definition app_unfreeze :: "'w cli_host \<Rightarrow> app \<Rightarrow> string \<Rightarrow> string \<Rightarrow> ('w, unit) action" where
  "app_unfreeze C A tk account = app_freeze_op C A ''unfreeze'' tk account"

section \<open>Reads\<close>

definition value_or :: "string option \<Rightarrow> string \<Rightarrow> string" where
  "value_or v fallback = (case v of Some s \<Rightarrow> if s = [] then fallback else s | None \<Rightarrow> fallback)"

definition show_target :: "'w cli_host \<Rightarrow> app \<Rightarrow> string option \<Rightarrow> string \<Rightarrow> ('w, unit) action" where
  "show_target C A account i =
     and_do (app_read C A ''token_is_bound'' [(''token'', address_param i)]) (\<lambda>bound.
     and_do (println C (''token '' @ i @ '': bound='' @ value_or bound ''?'')) (\<lambda>_.
       case account of
         None \<Rightarrow> done_with ()
       | Some acc \<Rightarrow>
           and_do (app_read C A ''is_frozen'' [(''token'', address_param i), (''account'', address_param acc)]) (\<lambda>frozen.
             println C (''  frozen('' @ acc @ '')='' @ value_or frozen ''?''))))"

definition app_show :: "'w cli_host \<Rightarrow> app \<Rightarrow> string option \<Rightarrow> string option \<Rightarrow> ('w, unit) action" where
  "app_show C A tk account =
     and_do (println C (''hooks contract: '' @ dep_hooks_contract_id (app_config A))) (\<lambda>_.
     and_do (println C (''network: '' @ dep_network (app_config A))) (\<lambda>_.
     and_do (app_read C A ''initialized'' []) (\<lambda>initialized.
     and_do (println C (''initialized: '' @ value_or initialized ''?'')) (\<lambda>_.
     and_do (app_read C A ''admin'' []) (\<lambda>admin.
     and_do (println C (case admin of
               None \<Rightarrow> ''admin: (none)''
             | Some a \<Rightarrow> if a = ''null'' then ''admin: (none)'' else ''admin: '' @ a)) (\<lambda>_.
     and_do (app_read C A ''config'' []) (\<lambda>config.
     and_do (println C (case config of
               None \<Rightarrow> ''config: null (enforcement off '' @ EM_DASH @ '' hooks fail closed)''
             | Some c \<Rightarrow> if c = ''null'' then ''config: null (enforcement off '' @ EM_DASH @ '' hooks fail closed)''
                         else ''config: '' @ c)) (\<lambda>_.
     and_do (app_read C A ''config_version'' []) (\<lambda>version.
     and_do (println C (''config_version: '' @ value_or version ''?'')) (\<lambda>_.
       case tk of
         Some t \<Rightarrow>
           and_do (lift_result (resolve_token (app_config A) t)) (\<lambda>i. for_each [i] (show_target C A account))
       | None \<Rightarrow>
           if dep_tokens (app_config A) = [] then println C ''tokens: none configured''
           else for_each (map token_contract_id (dep_tokens (app_config A))) (show_target C A account)))))))))))"

section \<open>Bring-up\<close>

definition hooks_invoke ::
  "'w cli_host \<Rightarrow> string \<Rightarrow> string \<Rightarrow> string \<Rightarrow> string \<Rightarrow> (string \<times> string) list \<Rightarrow> ('w, unit) action" where
  "hooks_invoke C source hooks_id network func params =
     and_do (\<lambda>w. run_stellar C w (invoke_args (Some source) hooks_id network func params))
       (\<lambda>r. and_do (lift_result (interpret_outcome r)) (\<lambda>_. done_with ()))"

definition deploy_hooks :: "'w cli_host \<Rightarrow> deployment \<Rightarrow> string \<Rightarrow> string \<Rightarrow> ('w, string) action" where
  "deploy_hooks C cfg source hooks_wasm w =
     (if \<not> path_exists C w hooks_wasm
      then fail_with (''hooks wasm not found at '' @ hooks_wasm @ '' '' @ EM_DASH @
        '' build it with `cargo build --target wasm32v1-none --release -p compliance-hooks`'') w
      else
        and_do (println C (''deploying compliance-hooks'' @ ELLIPSIS)) (\<lambda>_.
        and_do (send_raw C (deploy_args hooks_wasm source (dep_network cfg) [])) (\<lambda>out.
        and_do (lift_result (case parse_deployed_id (run_stdout out) of
                  Some i \<Rightarrow> Inr i
                | None \<Rightarrow> Inl ''could not parse the deployed hooks contract id'')) (\<lambda>hooks_id.
        and_do (println C (''deployed hooks: '' @ hooks_id)) (\<lambda>_. done_with hooks_id)))) w)"

definition resolve_policy ::
  "'w cli_host \<Rightarrow> deployment \<Rightarrow> string \<Rightarrow> string option \<Rightarrow> string option \<Rightarrow> string option \<Rightarrow> bool
     \<Rightarrow> ('w, string option) action" where
  "resolve_policy C cfg source sample_policy_wasm policy_blocked policy_id no_policy w =
     (if no_policy then done_with None w
      else (case policy_id of
        Some i \<Rightarrow> done_with (Some i) w
      | None \<Rightarrow>
          (case sample_policy_wasm of
             Some wasm \<Rightarrow>
               if \<not> path_exists C w wasm
               then fail_with (''sample-policy wasm not found at '' @ wasm @ '' '' @ EM_DASH @
                 '' build it with `cargo build --target wasm32v1-none --release -p sample-policy`'') w
               else
                 (let constructor = (case policy_blocked of
                        Some blocked \<Rightarrow> [(''blocked'', opt_address (Some blocked))] | None \<Rightarrow> [])
                  in and_do (send_raw C (deploy_args wasm source (dep_network cfg) constructor)) (\<lambda>out.
                     and_do (lift_result (case parse_deployed_id (run_stdout out) of
                               Some i \<Rightarrow> Inr i
                             | None \<Rightarrow> Inl ''could not parse the deployed policy contract id'')) (\<lambda>pid.
                     and_do (println C (''deployed policy: '' @ pid)) (\<lambda>_. done_with (Some pid)))) w)
           | None \<Rightarrow> done_with (map_option policy_contract_id (dep_policy cfg)) w)))"

definition bring_up ::
  "'w cli_host \<Rightarrow> deployment \<Rightarrow> string \<Rightarrow> string \<Rightarrow> string option \<Rightarrow> bool \<Rightarrow> ('w, unit) action" where
  "bring_up C cfg source hooks_id pol sac =
     (let send = hooks_invoke C source hooks_id (dep_network cfg);
          admin = admin_public_key (dep_admin cfg) in
      and_do (send ''initialize'' [(''admin'', address_param admin)]) (\<lambda>_.
      and_do (println C (''initialized with admin '' @ admin)) (\<lambda>_.
      and_do (send ''set_config'' [(''policy'', opt_address pol), (''sac_passthrough'', boolean_param sac)]) (\<lambda>_.
      and_do (println C (policy_line pol sac)) (\<lambda>_.
      for_each (dep_tokens cfg) (\<lambda>t.
        and_do (send ''bind_token'' [(''token'', address_param (token_contract_id t)),
                                     (''sac'', opt_address (token_sac_contract_id t))]) (\<lambda>_.
        println C (''bound token '' @ token_alias t))))))))"

definition recorded_config :: "deployment \<Rightarrow> string \<Rightarrow> string option \<Rightarrow> bool \<Rightarrow> deployment" where
  "recorded_config cfg hooks_id pol sac =
     cfg\<lparr>dep_hooks_contract_id := hooks_id,
         dep_policy := map_option (\<lambda>i. \<lparr>policy_contract_id = i\<rparr>) pol,
         dep_sac_passthrough := sac\<rparr>"

definition run_deploy ::
  "'w cli_host \<Rightarrow> json_codec \<Rightarrow> deployment \<Rightarrow> string option \<Rightarrow> string \<Rightarrow> string \<Rightarrow> string option \<Rightarrow> string option
     \<Rightarrow> string option \<Rightarrow> bool \<Rightarrow> bool option \<Rightarrow> ('w, unit) action" where
  "run_deploy C J cfg config_path source hooks_wasm sample_policy_wasm policy_blocked policy_id no_policy
     sac_passthrough =
     and_do (deploy_hooks C cfg source hooks_wasm) (\<lambda>hooks_id.
     and_do (resolve_policy C cfg source sample_policy_wasm policy_blocked policy_id no_policy) (\<lambda>pol.
     let sac = (case sac_passthrough of Some b \<Rightarrow> b | None \<Rightarrow> dep_sac_passthrough cfg) in
     and_do (bring_up C cfg source hooks_id pol sac) (\<lambda>_.
       case config_path of
         Some path \<Rightarrow>
           and_do (config_save C J (recorded_config cfg hooks_id pol sac) path) (\<lambda>_.
             println C (''config updated: '' @ path))
       | None \<Rightarrow>
           println C (''config not modified '' @ EM_DASH @ '' rerun with --save to record '' @ hooks_id @
             '' as the hooks contract''))))"

section \<open>Network registration\<close>

definition ensure_network :: "'w cli_host \<Rightarrow> deployment \<Rightarrow> ('w, unit) action" where
  "ensure_network C cfg =
     and_do (\<lambda>w. run_stellar C w network_list_args) (\<lambda>listed.
       if \<not> run_ok listed
       then fail_with (''cannot list stellar networks '' @ EM_DASH @ '' is the stellar CLI configured?'')
       else if list_ex (\<lambda>line. text_trim line = dep_network cfg) (text_lines (run_stdout listed))
       then done_with ()
       else
         and_do (\<lambda>w. run_stellar C w
                   (network_add_args (dep_network cfg) (dep_rpc_url cfg) (dep_network_passphrase cfg))) (\<lambda>added.
           if \<not> run_ok added
           then fail_with (''network '' @ dep_network cfg @ '' is not registered and could not be added: '' @
             text_trim (run_stderr added))
           else done_with ()))"

section \<open>Offline reference\<close>

definition print_errors :: "'w cli_host \<Rightarrow> u32 option \<Rightarrow> ('w, unit) action" where
  "print_errors C code =
     (case code of
        Some c \<Rightarrow> println C (describe (revert_from_code c))
      | None \<Rightarrow>
          and_do (println C ''Rejection codes (docs/errors.md):'') (\<lambda>_.
          and_do (for_each ALL_REASONS (\<lambda>reason.
            println C (''  '' @ pad_left_2 (u32_text (reason_code reason)) @ ''  '' @ reason_name reason))) (\<lambda>_.
          println C ''  12  already_initialized (contract-only)'')))"

section \<open>Routing\<close>

definition run_verify ::
  "'w cli_host \<Rightarrow> json_codec \<Rightarrow> deployment \<Rightarrow> string option \<Rightarrow> string option \<Rightarrow> ('w, unit) action" where
  "run_verify C J cfg source_account account =
     (let source_account = (case source_account of Some s \<Rightarrow> s | None \<Rightarrow> admin_public_key (dep_admin cfg)) in
      if \<not> is_stellar_address source_account
      then fail_with (''verify simulates from a bare public key, but '' @ debug_text source_account @
        '' is not a 56-character G'' @ ELLIPSIS @ '' address '' @ EM_DASH @
        '' pass --source-account, or set a real admin.public_key in the config'')
      else if \<exists>a\<in>set_option account. \<not> is_stellar_address a
      then fail_with (''--account must be a 56-character G'' @ ELLIPSIS @ '' address, got '' @ debug_text (the account))
      else
        and_do (ensure_network C cfg) (\<lambda>_.
        and_do (\<lambda>w. case verify C J cfg source_account account w of (cs, w) \<Rightarrow> (Inr cs, w)) (\<lambda>cs.
        and_do (print_report C cs cfg source_account) (\<lambda>_.
          let failed = count_status Fail cs in
          if 0 < failed
          then fail_with (''deployment verification failed: '' @ nat_text failed @ '' of '' @
            nat_text (length cs) @ '' checks failed'')
          else done_with ()))))"

definition run_admin :: "'w cli_host \<Rightarrow> json_codec \<Rightarrow> app \<Rightarrow> command \<Rightarrow> ('w, unit) action" where
  "run_admin C J A cmd =
     (case cmd of
        Init \<Rightarrow> app_init C A
      | Configure pol no_policy sac_passthrough \<Rightarrow>
          (let pol = (if no_policy then None
                      else (case pol of
                        Some i \<Rightarrow> Some i
                      | None \<Rightarrow> map_option policy_contract_id (dep_policy (app_config A))));
               sac = (case sac_passthrough of Some b \<Rightarrow> b | None \<Rightarrow> dep_sac_passthrough (app_config A))
           in app_configure C A pol sac)
      | Bind tk sac \<Rightarrow> app_bind C A tk sac
      | Unbind tk \<Rightarrow> app_unbind C A tk
      | FreezeCmd tk account \<Rightarrow> app_freeze C A tk account
      | UnfreezeCmd tk account \<Rightarrow> app_unfreeze C A tk account
      | DeployCmd opts \<Rightarrow>
          run_deploy C J (app_config A) (if opt_save opts then Some (app_config_path A) else None) (app_source A)
            (opt_hooks_wasm opts) (opt_sample_policy_wasm opts) (opt_policy_blocked opts) (opt_policy_id opts)
            (opt_no_policy opts) (opt_sac_passthrough opts)
      | Show tk account \<Rightarrow> app_show C A tk account
      | Verify _ _ \<Rightarrow> fail_with ''unreachable''
      | Errors _ \<Rightarrow> fail_with ''unreachable'')"

definition cli_run :: "'w cli_host \<Rightarrow> json_codec \<Rightarrow> cli \<Rightarrow> ('w, unit) action" where
  "cli_run C J args =
     (case cli_command args of
        Errors code \<Rightarrow> print_errors C code
      | Verify source_account account \<Rightarrow>
          and_do (config_load C J (cli_config args)) (\<lambda>cfg. run_verify C J cfg source_account account)
      | cmd \<Rightarrow>
          and_do (config_load C J (cli_config args)) (\<lambda>cfg.
          and_do (ensure_network C cfg) (\<lambda>_.
          and_do (\<lambda>w. (admin_source C w cfg (cli_source args), w)) (\<lambda>source.
          run_admin C J \<lparr>app_config = cfg, app_config_path = cli_config args, app_source = source\<rparr> cmd))))"

text \<open>\<^verbatim>\<open>main\<close>: the exit code and the line on standard error.\<close>

definition cli_main :: "'w cli_host \<Rightarrow> json_codec \<Rightarrow> cli \<Rightarrow> 'w \<Rightarrow> (nat \<times> string option) \<times> 'w" where
  "cli_main C J args w =
     (case cli_run C J args w of
        (Inr _, w) \<Rightarrow> ((0, None), w)
      | (Inl msg, w) \<Rightarrow> ((1, Some (CROSS_MARK @ '' '' @ msg)), w))"

end
