(* ===== verification/Cli_Health.thy ===== *)
theory Cli_Health
  imports Cli_App
begin

text \<open>
  What a report of the smoke test means. \<open>healthy\<close> states, about the answers of the simulated calls
  alone, what the checks establish of a deployment; \<open>verify_healthy\<close> shows that the report has no failing
  check exactly then, and \<open>verify_confirms\<close> when it has the line that confirms the policy. The results here are for a \<^verbatim>\<open>stellar\<close> binary that answers a
  given argument vector the same way each time (\<open>answers_purely\<close>), as simulations on one ledger do.
\<close>

section \<open>Reading an outcome\<close>

definition read_failure :: "run_outcome \<Rightarrow> string" where
  "read_failure r = (case last_nonempty (combined r) of Some l \<Rightarrow> l | None \<Rightarrow> no_output)"

definition read_view :: "string + run_outcome \<Rightarrow> string + string" where
  "read_view answer = (case answer of
      Inl err \<Rightarrow> Inl err
    | Inr r \<Rightarrow>
        if run_ok r then Inr (case outcome_value r of None \<Rightarrow> [] | Some v \<Rightarrow> v)
        else (case decode_contract_error (combined r) of
                Some revert \<Rightarrow> Inl (describe revert) | None \<Rightarrow> Inl (read_failure r)))"

definition read_gate :: "string + run_outcome \<Rightarrow> string + gate_outcome" where
  "read_gate answer = (case answer of
      Inl err \<Rightarrow> Inl err
    | Inr r \<Rightarrow>
        if run_ok r then Inr Allowed
        else (case decode_contract_error (combined r) of
                Some revert \<Rightarrow> Inr (Denied revert) | None \<Rightarrow> Inl (read_failure r)))"

lemma view_reads:
  "view C source_account contract_id network func params w =
    (case run_stellar C w (view_args source_account contract_id network func params) of
       (answer, w) \<Rightarrow> (read_view answer, w))"
  by (auto simp: view_def read_view_def read_failure_def Let_def split: prod.splits sum.splits option.splits)

lemma gate_reads:
  "gate C source_account contract_id network func params w =
    (case run_stellar C w (view_args source_account contract_id network func params) of
       (answer, w) \<Rightarrow> (read_gate answer, w))"
  by (auto simp: gate_def read_gate_def read_failure_def Let_def split: prod.splits sum.splits option.splits)

definition answers_purely :: "'w cli_host \<Rightarrow> (string list \<Rightarrow> string + run_outcome) \<Rightarrow> bool" where
  "answers_purely C ans \<longleftrightarrow> (\<forall>w args. run_stellar C w args = (ans args, w))"

text \<open>What the smoke test needs of it: at a world \<open>w\<close>, simulated calls answer and leave the world as it is.\<close>

definition views_purely :: "'w cli_host \<Rightarrow> (string list \<Rightarrow> string + run_outcome) \<Rightarrow> 'w \<Rightarrow> bool" where
  "views_purely C ans w \<longleftrightarrow>
     (\<forall>source_account contract_id network func params.
        run_stellar C w (view_args source_account contract_id network func params) =
          (ans (view_args source_account contract_id network func params), w))"

lemma views_purelyI: "answers_purely C ans \<Longrightarrow> views_purely C ans w"
  by (simp add: answers_purely_def views_purely_def)

section \<open>A healthy deployment\<close>

definition ask_view ::
  "(string list \<Rightarrow> string + run_outcome) \<Rightarrow> deployment \<Rightarrow> string \<Rightarrow> string \<Rightarrow> (string \<times> string) list
     \<Rightarrow> string + string" where
  "ask_view ans cfg source_account func params =
     read_view (ans (view_args source_account (dep_hooks_contract_id cfg) (dep_network cfg) func params))"

definition ask_transfer ::
  "(string list \<Rightarrow> string + run_outcome) \<Rightarrow> deployment \<Rightarrow> string \<Rightarrow> string \<Rightarrow> string \<Rightarrow> string + gate_outcome" where
  "ask_transfer ans cfg source_account tk account =
     read_gate (ans (view_args source_account (dep_hooks_contract_id cfg) (dep_network cfg) ''before_transfer''
       [(''token'', tk), (''from'', account), (''to'', account)]))"

definition says :: "string + string \<Rightarrow> (string \<Rightarrow> bool) \<Rightarrow> bool" where
  "says answer P = (case answer of Inr v \<Rightarrow> P v | Inl _ \<Rightarrow> False)"

definition decided :: "string + gate_outcome \<Rightarrow> bool" where
  "decided answer = (case answer of
      Inr Allowed \<Rightarrow> True
    | Inr (Denied (Rejection r)) \<Rightarrow> r \<noteq> InvalidConfiguration \<and> r \<noteq> PolicyUnavailable
    | _ \<Rightarrow> False)"

text \<open>
  What the policy section rejects is a conflict: two policies, the recorded one and the one in use, that
  differ. When the record or the contract names no policy there is nothing to compare, and the section
  adds no line; \<open>policy_confirmed\<close> below is the stronger fact that the comparison was made and succeeded.
\<close>

definition no_policy_conflict :: "deployment \<Rightarrow> string option \<Rightarrow> bool" where
  "no_policy_conflict cfg live = (case (live, dep_policy cfg) of
      (Some i, Some recorded) \<Rightarrow> i = policy_contract_id recorded | _ \<Rightarrow> True)"

definition healthy ::
  "(string list \<Rightarrow> string + run_outcome) \<Rightarrow> json_codec \<Rightarrow> deployment \<Rightarrow> string \<Rightarrow> string option \<Rightarrow> bool" where
  "healthy ans J cfg source_account account \<longleftrightarrow>
     (let ask = ask_view ans cfg source_account;
          transfer = ask_transfer ans cfg source_account;
          admin = admin_public_key (dep_admin cfg) in
      says (ask ''initialized'' []) (\<lambda>v. unquote v = ''true'') \<and>
      says (ask ''admin'' []) (\<lambda>v. unquote v = admin) \<and>
      says (ask ''config'' []) (\<lambda>v. unquote v \<noteq> ''null'' \<and> text_trim v \<noteq> [] \<and>
        no_policy_conflict cfg (json_policy_field J v)) \<and>
      (\<forall>func\<in>{''config_version'', ''state_version''}.
        says (ask func []) (\<lambda>v. case parse_u32 (text_trim v) of Some n \<Rightarrow> 1 \<le> n | None \<Rightarrow> False)) \<and>
      (\<forall>t\<in>set (dep_tokens cfg).
        says (ask ''token_is_bound'' [(''token'', token_contract_id t)]) (\<lambda>v. unquote v = ''true'')) \<and>
      says (ask ''token_is_bound'' [(''token'', admin)]) (\<lambda>v. unquote v \<noteq> ''true'') \<and>
      transfer admin admin = Inr (Denied (Rejection UnboundToken)) \<and>
      (\<forall>acc\<in>set_option account. \<forall>t\<in>set (dep_tokens cfg). decided (transfer (token_contract_id t) acc)))"

section \<open>Sections on a pure runner\<close>

definition no_failure :: "check list \<Rightarrow> bool" where
  "no_failure cs \<longleftrightarrow> (\<forall>c\<in>set cs. check_status c \<noteq> Fail)"

lemma no_failure_simps [simp]:
  "no_failure []"
  "no_failure (c # cs) \<longleftrightarrow> check_status c \<noteq> Fail \<and> no_failure cs"
  "no_failure (cs @ ds) \<longleftrightarrow> no_failure cs \<and> no_failure ds"
  by (auto simp: no_failure_def)

lemma no_failure_count: "no_failure cs \<longleftrightarrow> count_status Fail cs = 0"
  by (auto simp: no_failure_def count_status_def filter_empty_conv)

lemma check_status_simps [simp]:
  "check_status (check_pass n d) = Pass"
  "check_status (check_fail n d) = Fail"
  "check_status (check_skip n d) = Skip"
  by (simp_all add: check_defs)

lemma reason_name_unbound: "reason_name r = ''unbound_token'' \<longleftrightarrow> r = UnboundToken"
  by (cases r) simp_all

lemma judge_probe_status: "check_status (judge_probe p g) \<noteq> Fail \<longleftrightarrow> g = Inr (Denied (Rejection UnboundToken))"
  by (auto simp: judge_probe_def Let_def reason_name_unbound
      split: sum.splits gate_outcome.splits contract_revert.splits)

lemma judge_sample_status: "check_status (judge_sample t acc g) \<noteq> Fail \<longleftrightarrow> decided g"
  by (auto simp: judge_sample_def decided_def Let_def
      split: sum.splits gate_outcome.splits contract_revert.splits)

lemma check_initialized_status: "check_status (check_initialized v) \<noteq> Fail \<longleftrightarrow> unquote v = ''true''"
  by (simp add: check_initialized_def)

lemma check_version_status:
  "check_status (check_version func label n v) \<noteq> Fail \<longleftrightarrow>
     (case parse_u32 (text_trim v) of Some k \<Rightarrow> n \<le> k | None \<Rightarrow> False)"
  by (simp add: check_version_def split: option.splits)

lemma check_binding_status:
  "check_status (check_binding t answer) \<noteq> Fail \<longleftrightarrow> says answer (\<lambda>v. unquote v = ''true'')"
  by (simp add: check_binding_def says_def Let_def split: sum.splits)

lemma check_recorded_policy_status: "no_failure (check_recorded_policy cfg live) \<longleftrightarrow> no_policy_conflict cfg live"
  by (simp add: check_recorded_policy_def no_policy_conflict_def split: option.splits)

lemma view_pure:
  "views_purely C ans w \<Longrightarrow>
   view C source_account (dep_hooks_contract_id cfg) (dep_network cfg) func params w =
     (ask_view ans cfg source_account func params, w)"
  by (simp add: view_reads ask_view_def views_purely_def)

lemma transfer_pure:
  "views_purely C ans w \<Longrightarrow>
   gate C source_account (dep_hooks_contract_id cfg) (dep_network cfg) ''before_transfer''
     [(''token'', tk), (''from'', acc), (''to'', acc)] w =
     (ask_transfer ans cfg source_account tk acc, w)"
  by (simp add: gate_reads ask_transfer_def views_purely_def)

lemma check_admin_pure:
  assumes "views_purely C ans w"
  shows "\<exists>cs. check_admin C cfg source_account w = (cs, w) \<and>
    (no_failure cs \<longleftrightarrow>
       says (ask_view ans cfg source_account ''admin'' []) (\<lambda>v. unquote v = admin_public_key (dep_admin cfg)))"
  by (simp add: check_admin_def view_pure [OF assms] says_def Let_def split: sum.splits)

lemma check_config_pure:
  assumes "views_purely C ans w"
  shows "\<exists>configured cs. check_config C J cfg source_account w = ((configured, cs), w) \<and>
    (no_failure cs \<longleftrightarrow>
       says (ask_view ans cfg source_account ''config'' [])
         (\<lambda>v. unquote v \<noteq> ''null'' \<and> text_trim v \<noteq> [] \<and> no_policy_conflict cfg (json_policy_field J v))) \<and>
    (no_failure cs \<longrightarrow> configured)"
  by (auto simp: check_config_def view_pure [OF assms] says_def Let_def check_recorded_policy_status
      split: sum.splits)

lemma check_versions_pure:
  assumes "views_purely C ans w"
  shows "\<exists>cs. check_versions C cfg source_account fs w = (cs, w) \<and>
    (no_failure cs \<longleftrightarrow>
       (\<forall>(func, label, floor_value)\<in>set fs. says (ask_view ans cfg source_account func [])
         (\<lambda>v. case parse_u32 (text_trim v) of Some n \<Rightarrow> floor_value \<le> n | None \<Rightarrow> False)))"
proof (induction fs)
  case (Cons f fs)
  then show ?case
    by (cases f) (auto simp: view_pure [OF assms] says_def check_version_status split: sum.splits)
qed simp

lemma check_bindings_pure:
  assumes "views_purely C ans w"
  shows "\<exists>cs. check_bindings C cfg source_account ts w = (cs, w) \<and>
    (no_failure cs \<longleftrightarrow>
       (\<forall>t\<in>set ts. says (ask_view ans cfg source_account ''token_is_bound'' [(''token'', token_contract_id t)])
         (\<lambda>v. unquote v = ''true'')))"
proof (induction ts)
  case (Cons t ts)
  then show ?case
    by (auto simp: view_pure [OF assms] check_binding_status address_param_def)
qed simp

lemma check_tokens_pure:
  assumes "views_purely C ans w"
  shows "\<exists>cs. check_tokens C cfg source_account w = (cs, w) \<and>
    (no_failure cs \<longleftrightarrow>
       (\<forall>t\<in>set (dep_tokens cfg).
          says (ask_view ans cfg source_account ''token_is_bound'' [(''token'', token_contract_id t)])
            (\<lambda>v. unquote v = ''true'')))"
  using check_bindings_pure [OF assms, of cfg source_account "dep_tokens cfg"]
  by (auto simp: check_tokens_def)

lemma check_probe_pure:
  assumes "views_purely C ans w"
  shows "\<exists>cs. check_probe C cfg source_account w = (cs, w) \<and>
    (no_failure cs \<longleftrightarrow>
       says (ask_view ans cfg source_account ''token_is_bound'' [(''token'', admin_public_key (dep_admin cfg))])
         (\<lambda>v. unquote v \<noteq> ''true'') \<and>
       ask_transfer ans cfg source_account (admin_public_key (dep_admin cfg)) (admin_public_key (dep_admin cfg)) =
         Inr (Denied (Rejection UnboundToken)))"
  by (auto simp: check_probe_def view_pure [OF assms] transfer_pure [OF assms] says_def Let_def
      judge_probe_status address_param_def split: sum.splits)

lemma check_samples_pure:
  assumes "views_purely C ans w"
  shows "\<exists>cs. check_samples C cfg source_account acc ts w = (cs, w) \<and>
    (no_failure cs \<longleftrightarrow> (\<forall>t\<in>set ts. decided (ask_transfer ans cfg source_account (token_contract_id t) acc)))"
proof (induction ts)
  case (Cons t ts)
  then show ?case
    by (auto simp: transfer_pure [OF assms] judge_sample_status address_param_def)
qed simp

lemma check_sample_pure:
  assumes "views_purely C ans w"
  shows "\<exists>cs. check_sample C cfg source_account account configured w = (cs, w) \<and>
    (configured \<longrightarrow> (no_failure cs \<longleftrightarrow> (\<forall>acc\<in>set_option account. \<forall>t\<in>set (dep_tokens cfg).
       decided (ask_transfer ans cfg source_account (token_contract_id t) acc))))"
  using check_samples_pure [OF assms, of cfg source_account _ "dep_tokens cfg"]
  by (cases account) (auto simp: check_sample_def)

section \<open>The line about the policy\<close>

definition policy_lines :: "check list \<Rightarrow> check list" where
  "policy_lines cs = filter (\<lambda>c. check_name c = ''recorded policy matches the contract'') cs"

definition policy_confirmed :: "check list \<Rightarrow> bool" where
  "policy_confirmed cs \<longleftrightarrow> (\<exists>c\<in>set (policy_lines cs). check_status c = Pass)"

lemma policy_lines_simps [simp]:
  "policy_lines [] = []"
  "policy_lines (c # cs) =
     (if check_name c = ''recorded policy matches the contract'' then c # policy_lines cs else policy_lines cs)"
  "policy_lines (cs @ ds) = policy_lines cs @ policy_lines ds"
  by (simp_all add: policy_lines_def)

lemma check_name_simps [simp]:
  "check_name (check_pass n d) = n" "check_name (check_fail n d) = n" "check_name (check_skip n d) = n"
  by (simp_all add: check_defs)

lemma named_checks [simp]:
  "check_name (check_initialized v) = ''initialized''"
  "check_name (check_version func label n v) = label"
  "check_name (check_binding t answer) = ''token '' @ token_alias t @ '' bound''"
  "check_name (judge_probe p g) = ''fail-closed probe''"
  "check_name (judge_sample t acc g) = ''gate sample on '' @ token_alias t"
  by (simp_all add: check_initialized_def check_version_def check_binding_def judge_probe_def judge_sample_def Let_def
      split: option.splits sum.splits gate_outcome.splits contract_revert.splits)

lemma no_policy_line_admin: "policy_lines (fst (check_admin C cfg source_account w)) = []"
  by (simp add: check_admin_def Let_def split: prod.splits sum.splits)

lemma no_policy_line_versions:
  "\<forall>(func, label, floor_value)\<in>set fs. label \<noteq> ''recorded policy matches the contract'' \<Longrightarrow>
   policy_lines (fst (check_versions C cfg source_account fs w)) = []"
proof (induction fs arbitrary: w)
  case (Cons f fs)
  obtain func label n where f: "f = (func, label, n)" by (cases f)
  have "policy_lines (fst (check_versions C cfg source_account fs w)) = []" for w using Cons by simp
  then show ?case using Cons.prems f by (auto split: prod.splits sum.splits) (metis fst_conv)+
qed simp

lemma no_policy_line_bindings: "policy_lines (fst (check_bindings C cfg source_account ts w)) = []"
proof (induction ts arbitrary: w)
  case (Cons t ts)
  show ?case using Cons.IH by (auto split: prod.splits) (metis fst_conv)
qed simp

lemma no_policy_line_tokens: "policy_lines (fst (check_tokens C cfg source_account w)) = []"
  using no_policy_line_bindings [of C cfg source_account "dep_tokens cfg" w]
  by (simp add: check_tokens_def split: prod.splits)

lemma no_policy_line_probe: "policy_lines (fst (check_probe C cfg source_account w)) = []"
  by (simp add: check_probe_def Let_def split: prod.splits sum.splits)

lemma no_policy_line_samples: "policy_lines (fst (check_samples C cfg source_account acc ts w)) = []"
proof (induction ts arbitrary: w)
  case (Cons t ts)
  show ?case using Cons.IH by (auto split: prod.splits) (metis fst_conv)
qed simp

lemma no_policy_line_sample: "policy_lines (fst (check_sample C cfg source_account account configured w)) = []"
  using no_policy_line_samples [of C cfg source_account _ "dep_tokens cfg" w]
  by (simp add: check_sample_def split: option.splits)

lemmas no_policy_lines =
  no_policy_line_admin no_policy_line_tokens no_policy_line_probe no_policy_line_sample

text \<open>The line is there, and passes, exactly when the record names a policy and the contract uses that one.\<close>

definition policy_in_use :: "(string list \<Rightarrow> string + run_outcome) \<Rightarrow> json_codec \<Rightarrow> deployment \<Rightarrow> string \<Rightarrow> bool" where
  "policy_in_use ans J cfg source_account \<longleftrightarrow>
     says (ask_view ans cfg source_account ''initialized'' []) (\<lambda>_. True) \<and>
     says (ask_view ans cfg source_account ''config'' []) (\<lambda>v. unquote v \<noteq> ''null'' \<and> text_trim v \<noteq> [] \<and>
       (\<exists>recorded. dep_policy cfg = Some recorded \<and> json_policy_field J v = Some (policy_contract_id recorded)))"

lemma check_config_confirms:
  assumes "views_purely C ans w"
  shows "policy_confirmed (snd (fst (check_config C J cfg source_account w))) \<longleftrightarrow>
    says (ask_view ans cfg source_account ''config'' []) (\<lambda>v. unquote v \<noteq> ''null'' \<and> text_trim v \<noteq> [] \<and>
       (\<exists>recorded. dep_policy cfg = Some recorded \<and> json_policy_field J v = Some (policy_contract_id recorded)))"
  by (auto simp: check_config_def view_pure [OF assms] says_def Let_def policy_confirmed_def check_recorded_policy_def
      split: sum.splits option.splits)

lemma verify_confirms:
  assumes "views_purely C ans w"
  shows "policy_confirmed (fst (verify C J cfg source_account account w)) \<longleftrightarrow> policy_in_use ans J cfg source_account"
proof (cases "ask_view ans cfg source_account ''initialized'' []")
  case (Inl err)
  then show ?thesis
    by (simp add: verify_def view_pure [OF assms] policy_in_use_def says_def policy_confirmed_def Let_def)
next
  case (Inr v)
  obtain admin w1 where admin: "check_admin C cfg source_account w = (admin, w1)" by fastforce
  have w1: "w1 = w" using admin check_admin_pure [OF assms, of cfg source_account] by auto
  obtain configured config w2 where config: "check_config C J cfg source_account w = ((configured, config), w2)" by (metis surj_pair)
  obtain versions w3 where versions: "check_versions C cfg source_account version_floors w2 = (versions, w3)" by fastforce
  obtain tokens w4 where tokens: "check_tokens C cfg source_account w3 = (tokens, w4)" by fastforce
  obtain probe w5 where probe: "check_probe C cfg source_account w4 = (probe, w5)" by fastforce
  obtain sample w6 where sample: "check_sample C cfg source_account account configured w5 = (sample, w6)" by fastforce
  have "policy_lines versions = []"
    using no_policy_line_versions [of version_floors C cfg source_account w2] versions by (simp add: version_floors_def)
  moreover have "policy_lines admin = []" "policy_lines tokens = []" "policy_lines probe = []" "policy_lines sample = []"
    using no_policy_lines [of C cfg source_account] admin tokens probe sample by (metis fst_conv)+
  ultimately have "policy_lines (fst (verify C J cfg source_account account w)) = policy_lines config"
    by (simp add: verify_def view_pure [OF assms] Inr admin w1 config versions tokens probe sample Let_def)
  then show ?thesis
    using check_config_confirms [OF assms, of J cfg source_account] config Inr
    by (simp add: policy_confirmed_def policy_in_use_def) (simp add: says_def)
qed

lemma verify_healthy:
  assumes "views_purely C ans w"
  shows "\<exists>cs. verify C J cfg source_account account w = (cs, w) \<and>
    (no_failure cs \<longleftrightarrow> healthy ans J cfg source_account account)"
proof (cases "ask_view ans cfg source_account ''initialized'' []")
  case (Inl err)
  then show ?thesis by (simp add: verify_def view_pure [OF assms] healthy_def says_def Let_def)
next
  case (Inr v)
  obtain admin where admin: "check_admin C cfg source_account w = (admin, w)"
    "no_failure admin \<longleftrightarrow>
       says (ask_view ans cfg source_account ''admin'' []) (\<lambda>v. unquote v = admin_public_key (dep_admin cfg))"
    using check_admin_pure [OF assms] by blast
  obtain configured config where config: "check_config C J cfg source_account w = ((configured, config), w)"
    "no_failure config \<longleftrightarrow>
       says (ask_view ans cfg source_account ''config'' [])
         (\<lambda>v. unquote v \<noteq> ''null'' \<and> text_trim v \<noteq> [] \<and> no_policy_conflict cfg (json_policy_field J v))"
    "no_failure config \<longrightarrow> configured"
    using check_config_pure [OF assms] by blast
  obtain versions where versions: "check_versions C cfg source_account version_floors w = (versions, w)"
    "no_failure versions \<longleftrightarrow>
       (\<forall>(func, label, floor_value)\<in>set version_floors. says (ask_view ans cfg source_account func [])
         (\<lambda>v. case parse_u32 (text_trim v) of Some n \<Rightarrow> floor_value \<le> n | None \<Rightarrow> False))"
    using check_versions_pure [OF assms] by blast
  obtain tokens where tokens: "check_tokens C cfg source_account w = (tokens, w)"
    "no_failure tokens \<longleftrightarrow>
       (\<forall>t\<in>set (dep_tokens cfg).
          says (ask_view ans cfg source_account ''token_is_bound'' [(''token'', token_contract_id t)])
            (\<lambda>v. unquote v = ''true''))"
    using check_tokens_pure [OF assms] by blast
  obtain probe where probe: "check_probe C cfg source_account w = (probe, w)"
    "no_failure probe \<longleftrightarrow>
       says (ask_view ans cfg source_account ''token_is_bound'' [(''token'', admin_public_key (dep_admin cfg))])
         (\<lambda>v. unquote v \<noteq> ''true'') \<and>
       ask_transfer ans cfg source_account (admin_public_key (dep_admin cfg)) (admin_public_key (dep_admin cfg)) =
         Inr (Denied (Rejection UnboundToken))"
    using check_probe_pure [OF assms] by blast
  obtain sample where sample: "check_sample C cfg source_account account configured w = (sample, w)"
    "configured \<longrightarrow> (no_failure sample \<longleftrightarrow> (\<forall>acc\<in>set_option account. \<forall>t\<in>set (dep_tokens cfg).
       decided (ask_transfer ans cfg source_account (token_contract_id t) acc)))"
    using check_sample_pure [OF assms, of cfg source_account account configured] by (elim exE conjE)
  let ?cs = "[check_pass ''contract reachable'' (dep_hooks_contract_id cfg @ '' answered on '' @ dep_network cfg)]
    @ [check_initialized v] @ admin @ config @ versions @ tokens @ probe @ sample"
  have run: "verify C J cfg source_account account w = (?cs, w)"
    by (simp add: verify_def view_pure [OF assms] Inr admin(1) config(1) versions(1) tokens(1) probe(1) sample(1) Let_def)
  have status: "no_failure ?cs \<longleftrightarrow> unquote v = ''true'' \<and> no_failure admin \<and> no_failure config \<and>
      no_failure versions \<and> no_failure tokens \<and> no_failure probe \<and> no_failure sample"
    by (simp add: check_initialized_status)
  have started: "says (ask_view ans cfg source_account ''initialized'' []) (\<lambda>v. unquote v = ''true'') \<longleftrightarrow>
      unquote v = ''true''"
    by (simp add: Inr says_def)
  have floors: "no_failure versions \<longleftrightarrow> (\<forall>func\<in>{''config_version'', ''state_version''}.
      says (ask_view ans cfg source_account func [])
        (\<lambda>v. case parse_u32 (text_trim v) of Some n \<Rightarrow> 1 \<le> n | None \<Rightarrow> False))"
    by (simp add: versions(2) version_floors_def)
  have "healthy ans J cfg source_account account \<longleftrightarrow> unquote v = ''true'' \<and> no_failure admin \<and>
      no_failure config \<and> no_failure versions \<and> no_failure tokens \<and> no_failure probe \<and>
      (\<forall>acc\<in>set_option account. \<forall>t\<in>set (dep_tokens cfg).
         decided (ask_transfer ans cfg source_account (token_contract_id t) acc))"
    unfolding healthy_def Let_def started admin(2) config(2) floors tokens(2) probe(2) by (simp only: conj_assoc)
  with run status config(3) sample(2) show ?thesis by blast
qed

end
