(* ===== verification/Cli_Effects.thy ===== *)
theory Cli_Effects
  imports Cli_Health
begin

text \<open>
  What the commands of the CLI do to the outside, as logs of a recording host: an admin command is
  one signed invocation, the bring-up is a fixed sequence of invocations followed by at most one
  write of the configuration file, the offline reference touches nothing.
\<close>

section \<open>Single steps\<close>

lemma interpret_outcome_ok: "(\<exists>v. interpret_outcome r = Inr v) \<longleftrightarrow> run_ok r"
  by (auto simp: interpret_outcome_def Let_def split: option.splits)

lemma interpret_outcome_Inr: "interpret_outcome r = Inr v \<longleftrightarrow> run_ok r \<and> v = outcome_value r"
  by (auto simp: interpret_outcome_def Let_def split: option.splits)

definition succeeded :: "string + run_outcome \<Rightarrow> bool" where
  "succeeded r = (case r of Inl _ \<Rightarrow> False | Inr out \<Rightarrow> run_ok out)"

lemma recording_run:
  "run_stellar (recording C) w args =
     (fst (run_stellar C (fst w) args),
      (snd (run_stellar C (fst w) args), snd w @ [Ran args (fst (run_stellar C (fst w) args))]))"
  by (simp add: recording_def split: prod.splits)

lemma recording_println:
  "println (recording C) line w = (Inr (), (print_line C (fst w) line, snd w @ [Printed line]))"
  by (simp add: println_def recording_def)

lemma recording_write:
  "write_file (recording C) w path text =
     (fst (write_file C (fst w) path text),
      (snd (write_file C (fst w) path text), snd w @ [Wrote path text]))"
  by (simp add: recording_def split: prod.splits)

text \<open>An invocation that is followed by a line of output when it succeeds.\<close>

lemma invoke_then_print:
  assumes "and_do (app_invoke (recording C) A func params) (\<lambda>_. println (recording C) line) (w, es) = (res, (w', es'))"
  shows "\<exists>r. es' = es @ Ran (invoke_args (Some (app_source A)) (dep_hooks_contract_id (app_config A))
        (dep_network (app_config A)) func params) r # (if succeeded r then [Printed line] else []) \<and>
      ((res = Inr ()) = succeeded r)"
proof -
  let ?args = "invoke_args (Some (app_source A)) (dep_hooks_contract_id (app_config A))
        (dep_network (app_config A)) func params"
  obtain r w1 where r: "run_stellar C w ?args = (r, w1)" by (cases "run_stellar C w ?args")
  show ?thesis
  proof (cases r)
    case (Inl msg)
    with assms r show ?thesis
      by (auto simp: and_do_def app_invoke_def recording_run succeeded_def)
  next
    case (Inr out)
    show ?thesis
    proof (cases "interpret_outcome out")
      case i: (Inl msg)
      then have "\<not> run_ok out" using interpret_outcome_ok [of out] by auto
      with assms r Inr i show ?thesis
        by (auto simp: and_do_def app_invoke_def recording_run succeeded_def lift_result_def)
    next
      case i: (Inr v)
      then have "run_ok out" using interpret_outcome_ok [of out] by auto
      with assms r Inr i show ?thesis
        by (auto simp: and_do_def app_invoke_def recording_run succeeded_def lift_result_def recording_println)
    qed
  qed
qed

section \<open>Admin commands\<close>

text \<open>The contract call an admin command stands for; \<open>None\<close> for the commands that are no single call.\<close>

definition admin_request :: "app \<Rightarrow> command \<Rightarrow> (string + string \<times> (string \<times> string) list) option" where
  "admin_request A cmd =
     (let cfg = app_config A in
      case cmd of
        Init \<Rightarrow> Some (Inr (''initialize'', [(''admin'', admin_public_key (dep_admin cfg))]))
      | Configure pol no_policy sac \<Rightarrow>
          Some (Inr (''set_config'',
            [(''policy'', opt_address (if no_policy then None
                else if pol = None then map_option policy_contract_id (dep_policy cfg) else pol)),
             (''sac_passthrough'', bool_text (if sac = None then dep_sac_passthrough cfg else the sac))]))
      | Bind tk sac \<Rightarrow>
          Some (map_sum id (\<lambda>i. (''bind_token'',
            [(''token'', i), (''sac'', opt_address (if sac = None then sac_for cfg tk else sac))])) (resolve_token cfg tk))
      | Unbind tk \<Rightarrow> Some (map_sum id (\<lambda>i. (''unbind_token'', [(''token'', i)])) (resolve_token cfg tk))
      | FreezeCmd tk acc \<Rightarrow>
          Some (map_sum id (\<lambda>i. (''freeze'', [(''token'', i), (''account'', acc)])) (resolve_token cfg tk))
      | UnfreezeCmd tk acc \<Rightarrow>
          Some (map_sum id (\<lambda>i. (''unfreeze'', [(''token'', i), (''account'', acc)])) (resolve_token cfg tk))
      | _ \<Rightarrow> None)"

lemma admin_request_invokes:
  assumes "admin_request A cmd = Some (Inr (func, params))"
  shows "\<exists>line. run_admin C J A cmd = and_do (app_invoke C A func params) (\<lambda>_. println C line)"
  using assms
  by (cases cmd)
    (auto simp: admin_request_def run_admin_def app_init_def app_configure_def app_bind_def app_unbind_def
      app_freeze_def app_unfreeze_def app_freeze_op_def address_param_def boolean_param_def Let_def map_sum_def
      split: option.splits if_splits sum.splits)

lemma admin_request_rejects:
  assumes "admin_request A cmd = Some (Inl msg)"
  shows "run_admin C J A cmd = fail_with msg"
  using assms
  by (cases cmd)
    (auto simp: admin_request_def run_admin_def app_bind_def app_unbind_def app_freeze_def app_unfreeze_def
      app_freeze_op_def Let_def map_sum_def split: sum.splits)

section \<open>Bring-up\<close>

fun ran :: "effect list \<Rightarrow> (string list \<times> (string + run_outcome)) list" where
  "ran [] = []"
| "ran (Ran args r # es) = (args, r) # ran es"
| "ran (_ # es) = ran es"

fun wrote :: "effect list \<Rightarrow> (string \<times> string) list" where
  "wrote [] = []"
| "wrote (Wrote path text # es) = (path, text) # wrote es"
| "wrote (_ # es) = wrote es"

lemma ran_append [simp]: "ran (es @ es') = ran es @ ran es'"
  by (induction es rule: ran.induct) simp_all

lemma wrote_append [simp]: "wrote (es @ es') = wrote es @ wrote es'"
  by (induction es rule: wrote.induct) simp_all

text \<open>
  \<open>extends w w' argvs\<close>: between the two states exactly these commands ran, in this order, all of them
  succeeded, and no file was written.
\<close>

definition extends :: "'w \<times> effect list \<Rightarrow> 'w \<times> effect list \<Rightarrow> string list list \<Rightarrow> bool" where
  "extends w w' argvs \<longleftrightarrow>
     (\<exists>outs. ran (snd w') = ran (snd w) @ zip argvs outs \<and> length outs = length argvs \<and>
        (\<forall>r\<in>set outs. succeeded r)) \<and>
     wrote (snd w') = wrote (snd w)"

lemma extends_refl: "extends w w []"
  by (simp add: extends_def)

lemma extends_trans:
  assumes "extends w w1 as" and "extends w1 w2 bs"
  shows "extends w w2 (as @ bs)"
proof -
  obtain os where os: "ran (snd w1) = ran (snd w) @ zip as os" "length os = length as" "\<forall>r\<in>set os. succeeded r"
    "wrote (snd w1) = wrote (snd w)"
    using assms(1) by (auto simp: extends_def)
  obtain ps where ps: "ran (snd w2) = ran (snd w1) @ zip bs ps" "length ps = length bs" "\<forall>r\<in>set ps. succeeded r"
    "wrote (snd w2) = wrote (snd w1)"
    using assms(2) by (auto simp: extends_def)
  show ?thesis
    unfolding extends_def using os ps by (intro conjI exI [of _ "os @ ps"]) auto
qed

lemma extends_println: "println (recording C) line w = (r, w') \<Longrightarrow> extends w w' []"
  by (auto simp: recording_println extends_def)

lemma extends_run:
  "run_stellar (recording C) w args = (r, w') \<Longrightarrow> succeeded r \<Longrightarrow> extends w w' [args]"
  by (auto simp: recording_run extends_def intro!: exI [of _ "[r]"])

lemma send_raw_extends:
  assumes "send_raw (recording C) args w = (Inr out, w')"
  shows "extends w w' [args]"
proof -
  obtain r w1 where r: "run_stellar (recording C) w args = (r, w1)" by (cases "run_stellar (recording C) w args")
  with assms have "w' = w1" and "succeeded r"
    by (auto simp: send_raw_def and_do_def done_with_def fail_with_def succeeded_def split: sum.splits if_splits)
  with extends_run [OF r] show ?thesis by simp
qed

lemma send_raw_ran:
  assumes "send_raw (recording C) args w = (Inr out, w')"
  shows "ran (snd w') = ran (snd w) @ [(args, Inr out)]"
  using assms by (auto simp: send_raw_def and_do_def done_with_def fail_with_def recording_run split: sum.splits if_splits)

lemma println_ran: "println (recording C) line w = (r, w') \<Longrightarrow> ran (snd w') = ran (snd w)"
  by (auto simp: recording_println)

lemma hooks_invoke_extends:
  assumes "hooks_invoke (recording C) source i network func params w = (Inr u, w')"
  shows "extends w w' [invoke_args (Some source) i network func params]"
proof -
  let ?args = "invoke_args (Some source) i network func params"
  obtain r w1 where r: "run_stellar (recording C) w ?args = (r, w1)" by (cases "run_stellar (recording C) w ?args")
  with assms have "w' = w1" and "succeeded r"
    by (auto simp: hooks_invoke_def and_do_def done_with_def lift_result_def succeeded_def interpret_outcome_Inr
        split: sum.splits if_splits)
  with extends_run [OF r] show ?thesis by simp
qed

text \<open>The commands of the lifecycle on a deployed contract, in order.\<close>

definition lifecycle_args ::
  "deployment \<Rightarrow> string \<Rightarrow> string \<Rightarrow> string option \<Rightarrow> bool \<Rightarrow> string list list" where
  "lifecycle_args cfg source hooks_id pol sac =
     (let send = invoke_args (Some source) hooks_id (dep_network cfg) in
      [send ''initialize'' [(''admin'', admin_public_key (dep_admin cfg))],
       send ''set_config'' [(''policy'', opt_address pol), (''sac_passthrough'', bool_text sac)]] @
      map (\<lambda>t. send ''bind_token'' [(''token'', token_contract_id t), (''sac'', opt_address (token_sac_contract_id t))])
        (dep_tokens cfg))"

lemma for_each_extends:
  assumes "for_each xs body w = (Inr (), w')"
    and "\<And>x w w'. body x w = (Inr (), w') \<Longrightarrow> extends w w' [f x]"
  shows "extends w w' (map f xs)"
  using assms(1)
proof (induction xs arbitrary: w)
  case Nil
  then show ?case by (simp add: done_with_def extends_refl)
next
  case (Cons x xs)
  then obtain w1 where "body x w = (Inr (), w1)" and "for_each xs body w1 = (Inr (), w')"
    by (auto simp: and_do_Inr)
  with extends_trans [OF assms(2) Cons.IH] show ?case by fastforce
qed

lemma bring_up_extends:
  assumes "bring_up (recording C) cfg source hooks_id pol sac w = (Inr (), w')"
  shows "extends w w' (lifecycle_args cfg source hooks_id pol sac)"
proof -
  let ?send = "hooks_invoke (recording C) source hooks_id (dep_network cfg)"
  let ?args = "invoke_args (Some source) hooks_id (dep_network cfg)"
  obtain u1 w1 u2 w2 u3 w3 u4 w4 where
    s1: "?send ''initialize'' [(''admin'', admin_public_key (dep_admin cfg))] w = (Inr u1, w1)" and
    s2: "println (recording C) (''initialized with admin '' @ admin_public_key (dep_admin cfg)) w1 = (Inr u2, w2)" and
    s3: "?send ''set_config'' [(''policy'', opt_address pol), (''sac_passthrough'', bool_text sac)] w2 = (Inr u3, w3)" and
    s4: "println (recording C) (policy_line pol sac) w3 = (Inr u4, w4)" and
    s5: "for_each (dep_tokens cfg) (\<lambda>t.
        and_do (?send ''bind_token'' [(''token'', token_contract_id t), (''sac'', opt_address (token_sac_contract_id t))])
          (\<lambda>_. println (recording C) (''bound token '' @ token_alias t))) w4 = (Inr (), w')"
    using assms unfolding bring_up_def Let_def and_do_Inr address_param_def boolean_param_def by blast
  have "extends w4 w' (map (\<lambda>t. ?args ''bind_token''
      [(''token'', token_contract_id t), (''sac'', opt_address (token_sac_contract_id t))]) (dep_tokens cfg))"
  proof (rule for_each_extends [OF s5])
    fix t x x'
    assume "and_do (?send ''bind_token'' [(''token'', token_contract_id t), (''sac'', opt_address (token_sac_contract_id t))])
          (\<lambda>_. println (recording C) (''bound token '' @ token_alias t)) x = (Inr (), x')"
    then obtain u y where
      "?send ''bind_token'' [(''token'', token_contract_id t), (''sac'', opt_address (token_sac_contract_id t))] x = (Inr u, y)"
      and "println (recording C) (''bound token '' @ token_alias t) y = (Inr (), x')"
      unfolding and_do_Inr by blast
    from extends_trans [OF hooks_invoke_extends [OF this(1)] extends_println [OF this(2)]]
    show "extends x x' [?args ''bind_token''
      [(''token'', token_contract_id t), (''sac'', opt_address (token_sac_contract_id t))]]" by simp
  qed
  from extends_trans [OF hooks_invoke_extends [OF s1] extends_trans [OF extends_println [OF s2]
      extends_trans [OF hooks_invoke_extends [OF s3] extends_trans [OF extends_println [OF s4] this]]]]
  show ?thesis by (simp add: lifecycle_args_def Let_def)
qed

text \<open>The sample-policy deployment that precedes the lifecycle, when the options ask for one.\<close>

definition policy_deploy_args ::
  "deployment \<Rightarrow> string \<Rightarrow> string option \<Rightarrow> string option \<Rightarrow> string option \<Rightarrow> bool \<Rightarrow> string list list" where
  "policy_deploy_args cfg source sample_wasm blocked policy_id no_policy =
     (case sample_wasm of
        Some wasm \<Rightarrow>
          if no_policy \<or> policy_id \<noteq> None then []
          else [deploy_args wasm source (dep_network cfg)
            (case blocked of Some b \<Rightarrow> [(''blocked'', opt_address (Some b))] | None \<Rightarrow> [])]
      | None \<Rightarrow> [])"

text \<open>The policy that the options select: none, the given one, a deployed one, or the recorded one.\<close>

definition policy_choice ::
  "deployment \<Rightarrow> string option \<Rightarrow> string option \<Rightarrow> bool \<Rightarrow> string option \<Rightarrow> bool" where
  "policy_choice cfg sample_wasm policy_id no_policy pol =
     (if no_policy then pol = None
      else if policy_id \<noteq> None then pol = policy_id
      else if sample_wasm \<noteq> None then pol \<noteq> None \<and> is_stellar_address (the pol)
      else pol = map_option policy_contract_id (dep_policy cfg))"

lemma parse_deployed_id_address: "parse_deployed_id out = Some i \<Longrightarrow> is_stellar_address i \<and> starts_with (CHR ''C'') i"
  by (auto simp: parse_deployed_id_def is_stellar_address_def dest!: find_Some_iff [THEN iffD1])

lemma lift_parsed:
  "lift_result (case p of Some i \<Rightarrow> Inr i | None \<Rightarrow> Inl msg) w = (Inr x, w') \<longleftrightarrow> p = Some x \<and> w' = w"
  by (auto simp: lift_result_def split: option.splits)

text \<open>
  The result of the \<open>k\<close>-th command of a log names the contract \<open>i\<close>; and the ids of a deployment are the
  reported ones: the hooks contract is the one its deploy names, the policy the one its own deploy names.
\<close>

definition minted :: "(string list \<times> (string + run_outcome)) list \<Rightarrow> nat \<Rightarrow> string \<Rightarrow> bool" where
  "minted log k i \<longleftrightarrow>
     (\<exists>out. k < length log \<and> snd (log ! k) = Inr out \<and> parse_deployed_id (run_stdout out) = Some i)"

definition reported_ids ::
  "bool \<Rightarrow> (string list \<times> (string + run_outcome)) list \<Rightarrow> string \<Rightarrow> string option \<Rightarrow> bool" where
  "reported_ids policy_deployed log hooks_id pol \<longleftrightarrow>
     minted log 0 hooks_id \<and> (policy_deployed \<longrightarrow> (\<exists>i. pol = Some i \<and> minted log 1 i))"

lemma deploy_hooks_extends:
  assumes "deploy_hooks (recording C) cfg source wasm w = (Inr hooks_id, w')"
  shows "extends w w' [deploy_args wasm source (dep_network cfg) []] \<and> is_stellar_address hooks_id \<and>
    (\<exists>args out. ran (snd w') = ran (snd w) @ [(args, Inr out)] \<and> parse_deployed_id (run_stdout out) = Some hooks_id)"
proof -
  obtain u1 w1 out w2 i w3 u4 where
    s1: "println (recording C) (''deploying compliance-hooks'' @ ELLIPSIS) w = (Inr u1, w1)" and
    s2: "send_raw (recording C) (deploy_args wasm source (dep_network cfg) []) w1 = (Inr out, w2)" and
    s3: "parse_deployed_id (run_stdout out) = Some i" and
    s4: "println (recording C) (''deployed hooks: '' @ i) w2 = (Inr u4, w3)" and
    s5: "done_with i w3 = (Inr hooks_id, w')"
    using assms unfolding deploy_hooks_def
    by (auto simp: fail_with_def and_do_Inr lift_parsed simp del: and_do_simps split: if_splits)
  from extends_trans [OF extends_println [OF s1] extends_trans [OF send_raw_extends [OF s2] extends_println [OF s4]]]
  moreover have "ran (snd w3) = ran (snd w) @ [(deploy_args wasm source (dep_network cfg) [], Inr out)]"
    using println_ran [OF s1] send_raw_ran [OF s2] println_ran [OF s4] by simp
  ultimately show ?thesis using s3 s5 by (auto simp: done_with_def parse_deployed_id_address)
qed

lemma resolve_policy_extends:
  assumes "resolve_policy (recording C) cfg source sample_wasm blocked policy_id no_policy w = (Inr pol, w')"
  shows "extends w w' (policy_deploy_args cfg source sample_wasm blocked policy_id no_policy) \<and>
    policy_choice cfg sample_wasm policy_id no_policy pol \<and>
    (policy_deploy_args cfg source sample_wasm blocked policy_id no_policy \<noteq> [] \<longrightarrow>
      (\<exists>args out i. pol = Some i \<and> ran (snd w') = ran (snd w) @ [(args, Inr out)] \<and>
        parse_deployed_id (run_stdout out) = Some i))"
proof (cases "no_policy \<or> policy_id \<noteq> None \<or> sample_wasm = None")
  case True
  with assms show ?thesis
    by (auto simp: resolve_policy_def done_with_def policy_deploy_args_def policy_choice_def extends_refl
        split: option.splits if_splits)
next
  case False
  then obtain wasm where opts: "\<not> no_policy" "policy_id = None" "sample_wasm = Some wasm" by auto
  let ?ctor = "case blocked of Some b \<Rightarrow> [(''blocked'', opt_address (Some b))] | None \<Rightarrow> []"
  obtain out w1 i u2 where
    s1: "send_raw (recording C) (deploy_args wasm source (dep_network cfg) ?ctor) w = (Inr out, w1)" and
    s2: "parse_deployed_id (run_stdout out) = Some i" and
    s3: "println (recording C) (''deployed policy: '' @ i) w1 = (Inr u2, w')" and
    s4: "pol = Some i"
    using assms opts unfolding resolve_policy_def
    by (auto simp: fail_with_def and_do_Inr lift_parsed done_with_def Let_def simp del: and_do_simps split: if_splits)
  have "ran (snd w') = ran (snd w) @ [(deploy_args wasm source (dep_network cfg) ?ctor, Inr out)]"
    using send_raw_ran [OF s1] println_ran [OF s3] by simp
  with extends_trans [OF send_raw_extends [OF s1] extends_println [OF s3]] show ?thesis
    using opts s2 s4 by (auto simp: policy_deploy_args_def policy_choice_def parse_deployed_id_address)
qed

text \<open>Nothing before the last step writes a file.\<close>

definition no_write :: "effect \<Rightarrow> bool" where
  "no_write ef = (case ef of Wrote _ _ \<Rightarrow> False | _ \<Rightarrow> True)"

lemma no_write_simps [simp]: "no_write (Ran args r)" "no_write (Printed l)" "\<not> no_write (Wrote p t)"
  by (simp_all add: no_write_def)

lemma wrote_none: "\<forall>ef\<in>set es. no_write ef \<Longrightarrow> wrote es = []"
  by (induction es rule: wrote.induct) simp_all

lemma only_does_no_write: "only_does no_write m \<Longrightarrow> m w = (r, w') \<Longrightarrow> wrote (snd w') = wrote (snd w)"
  unfolding only_does_def by (metis append.right_neutral snd_conv wrote_append wrote_none)

lemma only_does_state_if:
  "(\<And>w. only_does P m) \<Longrightarrow> only_does P n \<Longrightarrow> only_does P (\<lambda>w. if b w then m w else n w)"
  unfolding only_does_def by auto

lemma send_raw_no_write: "only_does no_write (send_raw (recording C) args)"
  unfolding send_raw_def by (intro only_does_and_do only_does_run) auto

lemma hooks_invoke_no_write: "only_does no_write (hooks_invoke (recording C) source i network func params)"
  unfolding hooks_invoke_def
  by (intro only_does_and_do only_does_run only_does_lift only_does_done) simp

lemma deploy_hooks_no_write: "only_does no_write (deploy_hooks (recording C) cfg source wasm)"
  unfolding deploy_hooks_def [abs_def]
  by (intro only_does_state_if only_does_and_do only_does_println send_raw_no_write only_does_lift only_does_done
      only_does_fail) simp_all

lemma resolve_policy_no_write:
  "only_does no_write (resolve_policy (recording C) cfg source sample_wasm blocked policy_id no_policy)"
  unfolding resolve_policy_def [abs_def] Let_def
  by (cases no_policy; cases policy_id; cases sample_wasm)
    (auto intro!: only_does_state_if only_does_and_do only_does_println send_raw_no_write)

lemma bring_up_no_write: "only_does no_write (bring_up (recording C) cfg source hooks_id pol sac)"
  unfolding bring_up_def Let_def
  by (intro only_does_and_do hooks_invoke_no_write only_does_println only_does_for_each) simp_all

text \<open>
  Every run of the bring-up either stops before the last step without having written a file, or
  reaches the last step after the full sequence of successful calls.
\<close>

definition deploy_sequence ::
  "deployment \<Rightarrow> string \<Rightarrow> string \<Rightarrow> string option \<Rightarrow> string option \<Rightarrow> string option \<Rightarrow> bool \<Rightarrow> string
     \<Rightarrow> string option \<Rightarrow> bool \<Rightarrow> string list list" where
  "deploy_sequence cfg source wasm sample_wasm blocked policy_id no_policy hooks_id pol sac =
     [deploy_args wasm source (dep_network cfg) []] @
     policy_deploy_args cfg source sample_wasm blocked policy_id no_policy @
     lifecycle_args cfg source hooks_id pol sac"

definition record_step ::
  "'w cli_host \<Rightarrow> json_codec \<Rightarrow> deployment \<Rightarrow> string option \<Rightarrow> string \<Rightarrow> string option \<Rightarrow> bool \<Rightarrow> ('w, unit) action" where
  "record_step C J cfg config_path hooks_id pol sac =
     (case config_path of
        Some path \<Rightarrow>
          and_do (config_save C J (recorded_config cfg hooks_id pol sac) path) (\<lambda>_.
            println C (''config updated: '' @ path))
      | None \<Rightarrow>
          println C (''config not modified '' @ EM_DASH @ '' rerun with --save to record '' @ hooks_id @
            '' as the hooks contract''))"

lemma reported_ids_stages:
  assumes "deploy_hooks (recording C) cfg source wasm w = (Inr hooks_id, w1)"
    and "resolve_policy (recording C) cfg source sample_wasm blocked policy_id no_policy w1 = (Inr pol, w2)"
    and "bring_up (recording C) cfg source hooks_id pol sac w2 = (Inr (), w3)"
  shows "\<exists>log. ran (snd w3) = ran (snd w) @ log \<and>
    reported_ids (policy_deploy_args cfg source sample_wasm blocked policy_id no_policy \<noteq> []) log hooks_id pol"
proof -
  let ?deployed = "policy_deploy_args cfg source sample_wasm blocked policy_id no_policy \<noteq> []"
  obtain args out where r1: "ran (snd w1) = ran (snd w) @ [(args, Inr out)]" and i: "parse_deployed_id (run_stdout out) = Some hooks_id"
    using deploy_hooks_extends [OF assms(1)] by blast
  note p = resolve_policy_extends [OF assms(2)]
  obtain more where r3: "ran (snd w3) = ran (snd w2) @ more"
    using bring_up_extends [OF assms(3)] by (auto simp: extends_def)
  show ?thesis
  proof (cases ?deployed)
    case True
    then obtain args' out' j where "pol = Some j" "ran (snd w2) = ran (snd w1) @ [(args', Inr out')]"
      "parse_deployed_id (run_stdout out') = Some j"
      using p by blast
    with r1 r3 i show ?thesis
      by (intro exI [of _ "(args, Inr out) # (args', Inr out') # more"]) (simp add: reported_ids_def minted_def)
  next
    case False
    obtain more' where "ran (snd w2) = ran (snd w1) @ more'" using p by (auto simp: extends_def)
    with False r1 r3 i show ?thesis
      by (intro exI [of _ "(args, Inr out) # more' @ more"]) (simp add: reported_ids_def minted_def)
  qed
qed

lemma run_deploy_stages:
  assumes "run_deploy (recording C) J cfg config_path source wasm sample_wasm blocked policy_id no_policy sac_opt w
      = (res, w')"
  obtains (stopped) msg where "res = Inl msg" and "wrote (snd w') = wrote (snd w)"
  | (completed) hooks_id pol w3 where
      "is_stellar_address hooks_id" and "policy_choice cfg sample_wasm policy_id no_policy pol"
      and "extends w w3 (deploy_sequence cfg source wasm sample_wasm blocked policy_id no_policy hooks_id pol
            (case sac_opt of Some b \<Rightarrow> b | None \<Rightarrow> dep_sac_passthrough cfg))"
      and "\<exists>log. ran (snd w3) = ran (snd w) @ log \<and>
            reported_ids (policy_deploy_args cfg source sample_wasm blocked policy_id no_policy \<noteq> []) log hooks_id pol"
      and "record_step (recording C) J cfg config_path hooks_id pol
            (case sac_opt of Some b \<Rightarrow> b | None \<Rightarrow> dep_sac_passthrough cfg) w3 = (res, w')"
proof -
  let ?sac = "case sac_opt of Some b \<Rightarrow> b | None \<Rightarrow> dep_sac_passthrough cfg"
  obtain r1 w1 where d: "deploy_hooks (recording C) cfg source wasm w = (r1, w1)"
    by (cases "deploy_hooks (recording C) cfg source wasm w")
  show thesis
  proof (cases r1)
    case (Inl msg)
    with assms d have "res = Inl msg" "w' = w1" by (simp_all add: run_deploy_def and_do_def Let_def)
    with only_does_no_write [OF deploy_hooks_no_write d] show ?thesis by (intro stopped) simp_all
  next
    case h: (Inr hooks_id)
    obtain r2 w2 where p: "resolve_policy (recording C) cfg source sample_wasm blocked policy_id no_policy w1 = (r2, w2)"
      by (cases "resolve_policy (recording C) cfg source sample_wasm blocked policy_id no_policy w1")
    note quiet1 = only_does_no_write [OF deploy_hooks_no_write d] only_does_no_write [OF resolve_policy_no_write p]
    show ?thesis
    proof (cases r2)
      case (Inl msg)
      with assms d h p have "res = Inl msg" "w' = w2" by (simp_all add: run_deploy_def and_do_def Let_def)
      with quiet1 show ?thesis by (intro stopped) simp_all
    next
      case q: (Inr pol)
      obtain r3 w3 where b: "bring_up (recording C) cfg source hooks_id pol ?sac w2 = (r3, w3)"
        by (cases "bring_up (recording C) cfg source hooks_id pol ?sac w2")
      show ?thesis
      proof (cases r3)
        case (Inl msg)
        with assms d h p q b have "res = Inl msg" "w' = w3" by (simp_all add: run_deploy_def and_do_def Let_def)
        with quiet1 only_does_no_write [OF bring_up_no_write b] show ?thesis by (intro stopped) simp_all
      next
        case u: (Inr u)
        have rec: "record_step (recording C) J cfg config_path hooks_id pol ?sac w3 = (res, w')"
          using assms d h p q b u by (simp add: run_deploy_def and_do_def record_step_def Let_def split: option.splits)
        have b': "bring_up (recording C) cfg source hooks_id pol ?sac w2 = (Inr (), w3)" using b u by simp
        note dh = deploy_hooks_extends [OF d [unfolded h]] and rp = resolve_policy_extends [OF p [unfolded q]]
        have "extends w w3 (deploy_sequence cfg source wasm sample_wasm blocked policy_id no_policy hooks_id pol ?sac)"
          using extends_trans [OF extends_trans [OF dh [THEN conjunct1] rp [THEN conjunct1]] bring_up_extends [OF b']]
          by (simp add: deploy_sequence_def)
        moreover have "\<exists>log. ran (snd w3) = ran (snd w) @ log \<and>
            reported_ids (policy_deploy_args cfg source sample_wasm blocked policy_id no_policy \<noteq> []) log hooks_id pol"
          by (rule reported_ids_stages [OF d [unfolded h] p [unfolded q] b'])
        ultimately show ?thesis using completed dh rp rec by blast
      qed
    qed
  qed
qed

text \<open>The last step runs no command and writes at most the recorded configuration.\<close>

lemma record_step_effects:
  assumes "record_step (recording C) J cfg config_path hooks_id pol sac w = (res, w')"
  shows "ran (snd w') = ran (snd w) \<and>
    (res = Inr () \<longrightarrow> wrote (snd w') = wrote (snd w) @
       (case config_path of None \<Rightarrow> []
        | Some path \<Rightarrow> [(path, (case config_to_string_pretty J (recorded_config cfg hooks_id pol sac) of
             Inr raw \<Rightarrow> raw @ [newline] | Inl _ \<Rightarrow> []))])) \<and>
    (wrote (snd w') \<noteq> wrote (snd w) \<longrightarrow> (\<exists>path raw. config_path = Some path \<and>
       config_to_string_pretty J (recorded_config cfg hooks_id pol sac) = Inr raw \<and>
       wrote (snd w') = wrote (snd w) @ [(path, raw @ [newline])]))"
proof (cases config_path)
  case None
  with assms show ?thesis by (auto simp: record_step_def recording_println)
next
  case (Some path)
  then have save: "and_do (config_save (recording C) J (recorded_config cfg hooks_id pol sac) path)
      (\<lambda>_. println (recording C) (''config updated: '' @ path)) w = (res, w')"
    using assms by (simp add: record_step_def)
  show ?thesis
  proof (cases "config_to_string_pretty J (recorded_config cfg hooks_id pol sac)")
    case (Inl msg)
    with save Some show ?thesis
      by (auto simp: config_save_def and_do_def map_err_def lift_result_def)
  next
    case (Inr raw)
    obtain r w1 where wr: "write_file C (fst w) path (raw @ [newline]) = (r, w1)"
      by (cases "write_file C (fst w) path (raw @ [newline])")
    with save Inr Some show ?thesis
      by (cases r) (auto simp: config_save_def and_do_def map_err_def lift_result_def recording_write recording_println)
  qed
qed

section \<open>Network registration and routing\<close>

definition network_step :: "deployment \<Rightarrow> effect \<Rightarrow> bool" where
  "network_step cfg ef = (case ef of
      Ran args _ \<Rightarrow> args = network_list_args \<or>
        args = network_add_args (dep_network cfg) (dep_rpc_url cfg) (dep_network_passphrase cfg)
    | _ \<Rightarrow> False)"

lemma ensure_network_does: "only_does (network_step cfg) (ensure_network (recording C) cfg)"
  unfolding ensure_network_def
  by (intro only_does_and_do only_does_run) (auto simp: network_step_def intro!: only_does_and_do only_does_run)

definition verify_step :: "deployment \<Rightarrow> string \<Rightarrow> effect \<Rightarrow> bool" where
  "verify_step cfg source_account ef \<longleftrightarrow>
     network_step cfg ef \<or> is_view_of cfg source_account ef \<or> (\<exists>line. ef = Printed line)"

lemma print_report_does:
  "(\<And>line. P (Printed line)) \<Longrightarrow> only_does P (print_report (recording C) cs cfg source_account)"
  unfolding print_report_def print_check_def
  by (intro only_does_and_do only_does_println only_does_for_each) (auto intro!: only_does_println)

lemma run_verify_does:
  "only_does (verify_step cfg (case source_account of Some s \<Rightarrow> s | None \<Rightarrow> admin_public_key (dep_admin cfg)))
     (run_verify (recording C) J cfg source_account account)"
proof -
  let ?sa = "case source_account of Some s \<Rightarrow> s | None \<Rightarrow> admin_public_key (dep_admin cfg)"
  have net: "only_does (verify_step cfg ?sa) (ensure_network (recording C) cfg)"
    by (rule only_does_weaken [OF ensure_network_does]) (simp add: verify_step_def)
  have ver: "only_does (verify_step cfg ?sa)
      (\<lambda>w. case verify (recording C) J cfg ?sa account w of (cs, w) \<Rightarrow> (Inr cs, w))"
    by (rule only_does_bind [OF only_does_weaken [OF verify_does]]) (auto simp: verify_step_def)
  have rep: "only_does (verify_step cfg ?sa) (print_report (recording C) cs cfg ?sa)" for cs
    by (rule print_report_does) (simp add: verify_step_def)
  show ?thesis
    unfolding run_verify_def Let_def
    using net ver rep by (auto intro!: only_does_and_do)
qed

end
