(* ===== verification/Enforcement.thy ===== *)
theory Enforcement
  imports Contract
begin

text \<open>
  The abstract contract: one transition function on the enforcement state, given who signed and what
  the other contracts answer, and the proof that the entry points of \<^theory_text>\<open>Contract\<close> implement it.

  \<open>implements\<close> relates a reply to an abstract outcome: a trap to \<open>Trapped\<close>, an \<^verbatim>\<open>Err\<close> that has written
  nothing to \<open>Rejected\<close>, an \<^verbatim>\<open>Ok\<close> to \<open>Done\<close> with the new state and the published events.
\<close>

section \<open>The transition function\<close>

datatype outcome = Trapped | Rejected contract_error | Done enforcement "event list"

definition admin_only :: "enforcement \<Rightarrow> (address \<Rightarrow> bool) \<Rightarrow> outcome \<Rightarrow> outcome" where
  "admin_only st signs k =
     (case st_admin st of
        None \<Rightarrow> Rejected InvalidConfigurationErr
      | Some a \<Rightarrow> if signs a then k else Trapped)"

definition in_scope :: "enforcement \<Rightarrow> address \<Rightarrow> outcome \<Rightarrow> outcome" where
  "in_scope st tk k =
     (if st_config st = None then Rejected InvalidConfigurationErr
      else if st_bindings st tk = None then Rejected UnboundTokenErr
      else k)"

definition next_version :: "enforcement \<Rightarrow> u32 option" where
  "next_version st = checked_add (case st_config_version st of None \<Rightarrow> 0 | Some n \<Rightarrow> n) 1"

definition configured :: "compliance_config \<Rightarrow> enforcement \<Rightarrow> outcome" where
  "configured cfg st =
     (if st_config st = Some cfg then Done st []
      else case next_version st of
        None \<Rightarrow> Trapped
      | Some n \<Rightarrow>
          Done (st\<lparr>st_config := Some cfg, st_config_version := Some n,
                   st_version := (case st_version st of None \<Rightarrow> Some VERSION | v \<Rightarrow> v)\<rparr>)
            [ComplianceConfigChangedEv (cfg_policy cfg) (cfg_sac_passthrough cfg)])"

definition bound_to :: "address \<Rightarrow> token_binding \<Rightarrow> enforcement \<Rightarrow> outcome" where
  "bound_to tk b st =
     (if st_bindings st tk = Some b then Done st []
      else Done (st\<lparr>st_bindings := (st_bindings st)(tk := Some b)\<rparr>) [TokenBoundEv tk])"

definition unbound :: "address \<Rightarrow> enforcement \<Rightarrow> outcome" where
  "unbound tk st =
     (if st_bindings st tk = None then Done st []
      else Done (st\<lparr>st_bindings := (st_bindings st)(tk := None)\<rparr>) [TokenUnboundEv tk])"

definition mark_frozen :: "address \<Rightarrow> address \<Rightarrow> bool \<Rightarrow> enforcement \<Rightarrow> enforcement" where
  "mark_frozen tk acc flag st =
     st\<lparr>st_frozen := (st_frozen st)(tk := (st_frozen st tk)(acc := flag))\<rparr>"

definition flagged :: "address \<Rightarrow> address \<Rightarrow> bool \<Rightarrow> enforcement \<Rightarrow> outcome" where
  "flagged tk acc flag st =
     (if st_frozen st tk acc = flag then Done st []
      else Done (mark_frozen tk acc flag st)
        [if flag then AccountFrozenEv tk acc else AccountUnfrozenEv tk acc])"

definition verdict_outcome :: "enforcement \<Rightarrow> compliance_decision \<Rightarrow> outcome" where
  "verdict_outcome st d = (case d of Allow \<Rightarrow> Done st [] | Deny r \<Rightarrow> Rejected (from_reason r))"

fun spec_step :: "enforcement \<Rightarrow> (address \<Rightarrow> bool) \<Rightarrow> views \<Rightarrow> entry_call \<Rightarrow> outcome" where
  "spec_step st signs ask (Initialize adm) =
     (if st_admin st \<noteq> None then Rejected AlreadyInitializedErr
      else if \<not> signs adm then Trapped
      else Done (st\<lparr>st_admin := Some adm, st_version := Some VERSION\<rparr>) [InitializedEv adm])"
| "spec_step st signs ask (SetConfig pol passthrough) =
     admin_only st signs (configured \<lparr>cfg_policy = pol, cfg_sac_passthrough = passthrough\<rparr> st)"
| "spec_step st signs ask (BindToken tk sac) =
     admin_only st signs (bound_to tk \<lparr>binding_sac = sac\<rparr> st)"
| "spec_step st signs ask (UnbindToken tk) = admin_only st signs (unbound tk st)"
| "spec_step st signs ask (FreezeAccount tk acc) =
     admin_only st signs (in_scope st tk (flagged tk acc True st))"
| "spec_step st signs ask (UnfreezeAccount tk acc) =
     admin_only st signs (in_scope st tk (flagged tk acc False st))"
| "spec_step st signs ask c =
     (case hook_of c of
        Some (tk, op, accs) \<Rightarrow> verdict_outcome st (decide st ask tk op accs)
      | None \<Rightarrow> Trapped)"

lemma spec_step_hook:
  "hook_of c = Some (tk, op, accs) \<Longrightarrow>
   spec_step st signs ask c = verdict_outcome st (decide st ask tk op accs)"
  by (cases c) auto

section \<open>The refinement relation\<close>

definition implements :: "'s chost \<Rightarrow> 's \<Rightarrow> 's reply \<Rightarrow> outcome \<Rightarrow> bool" where
  "implements H e r out =
     (case r of
        None \<Rightarrow> out = Trapped
      | Some (Inl err, e') \<Rightarrow> out = Rejected err \<and> quiet H e e'
      | Some (Inr _, e') \<Rightarrow>
          (case out of
             Done st evs \<Rightarrow>
               well_typed H e' \<and> state_of H e' = st \<and> published H e' = published H e @ evs
           | _ \<Rightarrow> False))"

lemma implements_simps [simp]:
  "implements H e None out \<longleftrightarrow> out = Trapped"
  "implements H e (Some (Inl err, e')) out \<longleftrightarrow> out = Rejected err \<and> quiet H e e'"
  "implements H e (Some (Inr u, e')) (Done st evs) \<longleftrightarrow>
     well_typed H e' \<and> state_of H e' = st \<and> published H e' = published H e @ evs"
  "\<not> implements H e (Some (Inr u, e')) Trapped"
  "\<not> implements H e (Some (Inr u, e')) (Rejected err)"
  by (simp_all add: implements_def)

text \<open>A reply computed after a quiet prefix implements what it implements from the start.\<close>

lemma implements_quiet:
  assumes "quiet H e e'" and "implements H e' r out"
  shows "implements H e r out"
  using assms quietD(3) [OF assms(1)]
  by (auto simp: implements_def elim: quiet_trans split: option.splits prod.splits sum.splits outcome.splits)

context contract_host
begin

lemma implements_unchanged:
  "well_typed H e \<Longrightarrow> quiet H e e' \<Longrightarrow> implements H e (Some (Inr u, e')) (Done (state_of H e) [])"
  by (simp add: quiet_well_typed quiet_state_of quietD)

lemma admin_gate_implements:
  assumes "well_typed H e"
    and "\<And>e'. quiet H e e' \<Longrightarrow> implements H e' (k e') out"
  shows "implements H e (try_then (admin_gate H e) k) (admin_only (state_of H e) (authorized H e) out)"
  using assms(1)
proof (cases rule: require_admin_cases)
  case uninitialized
  then show ?thesis by (simp add: admin_gate_def admin_only_def)
next
  case (unsigned a)
  then show ?thesis by (simp add: admin_gate_def admin_only_def)
next
  case (signed a e')
  then show ?thesis
    using implements_quiet [OF signed(4) assms(2) [OF signed(4)]] by (simp add: admin_gate_def admin_only_def)
qed

lemma scope_gate_implements:
  assumes "well_typed H e"
    and "\<And>e'. quiet H e e' \<Longrightarrow> implements H e' (k e') out"
  shows "implements H e (try_then (scope_gate H e tk) k) (in_scope (state_of H e) tk out)"
proof -
  have "implements H e (k (touch H e (TokenBinding tk))) out"
    by (rule implements_quiet [OF quiet_touch assms(2)]) (rule quiet_touch)
  with assms(1) show ?thesis
    by (simp add: scope_gate_def in_scope_def quiet_touch)
qed

section \<open>The administrative entry points\<close>

lemma initialize_implements:
  assumes "well_typed H e"
  shows "implements H e (initialize H e adm) (spec_step (state_of H e) (authorized H e) ask (Initialize adm))"
proof (cases rule: require_auth_cases [of e adm])
  case trap
  with assms show ?thesis by (simp add: initialize_def)
next
  case (signed e')
  with assms show ?thesis
    by (simp add: initialize_def Let_def emit_defs quiet_well_typed quiet_state_of quietD host_laws
        del: well_typed_writes(9)) (simp add: quiet_well_typed)
qed

lemma set_config_body_implements:
  assumes "well_typed H e"
  shows "implements H e
    (do {
       let nxt = cfg;
       current \<leftarrow> compliance_config H e;
       if current = Some nxt then Some (Inr (), e)
       else do {
         e \<leftarrow> set_compliance_config H e nxt;
         e \<leftarrow> bump_config_version H e;
         let e = emit_compliance_config_changed H e (cfg_policy nxt) (cfg_sac_passthrough nxt);
         Some (Inr (), e)
       }
     }) (configured cfg (state_of H e))"
proof (rule set_compliance_config_eq [OF assms, of cfg])
  fix e'
  assume e': "set_compliance_config H e cfg = Some e'" "well_typed H e'" "published H e' = published H e"
    "state_of H e' = (state_of H e)\<lparr>st_config := Some cfg,
       st_version := (case st_version (state_of H e) of None \<Rightarrow> Some VERSION | v \<Rightarrow> v)\<rparr>"
  then show ?thesis
    using assms
    by (cases "next_version (state_of H e)")
      (simp_all add: configured_def next_version_def bump_config_version_eq Let_def emit_defs host_laws
        instance_set_config_version_state)
qed

lemma set_config_implements:
  assumes "well_typed H e"
  shows "implements H e (set_config H e pol passthrough)
    (spec_step (state_of H e) (authorized H e) ask (SetConfig pol passthrough))"
  unfolding set_config_def spec_step.simps
proof (rule admin_gate_implements [OF assms])
  fix e'
  assume q: "quiet H e e'"
  then have "well_typed H e'" using assms by (simp add: quiet_well_typed)
  from set_config_body_implements [OF this, of "\<lparr>cfg_policy = pol, cfg_sac_passthrough = passthrough\<rparr>"]
  show "implements H e'
    (do {
       let nxt = \<lparr>cfg_policy = pol, cfg_sac_passthrough = passthrough\<rparr>;
       current \<leftarrow> compliance_config H e';
       if current = Some nxt then Some (Inr (), e')
       else do {
         e \<leftarrow> set_compliance_config H e' nxt;
         e \<leftarrow> bump_config_version H e;
         let e = emit_compliance_config_changed H e (cfg_policy nxt) (cfg_sac_passthrough nxt);
         Some (Inr (), e)
       }
     }) (configured \<lparr>cfg_policy = pol, cfg_sac_passthrough = passthrough\<rparr> (state_of H e))"
    by (simp only: quiet_state_of [OF q])
qed

lemma bind_token_implements:
  assumes "well_typed H e"
  shows "implements H e (bind_token H e tk sac)
    (spec_step (state_of H e) (authorized H e) ask (BindToken tk sac))"
  unfolding bind_token_def spec_step.simps
proof (rule admin_gate_implements [OF assms])
  fix e'
  assume q: "quiet H e e'"
  then have wt: "well_typed H e'" using assms by (simp add: quiet_well_typed)
  show "implements H e'
    (do {
       (binding, e) \<leftarrow> token_binding H e' tk;
       let same = (case map_option (\<lambda>b. binding_sac b = sac) binding of None \<Rightarrow> False | Some s \<Rightarrow> s);
       if same then Some (Inr (), e)
       else do {
         let e = storage_bind H e tk sac;
         let e = emit_token_bound H e tk;
         Some (Inr (), e)
       }
     }) (bound_to tk \<lparr>binding_sac = sac\<rparr> (state_of H e))"
  proof (cases "st_bindings (state_of H e) tk")
    case None
    then show ?thesis
      using wt q by (simp add: bound_to_def Let_def emit_defs host_laws quiet_state_of)
  next
    case (Some b)
    then show ?thesis
      using wt q by (cases b) (auto simp: bound_to_def Let_def emit_defs host_laws quiet_state_of)
  qed
qed

lemma unbind_token_implements:
  assumes "well_typed H e"
  shows "implements H e (unbind_token H e tk)
    (spec_step (state_of H e) (authorized H e) ask (UnbindToken tk))"
  unfolding unbind_token_def spec_step.simps
proof (rule admin_gate_implements [OF assms])
  fix e'
  assume q: "quiet H e e'"
  then have "well_typed H e'" using assms by (simp add: quiet_well_typed)
  then show "implements H e'
    (do {
       (bound, e) \<leftarrow> is_token_bound H e' tk;
       if \<not> bound then Some (Inr (), e)
       else do {
         let e = storage_unbind H e tk;
         let e = emit_token_unbound H e tk;
         Some (Inr (), e)
       }
     }) (unbound tk (state_of H e))"
    using q by (auto simp: unbound_def Let_def emit_defs host_laws quiet_state_of)
qed

lemma freeze_implements:
  assumes "well_typed H e"
  shows "implements H e (freeze H e tk acc)
    (spec_step (state_of H e) (authorized H e) ask (FreezeAccount tk acc))"
  unfolding freeze_def spec_step.simps
proof (rule admin_gate_implements [OF assms])
  fix e1
  assume q1: "quiet H e e1"
  then have wt: "well_typed H e1" using assms by (simp add: quiet_well_typed)
  show "implements H e1 (try_then (scope_gate H e1 tk) (\<lambda>e.
     (case storage_is_frozen H e tk acc of (frozen, e) \<Rightarrow>
        if \<not> frozen then
          (let e = storage_freeze H e tk acc;
               e = emit_account_frozen H e tk acc
           in Some (Inr (), e))
        else Some (Inr (), e)))) (in_scope (state_of H e) tk (flagged tk acc True (state_of H e)))"
    unfolding quiet_state_of [OF q1, symmetric]
  proof (rule scope_gate_implements [OF wt])
    fix e2
    assume "quiet H e1 e2"
    with wt show "implements H e2
      (case storage_is_frozen H e2 tk acc of (frozen, e) \<Rightarrow>
        if \<not> frozen then
          (let e = storage_freeze H e tk acc;
               e = emit_account_frozen H e tk acc
           in Some (Inr (), e))
        else Some (Inr (), e)) (flagged tk acc True (state_of H e1))"
      by (simp add: flagged_def mark_frozen_def Let_def emit_defs host_laws quiet_state_of quiet_well_typed)
  qed
qed

lemma unfreeze_implements:
  assumes "well_typed H e"
  shows "implements H e (unfreeze H e tk acc)
    (spec_step (state_of H e) (authorized H e) ask (UnfreezeAccount tk acc))"
  unfolding unfreeze_def spec_step.simps
proof (rule admin_gate_implements [OF assms])
  fix e1
  assume q1: "quiet H e e1"
  then have wt: "well_typed H e1" using assms by (simp add: quiet_well_typed)
  show "implements H e1 (try_then (scope_gate H e1 tk) (\<lambda>e.
     (case storage_is_frozen H e tk acc of (frozen, e) \<Rightarrow>
        if frozen then
          (let e = storage_unfreeze H e tk acc;
               e = emit_account_unfrozen H e tk acc
           in Some (Inr (), e))
        else Some (Inr (), e)))) (in_scope (state_of H e) tk (flagged tk acc False (state_of H e)))"
    unfolding quiet_state_of [OF q1, symmetric]
  proof (rule scope_gate_implements [OF wt])
    fix e2
    assume "quiet H e1 e2"
    with wt show "implements H e2
      (case storage_is_frozen H e2 tk acc of (frozen, e) \<Rightarrow>
        if frozen then
          (let e = storage_unfreeze H e tk acc;
               e = emit_account_unfrozen H e tk acc
           in Some (Inr (), e))
        else Some (Inr (), e)) (flagged tk acc False (state_of H e1))"
      by (simp add: flagged_def mark_frozen_def Let_def emit_defs host_laws quiet_state_of quiet_well_typed)
  qed
qed

lemma admin_call_implements:
  assumes "well_typed H e" and "hook_of c = None"
  shows "implements H e (dispatch H e c) (spec_step (state_of H e) (authorized H e) ask c)"
  using assms
  by (cases c) (simp_all del: spec_step.simps add: initialize_implements set_config_implements
      bind_token_implements unbind_token_implements freeze_implements unfreeze_implements)

section \<open>Hooks, on any host\<close>

lemma dispatch_hook_cases [consumes 2]:
  assumes "well_typed H e" and "hook_of c = Some (tk, op, accs)"
  obtains (allowed) e' where "dispatch H e c = Some (Inr (), e')" and "quiet H e e'"
      and "evaluate H e tk op accs = Some (Allow, e')"
  | (denied) r e' where "dispatch H e c = Some (Inl (from_reason r), e')" and "quiet H e e'"
      and "evaluate H e tk op accs = Some (Deny r, e')"
proof -
  obtain d e' where ev: "evaluate H e tk op accs = Some (d, e')" and q: "quiet H e e'"
    using evaluate_total [OF assms(1)] by blast
  then have disp: "dispatch H e c = Some (enforce d, e')"
    by (simp add: dispatch_hook [OF assms(2)])
  show ?thesis
  proof (cases d)
    case Allow
    with disp ev q show ?thesis by (intro allowed) (simp_all add: enforce_def)
  next
    case (Deny r)
    with disp ev q show ?thesis by (intro denied) (simp_all add: enforce_def)
  qed
qed

end

context view_contract_host
begin

lemma dispatch_hook_decides:
  assumes "well_typed H e" and "hook_of c = Some (tk, op, accs)"
  obtains e' where "dispatch H e c = Some (enforce (decide (state_of H e) (views_of H e) tk op accs), e')"
    and "quiet H e e'"
proof -
  obtain d e' where ev: "evaluate H e tk op accs = Some (d, e')" and q: "quiet H e e'"
    using evaluate_total [OF assms(1)] by blast
  then have "d = decide (state_of H e) (views_of H e) tk op accs"
    using evaluate_decide [OF assms(1), of tk op accs] by simp
  with ev q show ?thesis
    by (intro that [of e']) (simp_all add: dispatch_hook [OF assms(2)])
qed

lemma hook_implements:
  assumes "well_typed H e" and "hook_of c = Some (tk, op, accs)"
  shows "implements H e (dispatch H e c)
    (spec_step (state_of H e) (authorized H e) (views_of H e) c)"
proof (rule dispatch_hook_decides [OF assms])
  fix e'
  assume "dispatch H e c = Some (enforce (decide (state_of H e) (views_of H e) tk op accs), e')"
    and "quiet H e e'"
  with assms show ?thesis
    by (cases "decide (state_of H e) (views_of H e) tk op accs")
      (simp_all add: spec_step_hook verdict_outcome_def enforce_def quiet_well_typed quiet_state_of quietD)
qed

lemma dispatch_implements:
  assumes "well_typed H e"
  shows "implements H e (dispatch H e c) (spec_step (state_of H e) (authorized H e) (views_of H e) c)"
proof (cases "hook_of c")
  case (Some p)
  with assms show ?thesis by (cases p) (auto intro: hook_implements)
next
  case None
  with assms show ?thesis by (intro admin_call_implements)
qed

end

end
