(* ===== verification/Lifecycle.thy ===== *)
theory Lifecycle
  imports Enforcement
begin

text \<open>
  A deployment over time: what a sequence of invocations, interleaved with anything the rest of the
  ledger does, can make of the contract's state. \<open>reachable\<close> is every state a deployment can be
  in, \<open>run\<close> relates two states by the calls between them. The invariant \<open>coherent\<close> connects the
  state with the event log; it is proved on the transition function of \<^theory_text>\<open>Enforcement\<close> and carried to
  the contract through the refinement. Nothing here needs the views to be pure.
\<close>

section \<open>Transition systems\<close>

text \<open>
  An \<open>environment\<close> step is what happens between two invocations: other signers, other answers of the
  policy and of the SAC, renewed TTLs. It does not touch the contract's entries and events.
\<close>

inductive reachable :: "'s chost \<Rightarrow> 's \<Rightarrow> bool" for H where
  fresh: "instance_get H e = Map.empty \<Longrightarrow> persistent_get H e = Map.empty \<Longrightarrow> published H e = [] \<Longrightarrow>
    reachable H e"
| call: "reachable H e \<Longrightarrow> reachable H (invoke H e c)"
| environment: "reachable H e \<Longrightarrow> quiet H e e' \<Longrightarrow> reachable H e'"

inductive run :: "'s chost \<Rightarrow> 's \<Rightarrow> entry_call list \<Rightarrow> 's \<Rightarrow> bool" for H where
  start: "run H e [] e"
| call: "run H e cs e' \<Longrightarrow> run H e (cs @ [c]) (invoke H e' c)"
| environment: "run H e cs e' \<Longrightarrow> quiet H e' e'' \<Longrightarrow> run H e cs e''"

lemma run_reachable: "run H e cs e' \<Longrightarrow> reachable H e \<Longrightarrow> reachable H e'"
  by (induction rule: run.induct) (auto intro: reachable.intros)

section \<open>One invocation\<close>

context contract_host
begin

text \<open>
  An invocation that commits anything is an administrative transition of the abstract contract; every
  other invocation is quiet.
\<close>

lemma dispatch_cases [consumes 1, case_names trapped rejected hook admin]:
  assumes wt: "well_typed H e"
  obtains (trapped) "dispatch H e c = None"
  | (rejected) err e' where "dispatch H e c = Some (Inl err, e')" and "quiet H e e'"
  | (hook) e' where "dispatch H e c = Some (Inr (), e')" and "hook_of c \<noteq> None" and "quiet H e e'"
  | (admin) e' evs where "dispatch H e c = Some (Inr (), e')" and "hook_of c = None"
      and "\<And>ask. spec_step (state_of H e) (authorized H e) ask c = Done (state_of H e') evs"
      and "published H e' = published H e @ evs" and "well_typed H e'"
proof (cases "hook_of c")
  case (Some p)
  then obtain tk op accs where h: "hook_of c = Some (tk, op, accs)" by (cases p) auto
  from wt h show ?thesis
  proof (cases rule: dispatch_hook_cases)
    case (allowed e')
    with h show ?thesis by (intro that(3)) auto
  next
    case (denied r e')
    then show ?thesis by (intro that(2))
  qed
next
  case None
  with wt have impl: "implements H e (dispatch H e c) (spec_step (state_of H e) (authorized H e) ask c)" for ask
    by (rule admin_call_implements)
  show ?thesis
  proof (cases "dispatch H e c")
    case d: None
    then show ?thesis by (rule that(1))
  next
    case d: (Some r)
    obtain e' where r: "r = (fst r, e')" by (cases r) auto
    show ?thesis
    proof (cases "fst r")
      case (Inl err)
      then show ?thesis using impl d r by (intro that(2) [of err e']) (auto simp: implements_def)
    next
      case (Inr u)
      have "\<exists>evs. spec_step (state_of H e) (authorized H e) ask c = Done (state_of H e') evs \<and>
          published H e' = published H e @ evs \<and> well_typed H e'" for ask
        using impl [of ask] d r Inr by (cases r) (auto simp: implements_def split: outcome.splits)
      then obtain evs where evs: "published H e' = published H e @ evs" and "well_typed H e'"
        and "\<And>ask. spec_step (state_of H e) (authorized H e) ask c = Done (state_of H e') evs"
        by (metis append_same_eq same_append_eq)
      then show ?thesis using d r Inr None by (intro that(4) [of e' evs]) auto
    qed
  qed
qed

lemma invoke_cases [consumes 1, case_names quiet admin]:
  assumes "well_typed H e"
  obtains (quiet) "quiet H e (invoke H e c)"
  | (admin) evs where "dispatch H e c = Some (Inr (), invoke H e c)" and "hook_of c = None"
      and "\<And>ask. spec_step (state_of H e) (authorized H e) ask c = Done (state_of H (invoke H e c)) evs"
      and "published H (invoke H e c) = published H e @ evs" and "well_typed H (invoke H e c)"
  using assms
proof (cases rule: dispatch_cases [where c = c])
  case (admin e' evs)
  then show ?thesis by (intro that(2) [of evs]) (simp_all add: invoke_def)
qed (simp_all add: invoke_def that(1))

lemma well_typed_invoke: "well_typed H e \<Longrightarrow> well_typed H (invoke H e c)"
  by (cases rule: invoke_cases [where c = c]) (simp_all add: quiet_well_typed)

lemma well_typed_reachable: "reachable H e \<Longrightarrow> well_typed H e"
proof (induction rule: reachable.induct)
  case (fresh e)
  then show ?case by (simp add: well_typed_def)
qed (simp_all add: well_typed_invoke quiet_well_typed)

end

section \<open>The invariant\<close>

definition audit_of :: "enforcement \<Rightarrow> audit_view" where
  "audit_of st =
    \<lparr>seen_admin = st_admin st,
     seen_config = map_option (\<lambda>c. (cfg_policy c, cfg_sac_passthrough c)) (st_config st),
     seen_bound = (\<lambda>tk. st_bindings st tk \<noteq> None),
     seen_frozen = st_frozen st\<rparr>"

definition version_count :: "enforcement \<Rightarrow> nat" where
  "version_count st = (case st_config_version st of None \<Rightarrow> 0 | Some n \<Rightarrow> unat n)"

definition coherent :: "enforcement \<Rightarrow> event list \<Rightarrow> bool" where
  "coherent st evs \<longleftrightarrow>
     replay evs = audit_of st \<and>
     version_count st = config_changes evs \<and>
     (st_config st = None \<longleftrightarrow> st_config_version st = None) \<and>
     (st_config st \<noteq> None \<longrightarrow> 0 < version_count st) \<and>
     (st_admin st = None \<longrightarrow> st_config st = None \<and> st_version st = None \<and>
        st_bindings st = (\<lambda>_. None) \<and> st_frozen st = (\<lambda>_ _. False)) \<and>
     (st_admin st \<noteq> None \<longrightarrow> st_version st = Some VERSION) \<and>
     (st_config st = None \<longrightarrow> st_frozen st = (\<lambda>_ _. False))"

lemma replay_append: "replay (evs @ evs') = foldl replay_event (replay evs) evs'"
  by (simp add: replay_def)

lemma next_version_Some:
  "next_version st = Some n \<Longrightarrow> unat n = Suc (version_count st)"
  by (auto simp: next_version_def version_count_def dest!: checked_add_Some split: option.splits)

text \<open>How an administrative transition that commits came about.\<close>

lemma admin_only_Done:
  "admin_only st signs k = Done st' evs \<longleftrightarrow>
     (\<exists>a. st_admin st = Some a \<and> signs a \<and> k = Done st' evs)"
  by (auto simp: admin_only_def split: option.splits)

lemma in_scope_Done:
  "in_scope st tk k = Done st' evs \<longleftrightarrow>
     st_config st \<noteq> None \<and> st_bindings st tk \<noteq> None \<and> k = Done st' evs"
  by (auto simp: in_scope_def)

lemma configured_Done:
  "configured cfg st = Done st' evs \<longleftrightarrow>
     (st_config st = Some cfg \<and> st' = st \<and> evs = []) \<or>
     (st_config st \<noteq> Some cfg \<and> (\<exists>n. next_version st = Some n \<and>
        st' = st\<lparr>st_config := Some cfg, st_config_version := Some n,
                 st_version := (case st_version st of None \<Rightarrow> Some VERSION | v \<Rightarrow> v)\<rparr> \<and>
        evs = [ComplianceConfigChangedEv (cfg_policy cfg) (cfg_sac_passthrough cfg)]))"
  by (auto simp: configured_def split: option.splits)

lemma coherent_configured:
  assumes "coherent st evs" and "st_admin st \<noteq> None" and "configured cfg st = Done st' evs'"
  shows "coherent st' (evs @ evs')"
  using assms(3) unfolding configured_Done
proof (elim disjE conjE exE)
  assume "st' = st" and "evs' = []"
  with assms show ?thesis by simp
next
  fix n
  assume n: "next_version st = Some n"
    and st': "st' = st\<lparr>st_config := Some cfg, st_config_version := Some n,
                 st_version := (case st_version st of None \<Rightarrow> Some VERSION | v \<Rightarrow> v)\<rparr>"
    and evs': "evs' = [ComplianceConfigChangedEv (cfg_policy cfg) (cfg_sac_passthrough cfg)]"
  have "version_count st' = Suc (version_count st)"
    using next_version_Some [OF n] by (simp add: st' version_count_def)
  with assms st' evs' show ?thesis
    by (auto simp: coherent_def audit_of_def)
qed

lemma coherent_bound_to:
  "coherent st evs \<Longrightarrow> st_admin st \<noteq> None \<Longrightarrow> bound_to tk b st = Done st' evs' \<Longrightarrow>
   coherent st' (evs @ evs')"
  by (auto simp: bound_to_def coherent_def audit_of_def version_count_def fun_eq_iff split: if_splits)

lemma coherent_unbound:
  "coherent st evs \<Longrightarrow> st_admin st \<noteq> None \<Longrightarrow> unbound tk st = Done st' evs' \<Longrightarrow>
   coherent st' (evs @ evs')"
  by (auto simp: unbound_def coherent_def audit_of_def version_count_def fun_eq_iff split: if_splits)

lemma coherent_flagged:
  "coherent st evs \<Longrightarrow> st_admin st \<noteq> None \<Longrightarrow> st_config st \<noteq> None \<Longrightarrow>
   flagged tk acc flag st = Done st' evs' \<Longrightarrow> coherent st' (evs @ evs')"
  by (auto simp: flagged_def mark_frozen_def coherent_def audit_of_def version_count_def fun_eq_iff
      split: if_splits)

lemma coherent_step:
  assumes coh: "coherent st evs" and step: "spec_step st signs ask c = Done st' evs'"
  shows "coherent st' (evs @ evs')"
proof (cases "hook_of c")
  case (Some p)
  with step show ?thesis
    using coh by (cases p) (auto simp: spec_step_hook verdict_outcome_def split: compliance_decision.splits)
next
  case None
  show ?thesis
  proof (cases c)
    case (Initialize adm)
    with step coh show ?thesis
      by (auto simp: coherent_def audit_of_def version_count_def split: if_splits)
  next
    case (SetConfig pol s)
    with step coh show ?thesis by (auto simp: admin_only_Done intro: coherent_configured)
  next
    case (BindToken tk sac)
    with step coh show ?thesis by (auto simp: admin_only_Done intro: coherent_bound_to)
  next
    case (UnbindToken tk)
    with step coh show ?thesis by (auto simp: admin_only_Done intro: coherent_unbound)
  next
    case (FreezeAccount tk acc)
    with step coh show ?thesis by (auto simp: admin_only_Done in_scope_Done intro: coherent_flagged)
  next
    case (UnfreezeAccount tk acc)
    with step coh show ?thesis by (auto simp: admin_only_Done in_scope_Done intro: coherent_flagged)
  qed (use None in auto)
qed

context contract_host
begin

lemma coherent_invoke:
  assumes "well_typed H e" and "coherent (state_of H e) (published H e)"
  shows "coherent (state_of H (invoke H e c)) (published H (invoke H e c))"
  using assms(1)
proof (cases rule: invoke_cases [where c = c])
  case quiet
  with assms(2) show ?thesis by (simp add: quiet_state_of quietD)
next
  case (admin evs)
  show ?thesis
    using coherent_step [OF assms(2) admin(3)] admin(4) by simp
qed

lemma coherent_reachable: "reachable H e \<Longrightarrow> coherent (state_of H e) (published H e)"
proof (induction rule: reachable.induct)
  case (fresh e)
  then show ?case
    by (simp add: coherent_def state_of_def audit_of_def blank_view_def version_count_def config_changes_def)
next
  case (call e c)
  then show ?case by (simp add: coherent_invoke well_typed_reachable)
next
  case (environment e e')
  then show ?case by (simp add: quiet_state_of quietD)
qed

lemma configured_means_changed:
  "reachable H e \<Longrightarrow> st_config (state_of H e) \<noteq> None \<Longrightarrow> config_changes (published H e) \<noteq> 0"
  using coherent_reachable [of e] by (auto simp: coherent_def)

end

section \<open>What a single transition can change\<close>

text \<open>Every transition that changes the state was signed: by the admin, or by the admin-to-be.\<close>

lemma step_signed:
  assumes "spec_step st signs ask c = Done st' evs" and "st' \<noteq> st \<or> evs \<noteq> []"
  shows "(\<exists>adm. c = Initialize adm \<and> st_admin st = None \<and> signs adm) \<or>
    (\<exists>a. st_admin st = Some a \<and> signs a \<and> hook_of c = None \<and> st_admin st' = Some a)"
proof (cases "hook_of c")
  case (Some p)
  with assms show ?thesis
    by (cases p) (auto simp: spec_step_hook verdict_outcome_def split: compliance_decision.splits)
next
  case None
  with assms show ?thesis
    by (cases c) (auto simp: admin_only_Done in_scope_Done configured_Done bound_to_def unbound_def
        flagged_def mark_frozen_def split: if_splits)
qed

lemma step_admin:
  "spec_step st signs ask c = Done st' evs \<Longrightarrow> st_admin st = Some a \<Longrightarrow> st_admin st' = Some a"
  using step_signed [of st signs ask c st' evs] by (cases "st' = st") auto

lemma step_config:
  assumes "spec_step st signs ask c = Done st' evs" and "st_config st \<noteq> None"
  shows "st_config st' \<noteq> None"
  using assms
  by (cases c) (auto simp: admin_only_Done in_scope_Done configured_Done bound_to_def unbound_def
      flagged_def mark_frozen_def verdict_outcome_def split: if_splits compliance_decision.splits)

lemma step_bindings:
  assumes "spec_step st signs ask c = Done st' evs"
    and "c \<notin> range (BindToken tk)" and "c \<noteq> UnbindToken tk"
  shows "st_bindings st' tk = st_bindings st tk"
  using assms
  by (cases c) (auto simp: admin_only_Done in_scope_Done configured_Done bound_to_def unbound_def
      flagged_def mark_frozen_def verdict_outcome_def split: if_splits compliance_decision.splits)

lemma step_frozen:
  assumes "spec_step st signs ask c = Done st' evs"
    and "c \<noteq> FreezeAccount tk acc" and "c \<noteq> UnfreezeAccount tk acc"
  shows "st_frozen st' tk acc = st_frozen st tk acc"
  using assms
  by (cases c) (auto simp: admin_only_Done in_scope_Done configured_Done bound_to_def unbound_def
      flagged_def mark_frozen_def verdict_outcome_def split: if_splits compliance_decision.splits)

lemma step_freeze_only_freezes:
  "spec_step st signs ask (FreezeAccount tk acc) = Done st' evs \<Longrightarrow> st_frozen st' tk acc"
  by (auto simp: admin_only_Done in_scope_Done flagged_def mark_frozen_def split: if_splits)

lemma step_keeps_frozen:
  assumes "spec_step st signs ask c = Done st' evs" and "st_frozen st tk acc"
    and "c \<noteq> UnfreezeAccount tk acc"
  shows "st_frozen st' tk acc"
  using assms step_frozen [OF assms(1), of tk acc] step_freeze_only_freezes
  by (cases "c = FreezeAccount tk acc") auto

lemma step_version_count:
  assumes "spec_step st signs ask c = Done st' evs"
  shows "version_count st' = version_count st + config_changes evs"
proof (cases c)
  case (SetConfig pol s)
  then obtain cfg where "configured cfg st = Done st' evs"
    using assms by (auto simp: admin_only_Done)
  then show ?thesis
    unfolding configured_Done
    by (elim disjE conjE exE) (simp_all add: version_count_def next_version_Some [unfolded version_count_def])
qed (use assms in \<open>auto simp: admin_only_Done in_scope_Done bound_to_def unbound_def version_count_def
      flagged_def mark_frozen_def verdict_outcome_def split: if_splits compliance_decision.splits\<close>)

text \<open>An administrative call repeated is accepted and changes nothing, whatever happened to signers in between.\<close>

lemma step_idempotent:
  assumes "spec_step st signs ask c = Done st' evs" and "hook_of c = None" and "\<And>adm. c \<noteq> Initialize adm"
    and "\<And>a. st_admin st' = Some a \<Longrightarrow> signs' a"
  shows "spec_step st' signs' ask' c = Done st' []"
  using assms
  by (cases c) (auto simp: admin_only_def in_scope_def configured_Done configured_def bound_to_def
      unbound_def flagged_def mark_frozen_def split: if_splits option.splits)

section \<open>What a run can change\<close>

context contract_host
begin

lemma invoke_invariant:
  assumes "well_typed H e" and "I (state_of H e)"
    and "\<And>st signs ask st' evs. I st \<Longrightarrow> spec_step st signs ask c = Done st' evs \<Longrightarrow> I st'"
  shows "I (state_of H (invoke H e c))"
  using assms(1)
proof (cases rule: invoke_cases [where c = c])
  case quiet
  with assms(2) show ?thesis by (simp add: quiet_state_of)
next
  case (admin evs)
  show ?thesis by (rule assms(3) [OF assms(2) admin(3)])
qed

lemma well_typed_run: "run H e cs e' \<Longrightarrow> well_typed H e \<Longrightarrow> well_typed H e'"
  by (induction rule: run.induct) (simp_all add: well_typed_invoke quiet_well_typed)

lemma run_invariant:
  assumes "run H e cs e'" and "well_typed H e" and "I (state_of H e)"
    and "\<And>c st signs ask st' evs. c \<in> set cs \<Longrightarrow> I st \<Longrightarrow> spec_step st signs ask c = Done st' evs \<Longrightarrow> I st'"
  shows "I (state_of H e')"
  using assms
proof (induction rule: run.induct)
  case (start e)
  then show ?case by simp
next
  case (call e cs e' c)
  have "I (state_of H e')"
  proof (rule call.IH [OF call.prems(1,2)])
    fix c' st signs ask st' evs
    assume "c' \<in> set cs" and "I st" and "spec_step st signs ask c' = Done st' evs"
    then show "I st'" by (intro call.prems(3) [of c' st signs ask st' evs]) auto
  qed
  then show ?case
  proof (rule invoke_invariant [OF well_typed_run [OF call.hyps call.prems(1)]])
    fix st signs ask st' evs
    assume "I st" and "spec_step st signs ask c = Done st' evs"
    then show "I st'" by (intro call.prems(3) [of c st signs ask st' evs]) auto
  qed
next
  case (environment e cs e' e'')
  then show ?case by (simp add: quiet_state_of)
qed

lemma unsigned_changes_nothing:
  assumes "well_typed H e" and "\<not> authorized H e a" and "st_admin (state_of H e) = Some a"
  shows "quiet H e (invoke H e c)"
  using assms(1)
proof (cases rule: invoke_cases [where c = c])
  case quiet
  then show ?thesis .
next
  case (admin evs)
  show ?thesis
  proof (cases c)
    case (Initialize adm)
    with admin(3) assms(3) show ?thesis by simp
  qed (use admin(2,3) assms(2,3) in \<open>auto simp: admin_only_def\<close>)
qed

end

section \<open>TTL renewal\<close>

context contract_host
begin

lemma touch_renews:
  assumes "persistent_get H e k \<noteq> None"
  shows "TTL_THRESHOLD \<le> persistent_ttl H (touch H e k) k"
proof (cases "persistent_ttl H e k < TTL_THRESHOLD")
  case True
  have le: "TTL_THRESHOLD \<le> TTL_EXTEND_TO"
    by (simp add: TTL_THRESHOLD_def TTL_EXTEND_TO_def DAY_IN_LEDGERS_def)
  from ttl_renewed [OF assms le True] assms le show ?thesis
    by (simp add: touch_def persistent_has)
next
  case False
  with assms show ?thesis
    using ttl_kept [of e k k TTL_THRESHOLD TTL_EXTEND_TO] by (simp add: touch_def persistent_has)
qed

end

end
