(* ===== verification/Sample_Policy.thy ===== *)
theory Sample_Policy
  imports Enforcement
begin

text \<open>
  The deny-list policy of \<^verbatim>\<open>contracts/sample-policy/src/lib.rs\<close> and the prediction oracle the
  integration suites compare the hooks with (\<open>predict\<close>,
  \<^verbatim>\<open>contracts/compliance-hooks/tests/common/mod.rs\<close>). \<open>predict_agrees\<close> shows that oracle and pipeline
  decide alike on a deployment that consults this policy.
\<close>

section \<open>The sample policy contract\<close>

datatype policy_key = BLOCKED

type_synonym 'p policy_host = "('p, policy_key, address option, unit) host"

definition policy_constructor :: "'p policy_host \<Rightarrow> 'p \<Rightarrow> address option \<Rightarrow> 'p" where
  "policy_constructor P e blocked = instance_set P e BLOCKED blocked"

definition sample_is_authorized :: "'p policy_host \<Rightarrow> 'p \<Rightarrow> address \<Rightarrow> address \<Rightarrow> bool option" where
  "sample_is_authorized P e acc tk =
     map_option (\<lambda>blocked. Some acc \<noteq> blocked) (instance_get P e BLOCKED)"

lemma sample_is_authorized_deployed:
  assumes "soroban_host P"
  shows "sample_is_authorized P (policy_constructor P e blocked) acc tk = Some (blocked \<noteq> Some acc)"
  using assms
  by (auto simp: sample_is_authorized_def policy_constructor_def soroban_host.instance_get_set)

text \<open>What a caller sees of a view call on the policy: a trap is an invocation error.\<close>

definition policy_answer :: "'p policy_host \<Rightarrow> 'p \<Rightarrow> address list \<Rightarrow> view_result" where
  "policy_answer P e args =
     (case args of
        [acc, tk] \<Rightarrow> (case sample_is_authorized P e acc tk of None \<Rightarrow> Inl Abort | Some b \<Rightarrow> Inr (Inr b))
      | _ \<Rightarrow> Inl Abort)"

lemma policy_answer_deployed:
  "soroban_host P \<Longrightarrow>
   policy_answer P (policy_constructor P e blocked) [acc, tk] = Inr (Inr (blocked \<noteq> Some acc))"
  by (simp add: policy_answer_def sample_is_authorized_deployed)

section \<open>The prediction oracle\<close>

text \<open>A panic of the oracle (an unknown operation name, a wrong number of parties) is \<open>None\<close>.\<close>

definition predict_roles :: "string \<Rightarrow> bool list option" where
  "predict_roles op =
     (if op = ''register'' \<or> op = ''merge'' \<or> op = ''withdraw'' then Some [True]
      else if op = ''deposit'' \<or> op = ''transfer'' then Some [True, True]
      else if op = ''transfer_from'' then Some [False, True, True]
      else None)"

fun predict_loop ::
  "bool \<Rightarrow> (address \<Rightarrow> bool) \<Rightarrow> (address \<Rightarrow> bool) \<Rightarrow> address option \<Rightarrow> (bool \<times> address) list
     \<Rightarrow> contract_error + unit" where
  "predict_loop passthrough sac_authorized frozen blocked [] = Inr ()"
| "predict_loop passthrough sac_authorized frozen blocked ((funds, party) # rest) =
     (if funds \<and> frozen party then Inl AccountFrozenErr
      else if blocked = Some party then Inl (if funds then PolicyDeniedErr else SpenderNotAuthorizedErr)
      else if funds \<and> passthrough \<and> \<not> sac_authorized party then Inl SacAuthorizationFailedErr
      else predict_loop passthrough sac_authorized frozen blocked rest)"

definition predict ::
  "string \<Rightarrow> bool \<Rightarrow> bool \<Rightarrow> bool \<Rightarrow> (address \<Rightarrow> bool) \<Rightarrow> (address \<Rightarrow> bool) \<Rightarrow> address option \<Rightarrow> address list
     \<Rightarrow> (contract_error + unit) option" where
  "predict op token_bound config_active passthrough sac_authorized frozen blocked accs =
     (if \<not> config_active then Some (Inl InvalidConfigurationErr)
      else if \<not> token_bound then Some (Inl UnboundTokenErr)
      else do {
        roles \<leftarrow> predict_roles op;
        if length roles \<noteq> length accs then None
        else Some (predict_loop passthrough sac_authorized frozen blocked (zip roles accs))
      })"

text \<open>The oracle names the party of a withdrawal once, the hook screens it in both roles.\<close>

definition oracle_parties :: "operation \<Rightarrow> address list \<Rightarrow> address list" where
  "oracle_parties op accs = (if op = Withdraw then take 1 accs else accs)"

section \<open>Oracle and pipeline agree\<close>

text \<open>
  A deployment whose policy, if it has one, is a sample policy with the deny-list entry \<open>blocked\<close>, and whose
  binding, if it names a SAC, names one that authorizes exactly the accounts \<open>sac_authorized\<close>. Without a
  policy nobody is blocked, without a SAC everybody is authorized.
\<close>

definition consults_sample ::
  "views \<Rightarrow> compliance_config \<Rightarrow> address option \<Rightarrow> address option \<Rightarrow> (address \<Rightarrow> bool) \<Rightarrow> bool" where
  "consults_sample ask cfg sac blocked sac_authorized \<longleftrightarrow>
     (case cfg_policy cfg of
        None \<Rightarrow> blocked = None
      | Some pol \<Rightarrow> \<forall>acc tk. ask pol POLICY_FN [acc, tk] = Inr (Inr (blocked \<noteq> Some acc))) \<and>
     (case sac of
        None \<Rightarrow> \<forall>acc. sac_authorized acc
      | Some s \<Rightarrow> \<forall>acc. ask s SAC_AUTHORIZED_FN [acc] = Inr (Inr (sac_authorized acc)))"

lemma predict_party:
  assumes "consults_sample ask cfg sac blocked sac_authorized"
  shows "predict_loop (cfg_sac_passthrough cfg) sac_authorized (st_frozen st tk) blocked
      ((holds_funds role, acc) # rest) =
    (case party_verdict st ask cfg sac tk (role, acc) of
       Allow \<Rightarrow> predict_loop (cfg_sac_passthrough cfg) sac_authorized (st_frozen st tk) blocked rest
     | Deny r \<Rightarrow> Inl (from_reason r))"
  using assms
  by (auto simp: consults_sample_def party_verdict_def freeze_verdict_def policy_verdict_def
      sac_verdict_def split: option.splits)

lemma predict_loop_agrees:
  assumes "consults_sample ask cfg sac blocked sac_authorized"
  shows "predict_loop (cfg_sac_passthrough cfg) sac_authorized (st_frozen st tk) blocked
      (map (\<lambda>(role, acc). (holds_funds role, acc)) ps) =
    enforce (first_denial (map (party_verdict st ask cfg sac tk) ps))"
proof (induction ps)
  case Nil
  show ?case by (simp add: enforce_def)
next
  case (Cons p ps)
  obtain role acc where p: "p = (role, acc)" by (cases p)
  show ?case
    using Cons.IH predict_party [OF assms, of st tk role acc]
    by (cases "party_verdict st ask cfg sac tk p") (simp_all add: p enforce_def)
qed

text \<open>Screening the same fund holder a second time changes no verdict.\<close>

lemma second_screening:
  "first_denial [party_verdict st ask cfg sac tk (From, acc), party_verdict st ask cfg sac tk (To, acc)]
   = party_verdict st ask cfg sac tk (From, acc)"
proof -
  have "party_verdict st ask cfg sac tk (To, acc) = party_verdict st ask cfg sac tk (From, acc)"
    by (cases sac) (simp_all add: party_verdict_def freeze_verdict_def policy_verdict_def sac_verdict_def)
  then show ?thesis by (cases "party_verdict st ask cfg sac tk (From, acc)") simp_all
qed

lemma predict_decide:
  assumes hook: "hook_of c = Some (tk, op, accs)"
    and sample: "\<And>cfg b. st_config st = Some cfg \<Longrightarrow> st_bindings st tk = Some b \<Longrightarrow>
      consults_sample ask cfg (binding_sac b) blocked sac_authorized"
  shows "predict (operation_name op) (st_bindings st tk \<noteq> None) (st_config st \<noteq> None)
      (case st_config st of None \<Rightarrow> False | Some cfg \<Rightarrow> cfg_sac_passthrough cfg)
      sac_authorized (st_frozen st tk) blocked (oracle_parties op accs)
    = Some (enforce (decide st ask tk op accs))"
proof (cases "st_config st")
  case None
  then show ?thesis by (simp add: predict_def decide_def enforce_def)
next
  case cfg: (Some cfg)
  show ?thesis
  proof (cases "st_bindings st tk")
    case None
    with cfg show ?thesis by (simp add: predict_def decide_def enforce_def)
  next
    case b: (Some b)
    note agrees = predict_loop_agrees [OF sample [OF cfg b], of st tk]
    have dec: "decide st ask tk op accs =
        first_denial (map (party_verdict st ask cfg (binding_sac b) tk) (zip (parties op) accs))"
      using cfg b hook_arity [OF hook] by (simp add: decide_def)
    show ?thesis
    proof (cases c)
      case (BeforeRegister tk' acc)
      with hook cfg b dec agrees [of "[(Account, acc)]"] show ?thesis
        by (auto simp: predict_def predict_roles_def oracle_parties_def)
    next
      case (BeforeDeposit tk' src dst)
      with hook cfg b dec agrees [of "[(From, src), (To, dst)]"] show ?thesis
        by (auto simp: predict_def predict_roles_def oracle_parties_def)
    next
      case (BeforeTransfer tk' src dst)
      with hook cfg b dec agrees [of "[(From, src), (To, dst)]"] show ?thesis
        by (auto simp: predict_def predict_roles_def oracle_parties_def)
    next
      case (BeforeWithdraw tk' acc)
      with hook cfg b dec agrees [of "[(From, acc)]"] second_screening [of st ask cfg "binding_sac b" tk acc]
      show ?thesis
        by (auto simp: predict_def predict_roles_def oracle_parties_def simp del: predict_loop.simps)
    next
      case (BeforeMerge tk' acc)
      with hook cfg b dec agrees [of "[(Account, acc)]"] show ?thesis
        by (auto simp: predict_def predict_roles_def oracle_parties_def)
    next
      case (BeforeTransferFrom tk' spender src dst)
      with hook cfg b dec agrees [of "[(Spender, spender), (From, src), (To, dst)]"] show ?thesis
        by (auto simp: predict_def predict_roles_def oracle_parties_def simp del: predict_loop.simps)
    qed (use hook in auto)
  qed
qed

text \<open>What the contract answers, on a host whose views are pure.\<close>

context view_contract_host
begin

lemma hook_predicted:
  assumes "well_typed H e" and "hook_of c = Some (tk, op, accs)"
    and "\<And>cfg b. st_config (state_of H e) = Some cfg \<Longrightarrow> st_bindings (state_of H e) tk = Some b \<Longrightarrow>
      consults_sample (views_of H e) cfg (binding_sac b) blocked sac_authorized"
  shows "map_option fst (dispatch H e c) =
    predict (operation_name op) (st_bindings (state_of H e) tk \<noteq> None) (st_config (state_of H e) \<noteq> None)
      (case st_config (state_of H e) of None \<Rightarrow> False | Some cfg \<Rightarrow> cfg_sac_passthrough cfg)
      sac_authorized (st_frozen (state_of H e) tk) blocked (oracle_parties op accs)"
proof -
  obtain e' where "dispatch H e c = Some (enforce (decide (state_of H e) (views_of H e) tk op accs), e')"
    by (rule dispatch_hook_decides [OF assms(1,2)])
  then show ?thesis
    using predict_decide [OF assms(2), of "state_of H e" "views_of H e" blocked sac_authorized] assms(3)
    by simp
qed

end

end
