(* ===== verification/Contract_Guarantees.thy ===== *)
theory Contract_Guarantees
  imports Lifecycle Sample_Policy
begin

text \<open>
  The properties of the contract. Each is stated for an arbitrary host: \<open>contract_host\<close> is the
  documented behaviour of storage, authorization and events, \<open>view_contract_host\<close> moreover asks that
  the consulted policy and SAC are views. The demonstration deployment at the start is a concrete
  ledger on which every property with hypotheses is instantiated.
\<close>

section \<open>A demonstration deployment\<close>

definition demo_views :: views where
  "demo_views c f args =
     (if c = ''CPOLICY'' \<and> f = POLICY_FN then
        (if args = [''GDENIED'', ''CTOKEN''] then Inr (Inr False) else Inr (Inr True))
      else if c = ''CSAC'' \<and> f = SAC_AUTHORIZED_FN then
        (if args = [''GREVOKED''] then Inr (Inr False) else Inr (Inr True))
      else Inl Abort)"

definition fresh_ledger :: "(data_key, stored, event) ledger" where
  "fresh_ledger =
    \<lparr>l_instance = (\<lambda>_. None), l_persistent = (\<lambda>_. None), l_ttl = (\<lambda>_. 0),
     l_signers = [''GADMIN''], l_events = [], l_views = demo_views\<rparr>"

definition demo_setup :: "entry_call list" where
  "demo_setup =
     [Initialize ''GADMIN'', SetConfig (Some ''CPOLICY'') True, BindToken ''CTOKEN'' (Some ''CSAC''),
      FreezeAccount ''CTOKEN'' ''GFROZEN'']"

definition demo_ledger :: "(data_key, stored, event) ledger" where
  "demo_ledger = foldl (invoke ledger_host) fresh_ledger demo_setup"

lemma reachable_foldl: "reachable H e \<Longrightarrow> reachable H (foldl (invoke H) e cs)"
  by (induction cs arbitrary: e) (auto intro: reachable.call)

lemma run_foldl: "run H e (rev cs) (foldr (\<lambda>c e. invoke H e c) cs e)"
  by (induction cs) (auto intro: run.intros)

lemma fresh_reachable: "reachable ledger_host fresh_ledger"
  by (rule reachable.fresh) (simp_all add: ledger_host_def fresh_ledger_def)

lemma demo_reachable: "reachable ledger_host demo_ledger"
  unfolding demo_ledger_def by (rule reachable_foldl [OF fresh_reachable])

lemma demo_well_typed: "well_typed ledger_host demo_ledger"
  by (rule ledger_contract.well_typed_reachable [OF demo_reachable])

lemma fresh_well_typed: "well_typed ledger_host fresh_ledger"
  by (rule ledger_contract.well_typed_reachable [OF fresh_reachable])

lemmas ledger_hosts = ledger_contract.contract_host_axioms ledger_view_contract.view_contract_host_axioms

lemmas contract_code_defs =
  invoke_def initialize_def set_config_def bind_token_def unbind_token_def freeze_def unfreeze_def
  admin_gate_def scope_gate_def is_initialized_def require_admin_def stored_admin_def set_admin_def
  set_version_def storage_version_def compliance_config_def set_compliance_config_def
  storage_config_version_def bump_config_version_def token_binding_def is_token_bound_def
  storage_bind_def storage_unbind_def storage_is_frozen_def storage_freeze_def storage_unfreeze_def
  touch_def checked_add_one emit_defs Let_def

lemma demo_ledger_eq:
  "demo_ledger =
    \<lparr>l_instance = [Admin \<mapsto> VAddress ''GADMIN'', Version \<mapsto> VU32 1,
       Config \<mapsto> VConfig \<lparr>cfg_policy = Some ''CPOLICY'', cfg_sac_passthrough = True\<rparr>,
       ConfigVersion \<mapsto> VU32 1],
     l_persistent = [TokenBinding ''CTOKEN'' \<mapsto> VBinding \<lparr>binding_sac = Some ''CSAC''\<rparr>,
       Freeze ''CTOKEN'' ''GFROZEN'' \<mapsto> VBool True],
     l_ttl = (\<lambda>_. 0)(TokenBinding ''CTOKEN'' := TTL_EXTEND_TO),
     l_signers = [''GADMIN''],
     l_events = [InitializedEv ''GADMIN'', ComplianceConfigChangedEv (Some ''CPOLICY'') True,
       TokenBoundEv ''CTOKEN'', AccountFrozenEv ''CTOKEN'' ''GFROZEN''],
     l_views = demo_views\<rparr>"
  by (simp add: demo_ledger_def demo_setup_def fresh_ledger_def ledger_host_def contract_code_defs VERSION_def
      TTL_EXTEND_TO_def TTL_THRESHOLD_def DAY_IN_LEDGERS_def)

lemma demo_unbound: "tk \<noteq> ''CTOKEN'' \<Longrightarrow> st_bindings (state_of ledger_host demo_ledger) tk = None"
  by (simp add: demo_ledger_eq state_of_def ledger_host_def)

lemma demo_facts:
  "st_admin (state_of ledger_host demo_ledger) = Some ''GADMIN''"
  "st_config (state_of ledger_host demo_ledger) =
     Some \<lparr>cfg_policy = Some ''CPOLICY'', cfg_sac_passthrough = True\<rparr>"
  "st_bindings (state_of ledger_host demo_ledger) ''CTOKEN'' = Some \<lparr>binding_sac = Some ''CSAC''\<rparr>"
  "st_frozen (state_of ledger_host demo_ledger) tk acc \<longleftrightarrow> tk = ''CTOKEN'' \<and> acc = ''GFROZEN''"
  "authorized ledger_host demo_ledger ''GADMIN''"
  "views_of ledger_host demo_ledger = demo_views"
  by (simp_all add: demo_ledger_eq state_of_def ledger_host_def views_of_def fun_eq_iff)

section \<open>Refinement\<close>

text \<open>C1: every entry point implements the abstract contract: on a well-typed state it traps, rejects
  with the specified error having written nothing, or commits exactly the specified state change and
  events.\<close>

theorem contract_refines_spec:
  assumes "view_contract_host H" and "well_typed H e"
  shows "implements H e (dispatch H e c) (spec_step (state_of H e) (authorized H e) (views_of H e) c)"
  by (rule view_contract_host.dispatch_implements [OF assms])

theorem contract_refines_spec_witness:
  "implements ledger_host demo_ledger (dispatch ledger_host demo_ledger (FreezeAccount ''CTOKEN'' ''GALICE''))
     (Done (mark_frozen ''CTOKEN'' ''GALICE'' True (state_of ledger_host demo_ledger))
       [AccountFrozenEv ''CTOKEN'' ''GALICE''])"
  using contract_refines_spec [OF ledger_hosts(2) demo_well_typed, of "FreezeAccount ''CTOKEN'' ''GALICE''"]
  by (simp add: demo_facts admin_only_def in_scope_def flagged_def)

section \<open>The decision of a hook\<close>

lemma party_verdict_Allow:
  "party_verdict st ask cfg sac tk (role, acc) = Allow \<longleftrightarrow>
     (holds_funds role \<longrightarrow> \<not> st_frozen st tk acc) \<and>
     (\<forall>pol. cfg_policy cfg = Some pol \<longrightarrow> ask pol POLICY_FN [acc, tk] = Inr (Inr True)) \<and>
     (\<forall>s. holds_funds role \<and> cfg_sac_passthrough cfg \<and> sac = Some s \<longrightarrow>
        ask s SAC_AUTHORIZED_FN [acc] = Inr (Inr True))"
  by (auto simp: party_verdict_def and_then_allowed freeze_verdict_def policy_verdict_def sac_verdict_def
      split: option.splits sum.splits bool.splits if_splits)

lemma party_verdict_Allow':
  "party_verdict st ask cfg sac tk p = Allow \<longleftrightarrow>
     (holds_funds (fst p) \<longrightarrow> \<not> st_frozen st tk (snd p)) \<and>
     (\<forall>pol. cfg_policy cfg = Some pol \<longrightarrow> ask pol POLICY_FN [snd p, tk] = Inr (Inr True)) \<and>
     (\<forall>s. holds_funds (fst p) \<and> cfg_sac_passthrough cfg \<and> sac = Some s \<longrightarrow>
        ask s SAC_AUTHORIZED_FN [snd p] = Inr (Inr True))"
  using party_verdict_Allow [of st ask cfg sac tk "fst p" "snd p"] by simp

lemma decide_Allow:
  assumes "length accs = length (parties op)"
  shows "decide st ask tk op accs = Allow \<longleftrightarrow>
    (\<exists>cfg b. st_config st = Some cfg \<and> st_bindings st tk = Some b \<and>
       (\<forall>p\<in>set (zip (parties op) accs). party_verdict st ask cfg (binding_sac b) tk p = Allow))"
  using assms by (auto simp: decide_def first_denial_Allow split: option.splits)

text \<open>C2: a hook lets an operation pass exactly when the contract is configured, the token is bound, no
  fund holder among the parties is frozen on it, the policy (when there is one) answers true for
  every party and the SAC (when the passthrough is on and the binding names one) answers true for every
  fund holder.\<close>

theorem hook_passes_iff:
  assumes "view_contract_host H" and "well_typed H e" and "hook_of c = Some (tk, op, accs)"
  shows "(\<exists>e'. dispatch H e c = Some (Inr (), e')) \<longleftrightarrow>
    (\<exists>cfg b. st_config (state_of H e) = Some cfg \<and> st_bindings (state_of H e) tk = Some b \<and>
      (\<forall>(role, acc)\<in>set (zip (parties op) accs).
        (holds_funds role \<longrightarrow> \<not> st_frozen (state_of H e) tk acc) \<and>
        (\<forall>pol. cfg_policy cfg = Some pol \<longrightarrow> views_of H e pol POLICY_FN [acc, tk] = Inr (Inr True)) \<and>
        (\<forall>s. holds_funds role \<and> cfg_sac_passthrough cfg \<and> binding_sac b = Some s \<longrightarrow>
           views_of H e s SAC_AUTHORIZED_FN [acc] = Inr (Inr True))))"
proof -
  obtain e' where "dispatch H e c = Some (enforce (decide (state_of H e) (views_of H e) tk op accs), e')"
    using view_contract_host.dispatch_hook_decides [OF assms] by blast
  then have "(\<exists>e'. dispatch H e c = Some (Inr (), e')) \<longleftrightarrow>
      decide (state_of H e) (views_of H e) tk op accs = Allow"
    by (cases "decide (state_of H e) (views_of H e) tk op accs") (simp_all add: enforce_def)
  then show ?thesis
    unfolding decide_Allow [OF hook_arity [OF assms(3)]] by (simp add: case_prod_beta' party_verdict_Allow')
qed

theorem hook_passes_iff_witness:
  "\<exists>e'. dispatch ledger_host demo_ledger (BeforeTransferFrom ''CTOKEN'' ''GFROZEN'' ''GALICE'' ''GBOB'')
     = Some (Inr (), e')"
  by (subst hook_passes_iff [OF ledger_hosts(2) demo_well_typed])
    (auto simp: demo_facts demo_views_def POLICY_FN_def SAC_AUTHORIZED_FN_def)

lemma first_denial_Deny:
  "first_denial (map f ps) = Deny r \<longleftrightarrow>
     (\<exists>before p after. ps = before @ p # after \<and> (\<forall>q\<in>set before. f q = Allow) \<and> f p = Deny r)"
proof
  assume "first_denial (map f ps) = Deny r"
  then show "\<exists>before p after. ps = before @ p # after \<and> (\<forall>q\<in>set before. f q = Allow) \<and> f p = Deny r"
  proof (induction ps)
    case (Cons q ps)
    show ?case
    proof (cases "f q")
      case Allow
      with Cons obtain before p after where
        "ps = before @ p # after" "\<forall>q\<in>set before. f q = Allow" "f p = Deny r" by auto
      with Allow show ?thesis
        by (intro exI [of _ "q # before"] exI [of _ p] exI [of _ after]) simp
    next
      case (Deny r')
      with Cons.prems show ?thesis
        by (intro exI [of _ "[]"] exI [of _ q] exI [of _ ps]) simp
    qed
  qed simp
next
  have denied: "\<forall>q\<in>set before. f q = Allow \<Longrightarrow> f p = Deny r \<Longrightarrow>
      first_denial (map f (before @ p # after)) = Deny r" for before p after
    by (induction before) simp_all
  assume "\<exists>before p after. ps = before @ p # after \<and> (\<forall>q\<in>set before. f q = Allow) \<and> f p = Deny r"
  then show "first_denial (map f ps) = Deny r" using denied by blast
qed

text \<open>C3: once configuration and binding are in place, the error a hook answers is that of the first
  party, in the canonical order of the operation, that fails a gate; every party before it passes. A
  spender that the policy refuses comes first and has a code of its own: the answer is then
  \<^verbatim>\<open>SpenderNotAuthorized\<close>, not \<^verbatim>\<open>PolicyDenied\<close>.\<close>

theorem denial_names_first_failing_party:
  assumes "view_contract_host H" and "well_typed H e" and "hook_of c = Some (tk, op, accs)"
    and "st_config (state_of H e) = Some cfg" and "st_bindings (state_of H e) tk = Some b"
  shows "((\<exists>e'. dispatch H e c = Some (Inl err, e')) \<longleftrightarrow>
    (\<exists>before p after r. zip (parties op) accs = before @ p # after \<and> err = from_reason r \<and>
       (\<forall>q\<in>set before. party_verdict (state_of H e) (views_of H e) cfg (binding_sac b) tk q = Allow) \<and>
       party_verdict (state_of H e) (views_of H e) cfg (binding_sac b) tk p = Deny r)) \<and>
    (\<forall>spender rest pol. op = TransferFrom \<and> accs = spender # rest \<and> cfg_policy cfg = Some pol \<and>
       views_of H e pol POLICY_FN [spender, tk] = Inr (Inr False) \<longrightarrow>
       (\<exists>e'. dispatch H e c = Some (Inl SpenderNotAuthorizedErr, e')))"
proof -
  let ?v = "party_verdict (state_of H e) (views_of H e) cfg (binding_sac b) tk"
  obtain e' where "dispatch H e c = Some (enforce (decide (state_of H e) (views_of H e) tk op accs), e')"
    using view_contract_host.dispatch_hook_decides [OF assms(1-3)] by blast
  moreover have "decide (state_of H e) (views_of H e) tk op accs = first_denial (map ?v (zip (parties op) accs))"
    using assms(4,5) hook_arity [OF assms(3)] by (simp add: decide_def)
  ultimately have exact: "(\<exists>e'. dispatch H e c = Some (Inl err, e')) \<longleftrightarrow>
      (\<exists>r. err = from_reason r \<and> first_denial (map ?v (zip (parties op) accs)) = Deny r)" for err
    by (cases "first_denial (map ?v (zip (parties op) accs))") (auto simp: enforce_def)
  have "first_denial (map ?v (zip (parties op) accs)) = Deny SpenderNotAuthorized"
    if "op = TransferFrom" "accs = spender # rest" "cfg_policy cfg = Some pol"
      "views_of H e pol POLICY_FN [spender, tk] = Inr (Inr False)" for spender rest pol
    using that by (simp add: party_verdict_def freeze_verdict_def policy_verdict_def)
  then have "\<exists>e'. dispatch H e c = Some (Inl SpenderNotAuthorizedErr, e')"
    if "op = TransferFrom" "accs = spender # rest" "cfg_policy cfg = Some pol"
      "views_of H e pol POLICY_FN [spender, tk] = Inr (Inr False)" for spender rest pol
    unfolding exact using that by fastforce
  with exact [of err] show ?thesis unfolding first_denial_Deny by blast
qed

theorem denial_names_first_failing_party_witness:
  "\<exists>e'. dispatch ledger_host demo_ledger (BeforeTransfer ''CTOKEN'' ''GDENIED'' ''GFROZEN'')
     = Some (Inl PolicyDeniedErr, e')"
proof (subst denial_names_first_failing_party [OF ledger_hosts(2) demo_well_typed, THEN conjunct1])
  show "hook_of (BeforeTransfer ''CTOKEN'' ''GDENIED'' ''GFROZEN'')
    = Some (''CTOKEN'', Transfer, [''GDENIED'', ''GFROZEN''])" by simp
  show "\<exists>before p after r. zip (parties Transfer) [''GDENIED'', ''GFROZEN''] = before @ p # after \<and>
      PolicyDeniedErr = from_reason r \<and>
      (\<forall>q\<in>set before. party_verdict (state_of ledger_host demo_ledger) (views_of ledger_host demo_ledger)
         \<lparr>cfg_policy = Some ''CPOLICY'', cfg_sac_passthrough = True\<rparr>
         (binding_sac \<lparr>binding_sac = Some ''CSAC''\<rparr>) ''CTOKEN'' q = Allow) \<and>
      party_verdict (state_of ledger_host demo_ledger) (views_of ledger_host demo_ledger)
         \<lparr>cfg_policy = Some ''CPOLICY'', cfg_sac_passthrough = True\<rparr>
         (binding_sac \<lparr>binding_sac = Some ''CSAC''\<rparr>) ''CTOKEN'' p = Deny r"
    by (intro exI [of _ "[]"] exI [of _ "(From, ''GDENIED'')"] exI [of _ "[(To, ''GFROZEN'')]"]
        exI [of _ PolicyDenied])
      (simp add: demo_facts party_verdict_def freeze_verdict_def policy_verdict_def demo_views_def POLICY_FN_def)
qed (simp_all add: demo_facts)

text \<open>C4: on any host, also one whose policy or SAC changes its answers, a hook returns (it never traps
  on a well-typed state) and leaves every entry and the event log of the contract as they were,
  whether it passes or rejects.\<close>

theorem hooks_never_write:
  assumes "contract_host H" and "well_typed H e" and "hook_of c \<noteq> None"
  shows "\<exists>r e'. dispatch H e c = Some (r, e') \<and> quiet H e e' \<and> quiet H e (invoke H e c)"
proof -
  obtain tk op accs where "hook_of c = Some (tk, op, accs)" using assms(3) by (cases "hook_of c") auto
  then show ?thesis
    by (rule contract_host.dispatch_hook_cases [OF assms(1,2)]) (simp_all add: invoke_def)
qed

theorem hooks_never_write_witness:
  "\<exists>r e'. dispatch ledger_host demo_ledger (BeforeMerge ''CTOKEN'' ''GFROZEN'') = Some (r, e') \<and>
     quiet ledger_host demo_ledger e' \<and>
     quiet ledger_host demo_ledger (invoke ledger_host demo_ledger (BeforeMerge ''CTOKEN'' ''GFROZEN''))"
  by (rule hooks_never_write [OF ledger_hosts(1) demo_well_typed]) simp

text \<open>On any host, an operation that names a frozen account in a fund-holding role is rejected,
  whatever the policy and the SAC answer.\<close>

lemma frozen_party_is_rejected:
  assumes "contract_host H" and "well_typed H e" and "hook_of c = Some (tk, op, accs)"
    and "(role, acc) \<in> set (zip (parties op) accs)" and "holds_funds role"
    and "st_frozen (state_of H e) tk acc"
  shows "\<exists>err e'. dispatch H e c = Some (Inl err, e')"
proof (rule contract_host.dispatch_hook_cases [OF assms(1,2,3)])
  fix e'
  assume "evaluate H e tk op accs = Some (Allow, e')"
  from contract_host.evaluate_frozen [OF assms(1,2) this assms(4,5)] assms(6) show ?thesis by simp
next
  fix r e'
  assume "dispatch H e c = Some (Inl (from_reason r), e')"
  then show ?thesis by blast
qed

section \<open>Cross-contract calls\<close>

text \<open>C6: an evaluation makes exactly the calls the specification lists, in that order: none while the
  contract is unconfigured or the token unbound, none about a frozen fund holder, none after the
  first denial; at most one policy call per party and at most two calls per party in all.\<close>

theorem evaluation_makes_exactly_these_calls:
  assumes "view_contract_host H" and "well_typed H e" and "length accs = length (parties op)"
  shows "map_option (\<lambda>r. snd (snd r)) (evaluate (tracing H) (e, []) tk op accs) =
      Some (evaluation_calls (state_of H e) (views_of H e) tk op accs) \<and>
    length (evaluation_calls (state_of H e) (views_of H e) tk op accs) \<le> 2 * length (parties op) \<and>
    length (filter (\<lambda>c. call_func c = POLICY_FN)
      (evaluation_calls (state_of H e) (views_of H e) tk op accs)) \<le> length (parties op)"
  using view_contract_host.evaluate_calls [OF assms(1,2), of "[]" tk op accs]
    loop_calls_bound [of "state_of H e" "views_of H e" _ _ tk "zip (parties op) accs"] assms(3)
  by (simp add: evaluation_calls_def split: option.splits)

theorem evaluation_makes_exactly_these_calls_witness:
  "map_option (\<lambda>r. snd (snd r))
     (evaluate (tracing ledger_host) (demo_ledger, []) ''CTOKEN'' Transfer [''GALICE'', ''GFROZEN'']) =
   Some [\<lparr>call_target = ''CPOLICY'', call_func = ''is_authorized'', call_args = [''GALICE'', ''CTOKEN''],
            call_answer = Inr (Inr True)\<rparr>,
         \<lparr>call_target = ''CSAC'', call_func = ''authorized'', call_args = [''GALICE''],
            call_answer = Inr (Inr True)\<rparr>]"
  using evaluation_makes_exactly_these_calls [OF ledger_hosts(2) demo_well_typed,
      of "[''GALICE'', ''GFROZEN'']" Transfer "''CTOKEN''"]
  by (simp add: demo_facts evaluation_calls_def party_calls_def party_verdict_def freeze_verdict_def
      policy_verdict_def sac_verdict_def policy_calls_def sac_calls_def ask_call_def demo_views_def
      POLICY_FN_def SAC_AUTHORIZED_FN_def)

text \<open>C7: an operation is never allowed without having asked: when an evaluation with a configured
  policy allows, it has asked the policy about every party exactly once, in the order of the
  parties.\<close>

theorem allowed_means_every_party_was_asked:
  assumes "view_contract_host H" and "well_typed H e"
    and "st_config (state_of H e) = Some cfg" and "cfg_policy cfg = Some pol"
    and "evaluate (tracing H) (e, []) tk op accs = Some (Allow, (e', cs))"
  shows "filter (\<lambda>c. call_func c = POLICY_FN) cs =
    map (\<lambda>acc. ask_call (views_of H e) pol POLICY_FN [acc, tk]) accs"
proof -
  have vt: "view_contract_host (tracing H)" by (rule view_contract_host.tracing_view_contract [OF assms(1)])
  have wt: "well_typed (tracing H) (e, [])" using assms(2) by simp
  have "decide (state_of H e) (views_of H e) tk op accs = Allow"
    using view_contract_host.evaluate_decide [OF vt wt, of tk op accs] assms(5) by simp
  then obtain b where b: "st_bindings (state_of H e) tk = Some b" and len: "length (parties op) = length accs"
    and allow: "first_denial (map (party_verdict (state_of H e) (views_of H e) cfg (binding_sac b) tk)
      (zip (parties op) accs)) = Allow"
    using assms(3) by (auto simp: decide_def split: option.splits if_splits)
  have "cs = loop_calls (state_of H e) (views_of H e) cfg (binding_sac b) tk (zip (parties op) accs)"
    using view_contract_host.evaluate_calls [OF assms(1,2), of "[]" tk op accs] assms(3,5) b len
    by (simp add: evaluation_calls_def)
  then have "filter (\<lambda>c. call_func c = POLICY_FN) cs =
      map (\<lambda>acc. ask_call (views_of H e) pol POLICY_FN [acc, tk]) (map snd (zip (parties op) accs))"
    unfolding map_map comp_def by (simp only: loop_calls_allowed [OF allow assms(4)])
  then show ?thesis by (simp only: map_snd_zip [OF len])
qed

theorem allowed_means_every_party_was_asked_witness:
  "filter (\<lambda>c. call_func c = POLICY_FN)
     (snd (snd (the (evaluate (tracing ledger_host) (demo_ledger, []) ''CTOKEN'' Merge [''GALICE''])))) =
   [ask_call demo_views ''CPOLICY'' POLICY_FN [''GALICE'', ''CTOKEN'']]"
proof -
  have vt: "view_contract_host (tracing ledger_host)"
    by (rule ledger_view_contract.tracing_view_contract)
  have wt: "well_typed (tracing ledger_host) (demo_ledger, [])" using demo_well_typed by simp
  have "map_option fst (evaluate (tracing ledger_host) (demo_ledger, []) ''CTOKEN'' Merge [''GALICE'']) = Some Allow"
    by (subst view_contract_host.evaluate_decide [OF vt wt])
      (simp add: decide_def demo_facts party_verdict_def freeze_verdict_def policy_verdict_def
        sac_verdict_def demo_views_def POLICY_FN_def SAC_AUTHORIZED_FN_def)
  then obtain e' cs where
    ev: "evaluate (tracing ledger_host) (demo_ledger, []) ''CTOKEN'' Merge [''GALICE''] = Some (Allow, (e', cs))"
    by (auto simp: map_option_eq_Some)
  from allowed_means_every_party_was_asked [OF ledger_hosts(2) demo_well_typed demo_facts(2) _ this, of "''CPOLICY''"]
  show ?thesis using ev by (simp add: demo_facts)
qed

text \<open>Freezing somebody who only spends on behalf of others changes no delegated transfer: the
  decision is the same in a state that differs in the spender's freeze flag alone.\<close>

lemma spender_freeze_is_irrelevant:
  assumes "view_contract_host H" and "well_typed H e" and "well_typed H e'"
    and "state_of H e' = mark_frozen tk spender flag (state_of H e)" and "views_of H e' = views_of H e"
    and "spender \<noteq> src" and "spender \<noteq> dst"
  shows "map_option fst (dispatch H e' (BeforeTransferFrom tk spender src dst)) =
    map_option fst (dispatch H e (BeforeTransferFrom tk spender src dst))"
proof -
  have hook: "hook_of (BeforeTransferFrom tk spender src dst) = Some (tk, TransferFrom, [spender, src, dst])"
    by simp
  have same: "decide (state_of H e') (views_of H e) tk TransferFrom [spender, src, dst] =
      decide (state_of H e) (views_of H e) tk TransferFrom [spender, src, dst]"
    using assms(4,6,7)
    by (simp add: decide_def mark_frozen_def party_verdict_def freeze_verdict_def split: option.splits)
  obtain f where f: "dispatch H e (BeforeTransferFrom tk spender src dst) =
      Some (enforce (decide (state_of H e) (views_of H e) tk TransferFrom [spender, src, dst]), f)"
    by (rule view_contract_host.dispatch_hook_decides [OF assms(1,2) hook])
  obtain f' where f': "dispatch H e' (BeforeTransferFrom tk spender src dst) =
      Some (enforce (decide (state_of H e') (views_of H e') tk TransferFrom [spender, src, dst]), f')"
    by (rule view_contract_host.dispatch_hook_decides [OF assms(1,3) hook])
  from f f' same assms(5) show ?thesis by simp
qed

section \<open>A deployment over time\<close>

text \<open>C9: the event log determines the public state: in every reachable state, folding the published
  events yields exactly the recorded admin, the active configuration, the set of bound tokens and
  the frozen accounts.\<close>

theorem event_log_replays_to_state:
  assumes "contract_host H" and "reachable H e"
  shows "replay (published H e) = audit_of (state_of H e)"
  using contract_host.coherent_reachable [OF assms] by (simp add: coherent_def)

theorem event_log_replays_to_state_witness:
  "replay (published ledger_host demo_ledger) = audit_of (state_of ledger_host demo_ledger) \<and>
   seen_frozen (replay (published ledger_host demo_ledger)) ''CTOKEN'' ''GFROZEN''"
  using event_log_replays_to_state [OF ledger_hosts(1) demo_reachable] by (simp add: audit_of_def demo_facts)

text \<open>C10: the public configuration version is the number of published configuration changes, in every
  reachable state; it is zero exactly as long as there is no configuration.\<close>

theorem config_version_counts_changes:
  assumes "contract_host H" and "reachable H e"
  shows "\<exists>n. read_config_version H e = Some n \<and> unat n = config_changes (published H e) \<and>
    (n = 0 \<longleftrightarrow> read_config H e = Some None)"
proof -
  have wt: "well_typed H e" by (rule contract_host.well_typed_reachable [OF assms])
  have coh: "coherent (state_of H e) (published H e)" by (rule contract_host.coherent_reachable [OF assms])
  have changed: "st_config (state_of H e) \<noteq> None \<Longrightarrow> config_changes (published H e) \<noteq> 0"
    by (rule contract_host.configured_means_changed [OF assms])
  show ?thesis
    using coh changed
    by (auto simp: read_config_version_def read_config_def coherent_def version_count_def
        contract_host.storage_config_version_eq [OF assms(1) wt] contract_host.compliance_config_eq [OF assms(1) wt]
        split: option.splits)
qed

theorem config_version_counts_changes_witness:
  "\<exists>n. read_config_version ledger_host demo_ledger = Some n \<and>
    unat n = config_changes (published ledger_host demo_ledger) \<and>
    (n = 0 \<longleftrightarrow> read_config ledger_host demo_ledger = Some None)"
  by (rule config_version_counts_changes [OF ledger_hosts(1) demo_reachable])

text \<open>C11: before the first successful initialization nothing can be set up: every reachable state without
  an admin has no configuration, binding, freeze flag or layout version, and every call other than
  \<^verbatim>\<open>initialize\<close> is rejected with \<^verbatim>\<open>InvalidConfiguration\<close>.\<close>

theorem uninitialized_contract_rejects_everything:
  assumes "contract_host H" and "reachable H e" and "st_admin (state_of H e) = None"
    and "c \<notin> range Initialize"
  shows "state_of H e = \<lparr>st_admin = None, st_config = None, st_config_version = None, st_version = None,
      st_bindings = (\<lambda>_. None), st_frozen = (\<lambda>_ _. False)\<rparr> \<and>
    (\<exists>e'. dispatch H e c = Some (Inl InvalidConfigurationErr, e') \<and> quiet H e e')"
proof
  have wt: "well_typed H e" by (rule contract_host.well_typed_reachable [OF assms(1,2)])
  have coh: "coherent (state_of H e) (published H e)"
    by (rule contract_host.coherent_reachable [OF assms(1,2)])
  with assms(3) show blank: "state_of H e = \<lparr>st_admin = None, st_config = None, st_config_version = None,
      st_version = None, st_bindings = (\<lambda>_. None), st_frozen = (\<lambda>_ _. False)\<rparr>"
    by (cases "state_of H e") (simp add: coherent_def)
  show "\<exists>e'. dispatch H e c = Some (Inl InvalidConfigurationErr, e') \<and> quiet H e e'"
  proof (cases "hook_of c")
    case None
    from contract_host.admin_call_implements [OF assms(1) wt this]
    have "implements H e (dispatch H e c) (spec_step (state_of H e) (authorized H e) ask c)" for ask .
    moreover have "spec_step (state_of H e) (authorized H e) ask c = Rejected InvalidConfigurationErr" for ask
      using assms(3,4) None by (cases c) (simp_all add: admin_only_def)
    ultimately show ?thesis
      by (auto simp: implements_def split: option.splits prod.splits sum.splits)
  next
    case (Some p)
    then obtain tk op accs where hook: "hook_of c = Some (tk, op, accs)" by (cases p) auto
    have "evaluate H e tk op accs = Some (Deny InvalidConfiguration, e)"
      using blank by (simp add: contract_host.evaluate_eq [OF assms(1) wt])
    then show ?thesis by (simp add: dispatch_hook [OF hook] enforce_def)
  qed
qed

theorem uninitialized_contract_rejects_everything_witness:
  "\<exists>e'. dispatch ledger_host fresh_ledger (BindToken ''CTOKEN'' None) = Some (Inl InvalidConfigurationErr, e') \<and>
     quiet ledger_host fresh_ledger e'"
proof -
  have "st_admin (state_of ledger_host fresh_ledger) = None"
    by (simp add: state_of_def ledger_host_def fresh_ledger_def)
  moreover have "BindToken ''CTOKEN'' None \<notin> range Initialize" by auto
  ultimately show ?thesis
    using uninitialized_contract_rejects_everything [OF ledger_hosts(1) fresh_reachable] by blast
qed

text \<open>C12: the admin seat cannot be taken over: after a successful \<^verbatim>\<open>initialize\<close>, whatever happens, the
  recorded admin stays the one that signed it and every later \<^verbatim>\<open>initialize\<close> is rejected with
  \<^verbatim>\<open>AlreadyInitialized\<close>, without consulting a signature.\<close>

theorem admin_seat_is_final:
  assumes "contract_host H" and "well_typed H e" and "dispatch H e (Initialize a) = Some (Inr (), e1)"
    and "run H e1 cs e2"
  shows "authorized H e a \<and> st_admin (state_of H e2) = Some a \<and>
    dispatch H e2 (Initialize b) = Some (Inl AlreadyInitializedErr, e2)"
proof -
  have impl: "implements H e (dispatch H e (Initialize a))
      (spec_step (state_of H e) (authorized H e) ask (Initialize a))" for ask
    by (rule contract_host.initialize_implements [OF assms(1,2), unfolded dispatch.simps(1) [symmetric]])
  then have signer: "authorized H e a" and wt1: "well_typed H e1" and adm1: "st_admin (state_of H e1) = Some a"
    using assms(3) by (simp_all split: if_splits)
  have adm2: "st_admin (state_of H e2) = Some a"
    by (rule contract_host.run_invariant [OF assms(1,4) wt1, where I = "\<lambda>st. st_admin st = Some a"])
      (use adm1 in \<open>auto intro: step_admin\<close>)
  have "well_typed H e2" by (rule contract_host.well_typed_run [OF assms(1,4) wt1])
  then have "dispatch H e2 (Initialize b) = Some (Inl AlreadyInitializedErr, e2)"
    using adm2 by (simp add: initialize_def contract_host.is_initialized_eq [OF assms(1)])
  with signer adm2 show ?thesis by simp
qed

theorem admin_seat_is_final_witness:
  "st_admin (state_of ledger_host (invoke ledger_host fresh_ledger (Initialize ''GADMIN''))) = Some ''GADMIN''"
proof -
  let ?e1 = "invoke ledger_host fresh_ledger (Initialize ''GADMIN'')"
  have "dispatch ledger_host fresh_ledger (Initialize ''GADMIN'') = Some (Inr (), ?e1)"
    by (simp add: invoke_def initialize_def is_initialized_def stored_admin_def ledger_host_def
        fresh_ledger_def Let_def)
  from admin_seat_is_final [OF ledger_hosts(1) fresh_well_typed this run.start] show ?thesis by simp
qed

text \<open>C13: without the admin's signature no invocation changes any entry or publishes any event.\<close>

theorem unsigned_invocations_change_nothing:
  assumes "contract_host H" and "well_typed H e" and "st_admin (state_of H e) = Some a"
    and "\<not> authorized H e a"
  shows "quiet H e (invoke H e c)"
  by (rule contract_host.unsigned_changes_nothing [OF assms(1,2,4,3)])

theorem unsigned_invocations_change_nothing_witness:
  "quiet ledger_host (demo_ledger\<lparr>l_signers := [''GMALLORY'']\<rparr>)
     (invoke ledger_host (demo_ledger\<lparr>l_signers := [''GMALLORY'']\<rparr>) (UnfreezeAccount ''CTOKEN'' ''GFROZEN''))"
proof (rule unsigned_invocations_change_nothing [OF ledger_hosts(1), of _ "''GADMIN''"])
  let ?e = "demo_ledger\<lparr>l_signers := [''GMALLORY'']\<rparr>"
  have q: "quiet ledger_host demo_ledger ?e" by (simp add: quiet_def same_entries_def ledger_host_def)
  show "well_typed ledger_host ?e" using demo_well_typed quiet_well_typed [OF q] by simp
  show "st_admin (state_of ledger_host ?e) = Some ''GADMIN''"
    using quiet_state_of [OF q] by (simp add: demo_facts)
  show "\<not> authorized ledger_host ?e ''GADMIN''" by (simp add: ledger_host_def)
qed

text \<open>C14: a frozen account stays frozen on that token, and every hook that names it as a fund holder
  stays rejected, until an \<^verbatim>\<open>unfreeze\<close> of exactly that pair is invoked: unbinding and rebinding the
  token, rotating the policy or unfreezing the account elsewhere does not release it.\<close>

theorem frozen_until_unfrozen:
  assumes "contract_host H" and "well_typed H e" and "st_frozen (state_of H e) tk acc"
    and "run H e cs e'" and "UnfreezeAccount tk acc \<notin> set cs"
    and "hook_of c = Some (tk, op, accs)" and "(role, acc) \<in> set (zip (parties op) accs)" and "holds_funds role"
  shows "st_frozen (state_of H e') tk acc \<and> (\<exists>err e''. dispatch H e' c = Some (Inl err, e''))"
proof -
  have fr: "st_frozen (state_of H e') tk acc"
    by (rule contract_host.run_invariant [OF assms(1,4,2), where I = "\<lambda>st. st_frozen st tk acc"])
      (use assms(3,5) in \<open>auto intro: step_keeps_frozen\<close>)
  have wt: "well_typed H e'" by (rule contract_host.well_typed_run [OF assms(1,4,2)])
  have "\<exists>err e''. dispatch H e' c = Some (Inl err, e'')"
  proof (rule contract_host.dispatch_hook_cases [OF assms(1) wt assms(6)])
    fix e''
    assume "evaluate H e' tk op accs = Some (Allow, e'')"
    from contract_host.evaluate_frozen [OF assms(1) wt this assms(7,8)] fr show ?thesis by simp
  qed blast
  with fr show ?thesis by simp
qed

theorem frozen_until_unfrozen_witness:
  "\<exists>err e''. dispatch ledger_host
     (invoke ledger_host (invoke ledger_host demo_ledger (UnbindToken ''CTOKEN'')) (BindToken ''CTOKEN'' None))
     (BeforeMerge ''CTOKEN'' ''GFROZEN'') = Some (Inl err, e'')"
  using frozen_until_unfrozen [OF ledger_hosts(1) demo_well_typed, of "''CTOKEN''" "''GFROZEN''"
      "rev [BindToken ''CTOKEN'' None, UnbindToken ''CTOKEN'']", OF _ run_foldl,
      of "BeforeMerge ''CTOKEN'' ''GFROZEN''" Merge "[''GFROZEN'']" Account]
  by (simp add: demo_facts)

definition concerns :: "address \<Rightarrow> entry_call \<Rightarrow> bool" where
  "concerns tk c = (case c of
      BindToken tk' _ \<Rightarrow> tk' = tk
    | UnbindToken tk' \<Rightarrow> tk' = tk
    | FreezeAccount tk' _ \<Rightarrow> tk' = tk
    | UnfreezeAccount tk' _ \<Rightarrow> tk' = tk
    | _ \<Rightarrow> False)"

lemma not_concerns:
  assumes "\<not> concerns tk c"
  shows "c \<notin> range (BindToken tk)" "c \<noteq> UnbindToken tk" "c \<noteq> FreezeAccount tk acc"
    "c \<noteq> UnfreezeAccount tk acc"
  using assms by (auto simp: concerns_def)

text \<open>C15: a run of calls none of which binds, unbinds, freezes or unfreezes on a token leaves that
  token's binding and its set of frozen accounts as they were, whatever is done to other tokens, to
  the configuration or by the environment.\<close>

theorem tokens_are_isolated:
  assumes "contract_host H" and "well_typed H e" and "run H e cs e'" and "\<forall>c\<in>set cs. \<not> concerns tk c"
  shows "st_bindings (state_of H e') tk = st_bindings (state_of H e) tk \<and>
    st_frozen (state_of H e') tk = st_frozen (state_of H e) tk"
proof (rule contract_host.run_invariant [OF assms(1,3,2),
      where I = "\<lambda>st. st_bindings st tk = st_bindings (state_of H e) tk \<and>
        st_frozen st tk = st_frozen (state_of H e) tk"])
  fix c st signs ask st' evs
  assume c: "c \<in> set cs" and step: "spec_step st signs ask c = Done st' evs"
    and same: "st_bindings st tk = st_bindings (state_of H e) tk \<and> st_frozen st tk = st_frozen (state_of H e) tk"
  from c assms(4) have nc: "\<not> concerns tk c" by blast
  have "st_frozen st' tk acc = st_frozen st tk acc" for acc
    by (rule step_frozen [OF step not_concerns(3,4) [OF nc]])
  with same step_bindings [OF step not_concerns(1,2) [OF nc]]
  show "st_bindings st' tk = st_bindings (state_of H e) tk \<and> st_frozen st' tk = st_frozen (state_of H e) tk"
    by (simp add: fun_eq_iff)
qed simp

theorem tokens_are_isolated_witness:
  "st_frozen (state_of ledger_host (invoke ledger_host demo_ledger (UnfreezeAccount ''COTHER'' ''GFROZEN'')))
     ''CTOKEN'' ''GFROZEN''"
  using tokens_are_isolated [OF ledger_hosts(1) demo_well_typed
      run_foldl [of _ _ "[UnfreezeAccount ''COTHER'' ''GFROZEN'']"], of "''CTOKEN''"]
  by (simp add: demo_facts concerns_def)

text \<open>C16: configuration is final in one direction: once configured, no later state of the deployment is
  unconfigured, so no hook answers \<^verbatim>\<open>InvalidConfiguration\<close> any more.\<close>

theorem configured_stays_configured:
  assumes "view_contract_host H" and "well_typed H e" and "st_config (state_of H e) \<noteq> None"
    and "run H e cs e'" and "hook_of c \<noteq> None"
  shows "st_config (state_of H e') \<noteq> None \<and>
    map_option fst (dispatch H e' c) \<noteq> Some (Inl InvalidConfigurationErr)"
proof -
  note host = view_contract_host.axioms(1) [OF assms(1)]
  have cfg: "st_config (state_of H e') \<noteq> None"
    by (rule contract_host.run_invariant [OF host assms(4,2), where I = "\<lambda>st. st_config st \<noteq> None"])
      (use assms(3) step_config in auto)
  have wt: "well_typed H e'" by (rule contract_host.well_typed_run [OF host assms(4,2)])
  obtain tk op accs where hook: "hook_of c = Some (tk, op, accs)" using assms(5) by (cases "hook_of c") auto
  obtain e'' where d: "dispatch H e' c = Some (enforce (decide (state_of H e') (views_of H e') tk op accs), e'')"
    by (rule view_contract_host.dispatch_hook_decides [OF assms(1) wt hook])
  have never: "party_verdict st ask cfg sac tk p \<noteq> Deny InvalidConfiguration" for st ask cfg sac p
    by (auto simp: party_verdict_def freeze_verdict_def policy_verdict_def sac_verdict_def
        split: option.splits sum.splits bool.splits)
  have "decide (state_of H e') (views_of H e') tk op accs \<noteq> Deny InvalidConfiguration"
    using cfg hook_arity [OF hook] never by (auto simp: decide_def first_denial_Deny split: option.splits)
  then have "enforce (decide (state_of H e') (views_of H e') tk op accs) \<noteq> Inl InvalidConfigurationErr"
    by (auto simp: enforce_def split: compliance_decision.splits rejection_reason.splits
        elim: from_reason.elims)
  with cfg d show ?thesis by simp
qed

theorem configured_stays_configured_witness:
  "map_option fst (dispatch ledger_host
     (invoke ledger_host demo_ledger (SetConfig None False)) (BeforeRegister ''CTOKEN'' ''GALICE''))
   \<noteq> Some (Inl InvalidConfigurationErr)"
  using configured_stays_configured [OF ledger_hosts(2) demo_well_typed _
      run_foldl [of _ _ "[SetConfig None False]"], of "BeforeRegister ''CTOKEN'' ''GALICE''"]
  by (simp add: demo_facts)

section \<open>Single invocations\<close>

text \<open>C17: administration is idempotent: an accepted administrative call (other than \<^verbatim>\<open>initialize\<close>)
  repeated in a signed invocation is accepted again, writes nothing new and publishes no event.\<close>

theorem admin_calls_are_idempotent:
  assumes "contract_host H" and "well_typed H e" and "hook_of c = None" and "c \<notin> range Initialize"
    and "dispatch H e c = Some (Inr (), e1)" and "quiet H e1 e2"
    and "\<And>a. st_admin (state_of H e2) = Some a \<Longrightarrow> authorized H e2 a"
  shows "\<exists>e3. dispatch H e2 c = Some (Inr (), e3) \<and> state_of H e3 = state_of H e1 \<and>
    published H e3 = published H e1"
proof -
  have impl1: "implements H e (dispatch H e c) (spec_step (state_of H e) (authorized H e) ask c)" for ask
    by (rule contract_host.admin_call_implements [OF assms(1,2,3)])
  then obtain evs where wt1: "well_typed H e1"
    and step: "spec_step (state_of H e) (authorized H e) undefined c = Done (state_of H e1) evs"
    using assms(5) by (fastforce simp: implements_def split: outcome.splits)
  have st2: "state_of H e2 = state_of H e1" and wt2: "well_typed H e2" and ev2: "published H e2 = published H e1"
    using assms(6) wt1 by (simp_all add: quiet_state_of quiet_well_typed quietD)
  have "spec_step (state_of H e2) (authorized H e2) undefined c = Done (state_of H e1) []"
    unfolding st2 using assms(4,7) by (intro step_idempotent [OF step assms(3)]) (auto simp: st2)
  with contract_host.admin_call_implements [OF assms(1) wt2 assms(3), of undefined] ev2 show ?thesis
    by (auto simp: implements_def split: option.splits prod.splits sum.splits)
qed

theorem admin_calls_are_idempotent_witness:
  "\<exists>e3. dispatch ledger_host demo_ledger (SetConfig (Some ''CPOLICY'') True) = Some (Inr (), e3) \<and>
     published ledger_host e3 = published ledger_host demo_ledger"
proof -
  let ?c = "SetConfig (Some ''CPOLICY'') True"
  have "dispatch ledger_host demo_ledger ?c = Some (Inr (), demo_ledger)"
    by (simp add: contract_code_defs ledger_host_def demo_ledger_eq)
  moreover have "?c \<notin> range Initialize" by auto
  ultimately show ?thesis
    using admin_calls_are_idempotent [OF ledger_hosts(1) demo_well_typed, of ?c demo_ledger demo_ledger]
    by (simp add: demo_facts)
qed

text \<open>C18: a signed configuration change increments the version by exactly one and is published; at the
  last 32-bit version the invocation traps instead of wrapping around to zero.\<close>

theorem set_config_steps_version:
  assumes "contract_host H" and "well_typed H e" and "st_admin (state_of H e) = Some a" and "authorized H e a"
    and "st_config (state_of H e) \<noteq> Some \<lparr>cfg_policy = pol, cfg_sac_passthrough = passthrough\<rparr>"
  shows "if version_count (state_of H e) = 4294967295 then set_config H e pol passthrough = None
    else \<exists>e'. set_config H e pol passthrough = Some (Inr (), e') \<and>
      version_count (state_of H e') = version_count (state_of H e) + 1 \<and>
      published H e' = published H e @ [ComplianceConfigChangedEv pol passthrough]"
proof -
  let ?cfg = "\<lparr>cfg_policy = pol, cfg_sac_passthrough = passthrough\<rparr>"
  have impl: "implements H e (set_config H e pol passthrough) (configured ?cfg (state_of H e))"
    using contract_host.set_config_implements [OF assms(1,2), of pol passthrough undefined] assms(3,4)
    by (simp add: admin_only_def)
  show ?thesis
  proof (cases "next_version (state_of H e)")
    case None
    then have "version_count (state_of H e) = 4294967295"
      by (auto simp: next_version_def version_count_def checked_add_one split: option.splits if_splits)
    with impl None assms(5) show ?thesis
      by (auto simp: configured_def implements_def split: option.splits prod.splits sum.splits)
  next
    case (Some n)
    have n: "unat n = version_count (state_of H e) + 1" using next_version_Some [OF Some] by simp
    have small: "version_count (state_of H e) \<noteq> 4294967295"
      using n unsigned_less [of n, where ?'a = nat] by auto
    from impl Some assms(5) obtain e' where e': "set_config H e pol passthrough = Some (Inr (), e')"
      and st: "st_config_version (state_of H e') = Some n"
      and ev: "published H e' = published H e @ [ComplianceConfigChangedEv pol passthrough]"
      by (auto simp: configured_def implements_def split: option.splits prod.splits sum.splits)
    then have "version_count (state_of H e') = version_count (state_of H e) + 1"
      using n by (simp add: version_count_def)
    with small e' ev show ?thesis by simp
  qed
qed

theorem set_config_steps_version_witness:
  "\<exists>e'. set_config ledger_host demo_ledger None False = Some (Inr (), e') \<and>
     version_count (state_of ledger_host e') = 2"
proof -
  have "version_count (state_of ledger_host demo_ledger) = 1"
    by (simp add: version_count_def state_of_def ledger_host_def demo_ledger_eq)
  then show ?thesis
    using set_config_steps_version [OF ledger_hosts(1) demo_well_typed demo_facts(1) demo_facts(5), of None False]
    by (auto simp: demo_facts)
qed

section \<open>Codes, renewal, oracle\<close>

text \<open>C19: the error codes of the contract and the reason codes of the domain model are one table: an error
  decodes to a reason exactly when it was made from it, \<^verbatim>\<open>AlreadyInitialized\<close> decodes to none, codes
  are never shared, and names and codes of reasons parse back.\<close>

theorem error_codes_decode:
  "(reason_from_code (error_code err) = Some r) = (err = from_reason r) \<and>
   (reason_from_code (error_code err) = None) = (err = AlreadyInitializedErr) \<and>
   (error_code err = error_code err') = (err = err') \<and>
   reason_from_code (reason_code r) = Some r \<and> reason_from_name (reason_name r) = Some r"
proof -
  have "(reason_from_code (error_code err) = None) = (err = AlreadyInitializedErr)"
    unfolding reason_from_code_None by (cases err) simp_all
  then show ?thesis
    using error_code_from_reason error_code_inj
    by (auto simp: reason_from_code_iff reason_from_name_iff)
qed

text \<open>C20: reading keeps entries alive: after a binding or a freeze flag has been read, its entry's TTL is at
  least the renewal threshold (29 of the 30 days an entry is extended to), and the read itself changed
  no entry.\<close>

theorem reads_renew_ttl:
  assumes "contract_host H" and "well_typed H e"
    and "st_bindings (state_of H e) tk \<noteq> None" and "st_frozen (state_of H e) tk acc"
  shows "\<exists>e1. read_token_is_bound H e tk = Some (True, e1) \<and> quiet H e e1 \<and>
    TTL_THRESHOLD \<le> persistent_ttl H e1 (TokenBinding tk) \<and>
    fst (read_is_frozen H e tk acc) \<and> quiet H e (snd (read_is_frozen H e tk acc)) \<and>
    TTL_THRESHOLD \<le> persistent_ttl H (snd (read_is_frozen H e tk acc)) (Freeze tk acc)"
proof -
  have b: "persistent_get H e (TokenBinding tk) \<noteq> None"
    using assms(3) by (auto simp: state_of_def split: bind_splits)
  have f: "persistent_get H e (Freeze tk acc) \<noteq> None"
    using assms(4) by (simp add: state_of_def)
  show ?thesis
    using contract_host.touch_renews [OF assms(1) b] contract_host.touch_renews [OF assms(1) f] assms(3,4)
    by (simp add: read_token_is_bound_def read_is_frozen_def contract_host.is_token_bound_eq [OF assms(1,2)]
        contract_host.storage_is_frozen_eq [OF assms(1)] contract_host.quiet_touch [OF assms(1)])
qed

theorem reads_renew_ttl_witness:
  "TTL_THRESHOLD \<le> persistent_ttl ledger_host
     (snd (read_is_frozen ledger_host demo_ledger ''CTOKEN'' ''GFROZEN'')) (Freeze ''CTOKEN'' ''GFROZEN'')"
  using reads_renew_ttl [OF ledger_hosts(1) demo_well_typed, of "''CTOKEN''" "''GFROZEN''"]
  by (auto simp: demo_facts)

text \<open>C21: the integration suites' oracle is right: on a deployment whose policy, if any, is the sample policy
  with some deny-list entry, and whose SACs authorize some set of accounts, every hook answers what
  \<^verbatim>\<open>predict\<close> says for the same operation name, state and parties (a withdrawal names its account once).\<close>

theorem predict_is_exact:
  assumes "view_contract_host H" and "well_typed H e" and "hook_of c = Some (tk, op, accs)"
    and "\<And>cfg b. st_config (state_of H e) = Some cfg \<Longrightarrow> st_bindings (state_of H e) tk = Some b \<Longrightarrow>
      consults_sample (views_of H e) cfg (binding_sac b) blocked sac_authorized"
  shows "map_option fst (dispatch H e c) =
    predict (operation_name op) (st_bindings (state_of H e) tk \<noteq> None) (st_config (state_of H e) \<noteq> None)
      (case st_config (state_of H e) of None \<Rightarrow> False | Some cfg \<Rightarrow> cfg_sac_passthrough cfg)
      sac_authorized (st_frozen (state_of H e) tk) blocked (oracle_parties op accs)"
  by (rule view_contract_host.hook_predicted [OF assms])

text \<open>A deployment whose policy and SAC are the contracts of the fixtures.\<close>

definition sample_host :: "((policy_key, address option, unit) ledger, policy_key, address option, unit) host" where
  "sample_host = ledger_host"

definition sample_deployment :: "(policy_key, address option, unit) ledger" where
  "sample_deployment = policy_constructor sample_host
     \<lparr>l_instance = (\<lambda>_. None), l_persistent = (\<lambda>_. None), l_ttl = (\<lambda>_. 0), l_signers = [],
      l_events = [], l_views = (\<lambda>_ _ _. Inl Abort)\<rparr> (Some ''GBLOCKED'')"

definition sample_views :: views where
  "sample_views c f args =
     (if c = ''CPOLICY'' \<and> f = POLICY_FN then policy_answer sample_host sample_deployment args
      else if c = ''CSAC'' \<and> f = SAC_AUTHORIZED_FN then Inr (Inr (args = [''GALICE''] \<or> args = [''GBOB'']))
      else Inl Abort)"

theorem predict_is_exact_witness:
  "map_option fst (dispatch ledger_host (demo_ledger\<lparr>l_views := sample_views\<rparr>)
     (BeforeWithdraw ''CTOKEN'' ''GCAROL'')) = Some (Inl SacAuthorizationFailedErr)"
proof -
  let ?e = "demo_ledger\<lparr>l_views := sample_views\<rparr>"
  have q: "quiet ledger_host demo_ledger ?e" by (simp add: quiet_def same_entries_def ledger_host_def)
  have wt: "well_typed ledger_host ?e" using demo_well_typed quiet_well_typed [OF q] by simp
  have st: "state_of ledger_host ?e = state_of ledger_host demo_ledger" by (rule quiet_state_of [OF q])
  have vs: "views_of ledger_host ?e = sample_views" by (simp add: views_of_def ledger_host_def fun_eq_iff)
  have answer: "policy_answer sample_host sample_deployment [acc, tk] = Inr (Inr (Some ''GBLOCKED'' \<noteq> Some acc))" for acc tk
    unfolding sample_deployment_def sample_host_def by (rule policy_answer_deployed) (rule ledger.soroban_host_axioms)
  have sample: "consults_sample sample_views \<lparr>cfg_policy = Some ''CPOLICY'', cfg_sac_passthrough = True\<rparr>
      (Some ''CSAC'') (Some ''GBLOCKED'') (\<lambda>acc. acc = ''GALICE'' \<or> acc = ''GBOB'')"
    by (simp add: consults_sample_def sample_views_def answer)
  show ?thesis
    by (subst predict_is_exact [OF ledger_hosts(2) wt, where tk = "''CTOKEN''" and op = Withdraw
          and accs = "[''GCAROL'', ''GCAROL'']" and blocked = "Some ''GBLOCKED''"
          and sac_authorized = "\<lambda>acc. acc = ''GALICE'' \<or> acc = ''GBOB''"])
      (auto simp: st vs demo_facts sample predict_def predict_roles_def oracle_parties_def)
qed

end
