(* ===== verification/Operations.thy ===== *)
theory Operations
  imports Contract_Guarantees
begin

text \<open>
  The operator's view of the contract: the names under which its entry points are called, which of
  them can answer which error, exactly when an invocation traps, and what a signed sequence of
  administrative calls achieves. The tables here are the abstract side; the lemmas connect them with
  the transition function of \<^theory_text>\<open>Enforcement\<close>, and thereby with the code.
\<close>

section \<open>The entry points by name\<close>

fun entry_name :: "entry_call \<Rightarrow> string" where
  "entry_name (Initialize _) = ''initialize''"
| "entry_name (SetConfig _ _) = ''set_config''"
| "entry_name (BindToken _ _) = ''bind_token''"
| "entry_name (UnbindToken _) = ''unbind_token''"
| "entry_name (FreezeAccount _ _) = ''freeze''"
| "entry_name (UnfreezeAccount _ _) = ''unfreeze''"
| "entry_name (BeforeRegister _ _) = ''before_register''"
| "entry_name (BeforeDeposit _ _ _) = ''before_deposit''"
| "entry_name (BeforeTransfer _ _ _) = ''before_transfer''"
| "entry_name (BeforeWithdraw _ _) = ''before_withdraw''"
| "entry_name (BeforeMerge _ _) = ''before_merge''"
| "entry_name (BeforeTransferFrom _ _ _ _) = ''before_transfer_from''"

text \<open>The errors each entry point can answer.\<close>

definition hook_errors :: "contract_error list" where
  "hook_errors = [InvalidConfigurationErr, UnboundTokenErr, AccountFrozenErr, PolicyDeniedErr,
     PolicyUnavailableErr, SacAuthorizationFailedErr]"

definition error_table :: "(string \<times> contract_error list) list" where
  "error_table =
     [(''initialize'', [AlreadyInitializedErr]),
      (''set_config'', [InvalidConfigurationErr]),
      (''bind_token'', [InvalidConfigurationErr]),
      (''unbind_token'', [InvalidConfigurationErr]),
      (''freeze'', [InvalidConfigurationErr, UnboundTokenErr]),
      (''unfreeze'', [InvalidConfigurationErr, UnboundTokenErr]),
      (''before_register'', hook_errors),
      (''before_deposit'', hook_errors),
      (''before_transfer'', hook_errors),
      (''before_withdraw'', hook_errors),
      (''before_merge'', hook_errors),
      (''before_transfer_from'', SpenderNotAuthorizedErr # hook_errors)]"

definition possible_errors :: "string \<Rightarrow> contract_error list" where
  "possible_errors name = (case map_of error_table name of None \<Rightarrow> [] | Some errs \<Rightarrow> errs)"

lemma possible_errors_simps [simp]:
  "possible_errors ''initialize'' = [AlreadyInitializedErr]"
  "possible_errors ''set_config'' = [InvalidConfigurationErr]"
  "possible_errors ''bind_token'' = [InvalidConfigurationErr]"
  "possible_errors ''unbind_token'' = [InvalidConfigurationErr]"
  "possible_errors ''freeze'' = [InvalidConfigurationErr, UnboundTokenErr]"
  "possible_errors ''unfreeze'' = [InvalidConfigurationErr, UnboundTokenErr]"
  "possible_errors ''before_register'' = hook_errors"
  "possible_errors ''before_deposit'' = hook_errors"
  "possible_errors ''before_transfer'' = hook_errors"
  "possible_errors ''before_withdraw'' = hook_errors"
  "possible_errors ''before_merge'' = hook_errors"
  "possible_errors ''before_transfer_from'' = SpenderNotAuthorizedErr # hook_errors"
  by (simp_all add: possible_errors_def error_table_def)

section \<open>No other errors\<close>

lemma and_then_Deny: "and_then d d' = Deny r \<longleftrightarrow> d = Deny r \<or> (d = Allow \<and> d' = Deny r)"
  by (cases d) simp_all

lemma freeze_verdict_errors: "freeze_verdict st tk role acc = Deny r \<Longrightarrow> r = AccountFrozen"
  by (simp add: freeze_verdict_def split: if_splits)

lemma sac_verdict_errors: "sac_verdict ask cfg sac role acc = Deny r \<Longrightarrow> r = SacAuthorizationFailed"
  by (cases sac) (simp_all add: sac_verdict_def split: if_splits)

lemma policy_verdict_errors:
  assumes "policy_verdict ask cfg tk role acc = Deny r"
  shows "r = PolicyUnavailable \<or> (holds_funds role \<and> r = PolicyDenied) \<or> (\<not> holds_funds role \<and> r = SpenderNotAuthorized)"
proof (cases "cfg_policy cfg")
  case None
  with assms show ?thesis by (simp add: policy_verdict_def)
next
  case (Some pol)
  show ?thesis
  proof (cases "ask pol POLICY_FN [acc, tk]")
    case (Inl err)
    with Some assms show ?thesis by (simp add: policy_verdict_def)
  next
    case (Inr v)
    then show ?thesis
    proof (cases v)
      case (Inr b)
      with Some \<open>ask pol POLICY_FN [acc, tk] = Inr v\<close> assms show ?thesis
        by (cases b) (simp_all add: policy_verdict_def split: if_splits)
    qed (use Some assms in \<open>simp add: policy_verdict_def\<close>)
  qed
qed

lemma party_verdict_errors:
  assumes "party_verdict st ask cfg sac tk p = Deny r"
  shows "from_reason r \<in> set hook_errors \<or> (r = SpenderNotAuthorized \<and> \<not> holds_funds (fst p))"
proof -
  consider "freeze_verdict st tk (fst p) (snd p) = Deny r" | "policy_verdict ask cfg tk (fst p) (snd p) = Deny r"
    | "sac_verdict ask cfg sac (fst p) (snd p) = Deny r"
    using assms unfolding party_verdict_def and_then_Deny by blast
  then show ?thesis
  proof cases
    case 1
    from freeze_verdict_errors [OF this] show ?thesis by (simp add: hook_errors_def)
  next
    case 2
    from policy_verdict_errors [OF this] show ?thesis by (elim disjE conjE) (simp_all add: hook_errors_def)
  next
    case 3
    from sac_verdict_errors [OF this] show ?thesis by (simp add: hook_errors_def)
  qed
qed

lemma spender_only_in_transfer_from:
  assumes "(role, acc) \<in> set (zip (parties op) accs)" and "\<not> holds_funds role"
  shows "op = TransferFrom"
proof -
  have "role \<in> set (parties op)" using assms(1) by (rule set_zip_leftD)
  with assms(2) show ?thesis by (cases op) (auto simp: holds_funds_def)
qed

lemma decide_errors:
  assumes "decide st ask tk op accs = Deny r"
  shows "from_reason r \<in> set hook_errors \<or> (r = SpenderNotAuthorized \<and> op = TransferFrom)"
proof -
  consider "r = InvalidConfiguration" | "r = UnboundToken"
    | cfg sac where "first_denial (map (party_verdict st ask cfg sac tk) (zip (parties op) accs)) = Deny r"
  proof (cases "st_config st")
    case None
    with assms show ?thesis by (intro that(1)) (simp add: decide_def)
  next
    case cfg: (Some cfg)
    show ?thesis
    proof (cases "st_bindings st tk")
      case None
      with assms cfg show ?thesis by (intro that(2)) (simp add: decide_def)
    next
      case (Some b)
      show ?thesis
      proof (cases "length (parties op) = length accs")
        case True
        with assms cfg Some show ?thesis by (intro that(3) [of cfg "binding_sac b"]) (simp add: decide_def)
      next
        case False
        with assms cfg Some show ?thesis by (intro that(1)) (simp add: decide_def)
      qed
    qed
  qed
  then show ?thesis
  proof cases
    case 3
    then obtain before p after where "zip (parties op) accs = before @ p # after"
        and p: "party_verdict st ask cfg sac tk p = Deny r"
      by (auto simp only: first_denial_Deny)
    then have "p \<in> set (zip (parties op) accs)" by simp
    with p show ?thesis
      using party_verdict_errors [of st ask cfg sac tk p r] spender_only_in_transfer_from [of "fst p" "snd p" op accs]
      by auto
  qed (simp_all add: hook_errors_def)
qed

lemma spec_step_errors:
  assumes "spec_step st signs ask c = Rejected err"
  shows "err \<in> set (possible_errors (entry_name c))"
proof (cases "hook_of c")
  case (Some p)
  then obtain tk op accs where h: "hook_of c = Some (tk, op, accs)" by (cases p) auto
  then obtain r where "decide st ask tk op accs = Deny r" and "err = from_reason r"
    using assms by (auto simp: spec_step_hook verdict_outcome_def split: compliance_decision.splits)
  with h decide_errors [of st ask tk op accs r] show ?thesis
    by (cases c) auto
next
  case None
  with assms show ?thesis
    by (cases c) (auto simp: admin_only_def in_scope_def configured_def bound_to_def unbound_def flagged_def
        split: option.splits if_splits)
qed

section \<open>When an invocation traps\<close>

text \<open>
  The two reasons an invocation can trap: a required signature is missing, or the configuration
  counter is at its last value.
\<close>

definition lacks_signature :: "enforcement \<Rightarrow> (address \<Rightarrow> bool) \<Rightarrow> entry_call \<Rightarrow> bool" where
  "lacks_signature st signs c =
     (case c of
        Initialize adm \<Rightarrow> st_admin st = None \<and> \<not> signs adm
      | _ \<Rightarrow> hook_of c = None \<and> (case st_admin st of None \<Rightarrow> False | Some a \<Rightarrow> \<not> signs a))"

definition exhausts_version :: "enforcement \<Rightarrow> entry_call \<Rightarrow> bool" where
  "exhausts_version st c =
     (case c of
        SetConfig pol passthrough \<Rightarrow>
          st_admin st \<noteq> None \<and> st_config st \<noteq> Some \<lparr>cfg_policy = pol, cfg_sac_passthrough = passthrough\<rparr> \<and>
          st_config_version st = Some 4294967295
      | _ \<Rightarrow> False)"

lemma next_version_None: "next_version st = None \<longleftrightarrow> st_config_version st = Some 4294967295"
  by (simp add: next_version_def checked_add_one split: option.splits)

lemma configured_Trapped:
  "configured cfg st = Trapped \<longleftrightarrow> st_config st \<noteq> Some cfg \<and> st_config_version st = Some 4294967295"
  unfolding next_version_None [symmetric] by (auto simp: configured_def split: option.splits)

lemma never_Trapped [simp]:
  "bound_to tk b st \<noteq> Trapped" "unbound tk st \<noteq> Trapped" "flagged tk acc flag st \<noteq> Trapped"
  "verdict_outcome st d \<noteq> Trapped"
  by (simp_all add: bound_to_def unbound_def flagged_def verdict_outcome_def split: compliance_decision.splits)

lemma in_scope_Trapped [simp]: "k \<noteq> Trapped \<Longrightarrow> in_scope st tk k \<noteq> Trapped"
  by (simp add: in_scope_def)

lemma admin_only_Trapped:
  "admin_only st signs k = Trapped \<longleftrightarrow> (\<exists>a. st_admin st = Some a \<and> (\<not> signs a \<or> k = Trapped))"
  by (auto simp: admin_only_def split: option.splits)

lemma spec_step_Trapped:
  "spec_step st signs ask c = Trapped \<longleftrightarrow> lacks_signature st signs c \<or> exhausts_version st c"
proof (cases "hook_of c")
  case (Some p)
  then show ?thesis
    by (cases p; cases c) (auto simp: spec_step_hook lacks_signature_def exhausts_version_def)
next
  case None
  then show ?thesis
    by (cases c) (auto simp: admin_only_Trapped configured_Trapped lacks_signature_def exhausts_version_def
        split: option.splits)
qed

lemma implements_None: "implements H e r out \<Longrightarrow> r = None \<longleftrightarrow> out = Trapped"
  by (auto simp: implements_def split: option.splits prod.splits sum.splits outcome.splits)

lemma implements_Inl: "implements H e (Some (Inl err, e')) out \<Longrightarrow> out = Rejected err"
  by simp

context contract_host
begin

lemma dispatch_traps_iff:
  assumes "well_typed H e"
  shows "dispatch H e c = None \<longleftrightarrow>
    lacks_signature (state_of H e) (authorized H e) c \<or> exhausts_version (state_of H e) c"
proof (cases "hook_of c")
  case (Some p)
  then obtain tk op accs where h: "hook_of c = Some (tk, op, accs)" by (cases p) auto
  have "dispatch H e c \<noteq> None"
    using assms h by (cases rule: dispatch_hook_cases) simp_all
  moreover have "\<not> lacks_signature (state_of H e) (authorized H e) c" "\<not> exhausts_version (state_of H e) c"
    using h by (cases c; simp add: lacks_signature_def exhausts_version_def)+
  ultimately show ?thesis by simp
next
  case None
  from implements_None [OF admin_call_implements [OF assms None]] show ?thesis
    by (simp only: spec_step_Trapped)
qed

lemma typed_reads:
  assumes "well_typed H e"
  shows "read_admin H e \<noteq> None" "read_initialized H e \<noteq> None" "read_config H e \<noteq> None"
    "read_config_version H e \<noteq> None" "read_state_version H e \<noteq> None" "read_token_is_bound H e tk \<noteq> None"
  using assms
  by (simp_all add: read_admin_def read_initialized_def read_config_def read_config_version_def
      read_state_version_def read_token_is_bound_def is_initialized_def)

end

section \<open>Signed operation\<close>

lemma mark_frozen_same: "st_frozen st tk acc = flag \<Longrightarrow> mark_frozen tk acc flag st = st"
  by (cases st) (simp add: mark_frozen_def fun_upd_idem)

lemma flagged_commits:
  "flagged tk acc flag st = Done (mark_frozen tk acc flag st)
     (if st_frozen st tk acc = flag then []
      else [if flag then AccountFrozenEv tk acc else AccountUnfrozenEv tk acc])"
  by (simp add: flagged_def mark_frozen_same)

lemma configured_commits:
  assumes "st_config_version st \<noteq> Some 4294967295"
  shows "\<exists>st' evs. configured cfg st = Done st' evs \<and> st_config st' = Some cfg \<and> st_admin st' = st_admin st"
proof -
  obtain n where "next_version st = Some n" using assms next_version_None [of st] by auto
  then show ?thesis by (simp add: configured_def)
qed

text \<open>
  An operator who signs: before each call the rest of the world moves on to a state in which the
  admin has signed. \<open>sign\<close> is that move.
\<close>

definition operate :: "'s chost \<Rightarrow> ('s \<Rightarrow> 's) \<Rightarrow> 's \<Rightarrow> entry_call list \<Rightarrow> 's" where
  "operate H sign = foldl (\<lambda>e c. invoke H (sign e) c)"

lemma operate_simps [simp]:
  "operate H sign e [] = e"
  "operate H sign e (c # cs) = operate H sign (invoke H (sign e) c) cs"
  by (simp_all add: operate_def)

lemma operate_append: "operate H sign e (cs @ cs') = operate H sign (operate H sign e cs) cs'"
  by (simp add: operate_def)

definition signs_for :: "'s chost \<Rightarrow> ('s \<Rightarrow> 's) \<Rightarrow> address \<Rightarrow> bool" where
  "signs_for H sign a \<longleftrightarrow> (\<forall>e. quiet H e (sign e) \<and> authorized H (sign e) a)"

context contract_host
begin

text \<open>A signed administrative call that the abstract contract accepts commits the abstract state.\<close>

lemma operate_step:
  assumes "well_typed H e" and "signs_for H sign a" and "hook_of c = None"
    and "\<And>signs ask. signs a \<Longrightarrow> spec_step (state_of H e) signs ask c = Done st evs"
  shows "well_typed H (invoke H (sign e) c) \<and> state_of H (invoke H (sign e) c) = st"
proof -
  have q: "quiet H e (sign e)" and signed: "authorized H (sign e) a"
    using assms(2) by (auto simp: signs_for_def)
  have wt: "well_typed H (sign e)" using assms(1) q by (simp add: quiet_well_typed)
  have "implements H (sign e) (dispatch H (sign e) c) (Done st evs)"
    using admin_call_implements [OF wt assms(3), of undefined] assms(4) [of "authorized H (sign e)", OF signed] quiet_state_of [OF q] by simp
  then show ?thesis
    by (auto simp: implements_def invoke_def split: option.splits prod.splits sum.splits)
qed

lemma operate_unfreeze:
  assumes "well_typed H e" and "signs_for H sign a" and "st_admin (state_of H e) = Some a"
    and "st_config (state_of H e) \<noteq> None" and "st_bindings (state_of H e) tk \<noteq> None"
  shows "well_typed H (operate H sign e (map (UnfreezeAccount tk) accs)) \<and>
    state_of H (operate H sign e (map (UnfreezeAccount tk) accs)) =
      (state_of H e)\<lparr>st_frozen := (st_frozen (state_of H e))
        (tk := (\<lambda>acc. st_frozen (state_of H e) tk acc \<and> acc \<notin> set accs))\<rparr>"
  using assms
proof (induction accs arbitrary: e)
  case Nil
  then show ?case by simp
next
  case (Cons acc accs)
  let ?e = "invoke H (sign e) (UnfreezeAccount tk acc)"
  have "well_typed H ?e \<and> state_of H ?e = mark_frozen tk acc False (state_of H e)"
  proof (rule operate_step [OF Cons.prems(1,2)])
    fix signs ask
    assume "signs a"
    then show "spec_step (state_of H e) signs ask (UnfreezeAccount tk acc) =
        Done (mark_frozen tk acc False (state_of H e))
          (if st_frozen (state_of H e) tk acc then [AccountUnfrozenEv tk acc] else [])"
      using Cons.prems(3-5) by (auto simp: admin_only_def in_scope_def flagged_commits)
  qed simp
  with Cons.prems Cons.IH [of ?e] show ?case
    by (auto simp: mark_frozen_def fun_eq_iff)
qed

text \<open>The recovery procedure: configure, bind, lift the freezes.\<close>

lemma operate_recovery:
  assumes "well_typed H e" and "signs_for H sign a" and "st_admin (state_of H e) = Some a"
    and "st_config_version (state_of H e) \<noteq> Some 4294967295"
    and e'_def: "e' = operate H sign e ([SetConfig pol passthrough, BindToken tk sac] @ map (UnfreezeAccount tk) accs)"
  shows "well_typed H e' \<and> st_config (state_of H e') = Some \<lparr>cfg_policy = pol, cfg_sac_passthrough = passthrough\<rparr> \<and>
    st_bindings (state_of H e') tk = Some \<lparr>binding_sac = sac\<rparr> \<and>
    (\<forall>acc\<in>set accs. \<not> st_frozen (state_of H e') tk acc)"
proof -
  let ?cfg = "\<lparr>cfg_policy = pol, cfg_sac_passthrough = passthrough\<rparr>"
  let ?e1 = "invoke H (sign e) (SetConfig pol passthrough)"
  let ?e2 = "invoke H (sign ?e1) (BindToken tk sac)"
  obtain st1 evs1 where c: "configured ?cfg (state_of H e) = Done st1 evs1"
    and st1: "st_config st1 = Some ?cfg" "st_admin st1 = Some a"
    using configured_commits [OF assms(4), of ?cfg] assms(3) by auto
  have e1: "well_typed H ?e1 \<and> state_of H ?e1 = st1"
  proof (rule operate_step [OF assms(1,2)])
    fix signs ask
    assume "signs a"
    then show "spec_step (state_of H e) signs ask (SetConfig pol passthrough) = Done st1 evs1"
      using assms(3) c by (simp add: admin_only_def)
  qed simp
  obtain st2 evs2 where b: "bound_to tk \<lparr>binding_sac = sac\<rparr> st1 = Done st2 evs2"
    and st2: "st_bindings st2 tk = Some \<lparr>binding_sac = sac\<rparr>" "st_config st2 = Some ?cfg" "st_admin st2 = Some a"
    using st1 by (cases "st_bindings st1 tk = Some \<lparr>binding_sac = sac\<rparr>") (auto simp: bound_to_def)
  have e2: "well_typed H ?e2 \<and> state_of H ?e2 = st2"
  proof (rule operate_step [OF e1 [THEN conjunct1] assms(2)])
    fix signs ask
    assume "signs a"
    then show "spec_step (state_of H ?e1) signs ask (BindToken tk sac) = Done st2 evs2"
      using e1 st1 b by (simp add: admin_only_def)
  qed simp
  have "e' = operate H sign ?e2 (map (UnfreezeAccount tk) accs)"
    unfolding e'_def by simp
  with operate_unfreeze [of ?e2 sign a tk accs] e2 st2 assms(2) show ?thesis by simp
qed

end

end
