(* ===== verification/Live_Network.thy ===== *)
theory Live_Network
  imports Cli_Effects Operations
begin

text \<open>
  The operator CLI in front of the contract. \<open>request\<close> is the function name and parameters under which
  the CLI reaches an entry point. \<open>live_network\<close> is what the stellar binary and the network behind it
  do for the CLI: \<open>chain w i\<close> is the state of the hooks contract with id \<open>i\<close>, a successful signed
  invocation has executed the entry point it names, a deployment creates a contract that did not exist.
  Under these laws, a bring-up that succeeds leaves the contract in the state that the deployment record
  describes.
\<close>

section \<open>Requests\<close>

fun request :: "entry_call \<Rightarrow> string \<times> (string \<times> string) list" where
  "request (Initialize adm) = (''initialize'', [(''admin'', address_param adm)])"
| "request (SetConfig pol passthrough) =
     (''set_config'', [(''policy'', opt_address pol), (''sac_passthrough'', boolean_param passthrough)])"
| "request (BindToken tk sac) = (''bind_token'', [(''token'', address_param tk), (''sac'', opt_address sac)])"
| "request (UnbindToken tk) = (''unbind_token'', [(''token'', address_param tk)])"
| "request (FreezeAccount tk acc) = (''freeze'', [(''token'', address_param tk), (''account'', address_param acc)])"
| "request (UnfreezeAccount tk acc) =
     (''unfreeze'', [(''token'', address_param tk), (''account'', address_param acc)])"
| "request (BeforeRegister tk acc) =
     (''before_register'', [(''token'', address_param tk), (''account'', address_param acc)])"
| "request (BeforeDeposit tk src dst) =
     (''before_deposit'', [(''token'', address_param tk), (''from'', address_param src), (''to'', address_param dst)])"
| "request (BeforeTransfer tk src dst) =
     (''before_transfer'', [(''token'', address_param tk), (''from'', address_param src), (''to'', address_param dst)])"
| "request (BeforeWithdraw tk acc) =
     (''before_withdraw'', [(''token'', address_param tk), (''account'', address_param acc)])"
| "request (BeforeMerge tk acc) =
     (''before_merge'', [(''token'', address_param tk), (''account'', address_param acc)])"
| "request (BeforeTransferFrom tk spender src dst) =
     (''before_transfer_from'', [(''token'', address_param tk), (''spender'', address_param spender),
        (''from'', address_param src), (''to'', address_param dst)])"

lemma request_name: "fst (request c) = entry_name c"
  by (cases c) simp_all

section \<open>The network\<close>

definition pristine :: "'s chost \<Rightarrow> 's \<Rightarrow> bool" where
  "pristine H e \<longleftrightarrow> instance_get H e = Map.empty \<and> persistent_get H e = Map.empty \<and> published H e = []"

locale live_network =
  fixes H :: "'s chost"
    and C :: "'w cli_host"
    and chain :: "'w \<Rightarrow> string \<Rightarrow> 's"
    and known :: "'w \<Rightarrow> string set"
    and hooks_wasm :: string
  assumes host: "contract_host H"
    and invoked:
      "request c = (func, params) \<Longrightarrow> i \<in> known w \<Longrightarrow>
       run_stellar C w (invoke_args (Some source) i network func params) = (Inr out, w') \<Longrightarrow> run_ok out \<Longrightarrow>
       known w' = known w \<and> (\<exists>e. quiet H (chain w i) e \<and> dispatch H e c = Some (Inr (), chain w' i))"
    and deployed:
      "run_stellar C w (deploy_args path source network params) = (Inr out, w') \<Longrightarrow> run_ok out \<Longrightarrow>
       parse_deployed_id (run_stdout out) = Some i \<Longrightarrow>
       i \<notin> known w \<and> known w' = insert i (known w) \<and>
       (\<forall>j\<in>known w. quiet H (chain w j) (chain w' j)) \<and> (path = hooks_wasm \<longrightarrow> pristine H (chain w' i))"
    and printed: "known (print_line C w line) = known w" "chain (print_line C w line) = chain w"
    and written: "known (snd (write_file C w path text)) = known w" "chain (snd (write_file C w path text)) = chain w"
begin

lemma println_keeps: "println C line w = (r, w') \<Longrightarrow> known w' = known w \<and> chain w' = chain w"
  by (auto simp: println_def printed)

lemma pristine_reachable: "pristine H e \<Longrightarrow> reachable H e"
  by (simp add: pristine_def reachable.fresh)

lemma send_raw_Inr:
  "send_raw C args w = (Inr out, w') \<Longrightarrow> run_stellar C w args = (Inr out, w') \<and> run_ok out"
  by (auto simp: send_raw_def and_do_Inr fail_with_def done_with_def split: if_splits)

lemma hooks_invoke_Inr:
  "hooks_invoke C source i network func params w = (Inr u, w') \<Longrightarrow>
   \<exists>out. run_stellar C w (invoke_args (Some source) i network func params) = (Inr out, w') \<and> run_ok out"
  by (auto simp: hooks_invoke_def and_do_Inr lift_result_def done_with_def interpret_outcome_Inr)

text \<open>One signed administrative invocation that the CLI reports as successful.\<close>

lemma invocation_commits:
  assumes "run_stellar C w (invoke_args (Some source) i network (fst (request c)) (snd (request c))) = (Inr out, w')"
    and "run_ok out" and "i \<in> known w" and "reachable H (chain w i)" and "hook_of c = None"
  shows "known w' = known w \<and> reachable H (chain w' i) \<and>
    (\<exists>e evs. quiet H (chain w i) e \<and>
      (\<forall>ask. spec_step (state_of H (chain w i)) (authorized H e) ask c = Done (state_of H (chain w' i)) evs))"
proof -
  obtain e where k: "known w' = known w" and q: "quiet H (chain w i) e"
    and d: "dispatch H e c = Some (Inr (), chain w' i)"
    using invoked [of c "fst (request c)" "snd (request c)" i w source network out w'] assms(1-3) by auto
  have r: "reachable H e" by (rule reachable.environment [OF assms(4) q])
  have "reachable H (invoke H e c)" by (rule reachable.call [OF r])
  with d have r': "reachable H (chain w' i)" by (simp add: invoke_def)
  have wt: "well_typed H e" by (rule contract_host.well_typed_reachable [OF host r])
  have "\<exists>evs. \<forall>ask. spec_step (state_of H e) (authorized H e) ask c = Done (state_of H (chain w' i)) evs"
    by (rule contract_host.dispatch_cases [OF host wt, of c]) (use d assms(5) in auto)
  with k q r' show ?thesis by (simp add: quiet_state_of [OF q]) blast
qed

lemma hooks_invoke_commits:
  assumes "hooks_invoke C source i network (fst (request c)) (snd (request c)) w = (Inr u, w')"
    and "i \<in> known w" and "reachable H (chain w i)" and "hook_of c = None"
  shows "known w' = known w \<and> reachable H (chain w' i) \<and>
    (\<exists>signs evs. \<forall>ask. spec_step (state_of H (chain w i)) signs ask c = Done (state_of H (chain w' i)) evs)"
  using hooks_invoke_Inr [OF assms(1)] invocation_commits [OF _ _ assms(2-4)] by blast

lemma app_invoke_commits:
  assumes "app_invoke C A (fst (request c)) (snd (request c)) w = (Inr u, w')"
    and "dep_hooks_contract_id (app_config A) \<in> known w"
    and "reachable H (chain w (dep_hooks_contract_id (app_config A)))" and "hook_of c = None"
  shows "known w' = known w \<and> reachable H (chain w' (dep_hooks_contract_id (app_config A))) \<and>
    (\<exists>e evs. quiet H (chain w (dep_hooks_contract_id (app_config A))) e \<and>
      (\<forall>ask. spec_step (state_of H (chain w (dep_hooks_contract_id (app_config A)))) (authorized H e) ask c =
        Done (state_of H (chain w' (dep_hooks_contract_id (app_config A)))) evs))"
proof -
  obtain out where "run_stellar C w (invoke_args (Some (app_source A)) (dep_hooks_contract_id (app_config A))
      (dep_network (app_config A)) (fst (request c)) (snd (request c))) = (Inr out, w')" and "run_ok out"
    using assms(1) by (auto simp: app_invoke_def and_do_Inr lift_result_def interpret_outcome_Inr)
  then show ?thesis by (rule invocation_commits [OF _ _ assms(2-4)])
qed

end

section \<open>What the record describes\<close>

definition recorded_bindings :: "token_entry list \<Rightarrow> address \<Rightarrow> token_binding option" where
  "recorded_bindings tokens =
     map_of (rev (map (\<lambda>t. (token_contract_id t, \<lparr>binding_sac = token_sac_contract_id t\<rparr>)) tokens))"

definition recorded_state :: "deployment \<Rightarrow> enforcement" where
  "recorded_state cfg =
    \<lparr>st_admin = Some (admin_public_key (dep_admin cfg)),
     st_config = Some \<lparr>cfg_policy = map_option policy_contract_id (dep_policy cfg),
       cfg_sac_passthrough = dep_sac_passthrough cfg\<rparr>,
     st_config_version = Some 1,
     st_version = Some VERSION,
     st_bindings = recorded_bindings (dep_tokens cfg),
     st_frozen = (\<lambda>_ _. False)\<rparr>"

lemma bound_to_Done:
  "bound_to tk b st = Done st' evs \<Longrightarrow> st' = st\<lparr>st_bindings := (st_bindings st)(tk := Some b)\<rparr>"
  by (cases st) (auto simp: bound_to_def fun_upd_idem split: if_splits)

lemma bound_to_commits: "\<exists>st' evs. bound_to tk b st = Done st' evs"
  by (auto simp: bound_to_def)

lemma pristine_state:
  "pristine H e \<Longrightarrow> state_of H e = \<lparr>st_admin = None, st_config = None, st_config_version = None, st_version = None,
     st_bindings = (\<lambda>_. None), st_frozen = (\<lambda>_ _. False)\<rparr>"
  by (simp add: pristine_def state_of_def)

section \<open>Bring-up on a live network\<close>

context live_network
begin

lemma bind_all:
  assumes "for_each ts (\<lambda>t.
      and_do (hooks_invoke C source i network ''bind_token'' [(''token'', address_param (token_contract_id t)),
                                     (''sac'', opt_address (token_sac_contract_id t))]) (\<lambda>_.
      println C (''bound token '' @ token_alias t))) w = (Inr (), w')"
    and "i \<in> known w" and "reachable H (chain w i)"
  shows "known w' = known w \<and> reachable H (chain w' i) \<and>
    state_of H (chain w' i) = (state_of H (chain w i))
      \<lparr>st_bindings := st_bindings (state_of H (chain w i)) ++ recorded_bindings ts\<rparr>"
  using assms
proof (induction ts arbitrary: w)
  case Nil
  then show ?case by (simp add: done_with_def recorded_bindings_def)
next
  case (Cons t ts)
  let ?c = "BindToken (token_contract_id t) (token_sac_contract_id t)"
  obtain u w1 w2 where
    s1: "hooks_invoke C source i network (fst (request ?c)) (snd (request ?c)) w = (Inr u, w1)" and
    s2: "println C (''bound token '' @ token_alias t) w1 = (Inr (), w2)" and
    s3: "for_each ts (\<lambda>t.
      and_do (hooks_invoke C source i network ''bind_token'' [(''token'', address_param (token_contract_id t)),
                                     (''sac'', opt_address (token_sac_contract_id t))]) (\<lambda>_.
      println C (''bound token '' @ token_alias t))) w2 = (Inr (), w')"
    using Cons.prems(1) by (auto simp: and_do_Inr)
  obtain signs evs where k1: "known w1 = known w" and r1: "reachable H (chain w1 i)"
    and step: "\<And>ask. spec_step (state_of H (chain w i)) signs ask ?c = Done (state_of H (chain w1 i)) evs"
    using hooks_invoke_commits [OF s1 Cons.prems(2,3)] by auto
  have "bound_to (token_contract_id t) \<lparr>binding_sac = token_sac_contract_id t\<rparr> (state_of H (chain w i)) =
      Done (state_of H (chain w1 i)) evs"
    using step [of undefined] by (auto simp: admin_only_Done)
  note st1 = bound_to_Done [OF this]
  have k2: "known w2 = known w" and c2: "chain w2 = chain w1"
    using println_keeps [OF s2] k1 by simp_all
  have "known w' = known w2 \<and> reachable H (chain w' i) \<and>
    state_of H (chain w' i) = (state_of H (chain w2 i))
      \<lparr>st_bindings := st_bindings (state_of H (chain w2 i)) ++ recorded_bindings ts\<rparr>"
    using Cons.prems(2) k2 c2 r1 by (intro Cons.IH [OF s3]) simp_all
  then show ?case
    using k2 c2 st1 by (simp add: recorded_bindings_def map_add_def fun_eq_iff split: option.splits)
qed

lemma bring_up_establishes:
  assumes "bring_up C cfg source i pol sac w = (Inr (), w')"
    and "i \<in> known w" and "pristine H (chain w i)"
  shows "known w' = known w \<and> reachable H (chain w' i) \<and>
    state_of H (chain w' i) = recorded_state (recorded_config cfg i pol sac)"
proof -
  let ?admin = "admin_public_key (dep_admin cfg)"
  let ?send = "\<lambda>c. hooks_invoke C source i (dep_network cfg) (fst (request c)) (snd (request c))"
  obtain u1 w1 w2 u3 w3 w4 where
    s1: "?send (Initialize ?admin) w = (Inr u1, w1)" and
    s2: "println C (''initialized with admin '' @ ?admin) w1 = (Inr (), w2)" and
    s3: "?send (SetConfig pol sac) w2 = (Inr u3, w3)" and
    s4: "println C (policy_line pol sac) w3 = (Inr (), w4)" and
    s5: "for_each (dep_tokens cfg) (\<lambda>t.
      and_do (hooks_invoke C source i (dep_network cfg) ''bind_token'' [(''token'', address_param (token_contract_id t)),
                                     (''sac'', opt_address (token_sac_contract_id t))]) (\<lambda>_.
      println C (''bound token '' @ token_alias t))) w4 = (Inr (), w')"
    using assms(1) by (auto simp: bring_up_def Let_def and_do_Inr)
  obtain signs1 evs1 where k1: "known w1 = known w" and r1: "reachable H (chain w1 i)"
    and step1: "\<And>ask. spec_step (state_of H (chain w i)) signs1 ask (Initialize ?admin) = Done (state_of H (chain w1 i)) evs1"
    using hooks_invoke_commits [OF s1 assms(2) pristine_reachable [OF assms(3)]] by auto
  have st1: "state_of H (chain w1 i) = (state_of H (chain w i))\<lparr>st_admin := Some ?admin, st_version := Some VERSION\<rparr>"
    using step1 [of undefined] by (simp split: if_splits)
  have k2: "known w2 = known w" and c2: "chain w2 = chain w1"
    using println_keeps [OF s2] k1 by simp_all
  obtain signs3 evs3 where k3: "known w3 = known w" and r3: "reachable H (chain w3 i)"
    and step3: "\<And>ask. spec_step (state_of H (chain w2 i)) signs3 ask (SetConfig pol sac) = Done (state_of H (chain w3 i)) evs3"
    using hooks_invoke_commits [OF s3] assms(2) k2 c2 r1 by auto
  have "configured \<lparr>cfg_policy = pol, cfg_sac_passthrough = sac\<rparr> (state_of H (chain w2 i)) = Done (state_of H (chain w3 i)) evs3"
    using step3 [of undefined] by (auto simp: admin_only_Done)
  then have st3: "state_of H (chain w3 i) = (state_of H (chain w1 i))\<lparr>st_config := Some \<lparr>cfg_policy = pol, cfg_sac_passthrough = sac\<rparr>,
      st_config_version := Some 1\<rparr>"
    by (auto simp: c2 st1 pristine_state [OF assms(3)] configured_Done next_version_def checked_add_one)
  have k4: "known w4 = known w" and c4: "chain w4 = chain w3"
    using println_keeps [OF s4] k3 by simp_all
  have "known w' = known w4 \<and> reachable H (chain w' i) \<and>
    state_of H (chain w' i) = (state_of H (chain w4 i))
      \<lparr>st_bindings := st_bindings (state_of H (chain w4 i)) ++ recorded_bindings (dep_tokens cfg)\<rparr>"
    using assms(2) k4 c4 r3 by (intro bind_all [OF s5]) simp_all
  then show ?thesis
    by (simp add: k4 c4 st3 st1 pristine_state [OF assms(3)] recorded_state_def recorded_config_def option.map_comp
        comp_def option.map_ident map_add_def fun_eq_iff option.case_eq_if)
qed

text \<open>The whole deployment.\<close>

lemma deploy_hooks_creates:
  assumes "deploy_hooks C cfg source hooks_wasm w = (Inr i, w')"
  shows "i \<notin> known w \<and> known w' = insert i (known w) \<and> pristine H (chain w' i) \<and>
    (\<forall>j\<in>known w. quiet H (chain w j) (chain w' j))"
proof -
  obtain w1 out w2 w3 where
    s1: "println C (''deploying compliance-hooks'' @ ELLIPSIS) w = (Inr (), w1)" and
    s2: "send_raw C (deploy_args hooks_wasm source (dep_network cfg) []) w1 = (Inr out, w2)" and
    s3: "parse_deployed_id (run_stdout out) = Some i" and
    s4: "println C (''deployed hooks: '' @ i) w2 = (Inr (), w3)" and
    s5: "w' = w3"
    using assms unfolding deploy_hooks_def
    by (auto simp: fail_with_def and_do_Inr lift_parsed done_with_def simp del: and_do_simps split: if_splits)
  from send_raw_Inr [OF s2] deployed [of w1 hooks_wasm source "dep_network cfg" "[]" out w2 i] s3
    println_keeps [OF s1] println_keeps [OF s4] s5
  show ?thesis by auto
qed

lemma resolve_policy_keeps:
  assumes "resolve_policy C cfg source sample_wasm blocked policy_id no_policy w = (Inr pol, w')"
  shows "known w \<subseteq> known w' \<and> (\<forall>j\<in>known w. quiet H (chain w j) (chain w' j)) \<and>
    policy_choice cfg sample_wasm policy_id no_policy pol \<and> (sample_wasm = None \<longrightarrow> known w' = known w)"
proof (cases "no_policy \<or> policy_id \<noteq> None \<or> sample_wasm = None")
  case True
  with assms show ?thesis
    by (auto simp: resolve_policy_def done_with_def policy_choice_def split: option.splits if_splits)
next
  case False
  then obtain sample where opts: "\<not> no_policy" "policy_id = None" "sample_wasm = Some sample" by auto
  let ?ctor = "case blocked of Some b \<Rightarrow> [(''blocked'', opt_address (Some b))] | None \<Rightarrow> []"
  obtain out w1 i where
    s1: "send_raw C (deploy_args sample source (dep_network cfg) ?ctor) w = (Inr out, w1)" and
    s2: "parse_deployed_id (run_stdout out) = Some i" and
    s3: "println C (''deployed policy: '' @ i) w1 = (Inr (), w')" and
    s4: "pol = Some i"
    using assms opts unfolding resolve_policy_def
    by (auto simp: fail_with_def and_do_Inr lift_parsed done_with_def Let_def simp del: and_do_simps split: if_splits)
  from send_raw_Inr [OF s1] deployed [of w sample source "dep_network cfg" ?ctor out w1 i] s2 println_keeps [OF s3]
  show ?thesis using opts s4 parse_deployed_id_address [OF s2] by (auto simp: policy_choice_def)
qed

lemma write_keeps: "write_file C w path text = (r, w') \<Longrightarrow> known w' = known w \<and> chain w' = chain w"
  using written [where w = w and path = path] by (metis snd_conv)

lemma config_save_keeps: "config_save C J cfg path w = (r, w') \<Longrightarrow> known w' = known w \<and> chain w' = chain w"
  by (auto simp: config_save_def and_do_def map_err_def lift_result_def split: prod.splits sum.splits
      dest!: write_keeps)

lemma run_deploy_record:
  assumes "run_deploy C J cfg config_path source hooks_wasm sample_wasm blocked policy_id no_policy sac_opt w = (Inr (), w')"
  obtains i w1 pol w2 where
    "deploy_hooks C cfg source hooks_wasm w = (Inr i, w1)"
    and "resolve_policy C cfg source sample_wasm blocked policy_id no_policy w1 = (Inr pol, w2)"
    and "i \<notin> known w" and "i \<in> known w'" and "policy_choice cfg sample_wasm policy_id no_policy pol"
    and "sample_wasm = None \<Longrightarrow> known w' = insert i (known w)" and "reachable H (chain w' i)"
    and "state_of H (chain w' i) = recorded_state (recorded_config cfg i pol
      (case sac_opt of Some b \<Rightarrow> b | None \<Rightarrow> dep_sac_passthrough cfg))"
proof -
  let ?sac = "case sac_opt of Some b \<Rightarrow> b | None \<Rightarrow> dep_sac_passthrough cfg"
  obtain i w1 pol w2 w3 where
    s1: "deploy_hooks C cfg source hooks_wasm w = (Inr i, w1)" and
    s2: "resolve_policy C cfg source sample_wasm blocked policy_id no_policy w1 = (Inr pol, w2)" and
    s3: "bring_up C cfg source i pol ?sac w2 = (Inr (), w3)" and
    s4: "(case config_path of
         Some path \<Rightarrow>
           and_do (config_save C J (recorded_config cfg i pol ?sac) path) (\<lambda>_.
             println C (''config updated: '' @ path))
       | None \<Rightarrow>
           println C (''config not modified '' @ EM_DASH @ '' rerun with --save to record '' @ i @
             '' as the hooks contract'')) w3 = (Inr (), w')"
    using assms unfolding run_deploy_def Let_def by (auto simp: and_do_Inr)
  note d = deploy_hooks_creates [OF s1] and p = resolve_policy_keeps [OF s2]
  have q: "quiet H (chain w1 i) (chain w2 i)" using d p by auto
  have pr: "pristine H (chain w2 i)"
    using d quietD [OF q] by (simp add: pristine_def)
  have known: "i \<in> known w2" using d p by auto
  note b = bring_up_establishes [OF s3 known pr]
  have last: "known w' = known w3 \<and> chain w' = chain w3"
    using s4 by (auto simp: and_do_Inr split: option.splits dest!: println_keeps config_save_keeps)
  show thesis by (rule that [OF s1 s2]) (use d p b known last in auto)
qed

lemma run_deploy_establishes:
  assumes "run_deploy C J cfg config_path source hooks_wasm sample_wasm blocked policy_id no_policy sac_opt w = (Inr (), w')"
  shows "\<exists>i pol. i \<notin> known w \<and> i \<in> known w' \<and> policy_choice cfg sample_wasm policy_id no_policy pol \<and>
    (sample_wasm = None \<longrightarrow> known w' = insert i (known w)) \<and> reachable H (chain w' i) \<and>
    state_of H (chain w' i) = recorded_state (recorded_config cfg i pol
      (case sac_opt of Some b \<Rightarrow> b | None \<Rightarrow> dep_sac_passthrough cfg))"
  using run_deploy_record [OF assms] by metis

end

end
