(* ===== verification/Relayed_Report.thy ===== *)
theory Relayed_Report
  imports Live_Network
begin

text \<open>
  What the smoke test of the CLI says about the contract behind the binary. \<open>relays_transfers\<close> and
  \<open>relays_reads\<close> state that the binary shows the contract's replies to the calls the report is made of;
  \<open>report_claim\<close> is what a clean report says, stated on the contract's state and the pipeline's decisions,
  and \<open>healthy_iff_claim\<close> shows that the report is exact. The claim is less than that the contract is as the
  record has it: \<open>claim_leaves_open\<close>.
\<close>

section \<open>Replies of simulated calls\<close>

text \<open>
  What the stellar binary makes of a simulated call: a committed reply is a successful run, an error of the
  contract is a failed run whose standard error mentions \<^verbatim>\<open>Error(Contract, #N)\<close> with its code.
\<close>

definition relays :: "string + run_outcome \<Rightarrow> 's reply \<Rightarrow> bool" where
  "relays answer reply \<longleftrightarrow>
     (case reply of
        None \<Rightarrow> True
      | Some (Inr _, _) \<Rightarrow> (\<exists>out. answer = Inr out \<and> run_ok out)
      | Some (Inl err, _) \<Rightarrow>
          (\<exists>out before after. answer = Inr out \<and> \<not> run_ok out \<and> run_stdout out = [] \<and>
             run_stderr out = before @ revert_marker @ u32_text (error_code err) @ '')'' @ after \<and>
             \<not> sublist revert_marker (newline # before)))"

text \<open>The transfers the report simulates: the probe, and the samples on the recorded tokens.\<close>

definition sampled_calls :: "deployment \<Rightarrow> string option \<Rightarrow> (string \<times> string) set" where
  "sampled_calls cfg account =
     insert (admin_public_key (dep_admin cfg), admin_public_key (dep_admin cfg))
       ((token_contract_id ` set (dep_tokens cfg)) \<times> set_option account)"

definition relays_transfers ::
  "'s chost \<Rightarrow> 's \<Rightarrow> (string list \<Rightarrow> string + run_outcome) \<Rightarrow> deployment \<Rightarrow> string \<Rightarrow> string option \<Rightarrow> bool" where
  "relays_transfers H e ans cfg source_account account \<longleftrightarrow>
     (\<forall>(tk, acc)\<in>sampled_calls cfg account.
        relays (ans (view_args source_account (dep_hooks_contract_id cfg) (dep_network cfg) ''before_transfer''
          [(''token'', tk), (''from'', acc), (''to'', acc)])) (dispatch H e (BeforeTransfer tk acc acc)))"

lemma read_gate_relays:
  assumes "relays answer (Some (r, e'))"
  shows "read_gate answer = (case r of Inr _ \<Rightarrow> Inr Allowed | Inl err \<Rightarrow> Inr (Denied (revert_of err)))"
proof (cases r)
  case (Inr u)
  with assms show ?thesis by (auto simp: relays_def read_gate_def)
next
  case (Inl err)
  with assms obtain out before after where out: "answer = Inr out" "\<not> run_ok out" "run_stdout out = []"
    "run_stderr out = before @ revert_marker @ u32_text (error_code err) @ '')'' @ after"
    "\<not> sublist revert_marker (newline # before)"
    by (auto simp: relays_def)
  then have "combined out = revert_line (newline # before) err after"
    by (simp add: combined_def revert_line_def)
  with decode_revert_text [OF out(5)] out Inl show ?thesis by (simp add: read_gate_def)
qed

lemma relayed_transfer:
  assumes "view_contract_host H" and "well_typed H e" and "relays answer (dispatch H e (BeforeTransfer tk src dst))"
  shows "read_gate answer =
    (case decide (state_of H e) (views_of H e) tk Transfer [src, dst] of
       Allow \<Rightarrow> Inr Allowed | Deny r \<Rightarrow> Inr (Denied (Rejection r)))"
proof -
  have hook: "hook_of (BeforeTransfer tk src dst) = Some (tk, Transfer, [src, dst])" by simp
  obtain e' where d: "dispatch H e (BeforeTransfer tk src dst) =
      Some (enforce (decide (state_of H e) (views_of H e) tk Transfer [src, dst]), e')"
    by (rule view_contract_host.dispatch_hook_decides [OF assms(1,2) hook])
  from read_gate_relays [OF assms(3) [unfolded d]] show ?thesis
    by (cases "decide (state_of H e) (views_of H e) tk Transfer [src, dst]")
      (simp_all add: enforce_def revert_of_reason)
qed

lemma sampled_gate:
  assumes "view_contract_host H" and "well_typed H e" and "relays_transfers H e ans cfg source_account account"
    and "(tk, acc) \<in> sampled_calls cfg account"
  shows "ask_transfer ans cfg source_account tk acc =
    (case decide (state_of H e) (views_of H e) tk Transfer [acc, acc] of
       Allow \<Rightarrow> Inr Allowed | Deny r \<Rightarrow> Inr (Denied (Rejection r)))"
  unfolding ask_transfer_def
  by (rule relayed_transfer [OF assms(1,2)]) (use assms(3,4) in \<open>auto simp: relays_transfers_def\<close>)

section \<open>Replies of simulated reads\<close>

text \<open>
  A read is shown as the JSON of its value: an absent option as \<^verbatim>\<open>null\<close>, an address and a flag as their
  text up to quotes, a number in decimal, a configuration as an object whose policy field is the policy.
\<close>

definition shows_option :: "('a \<Rightarrow> string \<Rightarrow> bool) \<Rightarrow> 'a option \<Rightarrow> string \<Rightarrow> bool" where
  "shows_option P x v = (case x of None \<Rightarrow> unquote v = ''null'' | Some a \<Rightarrow> P a v)"

definition shows_config :: "json_codec \<Rightarrow> compliance_config \<Rightarrow> string \<Rightarrow> bool" where
  "shows_config J c v \<longleftrightarrow> unquote v \<noteq> ''null'' \<and> text_trim v \<noteq> [] \<and> json_policy_field J v = cfg_policy c"

definition relays_reads ::
  "'s chost \<Rightarrow> 's \<Rightarrow> json_codec \<Rightarrow> (string list \<Rightarrow> string + run_outcome) \<Rightarrow> deployment \<Rightarrow> string \<Rightarrow> bool" where
  "relays_reads H e J ans cfg source_account \<longleftrightarrow>
     (let ask = ask_view ans cfg source_account in
      (\<forall>b. read_initialized H e = Some b \<longrightarrow> says (ask ''initialized'' []) (\<lambda>v. unquote v = bool_text b)) \<and>
      (\<forall>a. read_admin H e = Some a \<longrightarrow> says (ask ''admin'' []) (shows_option (\<lambda>a v. unquote v = a) a)) \<and>
      (\<forall>c. read_config H e = Some c \<longrightarrow> says (ask ''config'' []) (shows_option (shows_config J) c)) \<and>
      (\<forall>n. read_config_version H e = Some n \<longrightarrow> says (ask ''config_version'' []) (\<lambda>v. text_trim v = u32_text n)) \<and>
      (\<forall>n. read_state_version H e = Some n \<longrightarrow> says (ask ''state_version'' []) (\<lambda>v. text_trim v = u32_text n)) \<and>
      (\<forall>tk\<in>insert (admin_public_key (dep_admin cfg)) (token_contract_id ` set (dep_tokens cfg)).
         \<forall>b e'. read_token_is_bound H e tk = Some (b, e') \<longrightarrow>
         says (ask ''token_is_bound'' [(''token'', tk)]) (\<lambda>v. unquote v = bool_text b)))"

section \<open>What a clean report claims\<close>

text \<open>
  The checks of the report, read as conditions on the contract. They compare the policy only when the record
  and the contract both name one, and compare neither the SAC passthrough nor the SACs of the bindings.
\<close>

definition report_claim :: "enforcement \<Rightarrow> views \<Rightarrow> deployment \<Rightarrow> string option \<Rightarrow> bool" where
  "report_claim st ask cfg account \<longleftrightarrow>
     st_admin st = Some (admin_public_key (dep_admin cfg)) \<and>
     (\<exists>c. st_config st = Some c \<and> no_policy_conflict cfg (cfg_policy c)) \<and>
     (\<exists>n. st_config_version st = Some n \<and> n \<noteq> 0) \<and> (\<exists>n. st_version st = Some n \<and> n \<noteq> 0) \<and>
     (\<forall>t\<in>set (dep_tokens cfg). st_bindings st (token_contract_id t) \<noteq> None) \<and>
     st_bindings st (admin_public_key (dep_admin cfg)) = None \<and>
     (\<forall>acc\<in>set_option account. \<forall>t\<in>set (dep_tokens cfg).
        decide st ask (token_contract_id t) Transfer [acc, acc] \<notin> {Deny InvalidConfiguration, Deny PolicyUnavailable})"

text \<open>The contract's policy is the recorded one.\<close>

definition uses_recorded_policy :: "enforcement \<Rightarrow> deployment \<Rightarrow> bool" where
  "uses_recorded_policy st cfg \<longleftrightarrow>
     (\<exists>c recorded. st_config st = Some c \<and> dep_policy cfg = Some recorded \<and> cfg_policy c = Some (policy_contract_id recorded))"

text \<open>
  The claim holds of many states that are not the recorded one: removing the policy, switching the passthrough
  and changing the SACs of the bindings, for all of them at once, does not falsify it.
\<close>

lemma claim_leaves_open:
  assumes "report_claim st ask cfg None"
  shows "report_claim (st\<lparr>st_config := map_option (\<lambda>_. \<lparr>cfg_policy = None, cfg_sac_passthrough = passthrough\<rparr>) (st_config st),
      st_bindings := (\<lambda>tk. map_option (\<lambda>_. \<lparr>binding_sac = sac tk\<rparr>) (st_bindings st tk))\<rparr>) ask' cfg None"
  using assms by (auto simp: report_claim_def no_policy_conflict_def)

lemma says_cong: "says answer P \<Longrightarrow> (\<And>v. P v \<Longrightarrow> Q v = q) \<Longrightarrow> says answer Q = q"
  by (auto simp: says_def split: sum.splits)

lemma bool_text_true: "bool_text b = ''true'' \<longleftrightarrow> b"
  by (simp add: bool_text_def)

lemma decided_reply: "decided (case d of Allow \<Rightarrow> Inr Allowed | Deny r \<Rightarrow> Inr (Denied (Rejection r))) \<longleftrightarrow>
    d \<notin> {Deny InvalidConfiguration, Deny PolicyUnavailable}"
  by (cases d) (auto simp: decided_def)

lemma party_never_unbound: "party_verdict st ask cfg sac tk p \<noteq> Deny UnboundToken"
  using party_verdict_errors [of st ask cfg sac tk p UnboundToken]
  by (auto simp: party_verdict_def and_then_Deny dest: freeze_verdict_errors policy_verdict_errors sac_verdict_errors)

lemma unbound_decides:
  assumes "st_config st \<noteq> None"
  shows "decide st ask tk op accs = Deny UnboundToken \<longleftrightarrow> st_bindings st tk = None"
proof (cases "st_bindings st tk")
  case None
  with assms show ?thesis by (auto simp: decide_def)
next
  case (Some b)
  have "first_denial (map (party_verdict st ask cfg sac tk) ps) \<noteq> Deny UnboundToken" for cfg sac ps
    using party_never_unbound by (simp add: first_denial_Deny)
  with assms Some show ?thesis
    by (auto simp: decide_def simp del: first_denial_simps list.map zip_Cons_Cons split: if_splits)
qed

text \<open>Section by section.\<close>

lemma version_shown:
  assumes "says answer (\<lambda>v. text_trim v = u32_text (case n of None \<Rightarrow> 0 | Some n \<Rightarrow> n))"
  shows "says answer (\<lambda>v. case parse_u32 (text_trim v) of Some k \<Rightarrow> 1 \<le> k | None \<Rightarrow> False) \<longleftrightarrow>
    (\<exists>k. n = Some k \<and> k \<noteq> 0)"
  by (rule says_cong [OF assms]) (cases n; simp add: parse_u32_text word_le_nat_alt unat_gt_0 Suc_le_eq)

lemma admin_shown:
  assumes "says answer (shows_option (\<lambda>a v. unquote v = a) a)" and "admin \<noteq> ''null''"
  shows "says answer (\<lambda>v. unquote v = admin) \<longleftrightarrow> a = Some admin"
  by (rule says_cong [OF assms(1)]) (use assms(2) in \<open>cases a; auto simp: shows_option_def\<close>)

lemma config_shown:
  assumes "says answer (shows_option (shows_config J) c)"
  shows "says answer (\<lambda>v. unquote v \<noteq> ''null'' \<and> text_trim v \<noteq> [] \<and> no_policy_conflict cfg (json_policy_field J v)) \<longleftrightarrow>
    (\<exists>x. c = Some x \<and> no_policy_conflict cfg (cfg_policy x))"
  by (rule says_cong [OF assms]) (cases c; auto simp: shows_option_def shows_config_def)

lemma flag_shown:
  assumes "says answer (\<lambda>v. unquote v = bool_text b)"
  shows "says answer (\<lambda>v. unquote v = ''true'') \<longleftrightarrow> b" and "says answer (\<lambda>v. unquote v \<noteq> ''true'') \<longleftrightarrow> \<not> b"
  by (rule says_cong [OF assms]; simp add: bool_text_true)+

lemma healthy_iff_claim:
  assumes host: "view_contract_host H" and wt: "well_typed H e"
    and transfers: "relays_transfers H e ans cfg source_account account" and reads: "relays_reads H e J ans cfg source_account"
    and admin: "admin_public_key (dep_admin cfg) \<noteq> ''null''"
  shows "healthy ans J cfg source_account account \<longleftrightarrow> report_claim (state_of H e) (views_of H e) cfg account"
proof -
  let ?st = "state_of H e"
  let ?ask = "ask_view ans cfg source_account"
  let ?admin = "admin_public_key (dep_admin cfg)"
  have ch: "contract_host H" using host by (simp add: view_contract_host_def)
  note read_eqs = read_admin_def read_initialized_def read_config_def read_config_version_def
      read_state_version_def read_token_is_bound_def is_initialized_def
      contract_host.stored_admin_eq [OF ch wt] contract_host.compliance_config_eq [OF ch wt]
      contract_host.storage_version_eq [OF ch wt] contract_host.storage_config_version_eq [OF ch wt]
      contract_host.is_token_bound_eq [OF ch wt]
  have shown: "says (?ask ''initialized'' []) (\<lambda>v. unquote v = bool_text (st_admin ?st \<noteq> None))"
    "says (?ask ''admin'' []) (shows_option (\<lambda>a v. unquote v = a) (st_admin ?st))"
    "says (?ask ''config'' []) (shows_option (shows_config J) (st_config ?st))"
    "says (?ask ''config_version'' []) (\<lambda>v. text_trim v = u32_text (case st_config_version ?st of None \<Rightarrow> 0 | Some n \<Rightarrow> n))"
    "says (?ask ''state_version'' []) (\<lambda>v. text_trim v = u32_text (case st_version ?st of None \<Rightarrow> 0 | Some n \<Rightarrow> n))"
    using reads by (auto simp: relays_reads_def Let_def read_eqs)
  have bound: "says (?ask ''token_is_bound'' [(''token'', tk)]) (\<lambda>v. unquote v = bool_text (st_bindings ?st tk \<noteq> None))"
    if "tk \<in> insert ?admin (token_contract_id ` set (dep_tokens cfg))" for tk
    using reads that by (auto simp: relays_reads_def Let_def read_eqs)
  note transfer = sampled_gate [OF host wt transfers]
  have sampled: "(?admin, ?admin) \<in> sampled_calls cfg account"
    "\<And>t acc. t \<in> set (dep_tokens cfg) \<Longrightarrow> acc \<in> set_option account \<Longrightarrow> (token_contract_id t, acc) \<in> sampled_calls cfg account"
    by (auto simp: sampled_calls_def)
  have probe: "ask_transfer ans cfg source_account ?admin ?admin = Inr (Denied (Rejection UnboundToken)) \<longleftrightarrow>
      st_bindings ?st ?admin = None" if "st_config ?st \<noteq> None"
    unfolding transfer [OF sampled(1)] unbound_decides [OF that, of "views_of H e" ?admin Transfer "[?admin, ?admin]", symmetric]
    by (cases "decide ?st (views_of H e) ?admin Transfer [?admin, ?admin]") simp_all
  have tokens: "(\<forall>t\<in>set (dep_tokens cfg). says (?ask ''token_is_bound'' [(''token'', token_contract_id t)])
        (\<lambda>v. unquote v = ''true'')) \<longleftrightarrow> (\<forall>t\<in>set (dep_tokens cfg). st_bindings ?st (token_contract_id t) \<noteq> None)"
    using flag_shown(1) [OF bound] by auto
  have admin_unbound: "says (?ask ''token_is_bound'' [(''token'', ?admin)]) (\<lambda>v. unquote v \<noteq> ''true'') \<longleftrightarrow>
      st_bindings ?st ?admin = None"
    using flag_shown(2) [OF bound [of ?admin]] by simp
  have samples: "(\<forall>acc\<in>set_option account. \<forall>t\<in>set (dep_tokens cfg).
        decided (ask_transfer ans cfg source_account (token_contract_id t) acc)) \<longleftrightarrow>
      (\<forall>acc\<in>set_option account. \<forall>t\<in>set (dep_tokens cfg).
        decide ?st (views_of H e) (token_contract_id t) Transfer [acc, acc] \<notin> {Deny InvalidConfiguration, Deny PolicyUnavailable})"
    by (intro ball_cong refl) (simp only: transfer [OF sampled(2)] decided_reply)
  show ?thesis
    unfolding healthy_def report_claim_def Let_def flag_shown [OF shown(1)] admin_shown [OF shown(2) admin]
      config_shown [OF shown(3)] tokens admin_unbound samples ball_simps version_shown [OF shown(4)]
      version_shown [OF shown(5)]
    using probe by auto
qed

text \<open>The line about the policy is as exact.\<close>

lemma policy_in_use_iff:
  assumes "contract_host H" and "well_typed H e" and "relays_reads H e J ans cfg source_account"
  shows "policy_in_use ans J cfg source_account \<longleftrightarrow> uses_recorded_policy (state_of H e) cfg"
proof -
  have "says (ask_view ans cfg source_account ''initialized'' []) (\<lambda>v. unquote v = bool_text (st_admin (state_of H e) \<noteq> None))"
    and shown: "says (ask_view ans cfg source_account ''config'' []) (shows_option (shows_config J) (st_config (state_of H e)))"
    using assms(3) by (simp_all add: relays_reads_def Let_def read_initialized_def is_initialized_def read_config_def
        contract_host.stored_admin_eq [OF assms(1,2)] contract_host.compliance_config_eq [OF assms(1,2)])
  then have "says (ask_view ans cfg source_account ''initialized'' []) (\<lambda>_. True)" by (auto simp: says_def split: sum.splits)
  moreover have "says (ask_view ans cfg source_account ''config'' []) (\<lambda>v. unquote v \<noteq> ''null'' \<and> text_trim v \<noteq> [] \<and>
       (\<exists>recorded. dep_policy cfg = Some recorded \<and> json_policy_field J v = Some (policy_contract_id recorded))) \<longleftrightarrow>
    uses_recorded_policy (state_of H e) cfg"
    by (rule says_cong [OF shown])
      (cases "st_config (state_of H e)"; auto simp: shows_option_def shows_config_def uses_recorded_policy_def)
  ultimately show ?thesis by (simp add: policy_in_use_def)
qed

text \<open>What a deployment record describes is what a clean report claims, provided the admin is no token.\<close>

lemma recorded_bound: "recorded_bindings ts tk \<noteq> None \<longleftrightarrow> tk \<in> token_contract_id ` set ts"
  by (force simp: recorded_bindings_def map_of_eq_None_iff)

lemma recorded_claim:
  assumes "admin_public_key (dep_admin cfg) \<notin> token_contract_id ` set (dep_tokens cfg)"
  shows "report_claim (recorded_state (recorded_config cfg i pol sac)) ask (recorded_config cfg i pol sac) None"
proof -
  have "recorded_bindings (dep_tokens cfg) (admin_public_key (dep_admin cfg)) = None"
    using assms recorded_bound [of "dep_tokens cfg" "admin_public_key (dep_admin cfg)"] by blast
  then show ?thesis
    using recorded_bound [of "dep_tokens cfg"]
    by (auto simp: report_claim_def recorded_state_def recorded_config_def no_policy_conflict_def VERSION_def
        option.map_comp comp_def split: option.splits)
qed

end
