(* ===== verification/Live_Commands.thy ===== *)
theory Live_Commands
  imports Live_Network
begin

text \<open>
  The administrative commands of the CLI in front of a live contract, from the command line to the
  contract's state. \<open>commanded\<close> is the contract call an operator means by a command under a deployment
  record; \<open>registered_network\<close> extends \<open>live_network\<close> by the law that listing and registering networks
  leaves the contracts alone.
\<close>

section \<open>What a command means\<close>

definition commanded :: "deployment \<Rightarrow> command \<Rightarrow> entry_call option" where
  "commanded cfg cmd =
     (let on_token = (\<lambda>tk call. case resolve_token cfg tk of Inr i \<Rightarrow> Some (call i) | Inl _ \<Rightarrow> None) in
      case cmd of
        Init \<Rightarrow> Some (Initialize (admin_public_key (dep_admin cfg)))
      | Configure pol no_policy sac \<Rightarrow>
          Some (SetConfig (if no_policy then None
                           else if pol = None then map_option policy_contract_id (dep_policy cfg) else pol)
                          (if sac = None then dep_sac_passthrough cfg else the sac))
      | Bind tk sac \<Rightarrow> on_token tk (\<lambda>i. BindToken i (if sac = None then sac_for cfg tk else sac))
      | Unbind tk \<Rightarrow> on_token tk UnbindToken
      | FreezeCmd tk acc \<Rightarrow> on_token tk (\<lambda>i. FreezeAccount i acc)
      | UnfreezeCmd tk acc \<Rightarrow> on_token tk (\<lambda>i. UnfreezeAccount i acc)
      | _ \<Rightarrow> None)"

lemma commanded_request:
  "commanded (app_config A) cmd = Some c \<Longrightarrow> admin_request A cmd = Some (Inr (request c))"
  by (cases cmd)
    (auto simp: commanded_def admin_request_def address_param_def boolean_param_def Let_def split: sum.splits)

lemma commanded_administers: "commanded cfg cmd = Some c \<Longrightarrow> hook_of c = None"
  by (cases cmd) (auto simp: commanded_def Let_def split: sum.splits)

text \<open>How the CLI reaches the command: it loads the record, registers the network and selects the source.\<close>

lemma cli_run_admin:
  assumes "cli_run C J args w = (Inr (), w')" and "fst (config_load C J (cli_config args) w) = Inr cfg"
    and "commanded cfg (cli_command args) = Some c"
  obtains w1 source where "ensure_network C cfg w = (Inr (), w1)"
    and "run_admin C J \<lparr>app_config = cfg, app_config_path = cli_config args, app_source = source\<rparr> (cli_command args) w1 =
      (Inr (), w')"
proof -
  have "config_load C J (cli_config args) w = (Inr cfg, w)"
    using assms(2) by (auto simp: config_load_def split: sum.splits)
  moreover have "cli_run C J args = and_do (config_load C J (cli_config args)) (\<lambda>cfg.
          and_do (ensure_network C cfg) (\<lambda>_.
          and_do (\<lambda>w. (admin_source C w cfg (cli_source args), w)) (\<lambda>source.
          run_admin C J \<lparr>app_config = cfg, app_config_path = cli_config args, app_source = source\<rparr> (cli_command args))))"
    using assms(3) by (cases "cli_command args") (simp_all add: cli_run_def commanded_def Let_def)
  ultimately show thesis using assms(1) that by (auto simp: and_do_Inr)
qed

section \<open>Commands on a live contract\<close>

locale registered_network = live_network H C chain known hooks_wasm
  for H :: "'s chost" and C :: "'w cli_host" and chain :: "'w \<Rightarrow> string \<Rightarrow> 's"
    and known :: "'w \<Rightarrow> string set" and hooks_wasm :: string +
  assumes registry:
    "args = network_list_args \<or> (\<exists>network rpc passphrase. args = network_add_args network rpc passphrase) \<Longrightarrow>
     run_stellar C w args = (r, w') \<Longrightarrow> known w' = known w \<and> (\<forall>i\<in>known w. quiet H (chain w i) (chain w' i))"
begin

lemma ensure_network_keeps:
  assumes "ensure_network C cfg w = (Inr (), w')"
  shows "known w' = known w \<and> (\<forall>i\<in>known w. quiet H (chain w i) (chain w' i))"
proof -
  obtain listed w1 where l: "run_stellar C w network_list_args = (Inr listed, w1)" and
    rest: "w' = w1 \<or> (\<exists>added. run_stellar C w1
      (network_add_args (dep_network cfg) (dep_rpc_url cfg) (dep_network_passphrase cfg)) = (Inr added, w'))"
    using assms unfolding ensure_network_def and_do_Inr
    by (auto simp: and_do_Inr fail_with_def done_with_def split: if_splits)
  note k1 = registry [OF disjI1 [OF refl] l]
  from rest show ?thesis
  proof
    assume "w' = w1"
    with k1 show ?thesis by simp
  next
    assume "\<exists>added. run_stellar C w1
      (network_add_args (dep_network cfg) (dep_rpc_url cfg) (dep_network_passphrase cfg)) = (Inr added, w')"
    then obtain r where "run_stellar C w1
      (network_add_args (dep_network cfg) (dep_rpc_url cfg) (dep_network_passphrase cfg)) = (r, w')" by blast
    from registry [OF disjI2 this] have k2: "known w' = known w1" "\<forall>i\<in>known w1. quiet H (chain w1 i) (chain w' i)"
      by blast+
    with k1 show ?thesis by (auto intro: quiet_trans)
  qed
qed

lemma admin_command_commits:
  assumes "cli_run C J args w = (Inr (), w')" and "fst (config_load C J (cli_config args) w) = Inr cfg"
    and "commanded cfg (cli_command args) = Some c" and "i = dep_hooks_contract_id cfg"
    and "i \<in> known w" and "reachable H (chain w i)"
  shows "known w' = known w \<and> reachable H (chain w' i) \<and>
    (\<exists>e evs. quiet H (chain w i) e \<and>
      (\<forall>ask. spec_step (state_of H (chain w i)) (authorized H e) ask c = Done (state_of H (chain w' i)) evs))"
proof -
  obtain w1 source where net: "ensure_network C cfg w = (Inr (), w1)"
    and run: "run_admin C J \<lparr>app_config = cfg, app_config_path = cli_config args, app_source = source\<rparr> (cli_command args) w1 =
      (Inr (), w')"
    using cli_run_admin [OF assms(1-3)] by blast
  let ?A = "\<lparr>app_config = cfg, app_config_path = cli_config args, app_source = source\<rparr>"
  have q: "quiet H (chain w i) (chain w1 i)" and k: "known w1 = known w"
    using ensure_network_keeps [OF net] assms(5) by auto
  have req: "admin_request ?A (cli_command args) = Some (Inr (fst (request c), snd (request c)))"
    using commanded_request [of ?A "cli_command args" c] assms(3) by simp
  obtain line where "run_admin C J ?A (cli_command args) =
      and_do (app_invoke C ?A (fst (request c)) (snd (request c))) (\<lambda>_. println C line)"
    using admin_request_invokes [OF req] by blast
  with run obtain u w2 where inv: "app_invoke C ?A (fst (request c)) (snd (request c)) w1 = (Inr u, w2)"
    and out: "println C line w2 = (Inr (), w')" by (auto simp: and_do_Inr)
  have r1: "reachable H (chain w1 i)" by (rule reachable.environment [OF assms(6) q])
  have "known w2 = known w1 \<and> reachable H (chain w2 i) \<and> (\<exists>e evs. quiet H (chain w1 i) e \<and>
      (\<forall>ask. spec_step (state_of H (chain w1 i)) (authorized H e) ask c = Done (state_of H (chain w2 i)) evs))"
    using app_invoke_commits [OF inv _ _ commanded_administers [OF assms(3)]] assms(4,5) k r1 by simp
  then show ?thesis
    using println_keeps [OF out] k quiet_trans [OF q] by (auto simp: quiet_state_of [OF q])
qed

end

end
