(* ===== verification/Cli_Runner.thy ===== *)
theory Cli_Runner
  imports Cli_App
begin

text \<open>
  The runner behind the CLI's boundary, \<^verbatim>\<open>cli/src/stellar.rs\<close> (\<^verbatim>\<open>Stellar\<close>): it starts the binary, reports a
  failure to start, and decodes the captured bytes with \<^verbatim>\<open>String::from_utf8_lossy\<close>. Starting a process is
  the operating system's; it is the parameter \<open>spawn\<close>. \<open>cli_process\<close> is the whole program on such a system.
\<close>

section \<open>Lossy decoding\<close>

text \<open>
  A \<^verbatim>\<open>String\<close> is the list of its UTF-8 bytes. A chunk is one encoded character, or a maximal prefix of one
  that cannot be continued, which is replaced by U+FFFD.
\<close>

definition REPLACEMENT :: string where
  "REPLACEMENT = [CHR 0xEF, CHR 0xBF, CHR 0xBD]"

definition sequence_length :: "nat \<Rightarrow> nat" where
  "sequence_length lead =
     (if lead < 0x80 then 1
      else if 0xC2 \<le> lead \<and> lead \<le> 0xDF then 2
      else if 0xE0 \<le> lead \<and> lead \<le> 0xEF then 3
      else if 0xF0 \<le> lead \<and> lead \<le> 0xF4 then 4
      else 0)"

definition second_byte_ok :: "nat \<Rightarrow> nat \<Rightarrow> bool" where
  "second_byte_ok lead b =
     (if lead = 0xE0 then 0xA0 \<le> b \<and> b \<le> 0xBF
      else if lead = 0xED then 0x80 \<le> b \<and> b \<le> 0x9F
      else if lead = 0xF0 then 0x90 \<le> b \<and> b \<le> 0xBF
      else if lead = 0xF4 then 0x80 \<le> b \<and> b \<le> 0x8F
      else 0x80 \<le> b \<and> b \<le> 0xBF)"

fun continuations :: "nat \<Rightarrow> string \<Rightarrow> nat" where
  "continuations (Suc m) (c # cs) =
     (if 0x80 \<le> (of_char c :: nat) \<and> (of_char c :: nat) \<le> 0xBF then Suc (continuations m cs) else 0)"
| "continuations _ _ = 0"

definition tail_length :: "nat \<Rightarrow> string \<Rightarrow> nat" where
  "tail_length lead cs =
     (case cs of
        [] \<Rightarrow> 0
      | c # cs \<Rightarrow>
          if 1 < sequence_length lead \<and> second_byte_ok lead (of_char c)
          then Suc (continuations (sequence_length lead - 2) cs) else 0)"

fun utf8_chunk :: "string \<Rightarrow> nat \<times> bool" where
  "utf8_chunk [] = (0, True)"
| "utf8_chunk (c # cs) = (Suc (tail_length (of_char c) cs), sequence_length (of_char c) = Suc (tail_length (of_char c) cs))"

lemma utf8_chunk_pos: "utf8_chunk (c # cs) = (n, ok) \<Longrightarrow> 0 < n"
  by auto

function utf8_lossy :: "string \<Rightarrow> string" where
  "utf8_lossy [] = []"
| "utf8_lossy (c # cs) =
     (case utf8_chunk (c # cs) of
        (n, ok) \<Rightarrow> (if ok then take n (c # cs) else REPLACEMENT) @ utf8_lossy (drop n (c # cs)))"
  by pat_completeness auto

termination
  by (relation "measure length") auto

function utf8_valid :: "string \<Rightarrow> bool" where
  "utf8_valid [] = True"
| "utf8_valid (c # cs) = (case utf8_chunk (c # cs) of (n, ok) \<Rightarrow> ok \<and> utf8_valid (drop n (c # cs)))"
  by pat_completeness auto

termination
  by (relation "measure length") auto

lemma continuations_le: "continuations m cs \<le> m \<and> continuations m cs \<le> length cs"
  by (induction m cs rule: continuations.induct) auto

lemma tail_length_le: "tail_length lead cs \<le> length cs"
  by (auto simp: tail_length_def continuations_le split: list.splits)

lemma continuations_full: "continuations m cs = m \<Longrightarrow> continuations m (take m cs @ ds) = m"
  by (induction m cs rule: continuations.induct) (auto split: if_splits)

lemma tail_length_Nil [simp]: "tail_length lead [] = 0"
  by (simp add: tail_length_def)

lemma tail_length_Cons:
  "tail_length lead (d # ds) =
     (if 1 < sequence_length lead \<and> second_byte_ok lead (of_char d)
      then Suc (continuations (sequence_length lead - 2) ds) else 0)"
  by (simp add: tail_length_def)

lemma tail_length_one: "sequence_length lead = Suc 0 \<Longrightarrow> tail_length lead cs = 0"
  by (cases cs) (simp_all add: tail_length_Cons)

lemma tail_length_full:
  assumes "sequence_length lead = Suc (tail_length lead cs)"
  shows "tail_length lead (take (tail_length lead cs) cs @ t) = tail_length lead cs"
proof (cases "sequence_length lead = Suc 0")
  case True
  show ?thesis by (simp only: tail_length_one [OF True])
next
  case False
  with assms obtain d ds where cs: "cs = d # ds" by (cases cs) simp_all
  have ok: "1 < sequence_length lead \<and> second_byte_ok lead (of_char d)"
  proof (rule ccontr)
    assume "\<not> (1 < sequence_length lead \<and> second_byte_ok lead (of_char d))"
    then have "tail_length lead cs = 0" by (simp only: cs tail_length_Cons if_False)
    with assms False show False by simp
  qed
  then have tail: "tail_length lead cs = Suc (continuations (sequence_length lead - 2) ds)"
    by (simp only: cs tail_length_Cons if_True simp_thms)
  with assms have full: "continuations (sequence_length lead - 2) ds = sequence_length lead - 2" by linarith
  show ?thesis
    by (simp only: tail cs take_Suc_Cons append_Cons tail_length_Cons ok if_True simp_thms full continuations_full [OF full])
qed

text \<open>A complete chunk is recognized whatever follows it.\<close>

lemma utf8_chunk_local:
  assumes "utf8_chunk s = (n, True)" and "s \<noteq> []"
  shows "utf8_chunk (take n s @ t) = (n, True)"
proof -
  obtain c cs where s: "s = c # cs" using assms(2) by (cases s) auto
  let ?l = "of_char c :: nat"
  from assms(1) have n: "n = Suc (tail_length ?l cs)" and len: "sequence_length ?l = Suc (tail_length ?l cs)"
    unfolding s utf8_chunk.simps prod.inject by (rule conjE, simp only:)+
  show ?thesis
    unfolding s n take_Suc_Cons append_Cons utf8_chunk.simps tail_length_full [OF len] len by simp
qed

lemma utf8_chunk_le: "utf8_chunk s = (n, ok) \<Longrightarrow> n \<le> length s"
  by (cases s) (auto simp: tail_length_le)

lemma utf8_lossy_keeps_valid: "utf8_valid s \<Longrightarrow> utf8_lossy s = s"
  by (induction s rule: utf8_lossy.induct) (auto simp: Let_def)

lemma utf8_valid_chunk:
  assumes "utf8_chunk s = (n, True)" and "s \<noteq> []" and "utf8_valid t"
  shows "utf8_valid (take n s @ t)"
proof -
  have n: "0 < n" using assms(1,2) by (cases s) auto
  then obtain c cs where cs: "take n s @ t = c # cs" using assms(2) by (cases n; cases s) auto
  have "length (take n s) = n" using utf8_chunk_le [OF assms(1)] by simp
  then have "drop n (take n s @ t) = t" by simp
  with utf8_chunk_local [OF assms(1,2), of t] assms(3) show ?thesis
    unfolding cs by (simp only: utf8_valid.simps) simp
qed

lemma replacement_chunk: "utf8_chunk REPLACEMENT = (3, True)"
  by (simp add: REPLACEMENT_def tail_length_def sequence_length_def second_byte_ok_def numeral_eq_Suc)

text \<open>Decoding always yields valid text, and changes no text that was valid.\<close>

lemma utf8_lossy_valid: "utf8_valid (utf8_lossy s)"
proof (induction s rule: utf8_lossy.induct)
  case (2 c cs)
  obtain n ok where chunk: "utf8_chunk (c # cs) = (n, ok)" by (cases "utf8_chunk (c # cs)")
  note rest = 2 [OF chunk [symmetric]]
  show ?case
  proof (cases ok)
    case True
    with utf8_valid_chunk [of "c # cs" n, OF _ _ rest] chunk show ?thesis by simp
  next
    case False
    have "utf8_valid (take 3 REPLACEMENT @ utf8_lossy (drop n (c # cs)))"
      by (rule utf8_valid_chunk [OF replacement_chunk _ rest]) (simp add: REPLACEMENT_def)
    with False chunk show ?thesis by (simp add: REPLACEMENT_def)
  qed
qed simp

lemma utf8_lossy_idem: "utf8_lossy (utf8_lossy s) = utf8_lossy s"
  by (rule utf8_lossy_keeps_valid) (rule utf8_lossy_valid)

lemma ascii_chunk: "(of_char c :: nat) < 0x80 \<Longrightarrow> utf8_chunk (c # cs) = (1, True)"
  by (cases cs) (simp_all add: tail_length_def sequence_length_def)

lemma ascii_valid: "\<forall>c\<in>set s. (of_char c :: nat) < 0x80 \<Longrightarrow> utf8_valid s"
proof (induction s)
  case (Cons c cs)
  then show ?case using ascii_chunk [of c cs] by (simp only: utf8_valid.simps) simp
qed simp

text \<open>Truncated, overlong and interrupted encodings: one replacement per maximal prefix.\<close>

lemma utf8_lossy_examples:
  "utf8_lossy (''id '' @ EM_DASH) = ''id '' @ EM_DASH"
  "utf8_lossy [CHR 0xE2, CHR 0x80] = REPLACEMENT"
  "utf8_lossy [CHR 0xE2, CHR 0x80, CHR 0x28] = REPLACEMENT @ [CHR 0x28]"
  "utf8_lossy [CHR 0xC0, CHR 0x80] = REPLACEMENT @ REPLACEMENT"
  "utf8_lossy [CHR 0xED, CHR 0xA0, CHR 0x80] = REPLACEMENT @ REPLACEMENT @ REPLACEMENT"
  "utf8_lossy [CHR 0xF0, CHR 0x9F, CHR 0x94] = REPLACEMENT"
  by code_simp+

section \<open>The runner\<close>

record process_output =
  exited_ok :: bool
  bytes_stdout :: string
  bytes_stderr :: string

text \<open>\<^verbatim>\<open>Command::new(bin).args(args).output()\<close>; \<open>Inl\<close> is the text of the I/O error.\<close>

type_synonym 'w spawner = "'w \<Rightarrow> string \<Rightarrow> string list \<Rightarrow> (string + process_output) \<times> 'w"

definition stellar_run :: "'w spawner \<Rightarrow> string \<Rightarrow> 'w \<Rightarrow> string list \<Rightarrow> (string + run_outcome) \<times> 'w" where
  "stellar_run spawn bin w args =
     (case spawn w bin args of
        (Inl err, w) \<Rightarrow> (Inl (''failed to run '' @ bin @ '': '' @ err), w)
      | (Inr out, w) \<Rightarrow>
          (Inr \<lparr>run_ok = exited_ok out, run_stdout = utf8_lossy (bytes_stdout out),
                run_stderr = utf8_lossy (bytes_stderr out)\<rparr>, w))"

text \<open>\<^verbatim>\<open>run\<close> constructs the runner from \<^verbatim>\<open>--stellar-bin\<close>.\<close>

definition runner_host :: "'w spawner \<Rightarrow> string \<Rightarrow> 'w cli_host \<Rightarrow> 'w cli_host" where
  "runner_host spawn bin C = C\<lparr>run_stellar := stellar_run spawn bin\<rparr>"

definition cli_process ::
  "'w spawner \<Rightarrow> 'w cli_host \<Rightarrow> json_codec \<Rightarrow> cli \<Rightarrow> 'w \<Rightarrow> (nat \<times> string option) \<times> 'w" where
  "cli_process spawn C J args = cli_main (runner_host spawn (cli_stellar_bin args) C) J args"

text \<open>What the CLI scans is always valid text, and untouched where the binary printed valid text.\<close>

lemma stellar_run_text:
  assumes "stellar_run spawn bin w args = (Inr r, w')"
  shows "utf8_valid (run_stdout r) \<and> utf8_valid (run_stderr r) \<and>
    (\<exists>out. fst (spawn w bin args) = Inr out \<and> run_ok r = exited_ok out \<and>
      (utf8_valid (bytes_stdout out) \<longrightarrow> run_stdout r = bytes_stdout out) \<and>
      (utf8_valid (bytes_stderr out) \<longrightarrow> run_stderr r = bytes_stderr out))"
  using assms
  by (auto simp: stellar_run_def utf8_lossy_valid utf8_lossy_keeps_valid split: prod.splits sum.splits)

text \<open>
  Without the binary every command that needs the ledger fails with the reason, after the configuration has
  been loaded and before anything else happens.
\<close>

lemma missing_binary_is_reported:
  assumes "\<And>w args. spawn w (cli_stellar_bin args0) args = (Inl err, w)"
    and "fst (config_load C J (cli_config args0) w) = Inr cfg"
    and "case cli_command args0 of Errors _ \<Rightarrow> False | Verify _ _ \<Rightarrow> False | _ \<Rightarrow> True"
  shows "cli_process spawn C J args0 w =
    ((1, Some (CROSS_MARK @ '' failed to run '' @ cli_stellar_bin args0 @ '': '' @ err)), w)"
proof -
  have load: "config_load (runner_host spawn bin C) J path w = config_load C J path w" for bin path
    by (simp add: config_load_def runner_host_def)
  have cfg: "config_load C J (cli_config args0) w = (Inr cfg, w)"
    using assms(2) by (auto simp: config_load_def split: sum.splits)
  have "ensure_network (runner_host spawn (cli_stellar_bin args0) C) cfg w =
      (Inl (''failed to run '' @ cli_stellar_bin args0 @ '': '' @ err), w)"
    by (simp add: ensure_network_def and_do_def runner_host_def stellar_run_def assms(1))
  then show ?thesis
    using assms(3) unfolding cli_process_def cli_main_def cli_run_def
    by (cases "cli_command args0") (simp_all add: and_do_def load cfg)
qed

section \<open>The command line and the environment\<close>

text \<open>
  What the flags leave open, \<^verbatim>\<open>clap\<close> takes from the variable named in the argument's attribute, then from
  its default. \<open>given\<close> is the accepted command line before that, with \<open>None\<close> for a flag that is not there;
  a command line or a variable that \<^verbatim>\<open>clap\<close> refuses ends the program before any code of the repository.
\<close>

record given =
  given_config :: "string option"
  given_source :: "string option"
  given_stellar_bin :: "string option"
  given_command :: command

definition arg_or_env :: "(string \<Rightarrow> string option) \<Rightarrow> string \<Rightarrow> string option \<Rightarrow> string option" where
  "arg_or_env env name arg = (case arg of Some v \<Rightarrow> Some v | None \<Rightarrow> env name)"

definition or_default :: "string \<Rightarrow> string option \<Rightarrow> string" where
  "or_default d v = (case v of Some x \<Rightarrow> x | None \<Rightarrow> d)"

definition parsed_command :: "(string \<Rightarrow> string option) \<Rightarrow> command \<Rightarrow> command" where
  "parsed_command env cmd = (case cmd of
      Verify source_account account \<Rightarrow> Verify (arg_or_env env ''SAFEGUARD_SOURCE_ACCOUNT'' source_account) account
    | _ \<Rightarrow> cmd)"

definition parsed_cli :: "(string \<Rightarrow> string option) \<Rightarrow> given \<Rightarrow> cli" where
  "parsed_cli env g =
    \<lparr>cli_config = or_default ''deployments/local/configuration.json''
       (arg_or_env env ''SAFEGUARD_CONFIG'' (given_config g)),
     cli_source = arg_or_env env ''SAFEGUARD_SOURCE'' (given_source g),
     cli_stellar_bin = or_default ''stellar'' (arg_or_env env ''STELLAR'' (given_stellar_bin g)),
     cli_command = parsed_command env (given_command g)\<rparr>"

text \<open>The whole program, from the accepted command line.\<close>

definition program ::
  "'w spawner \<Rightarrow> 'w cli_host \<Rightarrow> json_codec \<Rightarrow> given \<Rightarrow> 'w \<Rightarrow> (nat \<times> string option) \<times> 'w" where
  "program spawn C J g w = cli_process spawn C J (parsed_cli (env_var C w) g) w"

text \<open>The variables that a run of \<^verbatim>\<open>verify\<close> reads.\<close>

definition verify_variables :: "string set" where
  "verify_variables = {''SAFEGUARD_CONFIG'', ''STELLAR'', ''SAFEGUARD_SOURCE_ACCOUNT''}"

lemma parsed_cli_verify:
  assumes "given_command g = Verify source_account account" and "\<forall>v\<in>verify_variables. env v = env' v"
  shows "parsed_cli env (g\<lparr>given_source := secret\<rparr>) =
    (parsed_cli env' g)\<lparr>cli_source := arg_or_env env ''SAFEGUARD_SOURCE'' secret\<rparr>"
  using assms by (simp add: parsed_cli_def parsed_command_def arg_or_env_def verify_variables_def split: option.split)

end
