(* ===== verification/Cli_Guarantees.thy ===== *)
theory Cli_Guarantees
  imports Cli_Effects Cli_Runner
begin

text \<open>
  The properties of the operator CLI, stated for an arbitrary outside world. Where the order or the
  kind of effects matters, the world is wrapped by \<open>recording\<close> and the property speaks of the log.
  The demonstration record and the scripted runners at the start serve the witnesses.
\<close>

section \<open>A demonstration record\<close>

definition demo_deployment :: deployment where
  "demo_deployment =
    \<lparr>dep_network = ''local'', dep_rpc_url = ''http://localhost:8000/rpc'',
     dep_network_passphrase = ''Standalone'', dep_hooks_contract_id = ''CHOOKS'', dep_policy = None,
     dep_sac_passthrough = False,
     dep_admin = \<lparr>admin_public_key = ''GADMIN'', admin_stellar_identity = Some ''admin'', admin_secret_key_env = None\<rparr>,
     dep_tokens = [\<lparr>token_alias = ''usd'', token_contract_id = ''CUSD'', token_sac_contract_id = Some ''CSAC''\<rparr>]\<rparr>"

definition demo_app :: app where
  "demo_app = \<lparr>app_config = demo_deployment, app_config_path = ''configuration.json'', app_source = ''admin''\<rparr>"

text \<open>A runner that answers every command alike.\<close>

definition steady_host :: "(string list \<Rightarrow> string + run_outcome) \<Rightarrow> unit cli_host" where
  "steady_host ans =
    \<lparr>run_stellar = (\<lambda>w args. (ans args, w)), print_line = (\<lambda>w _. w), env_var = (\<lambda>_ _. None),
     path_exists = (\<lambda>_ _. True), read_file = (\<lambda>_ _. Inr ''{}''), write_file = (\<lambda>w _ _. (Inr (), w))\<rparr>"

definition said :: "string \<Rightarrow> run_outcome" where
  "said out = \<lparr>run_ok = True, run_stdout = out, run_stderr = []\<rparr>"

definition demo_codec :: json_codec where
  "demo_codec = \<lparr>config_from_str = (\<lambda>_. Inr demo_deployment), config_to_string_pretty = (\<lambda>_. Inr ''{}''),
     json_policy_field = (\<lambda>_. None)\<rparr>"

section \<open>Reverts\<close>

text \<open>C22: the CLI recovers the contract's error from what a failed invocation prints: for every error of the
  contract, if standard output does not mention the marker, a failed run whose standard error
  contains \<^verbatim>\<open>Error(Contract, #N)\<close> with that error's code anywhere (first mention) is reported with the
  description of exactly that error, whatever else was printed.\<close>

theorem revert_is_recovered:
  assumes "\<not> run_ok r" and "run_stderr r = before @ revert_marker @ u32_text (error_code err) @ '')'' @ after"
    and "\<not> sublist revert_marker (run_stdout r @ [newline] @ before)"
  shows "decode_contract_error (combined r) = Some (revert_of err) \<and>
    interpret_outcome r = Inl (describe (revert_of err)) \<and>
    (\<forall>reason. err = from_reason reason \<longrightarrow> revert_of err = Rejection reason)"
proof -
  have "combined r = revert_line (run_stdout r @ [newline] @ before) err after"
    using assms(2) by (simp add: combined_def revert_line_def)
  then have "decode_contract_error (combined r) = Some (revert_of err)"
    using decode_revert_text [OF assms(3)] by simp
  with assms(1) show ?thesis by (simp add: interpret_outcome_def revert_of_reason)
qed

theorem revert_is_recovered_witness:
  "interpret_outcome \<lparr>run_ok = False, run_stdout = [],
     run_stderr = ''error: HostError: Error(Contract, #4)''\<rparr> = Inl (describe (Rejection AccountFrozen))"
proof -
  have code: "u32_text 4 = ''4''" by code_simp
  have rv: "revert_of AccountFrozenErr = Rejection AccountFrozen" using revert_of_reason [of AccountFrozen] by simp
  have "\<not> sublist revert_marker ([] @ [newline] @ ''error: HostError: '')"
    unfolding text_find_None [symmetric] by (simp add: revert_marker_def)
  with revert_is_recovered [of "\<lparr>run_ok = False, run_stdout = [], run_stderr = ''error: HostError: Error(Contract, #4)''\<rparr>"
      "''error: HostError: ''" AccountFrozenErr "[]"]
  show ?thesis by (simp add: code rv revert_marker_def)
qed

section \<open>The smoke test\<close>

text \<open>C23: the smoke test never signs and never sends: everything \<^verbatim>\<open>verify\<close> does to the outside is running
  simulations of the configured contract from the bare public key (\<^verbatim>\<open>--source-account\<close>, \<^verbatim>\<open>--send=no\<close>);
  it runs no other command and writes nothing.\<close>

theorem verify_only_simulates:
  assumes "verify (recording C) J cfg source_account account (w, []) = (checks, (w', effects))"
  shows "\<forall>ef\<in>set effects. \<exists>args r. ef = Ran args r \<and>
    take 10 args = [''contract'', ''invoke'', ''--id'', dep_hooks_contract_id cfg, ''--source-account'',
      source_account, ''--send=no'', ''--network'', dep_network cfg, ''--'']"
proof
  fix ef
  assume "ef \<in> set effects"
  then have "is_view_of cfg source_account ef"
    using verify_does [of cfg source_account C J account] assms
    unfolding only_does_def by (metis append_Nil snd_conv)
  then show "\<exists>args r. ef = Ran args r \<and>
    take 10 args = [''contract'', ''invoke'', ''--id'', dep_hooks_contract_id cfg, ''--source-account'',
      source_account, ''--send=no'', ''--network'', dep_network cfg, ''--'']"
    by (cases ef) (auto simp: is_view_of_def)
qed

theorem verify_only_simulates_witness:
  "\<exists>args r. (snd (snd (verify (recording (steady_host (\<lambda>_. Inl ''no network''))) demo_codec demo_deployment
     ''GADMIN'' None ((), [])))) = [Ran args r] \<and> args ! 6 = ''--send=no''"
proof -
  let ?v = "verify (recording (steady_host (\<lambda>_. Inl ''no network''))) demo_codec demo_deployment ''GADMIN'' None ((), [])"
  have v: "snd (snd ?v) = [Ran (view_args ''GADMIN'' ''CHOOKS'' ''local'' ''initialized'' []) (Inl ''no network'')]"
    by (simp add: verify_def view_reads recording_run steady_host_def read_view_def demo_deployment_def Let_def)
  obtain cs u es where run: "?v = (cs, (u, es))" by (cases ?v rule: prod_cases3)
  with v have es: "es = [Ran (view_args ''GADMIN'' ''CHOOKS'' ''local'' ''initialized'' []) (Inl ''no network'')]"
    by simp
  from verify_only_simulates [OF run] es have "take 10 (view_args ''GADMIN'' ''CHOOKS'' ''local'' ''initialized'' []) ! 6
      = ''--send=no''" by simp
  with v show ?thesis by simp
qed

text \<open>C24: a report without a failing check means a healthy deployment, and conversely: the contract is
  initialized by the recorded admin, configured, with no policy other than the recorded one where the
  record and the contract both name one, at version one or later, every recorded token is bound, an
  operation on an unbound token is refused with \<^verbatim>\<open>UnboundToken\<close> and, when an account is sampled, the gate
  reaches a decision about it on every token. That the recorded policy is in use is more than that: it is
  so exactly when the report has the passing line \<^verbatim>\<open>recorded policy matches the contract\<close>, which a clean
  report lacks when the policy has been removed from the contract.\<close>

theorem clean_report_means_healthy:
  assumes "answers_purely C ans"
  shows "((\<forall>c\<in>set (fst (verify C J cfg source_account account w)). check_status c \<noteq> Fail) \<longleftrightarrow>
      healthy ans J cfg source_account account) \<and>
    (policy_confirmed (fst (verify C J cfg source_account account w)) \<longleftrightarrow> policy_in_use ans J cfg source_account)"
  using verify_healthy [OF views_purelyI [OF assms, of w], of J cfg source_account account]
    verify_confirms [OF views_purelyI [OF assms, of w], of J cfg source_account account]
  by (auto simp: no_failure_def)

theorem clean_report_means_healthy_witness:
  "\<exists>c\<in>set (fst (verify (steady_host (\<lambda>_. Inr (said ''false''))) demo_codec demo_deployment ''GADMIN'' None ())).
     check_status c = Fail"
proof -
  have "answers_purely (steady_host (\<lambda>_. Inr (said ''false''))) (\<lambda>_. Inr (said ''false''))"
    by (simp add: answers_purely_def steady_host_def)
  from clean_report_means_healthy [OF this, of demo_codec demo_deployment "''GADMIN''" None "()", THEN conjunct1]
  show ?thesis
    by (auto simp: healthy_def ask_transfer_def read_gate_def said_def Let_def)
qed

lemma print_report_Inr: "\<exists>w'. print_report C cs cfg source_account w = (Inr (), w')"
proof -
  have one: "\<exists>w'. println C l w = (Inr (), w')" for l w by (simp add: println_def)
  have check: "\<exists>w'. print_check C c w = (Inr (), w')" for c w
    by (simp add: print_check_def and_do_def println_def done_with_def)
  have each: "\<exists>w'. for_each cs (print_check C) w = (Inr (), w')" for w
  proof (induction cs arbitrary: w)
    case (Cons c cs)
    obtain w' where "print_check C c w = (Inr (), w')" using check by blast
    with Cons.IH [of w'] show ?case by (simp add: and_do_def)
  qed (simp add: done_with_def)
  have seq: "\<exists>w'. and_do m k w = (Inr (), w')"
    if "\<And>w. \<exists>w'. m w = (Inr (), w')" and "\<And>x w. \<exists>w'. k x w = (Inr (), w')"
    for m :: "('a, unit) action" and k :: "unit \<Rightarrow> ('a, unit) action" and w
    using that(1) [of w] that(2) by (auto simp: and_do_def)
  show ?thesis
    unfolding print_report_def by (intro seq one each)
qed

text \<open>C25: the exit code is the verdict: when \<^verbatim>\<open>safeguard-hooks verify\<close> exits with code zero, the configuration
  file was loaded, both addresses are well-formed and the deployment is healthy; when it exits with
  another code, a message was printed to standard error.\<close>

theorem exit_code_is_the_verdict:
  assumes "answers_purely C ans" and "cli_command args = Verify source_account account"
    and "cli_main C J args w = ((code, err), w')"
  shows "if code = 0
    then err = None \<and> (\<exists>raw cfg. read_file C w (cli_config args) = Inr raw \<and> config_from_str J raw = Inr cfg \<and>
      (let sa = (case source_account of Some s \<Rightarrow> s | None \<Rightarrow> admin_public_key (dep_admin cfg)) in
       is_stellar_address sa \<and> (\<forall>acc\<in>set_option account. is_stellar_address acc) \<and>
       healthy ans J cfg sa account))
    else code = 1 \<and> err \<noteq> None"
proof (cases "cli_run C J args w")
  case (Pair r w1)
  show ?thesis
  proof (cases r)
    case (Inl msg)
    with Pair assms(3) show ?thesis by (auto simp: cli_main_def)
  next
    case (Inr u)
    then have code: "code = 0" "err = None" using Pair assms(3) by (auto simp: cli_main_def)
    from Pair Inr assms(2) have run: "and_do (config_load C J (cli_config args))
        (\<lambda>cfg. run_verify C J cfg source_account account) w = (Inr u, w1)"
      by (simp add: cli_run_def)
    then obtain cfg w2 where load: "config_load C J (cli_config args) w = (Inr cfg, w2)"
      and rv: "run_verify C J cfg source_account account w2 = (Inr u, w1)"
      unfolding and_do_Inr by blast
    from load obtain raw where raw: "read_file C w (cli_config args) = Inr raw" "config_from_str J raw = Inr cfg"
      by (auto simp: config_load_def split: sum.splits)
    let ?sa = "case source_account of Some s \<Rightarrow> s | None \<Rightarrow> admin_public_key (dep_admin cfg)"
    have addr: "is_stellar_address ?sa" "\<forall>acc\<in>set_option account. is_stellar_address acc"
      using rv by (auto simp: run_verify_def Let_def fail_with_def split: if_splits)
    then obtain v w3 where
      "and_do (\<lambda>w. case verify C J cfg ?sa account w of (cs, w) \<Rightarrow> (Inr cs, w)) (\<lambda>cs.
        and_do (print_report C cs cfg ?sa) (\<lambda>_.
          if 0 < count_status Fail cs
          then fail_with (''deployment verification failed: '' @ nat_text (count_status Fail cs) @ '' of '' @
            nat_text (length cs) @ '' checks failed'')
          else done_with ())) w3 = (Inr u, w1)"
      using rv unfolding run_verify_def Let_def by (auto simp: and_do_Inr simp del: and_do_simps)
    moreover obtain cs where cs: "verify C J cfg ?sa account w3 = (cs, w3)"
      "no_failure cs \<longleftrightarrow> healthy ans J cfg ?sa account"
      using verify_healthy [OF views_purelyI [OF assms(1)]] by blast
    moreover obtain w4 where "print_report C cs cfg ?sa w3 = (Inr (), w4)"
      using print_report_Inr [of C cs cfg ?sa w3] by blast
    ultimately have "count_status Fail cs = 0"
      by (auto simp: and_do_def fail_with_def split: if_splits)
    with cs(2) have "healthy ans J cfg ?sa account" by (simp add: no_failure_count)
    with code raw addr show ?thesis by (auto simp: Let_def)
  qed
qed

theorem exit_code_is_the_verdict_witness:
  "fst (fst (cli_main (steady_host (\<lambda>_. Inr (said ''true''))) demo_codec
     \<lparr>cli_config = ''c.json'', cli_source = None, cli_stellar_bin = ''stellar'', cli_command = Verify None None\<rparr> ())) = 1"
proof -
  let ?C = "steady_host (\<lambda>_. Inr (said ''true''))"
  let ?args = "\<lparr>cli_config = ''c.json'', cli_source = None, cli_stellar_bin = ''stellar'', cli_command = Verify None None\<rparr>"
  have pure: "answers_purely ?C (\<lambda>_. Inr (said ''true''))" by (simp add: answers_purely_def steady_host_def)
  obtain code err w' where main: "cli_main ?C demo_codec ?args () = ((code, err), w')"
    by (cases "cli_main ?C demo_codec ?args ()") (metis prod.collapse)
  have "code \<noteq> 0"
  proof
    assume "code = 0"
    with exit_code_is_the_verdict [OF pure _ main, of None None]
    have "is_stellar_address ''GADMIN''"
      by (auto simp: demo_codec_def demo_deployment_def Let_def)
    then show False by (simp add: is_stellar_address_def)
  qed
  with exit_code_is_the_verdict [OF pure _ main, of None None] main show ?thesis by auto
qed
















section \<open>Admin commands\<close>

text \<open>C27: an admin command is one signed invocation of the right entry point: \<^verbatim>\<open>init\<close>, \<^verbatim>\<open>configure\<close>,
  \<^verbatim>\<open>bind\<close>, \<^verbatim>\<open>unbind\<close>, \<^verbatim>\<open>freeze\<close> and \<^verbatim>\<open>unfreeze\<close> run exactly one command, with the function and
  parameters the request stands for, succeed exactly when that command succeeds, and print their
  confirmation only then; a token argument that does not resolve runs nothing.\<close>

theorem admin_command_is_one_invocation:
  assumes "admin_request A cmd = Some request"
    and "run_admin (recording C) J A cmd (w, []) = (res, (w', effects))"
  shows "case request of
      Inl msg \<Rightarrow> res = Inl msg \<and> effects = []
    | Inr (func, params) \<Rightarrow>
        \<exists>r line. effects = Ran (invoke_args (Some (app_source A)) (dep_hooks_contract_id (app_config A))
            (dep_network (app_config A)) func params) r # (if succeeded r then [Printed line] else []) \<and>
          ((res = Inr ()) = succeeded r)"
proof (cases request)
  case (Inl msg)
  with assms show ?thesis by (simp add: admin_request_rejects fail_with_def)
next
  case (Inr req)
  obtain func params where req: "req = (func, params)" by (cases req)
  obtain line where "run_admin (recording C) J A cmd =
      and_do (app_invoke (recording C) A func params) (\<lambda>_. println (recording C) line)"
    using admin_request_invokes assms(1) Inr req by blast
  with assms(2) have "and_do (app_invoke (recording C) A func params) (\<lambda>_. println (recording C) line) (w, []) =
      (res, (w', effects))" by simp
  from invoke_then_print [OF this] Inr req show ?thesis by auto
qed

theorem admin_command_is_one_invocation_witness:
  "\<exists>line. snd (snd (run_admin (recording (steady_host (\<lambda>_. Inr (said [])))) demo_codec demo_app
      (FreezeCmd ''usd'' ''GBAD'') ((), []))) =
    [Ran [''contract'', ''invoke'', ''--id'', ''CHOOKS'', ''--source'', ''admin'', ''--network'', ''local'', ''--'',
       ''freeze'', ''--token'', ''CUSD'', ''--account'', ''GBAD''] (Inr (said [])), Printed line]"
proof -
  let ?run = "run_admin (recording (steady_host (\<lambda>_. Inr (said [])))) demo_codec demo_app (FreezeCmd ''usd'' ''GBAD'') ((), [])"
  obtain res u effects where run: "?run = (res, (u, effects))" by (cases ?run rule: prod_cases3)
  have req: "admin_request demo_app (FreezeCmd ''usd'' ''GBAD'') =
      Some (Inr (''freeze'', [(''token'', ''CUSD''), (''account'', ''GBAD'')]))"
    by (simp add: admin_request_def demo_app_def demo_deployment_def resolve_token_def)
  obtain r line where eff: "effects = Ran (invoke_args (Some ''admin'') ''CHOOKS'' ''local'' ''freeze''
      [(''token'', ''CUSD''), (''account'', ''GBAD'')]) r # (if succeeded r then [Printed line] else [])"
    using admin_command_is_one_invocation [OF req run] by (auto simp: demo_app_def demo_deployment_def)
  have "hd (snd (snd ?run)) = Ran (invoke_args (Some ''admin'') ''CHOOKS'' ''local'' ''freeze''
      [(''token'', ''CUSD''), (''account'', ''GBAD'')]) (Inr (said []))"
    by (simp add: run_admin_def app_freeze_def app_freeze_op_def demo_app_def demo_deployment_def resolve_token_def
        app_invoke_def and_do_def recording_run steady_host_def said_def interpret_outcome_def lift_result_def
        recording_println address_param_def)
  with run eff have r: "r = Inr (said [])" by simp
  then show ?thesis
    using run eff by (simp add: succeeded_def said_def invoke_args_def param_args_def)
qed

text \<open>C28: \<^verbatim>\<open>bind\<close> by alias uses the record, \<^verbatim>\<open>bind\<close> by address does not: the alias of a recorded token (no
  alias listed twice) binds that token's own contract id to its own recorded SAC; a bare address
  that is not an alias is bound as it is, to no SAC unless one is given, also when the record lists
  that very address with a SAC; any other argument is refused.\<close>

theorem bind_uses_the_record_by_alias_only:
  assumes "distinct (map token_alias (dep_tokens (app_config A)))"
  shows "(\<forall>t\<in>set (dep_tokens (app_config A)).
      admin_request A (Bind (token_alias t) None) =
        Some (Inr (''bind_token'', [(''token'', token_contract_id t), (''sac'', opt_address (token_sac_contract_id t))])))
    \<and> (arg \<notin> token_alias ` set (dep_tokens (app_config A)) \<longrightarrow>
      (if starts_with (CHR ''C'') arg \<or> starts_with (CHR ''G'') arg
       then admin_request A (Bind arg None) = Some (Inr (''bind_token'', [(''token'', arg), (''sac'', ''null'')]))
       else \<exists>msg. admin_request A (Bind arg None) = Some (Inl msg)))"
proof (intro conjI ballI impI)
  fix t
  assume "t \<in> set (dep_tokens (app_config A))"
  with resolves_alias [OF assms this]
  show "admin_request A (Bind (token_alias t) None) =
      Some (Inr (''bind_token'', [(''token'', token_contract_id t), (''sac'', opt_address (token_sac_contract_id t))]))"
    by (simp add: admin_request_def Let_def)
next
  assume "arg \<notin> token_alias ` set (dep_tokens (app_config A))"
  then have "List.find (\<lambda>t. token_alias t = arg) (dep_tokens (app_config A)) = None"
    by (simp add: find_alias_None [symmetric])
  then show "if starts_with (CHR ''C'') arg \<or> starts_with (CHR ''G'') arg
       then admin_request A (Bind arg None) = Some (Inr (''bind_token'', [(''token'', arg), (''sac'', ''null'')]))
       else \<exists>msg. admin_request A (Bind arg None) = Some (Inl msg)"
    by (simp add: admin_request_def resolve_token_def sac_for_def opt_address_def Let_def)
qed

theorem bind_uses_the_record_by_alias_only_witness:
  "admin_request demo_app (Bind ''CUSD'' None) = Some (Inr (''bind_token'', [(''token'', ''CUSD''), (''sac'', ''null'')]))"
  using bind_uses_the_record_by_alias_only [of demo_app "''CUSD''"]
  by (simp add: demo_app_def demo_deployment_def starts_with_def)

section \<open>Bring-up\<close>

text \<open>C29: a successful \<^verbatim>\<open>deploy\<close> ran exactly the documented sequence: deploy the hooks contract, deploy the
  sample policy when the options ask for it, \<^verbatim>\<open>initialize\<close>, \<^verbatim>\<open>set_config\<close> with the chosen policy, one
  \<^verbatim>\<open>bind_token\<close> per recorded token in their order; every one of these commands succeeded; the ids in use
  are the ones the two deploys reported, each from its own output; and with \<^verbatim>\<open>--save\<close> the only file
  written is the configuration, holding these ids.\<close>

theorem deploy_runs_the_lifecycle_in_order:
  assumes "run_deploy (recording C) J cfg config_path source wasm sample_wasm blocked policy_id no_policy sac_opt (w, [])
    = (Inr (), (w', effects))"
  shows "\<exists>hooks_id pol. let sac = (case sac_opt of Some b \<Rightarrow> b | None \<Rightarrow> dep_sac_passthrough cfg) in
    is_stellar_address hooks_id \<and> policy_choice cfg sample_wasm policy_id no_policy pol \<and>
    map fst (ran effects) = deploy_sequence cfg source wasm sample_wasm blocked policy_id no_policy hooks_id pol sac \<and>
    reported_ids (policy_deploy_args cfg source sample_wasm blocked policy_id no_policy \<noteq> []) (ran effects) hooks_id pol \<and>
    (\<forall>(args, r)\<in>set (ran effects). succeeded r) \<and>
    wrote effects = (case config_path of None \<Rightarrow> []
      | Some path \<Rightarrow> [(path, (case config_to_string_pretty J (recorded_config cfg hooks_id pol sac) of
           Inr raw \<Rightarrow> raw @ [newline] | Inl _ \<Rightarrow> []))])"
proof (cases rule: run_deploy_stages [OF assms, case_names stopped completed])
  case (stopped msg)
  then show ?thesis by simp
next
  case (completed hooks_id pol w3)
  let ?sac = "case sac_opt of Some b \<Rightarrow> b | None \<Rightarrow> dep_sac_passthrough cfg"
  let ?seq = "deploy_sequence cfg source wasm sample_wasm blocked policy_id no_policy hooks_id pol ?sac"
  from completed(3) obtain outs where outs: "ran (snd w3) = zip ?seq outs" "length outs = length ?seq"
    "\<forall>r\<in>set outs. succeeded r" and none: "wrote (snd w3) = []"
    by (auto simp: extends_def)
  note last = record_step_effects [OF completed(5)]
  show ?thesis
    unfolding Let_def
  proof (rule exI [of _ hooks_id], rule exI [of _ pol], intro conjI)
    show "map fst (ran effects) = ?seq" using last outs by simp
    show "\<forall>(args, r)\<in>set (ran effects). succeeded r" using last outs by (auto dest: set_zip_rightD)
    show "reported_ids (policy_deploy_args cfg source sample_wasm blocked policy_id no_policy \<noteq> []) (ran effects) hooks_id pol"
      using last completed(4) by auto
    show "wrote effects = (case config_path of None \<Rightarrow> []
      | Some path \<Rightarrow> [(path, (case config_to_string_pretty J (recorded_config cfg hooks_id pol ?sac) of
           Inr raw \<Rightarrow> raw @ [newline] | Inl _ \<Rightarrow> []))])" using last none by simp
  qed (use completed in simp_all)
qed

definition demo_id :: string where
  "demo_id = CHR ''C'' # replicate 55 (CHR ''A'')"

definition demo_deploy :: "(string + unit) \<times> (unit \<times> effect list)" where
  "demo_deploy = run_deploy (recording (steady_host (\<lambda>_. Inr (said demo_id)))) demo_codec demo_deployment
     (Some ''c.json'') ''admin'' ''hooks.wasm'' None None None False None ((), [])"

lemma demo_deploy_ok: "fst demo_deploy = Inr ()"
  by code_simp

lemma demo_deploy_saved: "wrote (snd (snd demo_deploy)) \<noteq> []"
  by code_simp

theorem deploy_runs_the_lifecycle_in_order_witness:
  "\<exists>hooks_id pol. map fst (ran (snd (snd demo_deploy))) =
     deploy_sequence demo_deployment ''admin'' ''hooks.wasm'' None None None False hooks_id pol False"
proof -
  have run: "demo_deploy = (Inr (), (fst (snd demo_deploy), snd (snd demo_deploy)))"
    unfolding demo_deploy_ok [symmetric] by (simp only: prod.collapse)
  from deploy_runs_the_lifecycle_in_order [OF run [unfolded demo_deploy_def], folded demo_deploy_def]
  show ?thesis by (auto simp: demo_deployment_def Let_def)
qed

text \<open>C30: the configuration file is written only when everything else has succeeded: whatever a \<^verbatim>\<open>deploy\<close>
  returns, if it wrote a file then \<^verbatim>\<open>--save\<close> was given, the whole sequence of commands had been run with
  success, and what it wrote is the serialized record with the new ids: the hooks contract is the one that
  the output of its deploy names, and a policy deployed on the way the one that its own output names.\<close>

theorem deploy_saves_last:
  assumes "run_deploy (recording C) J cfg config_path source wasm sample_wasm blocked policy_id no_policy sac_opt (w, [])
    = (res, (w', effects))" and "wrote effects \<noteq> []"
  shows "\<exists>path raw hooks_id pol. let sac = (case sac_opt of Some b \<Rightarrow> b | None \<Rightarrow> dep_sac_passthrough cfg) in
    config_path = Some path \<and> is_stellar_address hooks_id \<and>
    config_to_string_pretty J (recorded_config cfg hooks_id pol sac) = Inr raw \<and>
    wrote effects = [(path, raw @ [newline])] \<and>
    map fst (ran effects) = deploy_sequence cfg source wasm sample_wasm blocked policy_id no_policy hooks_id pol sac \<and>
    reported_ids (policy_deploy_args cfg source sample_wasm blocked policy_id no_policy \<noteq> []) (ran effects) hooks_id pol \<and>
    (\<forall>(args, r)\<in>set (ran effects). succeeded r)"
proof (cases rule: run_deploy_stages [OF assms(1), case_names stopped completed])
  case (stopped msg)
  with assms(2) show ?thesis by simp
next
  case (completed hooks_id pol w3)
  let ?sac = "case sac_opt of Some b \<Rightarrow> b | None \<Rightarrow> dep_sac_passthrough cfg"
  let ?seq = "deploy_sequence cfg source wasm sample_wasm blocked policy_id no_policy hooks_id pol ?sac"
  from completed(3) obtain outs where outs: "ran (snd w3) = zip ?seq outs" "length outs = length ?seq"
    "\<forall>r\<in>set outs. succeeded r" and none: "wrote (snd w3) = []"
    by (auto simp: extends_def)
  note last = record_step_effects [OF completed(5)]
  obtain path raw where written: "config_path = Some path"
    "config_to_string_pretty J (recorded_config cfg hooks_id pol ?sac) = Inr raw" "wrote effects = [(path, raw @ [newline])]"
    using last none assms(2) by auto
  show ?thesis
    unfolding Let_def
  proof (rule exI [of _ path], rule exI [of _ raw], rule exI [of _ hooks_id], rule exI [of _ pol], intro conjI)
    show "map fst (ran effects) = ?seq" using last outs by simp
    show "\<forall>(args, r)\<in>set (ran effects). succeeded r" using last outs by (auto dest: set_zip_rightD)
    show "reported_ids (policy_deploy_args cfg source sample_wasm blocked policy_id no_policy \<noteq> []) (ran effects) hooks_id pol"
      using last completed(4) by auto
  qed (use completed written in simp_all)
qed

theorem deploy_saves_last_witness:
  "\<exists>hooks_id. wrote (snd (snd demo_deploy)) = [(''c.json'', ''{}'' @ [newline])] \<and> is_stellar_address hooks_id"
proof -
  have run: "demo_deploy = (fst demo_deploy, (fst (snd demo_deploy), snd (snd demo_deploy)))"
    by (simp only: prod.collapse)
  from deploy_saves_last [OF run [unfolded demo_deploy_def], folded demo_deploy_def, OF demo_deploy_saved]
  show ?thesis by (auto simp: demo_codec_def Let_def)
qed

section \<open>Recognizers, registration, offline reference\<close>

text \<open>The id read from a deploy's output is always a well-formed contract address standing alone on a line
  of the output; it is the last such line, and it is found whenever there is one.\<close>

lemma deployed_id_is_the_last_address_line:
  "(parse_deployed_id out = Some i \<longrightarrow> is_stellar_address i \<and> starts_with (CHR ''C'') i \<and>
      (\<exists>before after. map text_trim (text_lines out) = before @ i # after \<and>
        (\<forall>l\<in>set after. \<not> (is_stellar_address l \<and> starts_with (CHR ''C'') l)))) \<and>
   (parse_deployed_id out = None \<longleftrightarrow>
      (\<forall>l\<in>set (text_lines out). \<not> (is_stellar_address (text_trim l) \<and> starts_with (CHR ''C'') (text_trim l))))"
proof -
  let ?P = "\<lambda>l. length l = 56 \<and> starts_with (CHR ''C'') l \<and> list_all (\<lambda>c. is_ascii_uppercase c \<or> is_ascii_digit c) l"
  have P: "?P l \<longleftrightarrow> is_stellar_address l \<and> starts_with (CHR ''C'') l" for l
    by (auto simp: is_stellar_address_def)
  have last: "List.find ?P (rev ls) = Some i \<Longrightarrow>
      \<exists>before after. ls = before @ i # after \<and> (\<forall>l\<in>set after. \<not> ?P l)" for ls
  proof (induction ls rule: rev_induct)
    case (snoc l ls)
    show ?case
    proof (cases "?P l")
      case True
      with snoc.prems have "l = i" by simp
      then show ?thesis by (intro exI [of _ ls] exI [of _ "[]"]) simp
    next
      case False
      with snoc obtain before after where "ls = before @ i # after" "\<forall>l\<in>set after. \<not> ?P l" by auto
      with False show ?thesis by (intro exI [of _ before] exI [of _ "after @ [l]"]) auto
    qed
  qed simp
  show ?thesis
    using last [of "map text_trim (text_lines out)"] parse_deployed_id_address [of out i]
    by (auto simp: parse_deployed_id_def P find_None_iff)
qed

text \<open>The configured network is registered before anything else: with a registered network one listing
  runs and nothing is added; otherwise the network is added exactly once; a failing listing or
  addition is an error.\<close>

lemma network_is_registered_once:
  assumes "ensure_network (recording C) cfg (w, []) = (res, (w', effects))"
  shows "(\<exists>r. effects = [Ran network_list_args r] \<and>
      (case r of Inl msg \<Rightarrow> res = Inl msg
       | Inr out \<Rightarrow> if run_ok out then dep_network cfg \<in> text_trim ` set (text_lines (run_stdout out)) \<and> res = Inr ()
                   else \<exists>msg. res = Inl msg)) \<or>
    (\<exists>out r. effects = [Ran network_list_args (Inr out),
        Ran (network_add_args (dep_network cfg) (dep_rpc_url cfg) (dep_network_passphrase cfg)) r] \<and>
      run_ok out \<and> dep_network cfg \<notin> text_trim ` set (text_lines (run_stdout out)) \<and>
      ((res = Inr ()) = succeeded r))"
proof -
  obtain r w1 where r: "run_stellar C w network_list_args = (r, w1)" by (cases "run_stellar C w network_list_args")
  let ?add = "network_add_args (dep_network cfg) (dep_rpc_url cfg) (dep_network_passphrase cfg)"
  obtain r2 w2 where r2: "run_stellar C w1 ?add = (r2, w2)" by (cases "run_stellar C w1 ?add")
  have listed: "list_ex (\<lambda>l. text_trim l = dep_network cfg) ls \<longleftrightarrow> dep_network cfg \<in> text_trim ` set ls" for ls
    by (auto simp: list_ex_iff intro: rev_image_eqI)
  show ?thesis
  proof (cases r)
    case (Inl msg)
    with assms r show ?thesis by (auto simp: ensure_network_def and_do_def recording_run)
  next
    case (Inr out)
    show ?thesis
    proof (cases "run_ok out \<and> dep_network cfg \<notin> text_trim ` set (text_lines (run_stdout out))")
      case True
      with assms r r2 Inr have "effects = [Ran network_list_args (Inr out), Ran ?add r2]"
        and "(res = Inr ()) = succeeded r2"
        by (cases r2; auto simp: ensure_network_def and_do_def recording_run listed fail_with_def done_with_def
            succeeded_def split: if_splits)+
      with True show ?thesis by blast
    next
      case False
      with assms r Inr show ?thesis
        by (auto simp: ensure_network_def and_do_def recording_run listed fail_with_def done_with_def split: if_splits)
    qed
  qed
qed

text \<open>The error reference works offline and agrees with the contract: \<^verbatim>\<open>errors\<close> runs no command, reads no
  configuration and succeeds; for the code of a contract error it prints that error's description,
  and listing prints one line per reason and one for \<^verbatim>\<open>AlreadyInitialized\<close>.\<close>

lemma errors_reference_is_offline:
  assumes "cli_command args = Errors code"
  shows "\<exists>w'. cli_run (recording C) J args (w, []) = (Inr (), (w', map Printed
    (case code of
       Some c \<Rightarrow> [describe (revert_from_code c)]
     | None \<Rightarrow> ''Rejection codes (docs/errors.md):'' #
         map (\<lambda>r. ''  '' @ pad_left_2 (u32_text (reason_code r)) @ ''  '' @ reason_name r) ALL_REASONS @
         [''  12  already_initialized (contract-only)'']))) \<and>
    revert_from_code (error_code err) = revert_of err"
proof -
  have each: "\<exists>w'. for_each rs (\<lambda>r. println (recording C) (f r)) (w, es) = (Inr (), (w', es @ map Printed (map f rs)))"
    for rs :: "rejection_reason list" and f w es
  proof (induction rs arbitrary: w es)
    case (Cons r rs)
    from Cons.IH [of "print_line C w (f r)" "es @ [Printed (f r)]"] show ?case
      by (simp add: and_do_def recording_println)
  qed (simp add: done_with_def)
  show ?thesis
  proof (cases code)
    case None
    let ?f = "\<lambda>r. ''  '' @ pad_left_2 (u32_text (reason_code r)) @ ''  '' @ reason_name r"
    obtain w' where "for_each ALL_REASONS (\<lambda>r. println (recording C) (?f r))
        (print_line C w ''Rejection codes (docs/errors.md):'', [Printed ''Rejection codes (docs/errors.md):''])
      = (Inr (), (w', [Printed ''Rejection codes (docs/errors.md):''] @ map Printed (map ?f ALL_REASONS)))"
      using each [of ALL_REASONS ?f "print_line C w ''Rejection codes (docs/errors.md):''"
          "[Printed ''Rejection codes (docs/errors.md):'']"] by blast
    with None assms show ?thesis
      by (simp add: cli_run_def print_errors_def and_do_def recording_println revert_from_error_code del: map_map)
  next
    case (Some c)
    with assms show ?thesis
      by (simp add: cli_run_def print_errors_def recording_println revert_from_error_code)
  qed
qed

end
