(* ===== verification/Operational_Guarantees.thy ===== *)
theory Operational_Guarantees
  imports Operations
begin

text \<open>
  The properties of the contract as its operators meet it: which errors there are, when an invocation
  traps, and that a signing admin can always bring the gates to a state in which compliant operations
  pass.
\<close>

section \<open>Provoking errors on the demonstration ledger\<close>

lemma provoked:
  assumes "reachable ledger_host e"
    and "spec_step (state_of ledger_host e) (authorized ledger_host e) (views_of ledger_host e) c = Rejected err"
  shows "\<exists>e'. dispatch ledger_host e c = Some (Inl err, e')"
  using ledger_view_contract.dispatch_implements [OF ledger_contract.well_typed_reachable [OF assms(1)], of c] assms(2)
  by (auto simp: implements_def split: option.splits prod.splits sum.splits)

text \<open>The demonstration ledger when no other contract answers.\<close>

definition silent_ledger :: "(data_key, stored, event) ledger" where
  "silent_ledger = demo_ledger\<lparr>l_views := (\<lambda>_ _ _. Inl Abort)\<rparr>"

lemma silent_quiet: "quiet ledger_host demo_ledger silent_ledger"
  by (simp add: quiet_def same_entries_def silent_ledger_def ledger_host_def)

lemma silent_reachable: "reachable ledger_host silent_ledger"
  by (rule reachable.environment [OF demo_reachable silent_quiet])

lemma silent_facts:
  "state_of ledger_host silent_ledger = state_of ledger_host demo_ledger"
  "views_of ledger_host silent_ledger = (\<lambda>_ _ _. Inl Abort)"
  by (rule quiet_state_of [OF silent_quiet]) (simp add: views_of_def silent_ledger_def ledger_host_def fun_eq_iff)

lemma fresh_state:
  "state_of ledger_host fresh_ledger = \<lparr>st_admin = None, st_config = None, st_config_version = None,
     st_version = None, st_bindings = (\<lambda>_. None), st_frozen = (\<lambda>_ _. False)\<rparr>"
  by (simp add: state_of_def ledger_host_def fresh_ledger_def)

lemma demo_versions: "st_config_version (state_of ledger_host demo_ledger) = Some 1"
  by (simp add: demo_ledger_eq state_of_def ledger_host_def)

text \<open>A call of each entry point about a given token and account.\<close>

definition sample_call :: "string \<Rightarrow> address \<Rightarrow> address \<Rightarrow> address \<Rightarrow> entry_call" where
  "sample_call name tk spender x =
     (if name = ''initialize'' then Initialize x
      else if name = ''set_config'' then SetConfig None False
      else if name = ''bind_token'' then BindToken tk None
      else if name = ''unbind_token'' then UnbindToken tk
      else if name = ''freeze'' then FreezeAccount tk x
      else if name = ''unfreeze'' then UnfreezeAccount tk x
      else if name = ''before_register'' then BeforeRegister tk x
      else if name = ''before_deposit'' then BeforeDeposit tk x x
      else if name = ''before_transfer'' then BeforeTransfer tk x x
      else if name = ''before_withdraw'' then BeforeWithdraw tk x
      else if name = ''before_merge'' then BeforeMerge tk x
      else BeforeTransferFrom tk spender x x)"

definition provoking :: "string \<Rightarrow> contract_error \<Rightarrow> entry_call \<times> (data_key, stored, event) ledger" where
  "provoking name err =
     (case err of
        AlreadyInitializedErr \<Rightarrow> (sample_call name ''CTOKEN'' ''GALICE'' ''GALICE'', demo_ledger)
      | InvalidConfigurationErr \<Rightarrow> (sample_call name ''CTOKEN'' ''GALICE'' ''GALICE'', fresh_ledger)
      | UnboundTokenErr \<Rightarrow> (sample_call name ''COTHER'' ''GALICE'' ''GALICE'', demo_ledger)
      | AccountFrozenErr \<Rightarrow> (sample_call name ''CTOKEN'' ''GALICE'' ''GFROZEN'', demo_ledger)
      | PolicyDeniedErr \<Rightarrow> (sample_call name ''CTOKEN'' ''GALICE'' ''GDENIED'', demo_ledger)
      | SpenderNotAuthorizedErr \<Rightarrow> (sample_call name ''CTOKEN'' ''GDENIED'' ''GALICE'', demo_ledger)
      | SacAuthorizationFailedErr \<Rightarrow> (sample_call name ''CTOKEN'' ''GALICE'' ''GREVOKED'', demo_ledger)
      | PolicyUnavailableErr \<Rightarrow> (sample_call name ''CTOKEN'' ''GALICE'' ''GALICE'', silent_ledger))"

lemma provoking_reachable: "reachable ledger_host (snd (provoking name err))"
  by (cases err) (simp_all add: provoking_def demo_reachable silent_reachable fresh_reachable)

lemmas verdict_defs = decide_def party_verdict_def freeze_verdict_def policy_verdict_def sac_verdict_def

lemma provoking_hook:
  assumes "name \<in> {''before_register'', ''before_deposit'', ''before_transfer'', ''before_withdraw'', ''before_merge'',
      ''before_transfer_from''}"
    and "err \<in> set (possible_errors name)"
    and "provoking name err = (c, e)"
  shows "spec_step (state_of ledger_host e) signs (views_of ledger_host e) c = Rejected err"
  using assms
  by (elim insertE emptyE; hypsubst)
    (auto simp: hook_errors_def provoking_def sample_call_def silent_facts fresh_state demo_facts demo_unbound
      verdict_defs verdict_outcome_def demo_views_def POLICY_FN_def SAC_AUTHORIZED_FN_def)

lemma provoking_admin:
  assumes "name \<in> {''initialize'', ''set_config'', ''bind_token'', ''unbind_token'', ''freeze'', ''unfreeze''}"
    and "err \<in> set (possible_errors name)"
    and "provoking name err = (c, e)"
  shows "spec_step (state_of ledger_host e) (authorized ledger_host e) ask c = Rejected err"
  using assms
  by (elim insertE emptyE; hypsubst)
    (auto simp: provoking_def sample_call_def fresh_state demo_facts demo_unbound admin_only_def in_scope_def)

lemma entry_names: "entry_name c \<in>
    {''initialize'', ''set_config'', ''bind_token'', ''unbind_token'', ''freeze'', ''unfreeze''} \<union>
    {''before_register'', ''before_deposit'', ''before_transfer'', ''before_withdraw'', ''before_merge'',
      ''before_transfer_from''}"
  by (cases c) simp_all

lemma entry_name_sample: "entry_name (sample_call (entry_name c) tk spender x) = entry_name c"
  by (cases c) (simp_all add: sample_call_def)

lemma entry_name_provoking: "entry_name (fst (provoking (entry_name c) err)) = entry_name c"
  by (cases err) (simp_all add: provoking_def entry_name_sample)

lemma every_error_provoked:
  assumes "err \<in> set (possible_errors (entry_name c))"
  shows "\<exists>e'. dispatch ledger_host (snd (provoking (entry_name c) err)) (fst (provoking (entry_name c) err)) =
    Some (Inl err, e')"
proof (rule provoked [OF provoking_reachable])
  obtain c' e where p: "provoking (entry_name c) err = (c', e)" by (cases "provoking (entry_name c) err")
  show "spec_step (state_of ledger_host (snd (provoking (entry_name c) err)))
      (authorized ledger_host (snd (provoking (entry_name c) err)))
      (views_of ledger_host (snd (provoking (entry_name c) err))) (fst (provoking (entry_name c) err)) = Rejected err"
    unfolding p fst_conv snd_conv
    using entry_names [of c] provoking_hook [OF _ assms p] provoking_admin [OF _ assms p] by blast
qed

text \<open>C36: the error surface is exactly the documented one: an entry point answers no error outside its
  row of the table, and every error of the row is answered by some call of that entry point on some
  reachable ledger (no dead codes).\<close>

theorem error_surface_is_exact:
  assumes "view_contract_host H" and "well_typed H e"
  shows "(\<forall>err e'. dispatch H e c = Some (Inl err, e') \<longrightarrow> err \<in> set (possible_errors (entry_name c))) \<and>
    (\<forall>err\<in>set (possible_errors (entry_name c)). \<exists>c' l l'. entry_name c' = entry_name c \<and>
       reachable ledger_host l \<and> dispatch ledger_host l c' = Some (Inl err, l'))"
proof (intro conjI allI impI ballI)
  fix err e'
  assume "dispatch H e c = Some (Inl err, e')"
  with view_contract_host.dispatch_implements [OF assms, of c]
  have "spec_step (state_of H e) (authorized H e) (views_of H e) c = Rejected err" by simp
  then show "err \<in> set (possible_errors (entry_name c))" by (rule spec_step_errors)
next
  fix err
  assume "err \<in> set (possible_errors (entry_name c))"
  from every_error_provoked [OF this] show "\<exists>c' l l'. entry_name c' = entry_name c \<and>
       reachable ledger_host l \<and> dispatch ledger_host l c' = Some (Inl err, l')"
    using entry_name_provoking provoking_reachable by blast
qed

theorem error_surface_is_exact_witness:
  "\<exists>l l'. reachable ledger_host l \<and>
     (\<exists>c'. entry_name c' = ''before_transfer_from'' \<and> dispatch ledger_host l c' = Some (Inl SpenderNotAuthorizedErr, l'))"
  using error_surface_is_exact [OF ledger_hosts(2) demo_well_typed,
      of "BeforeTransferFrom ''CTOKEN'' ''GALICE'' ''GBOB'' ''GBOB''"]
  by (simp only: entry_name.simps possible_errors_simps list.set ball_simps) blast

text \<open>C37: type safety: on a well-typed state an invocation traps exactly when a required signature is
  missing (of the admin, or for \<^verbatim>\<open>initialize\<close> of the admin-to-be) or a configuration change would
  pass the last 32-bit version; no read ever meets a value of a wrong type, and the state stays
  well-typed whatever is invoked.\<close>

theorem invocations_trap_exactly_when:
  assumes "contract_host H" and "well_typed H e"
  shows "(dispatch H e c = None \<longleftrightarrow>
      lacks_signature (state_of H e) (authorized H e) c \<or> exhausts_version (state_of H e) c) \<and>
    well_typed H (invoke H e c) \<and>
    read_admin H e \<noteq> None \<and> read_initialized H e \<noteq> None \<and> read_config H e \<noteq> None \<and>
    read_config_version H e \<noteq> None \<and> read_state_version H e \<noteq> None \<and> read_token_is_bound H e tk \<noteq> None"
proof (intro conjI)
  show "dispatch H e c = None \<longleftrightarrow>
      lacks_signature (state_of H e) (authorized H e) c \<or> exhausts_version (state_of H e) c"
    by (rule contract_host.dispatch_traps_iff [OF assms])
  show "well_typed H (invoke H e c)" by (rule contract_host.well_typed_invoke [OF assms])
qed (use contract_host.typed_reads [OF assms] in simp_all)

theorem invocations_trap_exactly_when_witness:
  "dispatch ledger_host fresh_ledger (Initialize ''GMALLORY'') = None \<and>
   dispatch ledger_host demo_ledger (SetConfig None False) \<noteq> None"
  using invocations_trap_exactly_when [OF ledger_hosts(1) fresh_well_typed, of "Initialize ''GMALLORY''"]
    invocations_trap_exactly_when [OF ledger_hosts(1) demo_well_typed, of "SetConfig None False"]
  by (simp add: lacks_signature_def exhausts_version_def fresh_state demo_facts demo_versions)
    (simp add: ledger_host_def fresh_ledger_def)

text \<open>C38: enforcement can always be brought back: whatever was done to an initialized contract before, as
  long as its admin signs and the configuration counter is not at its last value, configuring, binding
  the token and lifting the freezes of the parties leads to a state in which the operation passes,
  provided the policy and the SAC then in use, if any, answer true for them. With no policy configured
  nothing is required of one: the admin can let an account pass that the policy refuses, by removing it.\<close>

theorem admin_can_restore_service:
  assumes "view_contract_host H" and "well_typed H e" and "st_admin (state_of H e) = Some a"
    and "signs_for H sign a" and "st_config_version (state_of H e) \<noteq> Some 4294967295"
    and "hook_of c = Some (tk, op, accs)"
    and "e' = operate H sign e ([SetConfig pol passthrough, BindToken tk sac] @ map (UnfreezeAccount tk) accs)"
    and "\<And>p acc. pol = Some p \<Longrightarrow> acc \<in> set accs \<Longrightarrow> views_of H e' p POLICY_FN [acc, tk] = Inr (Inr True)"
    and "\<And>s acc. passthrough \<Longrightarrow> sac = Some s \<Longrightarrow> acc \<in> set accs \<Longrightarrow> views_of H e' s SAC_AUTHORIZED_FN [acc] = Inr (Inr True)"
  shows "\<exists>e''. dispatch H e' c = Some (Inr (), e'')"
proof -
  have host: "contract_host H" using assms(1) by (simp add: view_contract_host_def)
  have r: "well_typed H e'" "st_config (state_of H e') = Some \<lparr>cfg_policy = pol, cfg_sac_passthrough = passthrough\<rparr>"
    "st_bindings (state_of H e') tk = Some \<lparr>binding_sac = sac\<rparr>" "\<forall>acc\<in>set accs. \<not> st_frozen (state_of H e') tk acc"
    using contract_host.operate_recovery [OF host assms(2,4,3,5,7)] by simp_all
  have "party_verdict (state_of H e') (views_of H e') \<lparr>cfg_policy = pol, cfg_sac_passthrough = passthrough\<rparr> sac tk p = Allow"
    if "p \<in> set (zip (parties op) accs)" for p
  proof -
    have "snd p \<in> set accs" using set_zip_rightD [of "fst p" "snd p" "parties op" accs] that by simp
    with r(4) assms(8,9) show ?thesis
      by (cases pol; cases sac) (auto simp: party_verdict_def freeze_verdict_def policy_verdict_def sac_verdict_def)
  qed
  then have "decide (state_of H e') (views_of H e') tk op accs = Allow"
    using r hook_arity [OF assms(6)] by (simp add: decide_def first_denial_Allow)
  moreover obtain e'' where "dispatch H e' c = Some (enforce (decide (state_of H e') (views_of H e') tk op accs), e'')"
    by (rule view_contract_host.dispatch_hook_decides [OF assms(1) r(1) assms(6)])
  ultimately show ?thesis by (simp add: enforce_def)
qed

definition demo_sign :: "(data_key, stored, event) ledger \<Rightarrow> (data_key, stored, event) ledger" where
  "demo_sign e = e\<lparr>l_signers := [''GADMIN'']\<rparr>"

lemma demo_signs: "signs_for ledger_host demo_sign ''GADMIN''"
  by (simp add: signs_for_def quiet_def same_entries_def demo_sign_def ledger_host_def)

text \<open>A transfer refused because of a policy-blocked sender and a frozen receiver.\<close>

theorem admin_can_restore_service_witness:
  "(\<exists>e''. dispatch ledger_host demo_ledger (BeforeTransfer ''CTOKEN'' ''GDENIED'' ''GBOB'') =
      Some (Inl PolicyDeniedErr, e'')) \<and>
   (\<exists>e''. dispatch ledger_host (operate ledger_host demo_sign demo_ledger
      ([SetConfig None False, BindToken ''CTOKEN'' None] @ map (UnfreezeAccount ''CTOKEN'') [''GDENIED'', ''GFROZEN'']))
    (BeforeTransfer ''CTOKEN'' ''GDENIED'' ''GFROZEN'') = Some (Inr (), e''))"
proof (rule conjI)
  obtain e' where "dispatch ledger_host demo_ledger (BeforeTransfer ''CTOKEN'' ''GDENIED'' ''GBOB'') =
      Some (enforce (decide (state_of ledger_host demo_ledger) (views_of ledger_host demo_ledger) ''CTOKEN'' Transfer
        [''GDENIED'', ''GBOB'']), e')"
    by (rule view_contract_host.dispatch_hook_decides [OF ledger_hosts(2) demo_well_typed,
        of "BeforeTransfer ''CTOKEN'' ''GDENIED'' ''GBOB''" "''CTOKEN''" Transfer "[''GDENIED'', ''GBOB'']"]) simp_all
  then show "\<exists>e''. dispatch ledger_host demo_ledger (BeforeTransfer ''CTOKEN'' ''GDENIED'' ''GBOB'') =
      Some (Inl PolicyDeniedErr, e'')"
    by (simp add: decide_def demo_facts party_verdict_def freeze_verdict_def policy_verdict_def demo_views_def
        POLICY_FN_def enforce_def)
qed (rule admin_can_restore_service [OF ledger_hosts(2) demo_well_typed demo_facts(1) demo_signs _ _ refl],
    simp_all add: demo_versions)

end
