(* ===== verification/Simulated_Network.thy ===== *)
theory Simulated_Network
  imports Relayed_Report Live_Commands Cli_Guarantees Operational_Guarantees
begin

text \<open>
  A concrete network behind the CLI: contracts of \<^theory_text>\<open>Contract\<close> on ledgers of their own, reached through
  the argument vectors the CLI builds. It interprets \<open>registered_network\<close>, and the witnesses of the end-to-end
  properties run on it. It stands in for the \<^verbatim>\<open>stellar\<close> binary and models none of its code.
\<close>

section \<open>Recognizing a request\<close>

definition parse_opt_address :: "string \<Rightarrow> string option" where
  "parse_opt_address s = (if s = ''null'' then None else Some (butlast (tl s)))"

definition parse_request :: "string \<Rightarrow> string list \<Rightarrow> entry_call option" where
  "parse_request func args =
     (let arg = (\<lambda>n. args ! (2 * n + 1)) in
      if func = ''initialize'' then Some (Initialize (arg 0))
      else if func = ''set_config'' then Some (SetConfig (parse_opt_address (arg 0)) (arg 1 = ''true''))
      else if func = ''bind_token'' then Some (BindToken (arg 0) (parse_opt_address (arg 1)))
      else if func = ''unbind_token'' then Some (UnbindToken (arg 0))
      else if func = ''freeze'' then Some (FreezeAccount (arg 0) (arg 1))
      else if func = ''unfreeze'' then Some (UnfreezeAccount (arg 0) (arg 1))
      else if func = ''before_register'' then Some (BeforeRegister (arg 0) (arg 1))
      else if func = ''before_deposit'' then Some (BeforeDeposit (arg 0) (arg 1) (arg 2))
      else if func = ''before_transfer'' then Some (BeforeTransfer (arg 0) (arg 1) (arg 2))
      else if func = ''before_withdraw'' then Some (BeforeWithdraw (arg 0) (arg 1))
      else if func = ''before_merge'' then Some (BeforeMerge (arg 0) (arg 1))
      else if func = ''before_transfer_from'' then Some (BeforeTransferFrom (arg 0) (arg 1) (arg 2) (arg 3))
      else None)"

lemma parse_opt_address: "parse_opt_address (opt_address addr) = addr"
  by (cases addr) (simp_all add: parse_opt_address_def opt_address_def butlast_append)

lemma parse_request: "parse_request (fst (request c)) (param_args (snd (request c))) = Some c"
  by (cases c)
    (simp_all add: parse_request_def param_args_def address_param_def boolean_param_def parse_opt_address
      bool_text_true Let_def)

section \<open>The network\<close>

record sim_world =
  sim_contracts :: "string \<Rightarrow> (data_key, stored, event) ledger"
  sim_ids :: "string list"

definition failed :: "string \<Rightarrow> run_outcome" where
  "failed msg = \<lparr>run_ok = False, run_stdout = [], run_stderr = msg\<rparr>"

definition shown_reply :: "'s reply \<Rightarrow> run_outcome" where
  "shown_reply reply =
     (case reply of
        None \<Rightarrow> failed ''auth''
      | Some (Inl err, _) \<Rightarrow> failed (revert_marker @ u32_text (error_code err) @ '')'')
      | Some (Inr _, _) \<Rightarrow> said ''null'')"

definition sim_new_ids :: "string list" where
  "sim_new_ids = map (\<lambda>c. CHR ''C'' # replicate 55 c) ''ABCD''"

definition blank_ledger :: "(data_key, stored, event) ledger" where
  "blank_ledger = fresh_ledger\<lparr>l_signers := []\<rparr>"

definition sim_deploy :: "sim_world \<Rightarrow> run_outcome \<times> sim_world" where
  "sim_deploy w =
     (case List.find (\<lambda>i. i \<notin> set (sim_ids w)) sim_new_ids of
        None \<Rightarrow> (failed ''no id'', w)
      | Some i \<Rightarrow>
          (said i, w\<lparr>sim_contracts := (sim_contracts w)(i := blank_ledger), sim_ids := i # sim_ids w\<rparr>))"

definition sim_invoke :: "sim_world \<Rightarrow> string \<Rightarrow> string \<Rightarrow> string \<Rightarrow> string list \<Rightarrow> run_outcome \<times> sim_world" where
  "sim_invoke w i source func args =
     (case (if i \<in> set (sim_ids w) then parse_request func args else None) of
        None \<Rightarrow> (failed ''no contract'', w)
      | Some c \<Rightarrow>
          (let reply = dispatch ledger_host ((sim_contracts w i)\<lparr>l_signers := [source]\<rparr>) c in
           (shown_reply reply,
            (case reply of
               Some (Inr _, e) \<Rightarrow> w\<lparr>sim_contracts := (sim_contracts w)(i := e)\<rparr>
             | _ \<Rightarrow> w))))"

definition shown_option :: "('a \<Rightarrow> string) \<Rightarrow> 'a option option \<Rightarrow> string" where
  "shown_option show_value x = (case x of Some (Some a) \<Rightarrow> show_value a | _ \<Rightarrow> ''null'')"

definition shown_config :: "compliance_config \<Rightarrow> string" where
  "shown_config c = (case cfg_policy c of None \<Rightarrow> ''{}'' | Some p \<Rightarrow> p)"

definition sim_view :: "(data_key, stored, event) ledger \<Rightarrow> string \<Rightarrow> string list \<Rightarrow> run_outcome" where
  "sim_view e func args =
     (if func = ''initialized'' then said (bool_text (read_initialized ledger_host e = Some True))
      else if func = ''admin'' then said (shown_option id (read_admin ledger_host e))
      else if func = ''config'' then said (shown_option shown_config (read_config ledger_host e))
      else if func = ''config_version'' then said (u32_text (the (read_config_version ledger_host e)))
      else if func = ''state_version'' then said (u32_text (the (read_state_version ledger_host e)))
      else if func = ''token_is_bound''
      then said (bool_text (map_option fst (read_token_is_bound ledger_host e (args ! 1)) = Some True))
      else shown_reply (dispatch ledger_host e (BeforeTransfer (args ! 1) (args ! 3) (args ! 5))))"

definition sim_stellar :: "sim_world \<Rightarrow> string list \<Rightarrow> (string + run_outcome) \<times> sim_world" where
  "sim_stellar w args =
     (if args ! 0 = ''network'' then (Inr (said ''local''), w)
      else if args ! 1 = ''deploy'' then map_prod Inr id (sim_deploy w)
      else if args ! 4 = ''--source'' then map_prod Inr id (sim_invoke w (args ! 3) (args ! 5) (args ! 9) (drop 10 args))
      else (Inr (sim_view (sim_contracts w (args ! 3)) (args ! 10) (drop 11 args)), w))"

definition sim_host :: "sim_world cli_host" where
  "sim_host =
    \<lparr>run_stellar = sim_stellar, print_line = (\<lambda>w _. w), env_var = (\<lambda>_ _. None),
     path_exists = (\<lambda>_ _. True), read_file = (\<lambda>_ _. Inr ''{}''), write_file = (\<lambda>w _ _. (Inr (), w))\<rparr>"

definition sim_codec :: json_codec where
  "sim_codec = demo_codec\<lparr>json_policy_field := (\<lambda>v. if v = ''{}'' then None else Some v)\<rparr>"

section \<open>The laws\<close>

lemma sim_stellar_deploy: "sim_stellar w (deploy_args path source network params) = map_prod Inr id (sim_deploy w)"
  by (simp add: sim_stellar_def deploy_args_def)

lemma sim_stellar_invoke:
  "sim_stellar w (invoke_args (Some source) i network func params) =
    map_prod Inr id (sim_invoke w i source func (param_args params))"
  by (simp add: sim_stellar_def invoke_args_def)

lemma sim_stellar_view:
  "sim_stellar w (view_args source_account i network func params) =
    (Inr (sim_view (sim_contracts w i) func (param_args params)), w)"
  by (simp add: sim_stellar_def view_args_def)

lemma sim_stellar_network:
  "sim_stellar w network_list_args = (Inr (said ''local''), w)"
  "sim_stellar w (network_add_args network rpc passphrase) = (Inr (said ''local''), w)"
  by (simp_all add: sim_stellar_def network_list_args_def network_add_args_def)

lemma sim_new_ids_parse: "list_all (\<lambda>i. parse_deployed_id i = Some i) sim_new_ids"
  by code_simp

lemma blank_pristine: "pristine ledger_host blank_ledger"
  by (simp add: pristine_def blank_ledger_def fresh_ledger_def ledger_host_def)

lemma run_ok_shown: "run_ok (shown_reply reply) \<longleftrightarrow> (\<exists>e. reply = Some (Inr (), e))"
  by (auto simp: shown_reply_def failed_def said_def split: option.splits prod.splits sum.splits)

lemma quiet_signers: "quiet ledger_host e (e\<lparr>l_signers := signers\<rparr>)"
  by (simp add: quiet_def same_entries_def ledger_host_def)

interpretation sim: registered_network ledger_host sim_host "\<lambda>w i. sim_contracts w i" "\<lambda>w. set (sim_ids w)" "''hooks.wasm''"
proof unfold_locales
  fix c func params i w source network out w'
  assume "request c = (func, params)" and "i \<in> set (sim_ids w)"
    and "run_stellar sim_host w (invoke_args (Some source) i network func params) = (Inr out, w')" and "run_ok out"
  then show "set (sim_ids w') = set (sim_ids w) \<and>
      (\<exists>e. quiet ledger_host (sim_contracts w i) e \<and> dispatch ledger_host e c = Some (Inr (), sim_contracts w' i))"
    using parse_request [of c]
    by (auto simp: sim_host_def sim_stellar_invoke sim_invoke_def Let_def run_ok_shown
        intro!: exI [of _ "(sim_contracts w i)\<lparr>l_signers := [source]\<rparr>"] quiet_signers)
next
  fix path source network params w out w' i
  assume "run_stellar sim_host w (deploy_args path source network params) = (Inr out, w')" and "run_ok out"
    and "parse_deployed_id (run_stdout out) = Some i"
  then show "i \<notin> set (sim_ids w) \<and> set (sim_ids w') = insert i (set (sim_ids w)) \<and>
      (\<forall>j\<in>set (sim_ids w). quiet ledger_host (sim_contracts w j) (sim_contracts w' j)) \<and>
      (path = ''hooks.wasm'' \<longrightarrow> pristine ledger_host (sim_contracts w' i))"
    using sim_new_ids_parse blank_pristine
    by (auto simp: sim_host_def sim_stellar_deploy sim_deploy_def failed_def said_def list_all_iff find_Some_iff
        split: option.splits)
next
  fix args w r w'
  assume "args = network_list_args \<or> (\<exists>network rpc passphrase. args = network_add_args network rpc passphrase)"
    and "run_stellar sim_host w args = (r, w')"
  then show "set (sim_ids w') = set (sim_ids w) \<and>
      (\<forall>i\<in>set (sim_ids w). quiet ledger_host (sim_contracts w i) (sim_contracts w' i))"
    by (auto simp: sim_host_def sim_stellar_network)
qed (simp_all add: sim_host_def)

section \<open>Its views\<close>

abbreviation sim_answers :: "sim_world \<Rightarrow> string list \<Rightarrow> string + run_outcome" where
  "sim_answers w args \<equiv> fst (sim_stellar w args)"

lemma sim_views_purely: "views_purely sim_host (sim_answers w) w"
  by (simp add: views_purely_def sim_host_def sim_stellar_view)

lemma marker_not_in_newline: "\<not> sublist revert_marker [newline]"
  unfolding text_find_None [symmetric] by (simp add: revert_marker_def newline_def)

lemma shown_relays: "relays (Inr (shown_reply reply)) reply"
  using marker_not_in_newline
  by (auto simp: relays_def shown_reply_def said_def failed_def
      split: option.splits prod.splits sum.splits intro!: exI [of _ "[]"])

lemma sim_relays_transfers:
  "relays_transfers ledger_host (sim_contracts w (dep_hooks_contract_id cfg)) (sim_answers w) cfg source_account account"
  by (auto simp: relays_transfers_def sim_stellar_view sim_view_def param_args_def shown_relays)

text \<open>Values that are shown as they are.\<close>

definition plain :: "string \<Rightarrow> bool" where
  "plain s \<longleftrightarrow> outcome_value (said s) = Some s \<and> unquote s = s \<and> text_trim s = s \<and> s \<noteq> [] \<and> s \<noteq> ''null''"

lemma plain_constants: "plain ''true''" "plain ''false''" "plain ''{}''" "plain ''0''" "plain ''1''"
    "unquote ''null'' = ''null''" "outcome_value (said ''null'') = Some ''null''"
  by code_simp+

lemma says_said: "outcome_value (said s) = Some s \<Longrightarrow> says (read_view (Inr (said s))) P \<longleftrightarrow> P s"
  by (simp add: says_def read_view_def) (simp add: said_def)

lemma plain_said: "plain s \<Longrightarrow> says (read_view (Inr (said s))) P \<longleftrightarrow> P s"
  by (simp add: plain_def says_said)

lemma plain_bool: "plain (bool_text b)"
  by (cases b) (simp_all add: bool_text_def plain_constants)

lemma sim_relays_reads:
  assumes "well_typed ledger_host (sim_contracts w (dep_hooks_contract_id cfg))"
    and "\<And>a. st_admin (state_of ledger_host (sim_contracts w (dep_hooks_contract_id cfg))) = Some a \<Longrightarrow> plain a"
    and "\<And>c p. st_config (state_of ledger_host (sim_contracts w (dep_hooks_contract_id cfg))) = Some c \<Longrightarrow>
      cfg_policy c = Some p \<Longrightarrow> plain p \<and> p \<noteq> ''{}''"
    and "\<And>n. st_config_version (state_of ledger_host (sim_contracts w (dep_hooks_contract_id cfg))) = Some n \<Longrightarrow>
      plain (u32_text n)"
    and "\<And>n. st_version (state_of ledger_host (sim_contracts w (dep_hooks_contract_id cfg))) = Some n \<Longrightarrow>
      plain (u32_text n)"
  shows "relays_reads ledger_host (sim_contracts w (dep_hooks_contract_id cfg)) sim_codec (sim_answers w) cfg source_account"
proof -
  let ?e = "sim_contracts w (dep_hooks_contract_id cfg)"
  note reads = read_admin_def read_initialized_def read_config_def read_config_version_def
      read_state_version_def read_token_is_bound_def is_initialized_def
      ledger_contract.stored_admin_eq [OF assms(1)] ledger_contract.compliance_config_eq [OF assms(1)]
      ledger_contract.storage_version_eq [OF assms(1)] ledger_contract.storage_config_version_eq [OF assms(1)]
      ledger_contract.is_token_bound_eq [OF assms(1)]
  have ask: "ask_view (sim_answers w) cfg source_account func params = read_view (Inr (sim_view ?e func (param_args params)))"
    for func params by (simp add: ask_view_def sim_stellar_view)
  have null: "says (read_view (Inr (said ''null''))) P \<longleftrightarrow> P ''null''" for P
    by (rule says_said) (rule plain_constants)
  have number: "says (read_view (Inr (said (u32_text (case n of None \<Rightarrow> 0 | Some k \<Rightarrow> k)))))
      (\<lambda>v. text_trim v = u32_text (case n of None \<Rightarrow> 0 | Some k \<Rightarrow> k))"
    if "\<And>k. n = Some k \<Longrightarrow> plain (u32_text k)" for n :: "u32 option"
  proof -
    have "u32_text 0 = ''0''" by code_simp
    then have "plain (u32_text 0)" by (simp only: plain_constants(4))
    with that have "plain (u32_text (case n of None \<Rightarrow> 0 | Some k \<Rightarrow> k))" by (cases n) simp_all
    then show ?thesis by (simp add: plain_said) (simp add: plain_def)
  qed
  have config: "says (read_view (Inr (said (shown_option shown_config (Some c))))) (shows_option (shows_config sim_codec) c)"
    if "\<And>x p. c = Some x \<Longrightarrow> cfg_policy x = Some p \<Longrightarrow> plain p \<and> p \<noteq> ''{}''" for c
  proof (cases c)
    case None
    then show ?thesis by (simp add: shown_option_def null shows_option_def plain_constants)
  next
    case (Some x)
    have "plain (shown_config x)"
      using that [OF Some] by (cases "cfg_policy x") (simp_all add: shown_config_def plain_constants)
    then show ?thesis
      using that [OF Some] Some plain_constants(3)
      by (simp add: shown_option_def shows_option_def plain_said)
        (cases "cfg_policy x"; simp add: shows_config_def shown_config_def plain_def sim_codec_def)
  qed
  have admin: "says (read_view (Inr (said (shown_option id (Some a))))) (shows_option (\<lambda>a v. unquote v = a) a)"
    if "\<And>x. a = Some x \<Longrightarrow> plain x" for a
    using that by (cases a) (auto simp: shown_option_def shows_option_def null plain_constants plain_said, simp add: plain_def)
  have flag: "says (read_view (Inr (said (bool_text b)))) (\<lambda>v. unquote v = bool_text b)" for b
    using plain_bool [of b] by (simp add: plain_said) (simp add: plain_def)
  show ?thesis
    unfolding relays_reads_def Let_def ask
    using number [OF assms(4)] number [OF assms(5)] config [OF assms(3)] admin [OF assms(2)] flag
    by (simp add: sim_view_def reads param_args_def)
qed

section \<open>Bring-up succeeds\<close>

text \<open>
  On this network the bring-up of any record succeeds when the source key is the recorded admin: every
  invocation it sends is one the contract accepts.
\<close>

lemma sim_println [simp]: "println sim_host line w = (Inr (), w)"
  by (simp add: println_def sim_host_def)

lemma sim_send:
  assumes "i \<in> set (sim_ids w)" and "reachable ledger_host (sim_contracts w i)" and "hook_of c = None"
    and "\<And>signs ask. signs source \<Longrightarrow> spec_step (state_of ledger_host (sim_contracts w i)) signs ask c = Done st evs"
  shows "\<exists>e. hooks_invoke sim_host source i network (fst (request c)) (snd (request c)) w =
      (Inr (), w\<lparr>sim_contracts := (sim_contracts w)(i := e)\<rparr>) \<and>
    reachable ledger_host e \<and> state_of ledger_host e = st"
proof -
  let ?l = "(sim_contracts w i)\<lparr>l_signers := [source]\<rparr>"
  have q: "quiet ledger_host (sim_contracts w i) ?l" by (rule quiet_signers)
  have r: "reachable ledger_host ?l" by (rule reachable.environment [OF assms(2) q])
  have "authorized ledger_host ?l source" by (simp add: ledger_host_def)
  from assms(4) [of "authorized ledger_host ?l", OF this]
  have "implements ledger_host ?l (dispatch ledger_host ?l c) (Done st evs)"
    using ledger_contract.admin_call_implements [OF ledger_contract.well_typed_reachable [OF r] assms(3), of undefined]
    by (simp add: quiet_state_of [OF q])
  then obtain e where d: "dispatch ledger_host ?l c = Some (Inr (), e)" and st: "state_of ledger_host e = st"
    by (auto simp: implements_def split: option.splits prod.splits sum.splits)
  have "reachable ledger_host (invoke ledger_host ?l c)" by (rule reachable.call [OF r])
  with d st assms(1) show ?thesis
    by (intro exI [of _ e])
      (simp add: hooks_invoke_def and_do_def sim_host_def sim_stellar_invoke sim_invoke_def parse_request Let_def
        lift_result_def done_with_def interpret_outcome_def run_ok_shown invoke_def)
qed

lemma sim_bind_all:
  assumes "i \<in> set (sim_ids w)" and "reachable ledger_host (sim_contracts w i)"
    and "st_admin (state_of ledger_host (sim_contracts w i)) = Some source"
  shows "\<exists>w'. for_each ts (\<lambda>t.
      and_do (hooks_invoke sim_host source i network ''bind_token'' [(''token'', address_param (token_contract_id t)),
                                     (''sac'', opt_address (token_sac_contract_id t))]) (\<lambda>_.
      println sim_host (''bound token '' @ token_alias t))) w = (Inr (), w')"
  using assms
proof (induction ts arbitrary: w)
  case Nil
  then show ?case by (simp add: done_with_def)
next
  case (Cons t ts)
  let ?c = "BindToken (token_contract_id t) (token_sac_contract_id t)"
  let ?st = "state_of ledger_host (sim_contracts w i)"
  obtain st evs where b: "bound_to (token_contract_id t) \<lparr>binding_sac = token_sac_contract_id t\<rparr> ?st = Done st evs"
    using bound_to_commits by blast
  with Cons.prems(3) have admin: "st_admin st = Some source" by (auto dest: bound_to_Done)
  obtain e where s: "hooks_invoke sim_host source i network (fst (request ?c)) (snd (request ?c)) w =
      (Inr (), w\<lparr>sim_contracts := (sim_contracts w)(i := e)\<rparr>)"
    and e: "reachable ledger_host e" "state_of ledger_host e = st"
    using sim_send [OF Cons.prems(1,2), of ?c source st evs network] b Cons.prems(3) by (auto simp: admin_only_def)
  show ?case
    using Cons.IH [of "w\<lparr>sim_contracts := (sim_contracts w)(i := e)\<rparr>"] Cons.prems(1) e admin s
    by (simp add: and_do_def)
qed

lemma sim_bring_up:
  assumes "i \<in> set (sim_ids w)" and "pristine ledger_host (sim_contracts w i)"
    and "source = admin_public_key (dep_admin cfg)"
  shows "\<exists>w'. bring_up sim_host cfg source i pol sac w = (Inr (), w')"
proof -
  let ?send = "\<lambda>c. hooks_invoke sim_host source i (dep_network cfg) (fst (request c)) (snd (request c))"
  let ?st0 = "state_of ledger_host (sim_contracts w i)"
  let ?st1 = "?st0\<lparr>st_admin := Some source, st_version := Some VERSION\<rparr>"
  note blank = pristine_state [OF assms(2)]
  obtain e1 where s1: "?send (Initialize source) w = (Inr (), w\<lparr>sim_contracts := (sim_contracts w)(i := e1)\<rparr>)"
    and e1: "reachable ledger_host e1" "state_of ledger_host e1 = ?st1"
    using sim_send [OF assms(1) sim.pristine_reachable [OF assms(2)], of "Initialize source" source ?st1 "[InitializedEv source]"]
    by (auto simp: blank)
  let ?w1 = "w\<lparr>sim_contracts := (sim_contracts w)(i := e1)\<rparr>"
  obtain st2 evs2 where c: "configured \<lparr>cfg_policy = pol, cfg_sac_passthrough = sac\<rparr> ?st1 = Done st2 evs2"
    and st2: "st_admin st2 = Some source"
    using configured_commits [of ?st1 "\<lparr>cfg_policy = pol, cfg_sac_passthrough = sac\<rparr>"] by (auto simp: blank)
  obtain e2 where s2: "?send (SetConfig pol sac) ?w1 = (Inr (), ?w1\<lparr>sim_contracts := (sim_contracts ?w1)(i := e2)\<rparr>)"
    and e2: "reachable ledger_host e2" "state_of ledger_host e2 = st2"
    using sim_send [of i ?w1 "SetConfig pol sac" source st2 evs2 "dep_network cfg"] assms(1) e1 c
    by (auto simp: admin_only_def)
  let ?w2 = "?w1\<lparr>sim_contracts := (sim_contracts ?w1)(i := e2)\<rparr>"
  obtain w' where "for_each (dep_tokens cfg) (\<lambda>t.
      and_do (hooks_invoke sim_host source i (dep_network cfg) ''bind_token'' [(''token'', address_param (token_contract_id t)),
                                     (''sac'', opt_address (token_sac_contract_id t))]) (\<lambda>_.
      println sim_host (''bound token '' @ token_alias t))) ?w2 = (Inr (), w')"
    using sim_bind_all [of i ?w2 source "dep_tokens cfg" "dep_network cfg"] assms(1) e2 st2 by auto
  with s1 s2 show ?thesis
    unfolding bring_up_def Let_def assms(3) [symmetric] by (simp add: and_do_def)
qed

end
