(* ===== verification/Shown_State.thy ===== *)
theory Shown_State
  imports Simulated_Network
begin

text \<open>
  \<^verbatim>\<open>show\<close> against the contract: what \<open>app_show\<close> prints when the binary answers every read with the
  contract's value. \<open>shown_state\<close> is the printed text as a function of the enforcement state; how an
  address and a configuration are rendered as JSON is the binary's and stays a parameter.
\<close>

section \<open>What is printed\<close>

record rendering =
  render_address :: "address \<Rightarrow> string"
  render_config :: "compliance_config \<Rightarrow> string"

definition proper_rendering :: "rendering \<Rightarrow> bool" where
  "proper_rendering R \<longleftrightarrow> (\<forall>a. render_address R a \<noteq> ''null'') \<and> (\<forall>c. render_config R c \<noteq> ''null'')"

definition shown_header :: "rendering \<Rightarrow> deployment \<Rightarrow> enforcement \<Rightarrow> string list" where
  "shown_header R cfg st =
     [''hooks contract: '' @ dep_hooks_contract_id cfg, ''network: '' @ dep_network cfg,
      ''initialized: '' @ bool_text (st_admin st \<noteq> None),
      (case st_admin st of None \<Rightarrow> ''admin: (none)'' | Some a \<Rightarrow> ''admin: '' @ render_address R a),
      (case st_config st of
         None \<Rightarrow> ''config: null (enforcement off '' @ EM_DASH @ '' hooks fail closed)''
       | Some c \<Rightarrow> ''config: '' @ render_config R c),
      ''config_version: '' @ u32_text (case st_config_version st of None \<Rightarrow> 0 | Some n \<Rightarrow> n)]"

definition shown_token :: "enforcement \<Rightarrow> string option \<Rightarrow> string \<Rightarrow> string list" where
  "shown_token st account i =
     (''token '' @ i @ '': bound='' @ bool_text (st_bindings st i \<noteq> None)) #
     (case account of
        None \<Rightarrow> []
      | Some acc \<Rightarrow> [''  frozen('' @ acc @ '')='' @ bool_text (st_frozen st i acc)])"

definition shown_targets :: "deployment \<Rightarrow> string option \<Rightarrow> string + string list" where
  "shown_targets cfg tk =
     (case tk of
        Some t \<Rightarrow> map_sum id (\<lambda>i. [i]) (resolve_token cfg t)
      | None \<Rightarrow> Inr (map token_contract_id (dep_tokens cfg)))"

definition shown_tokens :: "enforcement \<Rightarrow> string option \<Rightarrow> string list \<Rightarrow> string list" where
  "shown_tokens st account ids =
     (if ids = [] then [''tokens: none configured''] else concat (map (shown_token st account) ids))"

text \<open>The lines an effect log printed, in order.\<close>

fun printed :: "effect list \<Rightarrow> string list" where
  "printed [] = []"
| "printed (Printed line # es) = line # printed es"
| "printed (_ # es) = printed es"

lemma printed_append [simp]: "printed (es @ es') = printed es @ printed es'"
  by (induction es rule: printed.induct) simp_all

section \<open>Answered reads\<close>

text \<open>Whatever happened before, the binary answers this read with that value line.\<close>

definition answers_read ::
  "'w cli_host \<Rightarrow> app \<Rightarrow> string \<Rightarrow> (string \<times> string) list \<Rightarrow> string \<Rightarrow> bool" where
  "answers_read C A func params v \<longleftrightarrow>
     (\<forall>w. \<exists>out w'. run_stellar C w (invoke_args (Some (app_source A)) (dep_hooks_contract_id (app_config A))
          (dep_network (app_config A)) func params) = (Inr out, w') \<and>
        run_ok out \<and> outcome_value out = Some v)"

definition or_null :: "('a \<Rightarrow> string) \<Rightarrow> 'a option \<Rightarrow> string" where
  "or_null render x = (case x of None \<Rightarrow> ''null'' | Some a \<Rightarrow> render a)"

text \<open>The contract ids that \<^verbatim>\<open>show\<close> asks about: none when the token cannot be resolved.\<close>

definition shown_ids :: "deployment \<Rightarrow> string option \<Rightarrow> string list" where
  "shown_ids cfg tk = (case shown_targets cfg tk of Inl _ \<Rightarrow> [] | Inr ids \<Rightarrow> ids)"

definition answers_reads ::
  "'s chost \<Rightarrow> 's \<Rightarrow> rendering \<Rightarrow> 'w cli_host \<Rightarrow> app \<Rightarrow> string option \<Rightarrow> string option \<Rightarrow> bool" where
  "answers_reads H e R C A tk account \<longleftrightarrow>
     (\<forall>b. read_initialized H e = Some b \<longrightarrow> answers_read C A ''initialized'' [] (bool_text b)) \<and>
     (\<forall>a. read_admin H e = Some a \<longrightarrow> answers_read C A ''admin'' [] (or_null (render_address R) a)) \<and>
     (\<forall>c. read_config H e = Some c \<longrightarrow> answers_read C A ''config'' [] (or_null (render_config R) c)) \<and>
     (\<forall>n. read_config_version H e = Some n \<longrightarrow> answers_read C A ''config_version'' [] (u32_text n)) \<and>
     (\<forall>i\<in>set (shown_ids (app_config A) tk).
        (\<forall>b e'. read_token_is_bound H e i = Some (b, e') \<longrightarrow>
           answers_read C A ''token_is_bound'' [(''token'', i)] (bool_text b)) \<and>
        (\<forall>acc\<in>set_option account. answers_read C A ''is_frozen'' [(''token'', i), (''account'', acc)]
           (bool_text (fst (read_is_frozen H e i acc)))))"

text \<open>
  \<open>printing A m r lines reads\<close>: from any world, \<open>m\<close> returns \<open>r\<close> after printing exactly \<open>lines\<close> and invoking
  exactly \<open>reads\<close> on the recorded contract, each in this order; it writes no file.
\<close>

type_synonym read = "string \<times> (string \<times> string) list"

definition read_command :: "app \<Rightarrow> read \<Rightarrow> string list" where
  "read_command A r = invoke_args (Some (app_source A)) (dep_hooks_contract_id (app_config A))
     (dep_network (app_config A)) (fst r) (snd r)"

definition did :: "app \<Rightarrow> string list \<Rightarrow> read list \<Rightarrow> effect list \<Rightarrow> bool" where
  "did A lines reads es \<longleftrightarrow> printed es = lines \<and> map fst (ran es) = map (read_command A) reads \<and> wrote es = []"

definition printing ::
  "app \<Rightarrow> ('w \<times> effect list \<Rightarrow> (string + 'a) \<times> ('w \<times> effect list)) \<Rightarrow> string + 'a \<Rightarrow> string list \<Rightarrow> read list \<Rightarrow> bool" where
  "printing A m r lines reads \<longleftrightarrow> (\<forall>w es. \<exists>w' new. m (w, es) = (r, (w', es @ new)) \<and> did A lines reads new)"

lemma did_append: "did A lines reads es \<Longrightarrow> did A lines' reads' es' \<Longrightarrow> did A (lines @ lines') (reads @ reads') (es @ es')"
  by (simp add: did_def)

lemma printingI:
  "(\<And>w es. \<exists>w' new. m (w, es) = (r, (w', es @ new)) \<and> did A lines reads new) \<Longrightarrow> printing A m r lines reads"
  by (simp add: printing_def)

lemma printing_println: "printing A (println (recording C) line) (Inr ()) [line] []"
  by (rule printingI) (simp add: recording_println did_def)

lemma printing_done: "printing A (done_with x) (Inr x) [] []"
  by (rule printingI) (simp add: done_with_def did_def)

lemma printing_fail: "printing A (fail_with msg) (Inl msg) [] []"
  by (rule printingI) (simp add: fail_with_def did_def)

lemma printing_then:
  assumes "printing A m (Inr x) lines reads" and "printing A (k x) r lines' reads'"
  shows "printing A (and_do m k) r (lines @ lines') (reads @ reads')"
proof (rule printingI)
  fix w es
  obtain w1 new1 where m: "m (w, es) = (Inr x, (w1, es @ new1))" "did A lines reads new1"
    using assms(1) unfolding printing_def by blast
  obtain w2 new2 where k: "k x (w1, es @ new1) = (r, (w2, (es @ new1) @ new2))" "did A lines' reads' new2"
    using assms(2) unfolding printing_def by blast
  show "\<exists>w' new. and_do m k (w, es) = (r, (w', es @ new)) \<and> did A (lines @ lines') (reads @ reads') new"
    using m k by (intro exI [of _ w2] exI [of _ "new1 @ new2"]) (simp add: and_do_def did_append)
qed

lemma printing_read:
  assumes "answers_read C A func params v"
  shows "printing A (app_read (recording C) A func params) (Inr (Some v)) [] [(func, params)]"
proof (rule printingI)
  fix w es
  let ?args = "invoke_args (Some (app_source A)) (dep_hooks_contract_id (app_config A)) (dep_network (app_config A)) func params"
  obtain out w' where "run_stellar C w ?args = (Inr out, w')" "run_ok out" "outcome_value out = Some v"
    using assms unfolding answers_read_def by blast
  then show "\<exists>w' new. app_read (recording C) A func params (w, es) = (Inr (Some v), (w', es @ new)) \<and>
      did A [] [(func, params)] new"
    by (intro exI [of _ w'] exI [of _ "[Ran ?args (Inr out)]"])
      (simp add: app_read_def app_invoke_def and_do_def recording_run lift_result_def interpret_outcome_def did_def
        read_command_def)
qed

text \<open>A read whose value is printed on the next line.\<close>

lemma printing_read_then:
  assumes "answers_read C A func params v" and "printing A (k (Some v)) r lines reads"
  shows "printing A (and_do (app_read (recording C) A func params) k) r lines ((func, params) # reads)"
  using printing_then [where k = k, OF printing_read [OF assms(1)] assms(2)] by simp

lemma printing_println_then:
  "printing A (k ()) r lines reads \<Longrightarrow> printing A (and_do (println (recording C) line) k) r (line # lines) reads"
  using printing_then [where k = k, OF printing_println, of A r lines reads C line] by simp

text \<open>A read followed by the line that shows its value.\<close>

lemma printing_read_line:
  assumes "answers_read C A func params v" and "line (Some v) = shown" and "printing A m r lines reads"
  shows "printing A (and_do (app_read (recording C) A func params) (\<lambda>x. and_do (println (recording C) (line x)) (\<lambda>_. m)))
    r (shown # lines) ((func, params) # reads)"
  by (rule printing_read_then [OF assms(1)]) (simp add: assms(2) printing_println_then [OF assms(3)])

lemma printing_for_each:
  assumes "\<And>x. x \<in> set xs \<Longrightarrow> printing A (body x) (Inr ()) (lines x) (reads x)"
  shows "printing A (for_each xs body) (Inr ()) (concat (map lines xs)) (concat (map reads xs))"
  using assms
proof (induction xs)
  case Nil
  show ?case by (simp add: printing_done)
next
  case (Cons x xs)
  have "printing A (and_do (body x) (\<lambda>_. for_each xs body)) (Inr ()) (lines x @ concat (map lines xs))
      (reads x @ concat (map reads xs))"
    by (rule printing_then) (use Cons in auto)
  then show ?case by simp
qed

section \<open>The printed state\<close>

text \<open>What is read, in order.\<close>

definition header_reads :: "read list" where
  "header_reads = [(''initialized'', []), (''admin'', []), (''config'', []), (''config_version'', [])]"

definition token_reads :: "string option \<Rightarrow> string \<Rightarrow> read list" where
  "token_reads account i =
     (''token_is_bound'', [(''token'', i)]) #
     (case account of None \<Rightarrow> [] | Some acc \<Rightarrow> [(''is_frozen'', [(''token'', i), (''account'', acc)])])"

lemma bool_text_nonempty: "bool_text b \<noteq> []"
  by (simp add: bool_text_def)

lemma u32_text_nonempty: "u32_text n \<noteq> []"
  using nat_text_digits [of "unat n"] by (simp add: u32_text_def)

lemma value_or_nonempty: "s \<noteq> [] \<Longrightarrow> value_or (Some s) fallback = s"
  by (simp add: value_or_def)

lemma answered_state:
  assumes "contract_host H" and "well_typed H e" and "answers_reads H e R C A tk account"
  shows "answers_read C A ''initialized'' [] (bool_text (st_admin (state_of H e) \<noteq> None))"
    and "answers_read C A ''admin'' [] (or_null (render_address R) (st_admin (state_of H e)))"
    and "answers_read C A ''config'' [] (or_null (render_config R) (st_config (state_of H e)))"
    and "answers_read C A ''config_version'' []
      (u32_text (case st_config_version (state_of H e) of None \<Rightarrow> 0 | Some n \<Rightarrow> n))"
    and "i \<in> set (shown_ids (app_config A) tk) \<Longrightarrow>
      answers_read C A ''token_is_bound'' [(''token'', i)] (bool_text (st_bindings (state_of H e) i \<noteq> None))"
    and "i \<in> set (shown_ids (app_config A) tk) \<Longrightarrow> acc \<in> set_option account \<Longrightarrow>
      answers_read C A ''is_frozen'' [(''token'', i), (''account'', acc)] (bool_text (st_frozen (state_of H e) i acc))"
  using assms(3)
  by (auto simp: answers_reads_def read_initialized_def read_admin_def read_config_def read_config_version_def
      read_token_is_bound_def read_is_frozen_def is_initialized_def contract_host.stored_admin_eq [OF assms(1,2)]
      contract_host.compliance_config_eq [OF assms(1,2)] contract_host.storage_config_version_eq [OF assms(1,2)]
      contract_host.is_token_bound_eq [OF assms(1,2)] contract_host.storage_is_frozen_eq [OF assms(1)])

lemma show_target_prints:
  assumes "answers_read C A ''token_is_bound'' [(''token'', i)] (bool_text (st_bindings st i \<noteq> None))"
    and "\<And>acc. acc \<in> set_option account \<Longrightarrow>
      answers_read C A ''is_frozen'' [(''token'', i), (''account'', acc)] (bool_text (st_frozen st i acc))"
  shows "printing A (show_target (recording C) A account i) (Inr ()) (shown_token st account i) (token_reads account i)"
  using assms(2)
  by (cases account)
    (auto simp: show_target_def shown_token_def token_reads_def address_param_def value_or_nonempty bool_text_nonempty
      intro!: printing_read_then [OF assms(1)] printing_read_then printing_println_then printing_println printing_done)

text \<open>The tail of the report: the requested token, or all recorded ones.\<close>

definition show_rest :: "'w cli_host \<Rightarrow> app \<Rightarrow> string option \<Rightarrow> string option \<Rightarrow> ('w, unit) action" where
  "show_rest C A tk account =
     (case tk of
        Some t \<Rightarrow> and_do (lift_result (resolve_token (app_config A) t)) (\<lambda>i. for_each [i] (show_target C A account))
      | None \<Rightarrow>
          if dep_tokens (app_config A) = [] then println C ''tokens: none configured''
          else for_each (map token_contract_id (dep_tokens (app_config A))) (show_target C A account))"

lemma show_rest_prints:
  assumes "\<And>i. i \<in> set (shown_ids (app_config A) tk) \<Longrightarrow>
      printing A (show_target (recording C) A account i) (Inr ()) (shown_token st account i) (token_reads account i)"
  shows "case shown_targets (app_config A) tk of
      Inl msg \<Rightarrow> printing A (show_rest (recording C) A tk account) (Inl msg) [] []
    | Inr ids \<Rightarrow> printing A (show_rest (recording C) A tk account) (Inr ())
        (shown_tokens st account ids) (concat (map (token_reads account) ids))"
proof (cases tk)
  case None
  then show ?thesis
    using printing_for_each [of "map token_contract_id (dep_tokens (app_config A))" A "show_target (recording C) A account"
        "shown_token st account" "token_reads account"] assms
    by (simp add: show_rest_def shown_targets_def shown_tokens_def shown_ids_def printing_println comp_def)
next
  case (Some t)
  then show ?thesis
    using printing_for_each [of "[i]" A "show_target (recording C) A account" "shown_token st account"
        "token_reads account" for i] assms
    by (cases "resolve_token (app_config A) t")
      (simp_all add: show_rest_def shown_targets_def shown_tokens_def shown_ids_def printing_fail del: for_each.simps)
qed

lemma app_show_rest:
  "app_show C A tk account =
     and_do (println C (''hooks contract: '' @ dep_hooks_contract_id (app_config A))) (\<lambda>_.
     and_do (println C (''network: '' @ dep_network (app_config A))) (\<lambda>_.
     and_do (app_read C A ''initialized'' []) (\<lambda>initialized.
     and_do (println C (''initialized: '' @ value_or initialized ''?'')) (\<lambda>_.
     and_do (app_read C A ''admin'' []) (\<lambda>admin.
     and_do (println C (case admin of
               None \<Rightarrow> ''admin: (none)''
             | Some a \<Rightarrow> if a = ''null'' then ''admin: (none)'' else ''admin: '' @ a)) (\<lambda>_.
     and_do (app_read C A ''config'' []) (\<lambda>config.
     and_do (println C (case config of
               None \<Rightarrow> ''config: null (enforcement off '' @ EM_DASH @ '' hooks fail closed)''
             | Some c \<Rightarrow> if c = ''null'' then ''config: null (enforcement off '' @ EM_DASH @ '' hooks fail closed)''
                         else ''config: '' @ c)) (\<lambda>_.
     and_do (app_read C A ''config_version'' []) (\<lambda>version.
     and_do (println C (''config_version: '' @ value_or version ''?'')) (\<lambda>_.
     show_rest C A tk account))))))))))"
  unfolding app_show_def show_rest_def by (rule refl)

lemma show_header_prints:
  assumes "contract_host H" and "well_typed H e" and "proper_rendering R" and "answers_reads H e R C A tk account"
    and "printing A (show_rest (recording C) A tk account) r lines reads"
  shows "printing A (app_show (recording C) A tk account) r (shown_header R (app_config A) (state_of H e) @ lines)
    (header_reads @ reads)"
proof -
  note answers = answered_state [OF assms(1,2,4)]
  have R: "render_address R a \<noteq> ''null''" "render_config R c \<noteq> ''null''" for a c
    using assms(3) by (simp_all add: proper_rendering_def)
  show ?thesis
    unfolding app_show_rest shown_header_def header_reads_def append_Cons append_Nil
    by (rule printing_println_then, rule printing_println_then,
        rule printing_read_line [OF answers(1)],
        rule value_or_nonempty [OF bool_text_nonempty, THEN arg_cong],
        rule printing_read_line [OF answers(2)],
        simp add: or_null_def R split: option.splits,
        rule printing_read_line [OF answers(3)],
        simp add: or_null_def R split: option.splits,
        rule printing_read_line [OF answers(4)],
        rule value_or_nonempty [OF u32_text_nonempty, THEN arg_cong], rule assms(5))
qed

text \<open>C32: \<^verbatim>\<open>show\<close> prints the contract's state: when the binary answers each read that \<^verbatim>\<open>show\<close> makes with the
  contract's value, \<^verbatim>\<open>show\<close> prints exactly the recorded ids, the admin, the configuration and its version,
  and for the requested token (or every recorded one) whether it is bound and the account frozen, as the
  state of the contract has them. The commands it runs are exactly these reads, in this order, and it
  writes no file. A token that cannot be resolved is an error only after the header, that is after the
  four reads of the header have been made.\<close>

theorem show_prints_the_contract:
  assumes "contract_host H" and "well_typed H e" and "proper_rendering R" and "answers_reads H e R C A tk account"
  shows "case shown_targets (app_config A) tk of
      Inl msg \<Rightarrow> printing A (app_show (recording C) A tk account) (Inl msg)
        (shown_header R (app_config A) (state_of H e))
        [(''initialized'', []), (''admin'', []), (''config'', []), (''config_version'', [])]
    | Inr ids \<Rightarrow> printing A (app_show (recording C) A tk account) (Inr ())
        (shown_header R (app_config A) (state_of H e) @ shown_tokens (state_of H e) account ids)
        ([(''initialized'', []), (''admin'', []), (''config'', []), (''config_version'', [])] @
          concat (map (token_reads account) ids))"
proof -
  note answers = answered_state [OF assms(1,2,4)]
  have targets: "printing A (show_target (recording C) A account i) (Inr ()) (shown_token (state_of H e) account i)
      (token_reads account i)" if "i \<in> set (shown_ids (app_config A) tk)" for i
    using that by (intro show_target_prints answers(5,6))
  show ?thesis
    using show_rest_prints [OF targets] show_header_prints [OF assms]
    by (cases "shown_targets (app_config A) tk") (fastforce simp: header_reads_def)+
qed

text \<open>A binary in front of the demonstration ledger.\<close>

definition show_rendering :: rendering where
  "show_rendering = \<lparr>render_address = (\<lambda>a. CHR ''@'' # a), render_config = (\<lambda>_. ''{}'')\<rparr>"

definition show_answers :: "string list \<Rightarrow> string + run_outcome" where
  "show_answers args =
     (let func = args ! 9 in
      Inr (said
        (if func = ''initialized'' then ''true''
         else if func = ''admin'' then ''@GADMIN''
         else if func = ''config'' then ''{}''
         else if func = ''config_version'' then ''1''
         else if func = ''token_is_bound'' then bool_text (args ! 11 = ''CTOKEN'')
         else bool_text (args ! 11 = ''CTOKEN'' \<and> args ! 13 = ''GFROZEN''))))"

lemma said_values:
  "outcome_value (said ''true'') = Some ''true''" "outcome_value (said ''@GADMIN'') = Some ''@GADMIN''"
  "outcome_value (said ''{}'') = Some ''{}''" "outcome_value (said ''1'') = Some ''1''"
  "outcome_value (said (bool_text b)) = Some (bool_text b)"
proof -
  have "outcome_value (said ''true'') = Some ''true'' \<and> outcome_value (said ''false'') = Some ''false''" by code_simp
  then show "outcome_value (said ''true'') = Some ''true''" "outcome_value (said (bool_text b)) = Some (bool_text b)"
    by (simp_all add: bool_text_def)
qed code_simp+

lemma demo_answers:
  "answers_reads ledger_host demo_ledger show_rendering (steady_host show_answers) demo_app tk account"
proof -
  have one: "u32_text 1 = ''1''" by code_simp
  have bound: "(\<exists>b. st_bindings (state_of ledger_host demo_ledger) tk = Some b) \<longleftrightarrow> tk = ''CTOKEN''" for tk
    using demo_facts(3) demo_unbound [of tk] by (cases "tk = ''CTOKEN''") simp_all
  have true: "''true'' = bool_text True" by (simp add: bool_text_def)
  have ok: "run_ok (said v)" for v by (simp add: said_def)
  show ?thesis
    by (auto simp: answers_reads_def answers_read_def read_initialized_def read_admin_def read_config_def
        read_config_version_def read_token_is_bound_def read_is_frozen_def is_initialized_def
        ledger_contract.stored_admin_eq [OF demo_well_typed] ledger_contract.compliance_config_eq [OF demo_well_typed]
        ledger_contract.storage_config_version_eq [OF demo_well_typed] ledger_contract.is_token_bound_eq [OF demo_well_typed]
        ledger_contract.storage_is_frozen_eq demo_facts demo_versions bound ok true [symmetric] steady_host_def show_answers_def
        invoke_args_def param_args_def demo_app_def or_null_def show_rendering_def said_values one Let_def bool_text_true)
qed

theorem show_prints_the_contract_witness:
  "\<exists>w' new. app_show (recording (steady_host show_answers)) demo_app (Some ''CTOKEN'') (Some ''GFROZEN'') ((), []) =
     (Inr (), (w', new)) \<and> last (printed new) = ''  frozen(GFROZEN)=true'' \<and> length (ran new) = 6"
proof -
  have "proper_rendering show_rendering" by (simp add: proper_rendering_def show_rendering_def)
  from show_prints_the_contract [OF ledger_hosts(1) demo_well_typed this demo_answers, of "Some ''CTOKEN''" "Some ''GFROZEN''"]
  have "printing demo_app (app_show (recording (steady_host show_answers)) demo_app (Some ''CTOKEN'') (Some ''GFROZEN''))
      (Inr ()) (shown_header show_rendering (app_config demo_app) (state_of ledger_host demo_ledger) @
       shown_tokens (state_of ledger_host demo_ledger) (Some ''GFROZEN'') [''CTOKEN''])
      ([(''initialized'', []), (''admin'', []), (''config'', []), (''config_version'', [])] @
       token_reads (Some ''GFROZEN'') ''CTOKEN'')"
    by (simp add: shown_targets_def resolve_token_def demo_app_def demo_deployment_def starts_with_def)
  then obtain w' new where run: "app_show (recording (steady_host show_answers)) demo_app (Some ''CTOKEN'')
      (Some ''GFROZEN'') ((), []) = (Inr (), (w', [] @ new))"
    and "printed new = shown_header show_rendering (app_config demo_app) (state_of ledger_host demo_ledger) @
       shown_tokens (state_of ledger_host demo_ledger) (Some ''GFROZEN'') [''CTOKEN'']"
    and "map fst (ran new) = map (read_command demo_app) ([(''initialized'', []), (''admin'', []), (''config'', []),
       (''config_version'', [])] @ token_reads (Some ''GFROZEN'') ''CTOKEN'')"
    unfolding printing_def did_def by blast
  moreover from this(3) have "length (ran new) = 6"
    by (auto dest: arg_cong [where f = length] simp: token_reads_def)
  ultimately show ?thesis
    by (intro exI [of _ w'] exI [of _ new]) (simp add: shown_tokens_def shown_token_def demo_facts bool_text_def)
qed

end
