(* ===== verification/Test_Bed.thy ===== *)
theory Test_Bed
  imports Sample_Policy
begin

text \<open>
  The environment in which the unit suites of the crates run: \<^verbatim>\<open>Env\<close> of the SDK's test utilities with one
  contract under test, the contracts the suites register beside it, and the steps a test function is
  made of. \<open>bed_host\<close> is a host in the sense of \<open>soroban_host\<close>, so the suites run the very definitions
  the properties are about. Generated addresses are \<open>g Alice\<close>, \<open>g Bob\<close>, ... for an arbitrary injective \<open>g\<close>
  (\<^verbatim>\<open>Address::generate\<close> never repeats itself), and a new persistent entry lives \<open>bed_lifetime\<close> ledgers.
\<close>

named_theorems bed_code

section \<open>The contracts registered by the suites\<close>

datatype actor =
    TheToken | TokenB | Alice | Bob | Carol | Delegate | Stranger | Operator | Newcomer
  | TheSac | SacB | ThePolicy | PolicyB | Ghost

type_synonym generator = "actor \<Rightarrow> address"

definition denylist_is_authorized :: "address option \<Rightarrow> address \<Rightarrow> address \<Rightarrow> address \<Rightarrow> bool" where
  "denylist_is_authorized blocked bound acc tk \<longleftrightarrow> tk = bound \<and> Some acc \<noteq> blocked"

definition multi_token_is_authorized :: "address option \<Rightarrow> address \<Rightarrow> address \<Rightarrow> bool" where
  "multi_token_is_authorized blocked acc tk \<longleftrightarrow> Some acc \<noteq> blocked"

definition whitelist_is_authorized :: "address \<Rightarrow> address \<Rightarrow> address \<Rightarrow> address \<Rightarrow> bool" where
  "whitelist_is_authorized allowed bound acc tk \<longleftrightarrow> acc = allowed \<and> tk = bound"

text \<open>The counter is a \<^verbatim>\<open>u32\<close>; its overflow is a panic of the policy.\<close>

definition counting_is_authorized :: "address \<Rightarrow> u32 \<Rightarrow> address \<Rightarrow> address \<Rightarrow> (bool \<times> u32) option" where
  "counting_is_authorized bound calls acc tk =
     (if tk \<noteq> bound then Some (False, calls)
      else map_option (\<lambda>n. (True, n)) (checked_add calls 1))"

definition mock_sac_authorized :: "address \<Rightarrow> address \<Rightarrow> address \<Rightarrow> bool" where
  "mock_sac_authorized a b i \<longleftrightarrow> i = a \<or> i = b"

definition single_sac_authorized :: "address \<Rightarrow> address \<Rightarrow> bool" where
  "single_sac_authorized authorized_account i \<longleftrightarrow> i = authorized_account"

datatype double =
    DenylistPolicy "address option" address
  | MultiTokenPolicy "address option"
  | WhitelistPolicy address address
  | CountingPolicy address u32
  | RevertingPolicy
  | MockSac address address
  | SingleSac address
  | RevertingSac

text \<open>A call on a registered contract: \<open>None\<close> is a panic, a missing function or a wrong arity.\<close>

fun policy_double :: "double \<Rightarrow> address \<Rightarrow> address \<Rightarrow> (bool \<times> double) option" where
  "policy_double (DenylistPolicy blocked bound) acc tk =
     Some (denylist_is_authorized blocked bound acc tk, DenylistPolicy blocked bound)"
| "policy_double (MultiTokenPolicy blocked) acc tk =
     Some (multi_token_is_authorized blocked acc tk, MultiTokenPolicy blocked)"
| "policy_double (WhitelistPolicy allowed bound) acc tk =
     Some (whitelist_is_authorized allowed bound acc tk, WhitelistPolicy allowed bound)"
| "policy_double (CountingPolicy bound calls) acc tk =
     map_option (\<lambda>(ok, n). (ok, CountingPolicy bound n)) (counting_is_authorized bound calls acc tk)"
| "policy_double _ acc tk = None"

fun sac_double :: "double \<Rightarrow> address \<Rightarrow> (bool \<times> double) option" where
  "sac_double (MockSac a b) i = Some (mock_sac_authorized a b i, MockSac a b)"
| "sac_double (SingleSac a) i = Some (single_sac_authorized a i, SingleSac a)"
| "sac_double _ i = None"

definition call_double :: "double \<Rightarrow> string \<Rightarrow> address list \<Rightarrow> (bool \<times> double) option" where
  "call_double d f args =
     (case args of
        [acc, tk] \<Rightarrow> if f = POLICY_FN then policy_double d acc tk else None
      | [i] \<Rightarrow> if f = SAC_AUTHORIZED_FN then sac_double d i else None
      | _ \<Rightarrow> None)"

section \<open>The test host\<close>

record bed =
  bed_instance :: "data_key \<Rightarrow> stored option"
  bed_persistent :: "data_key \<Rightarrow> stored option"
  bed_ttl :: "data_key \<Rightarrow> u32"
  bed_lifetime :: u32
  bed_auths :: bool
  bed_log :: "event list"
  bed_doubles :: "address \<Rightarrow> double option"

definition renewed :: "bool \<Rightarrow> data_key \<Rightarrow> u32 \<Rightarrow> u32 \<Rightarrow> (data_key \<Rightarrow> u32) \<Rightarrow> data_key \<Rightarrow> u32" where
  "renewed present k lo hi ttl = (if present \<and> ttl k < lo \<and> ttl k < hi then ttl(k := hi) else ttl)"

definition created :: "bool \<Rightarrow> data_key \<Rightarrow> u32 \<Rightarrow> (data_key \<Rightarrow> u32) \<Rightarrow> data_key \<Rightarrow> u32" where
  "created present k life ttl = (if present then ttl else ttl(k := life))"

definition bed_invoke :: "bed \<Rightarrow> address \<Rightarrow> string \<Rightarrow> address list \<Rightarrow> view_result \<times> bed" where
  "bed_invoke b callee f args =
     (case Option.bind (bed_doubles b callee) (\<lambda>d. call_double d f args) of
        None \<Rightarrow> (Inl Abort, b)
      | Some (ok, d) \<Rightarrow> (Inr (Inr ok), b\<lparr>bed_doubles := (bed_doubles b)(callee \<mapsto> d)\<rparr>))"

definition bed_host :: "bed chost" where
  "bed_host =
    \<lparr>instance_has = (\<lambda>b k. bed_instance b k \<noteq> None),
     instance_get = bed_instance,
     instance_set = (\<lambda>b k v. b\<lparr>bed_instance := (bed_instance b)(k \<mapsto> v)\<rparr>),
     persistent_has = (\<lambda>b k. bed_persistent b k \<noteq> None),
     persistent_get = bed_persistent,
     persistent_set = (\<lambda>b k v. b\<lparr>bed_ttl := created (bed_persistent b k \<noteq> None) k (bed_lifetime b) (bed_ttl b),
       bed_persistent := (bed_persistent b)(k \<mapsto> v)\<rparr>),
     persistent_remove = (\<lambda>b k. b\<lparr>bed_persistent := (bed_persistent b)(k := None)\<rparr>),
     persistent_ttl = (\<lambda>b k. if bed_persistent b k = None then 0 else bed_ttl b k),
     extend_ttl = (\<lambda>b k lo hi. b\<lparr>bed_ttl := renewed (bed_persistent b k \<noteq> None) k lo hi (bed_ttl b)\<rparr>),
     authorized = (\<lambda>b _. bed_auths b),
     require_auth = (\<lambda>b _. if bed_auths b then Some b else None),
     published = bed_log,
     publish_event = (\<lambda>b ev. b\<lparr>bed_log := bed_log b @ [ev]\<rparr>),
     try_invoke = bed_invoke\<rparr>"

lemma bed_host_simps [bed_code]:
  "instance_has bed_host b k \<longleftrightarrow> bed_instance b k \<noteq> None"
  "instance_get bed_host b = bed_instance b"
  "instance_set bed_host b k v = b\<lparr>bed_instance := (bed_instance b)(k \<mapsto> v)\<rparr>"
  "persistent_has bed_host b k \<longleftrightarrow> bed_persistent b k \<noteq> None"
  "persistent_get bed_host b = bed_persistent b"
  "persistent_set bed_host b k v = b\<lparr>bed_ttl := created (bed_persistent b k \<noteq> None) k (bed_lifetime b) (bed_ttl b),
     bed_persistent := (bed_persistent b)(k \<mapsto> v)\<rparr>"
  "persistent_remove bed_host b k = b\<lparr>bed_persistent := (bed_persistent b)(k := None)\<rparr>"
  "persistent_ttl bed_host b k = (if bed_persistent b k = None then 0 else bed_ttl b k)"
  "extend_ttl bed_host b k lo hi = b\<lparr>bed_ttl := renewed (bed_persistent b k \<noteq> None) k lo hi (bed_ttl b)\<rparr>"
  "authorized bed_host b a = bed_auths b"
  "require_auth bed_host b a = (if bed_auths b then Some b else None)"
  "published bed_host b = bed_log b"
  "publish_event bed_host b ev = b\<lparr>bed_log := bed_log b @ [ev]\<rparr>"
  "try_invoke bed_host b callee f args = bed_invoke b callee f args"
  by (simp_all add: bed_host_def)

lemma bed_invoke_keeps:
  "bed_instance (snd (bed_invoke b c f args)) = bed_instance b"
  "bed_persistent (snd (bed_invoke b c f args)) = bed_persistent b"
  "bed_log (snd (bed_invoke b c f args)) = bed_log b"
  by (simp_all add: bed_invoke_def split: option.splits prod.splits)

interpretation bed: contract_host bed_host
  by unfold_locales
    (auto simp: bed_host_simps quiet_def same_entries_def renewed_def bed_invoke_keeps split: if_splits)

section \<open>The steps of a test\<close>

text \<open>\<open>None\<close> is a failed assertion or a panic of the test function.\<close>

type_synonym step = "bed \<Rightarrow> bed option"

fun run_test :: "bed \<Rightarrow> step list \<Rightarrow> bool" where
  "run_test b [] = True"
| "run_test b (s # steps) = (case s b of None \<Rightarrow> False | Some b' \<Rightarrow> run_test b' steps)"

definition host_env :: "u32 \<Rightarrow> bed" where
  "host_env life = \<lparr>bed_instance = Map.empty, bed_persistent = Map.empty, bed_ttl = (\<lambda>_. 0),
     bed_lifetime = life, bed_auths = False, bed_log = [], bed_doubles = Map.empty\<rparr>"

definition register :: "address \<Rightarrow> double \<Rightarrow> step" where
  "register a d b = Some (b\<lparr>bed_doubles := (bed_doubles b)(a \<mapsto> d)\<rparr>)"

definition as_contract :: "(bed \<Rightarrow> bed) \<Rightarrow> step" where
  "as_contract f b = Some (f b)"

definition assert_eq :: "(bed \<Rightarrow> ('a \<times> bed) option) \<Rightarrow> 'a \<Rightarrow> step" where
  "assert_eq f v b = (case f b of Some (x, b') \<Rightarrow> if x = v then Some b' else None | None \<Rightarrow> None)"

text \<open>A read that leaves the host as it is, and one that always answers.\<close>

definition looking :: "(bed \<Rightarrow> 'a option) \<Rightarrow> bed \<Rightarrow> ('a \<times> bed) option" where
  "looking f b = map_option (\<lambda>x. (x, b)) (f b)"

definition answering :: "(bed \<Rightarrow> 'a \<times> bed) \<Rightarrow> bed \<Rightarrow> ('a \<times> bed) option" where
  "answering f b = Some (f b)"

text \<open>
  One invocation of the contract under test: \<open>auths\<close> is \<^verbatim>\<open>mock_all_auths\<close>, the log starts empty, a trap or
  an error rolls back. The outer \<open>None\<close> of the outcome is a failure at the host level.
\<close>

definition opened :: "bool \<Rightarrow> bed \<Rightarrow> bed" where
  "opened auths b = b\<lparr>bed_auths := auths, bed_log := []\<rparr>"

definition invocation :: "bool \<Rightarrow> entry_call \<Rightarrow> bed \<Rightarrow> (contract_error + unit) option \<times> bed" where
  "invocation auths c b =
     (case dispatch bed_host (opened auths b) c of
        None \<Rightarrow> (None, opened auths b)
      | Some (Inl err, _) \<Rightarrow> (Some (Inl err), opened auths b)
      | Some (Inr u, b') \<Rightarrow> (Some (Inr u), b'))"

definition call_ok :: "entry_call \<Rightarrow> step" where
  "call_ok c b = (case invocation True c b of (Some (Inr _), b') \<Rightarrow> Some b' | _ \<Rightarrow> None)"

definition is_err :: "bool \<Rightarrow> entry_call \<Rightarrow> step" where
  "is_err auths c b = (case invocation auths c b of (Some (Inr _), _) \<Rightarrow> None | (_, b') \<Rightarrow> Some b')"

definition hook_result :: "entry_call \<Rightarrow> bed \<Rightarrow> ((contract_error + unit) \<times> bed) option" where
  "hook_result c b = (case invocation False c b of (None, _) \<Rightarrow> None | (Some r, b') \<Rightarrow> Some (r, b'))"

definition err_with :: "bool \<Rightarrow> entry_call \<Rightarrow> contract_error \<Rightarrow> step" where
  "err_with auths c err b =
     (case invocation auths c b of (Some (Inl err'), b') \<Rightarrow> if err' = err then Some b' else None | _ \<Rightarrow> None)"

definition client_read :: "(bed \<Rightarrow> ('a \<times> bed) option) \<Rightarrow> bed \<Rightarrow> ('a \<times> bed) option" where
  "client_read f b = f (opened False b)"

definition events_are :: "event list \<Rightarrow> step" where
  "events_are evs b = (if bed_log b = evs then Some b else None)"

lemmas step_defs =
  register_def as_contract_def assert_eq_def looking_def answering_def opened_def invocation_def call_ok_def
  is_err_def hook_result_def err_with_def client_read_def events_are_def

declare step_defs [bed_code]

lemmas double_defs =
  bed_invoke_def call_double_def POLICY_FN_def SAC_AUTHORIZED_FN_def denylist_is_authorized_def
  multi_token_is_authorized_def whitelist_is_authorized_def counting_is_authorized_def mock_sac_authorized_def
  single_sac_authorized_def

declare double_defs [bed_code] host_env_def [bed_code]

lemmas access_defs =
  stored_admin_def set_admin_def set_version_def storage_version_def compliance_config_def
  set_compliance_config_def storage_config_version_def bump_config_version_def token_binding_def
  is_token_bound_def storage_bind_def storage_unbind_def storage_is_frozen_def storage_freeze_def
  storage_unfreeze_def touch_def checked_add_one require_token_bound_def require_admin_def is_initialized_def

declare access_defs [bed_code]

lemmas pipeline_defs =
  evaluate_entry_defs evaluate_def screen_party_def gate_then_def freeze_gate_def policy_gate_def sac_gate_def
  policy_is_authorized_def sac_is_authorized_def Let_def

declare pipeline_defs [bed_code]

end
