(* ===== verification/Evaluator_Suite.thy ===== *)
theory Evaluator_Suite
  imports Test_Bed
begin

text \<open>
  The unit suite of the evaluation pipeline, the \<^verbatim>\<open>tests\<close> module of
  \<^verbatim>\<open>crates/compliance/src/evaluator.rs\<close>: every test function as a definition of the same name (two are
  renamed where another suite has the name), its calls and assertions in their order. Each test passes
  for all distinct addresses and every lifetime of new entries.
\<close>

section \<open>Fixture\<close>

definition eval_fixture :: "generator \<Rightarrow> u32 \<Rightarrow> bed" where
  "eval_fixture g life =
     storage_bind bed_host
       ((host_env life)\<lparr>bed_doubles := [g TheSac \<mapsto> MockSac (g Alice) (g Bob)]\<rparr>)
       (g TheToken) (Some (g TheSac))"

definition register_policy :: "generator \<Rightarrow> address option \<Rightarrow> double" where
  "register_policy g blocked = DenylistPolicy blocked (g TheToken)"

definition set_policy :: "address option \<Rightarrow> bool \<Rightarrow> step" where
  "set_policy pol passthrough b =
     set_compliance_config bed_host b \<lparr>cfg_policy = pol, cfg_sac_passthrough = passthrough\<rparr>"

definition policy_call_count :: "address \<Rightarrow> bed \<Rightarrow> (u32 \<times> bed) option" where
  "policy_call_count a b =
     (case bed_doubles b a of Some (CountingPolicy _ calls) \<Rightarrow> Some (calls, b) | _ \<Rightarrow> None)"

declare eval_fixture_def [bed_code] register_policy_def [bed_code] set_policy_def [bed_code]
  policy_call_count_def [bed_code]

section \<open>The tests\<close>

definition unconfigured_contract_denies_every_operation :: "generator \<Rightarrow> u32 \<Rightarrow> bool" where
  "unconfigured_contract_denies_every_operation g life = run_test (eval_fixture g life)
     [assert_eq (\<lambda>b. evaluate_deposit bed_host b (g TheToken) (g Alice) (g Bob)) (Deny InvalidConfiguration)]"

definition unbound_token_is_rejected_before_any_gate :: "generator \<Rightarrow> u32 \<Rightarrow> bool" where
  "unbound_token_is_rejected_before_any_gate g life = run_test (eval_fixture g life)
     [register (g ThePolicy) (register_policy g None),
      set_policy (Some (g ThePolicy)) False,
      assert_eq (\<lambda>b. evaluate_deposit bed_host b (g Stranger) (g Alice) (g Bob)) (Deny UnboundToken)]"

definition fully_compliant_operation_is_allowed :: "generator \<Rightarrow> u32 \<Rightarrow> bool" where
  "fully_compliant_operation_is_allowed g life = run_test (eval_fixture g life)
     [register (g ThePolicy) (register_policy g None),
      set_policy (Some (g ThePolicy)) False,
      assert_eq (\<lambda>b. evaluate_deposit bed_host b (g TheToken) (g Alice) (g Bob)) Allow]"

definition frozen_sender_is_rejected :: "generator \<Rightarrow> u32 \<Rightarrow> bool" where
  "frozen_sender_is_rejected g life = run_test (eval_fixture g life)
     [register (g ThePolicy) (register_policy g None),
      set_policy (Some (g ThePolicy)) False,
      as_contract (\<lambda>b. storage_freeze bed_host b (g TheToken) (g Alice)),
      assert_eq (\<lambda>b. evaluate_deposit bed_host b (g TheToken) (g Alice) (g Bob)) (Deny AccountFrozen)]"

definition frozen_recipient_is_rejected :: "generator \<Rightarrow> u32 \<Rightarrow> bool" where
  "frozen_recipient_is_rejected g life = run_test (eval_fixture g life)
     [register (g ThePolicy) (register_policy g None),
      set_policy (Some (g ThePolicy)) False,
      as_contract (\<lambda>b. storage_freeze bed_host b (g TheToken) (g Bob)),
      assert_eq (\<lambda>b. evaluate_deposit bed_host b (g TheToken) (g Alice) (g Bob)) (Deny AccountFrozen)]"

definition freeze_is_reported_before_a_later_policy_denial :: "generator \<Rightarrow> u32 \<Rightarrow> bool" where
  "freeze_is_reported_before_a_later_policy_denial g life = run_test (eval_fixture g life)
     [register (g ThePolicy) (register_policy g (Some (g Bob))),
      set_policy (Some (g ThePolicy)) False,
      as_contract (\<lambda>b. storage_freeze bed_host b (g TheToken) (g Alice)),
      assert_eq (\<lambda>b. evaluate_deposit bed_host b (g TheToken) (g Alice) (g Bob)) (Deny AccountFrozen)]"

definition blocked_sender_is_policy_denied :: "generator \<Rightarrow> u32 \<Rightarrow> bool" where
  "blocked_sender_is_policy_denied g life = run_test (eval_fixture g life)
     [register (g ThePolicy) (register_policy g (Some (g Alice))),
      set_policy (Some (g ThePolicy)) False,
      assert_eq (\<lambda>b. evaluate_deposit bed_host b (g TheToken) (g Alice) (g Bob)) (Deny PolicyDenied)]"

definition blocked_recipient_is_policy_denied :: "generator \<Rightarrow> u32 \<Rightarrow> bool" where
  "blocked_recipient_is_policy_denied g life = run_test (eval_fixture g life)
     [register (g ThePolicy) (register_policy g (Some (g Bob))),
      set_policy (Some (g ThePolicy)) False,
      assert_eq (\<lambda>b. evaluate_deposit bed_host b (g TheToken) (g Alice) (g Bob)) (Deny PolicyDenied)]"

definition reverting_policy_is_unavailable :: "generator \<Rightarrow> u32 \<Rightarrow> bool" where
  "reverting_policy_is_unavailable g life = run_test (eval_fixture g life)
     [register (g ThePolicy) RevertingPolicy,
      set_policy (Some (g ThePolicy)) False,
      assert_eq (\<lambda>b. evaluate_register bed_host b (g TheToken) (g Alice)) (Deny PolicyUnavailable)]"

definition missing_policy_gate_skips_policy_entirely :: "generator \<Rightarrow> u32 \<Rightarrow> bool" where
  "missing_policy_gate_skips_policy_entirely g life = run_test (eval_fixture g life)
     [set_policy None False,
      assert_eq (\<lambda>b. evaluate_register bed_host b (g TheToken) (g Alice)) Allow]"

definition sac_passthrough_denies_when_sac_deauthorizes :: "generator \<Rightarrow> u32 \<Rightarrow> bool" where
  "sac_passthrough_denies_when_sac_deauthorizes g life = run_test (eval_fixture g life)
     [set_policy None True,
      assert_eq (\<lambda>b. evaluate_deposit bed_host b (g TheToken) (g Carol) (g Alice)) (Deny SacAuthorizationFailed)]"

definition sac_passthrough_consults_the_sac :: "generator \<Rightarrow> u32 \<Rightarrow> bool" where
  "sac_passthrough_consults_the_sac g life = run_test (eval_fixture g life)
     [set_policy None True,
      assert_eq (\<lambda>b. evaluate_deposit bed_host b (g TheToken) (g Alice) (g Bob)) Allow]"

definition sac_is_not_consulted_when_passthrough_is_off :: "generator \<Rightarrow> u32 \<Rightarrow> bool" where
  "sac_is_not_consulted_when_passthrough_is_off g life = run_test (eval_fixture g life)
     [set_policy None False,
      assert_eq (\<lambda>b. evaluate_deposit bed_host b (g TheToken) (g Carol) (g Alice)) Allow]"

definition reverting_sac_denies :: "generator \<Rightarrow> u32 \<Rightarrow> bool" where
  "reverting_sac_denies g life = run_test (eval_fixture g life)
     [register (g SacB) RevertingSac,
      as_contract (\<lambda>b. storage_bind bed_host b (g TheToken) (Some (g SacB))),
      set_policy None True,
      assert_eq (\<lambda>b. evaluate_register bed_host b (g TheToken) (g Alice)) (Deny SacAuthorizationFailed)]"

definition withdraw_gates_the_exiting_account :: "generator \<Rightarrow> u32 \<Rightarrow> bool" where
  "withdraw_gates_the_exiting_account g life = run_test (eval_fixture g life)
     [set_policy None False,
      assert_eq (\<lambda>b. evaluate_withdraw bed_host b (g TheToken) (g Alice)) Allow,
      as_contract (\<lambda>b. storage_freeze bed_host b (g TheToken) (g Alice)),
      assert_eq (\<lambda>b. evaluate_withdraw bed_host b (g TheToken) (g Alice)) (Deny AccountFrozen)]"

definition register_gates_the_registered_account :: "generator \<Rightarrow> u32 \<Rightarrow> bool" where
  "register_gates_the_registered_account g life = run_test (eval_fixture g life)
     [register (g ThePolicy) (register_policy g (Some (g Bob))),
      set_policy (Some (g ThePolicy)) False,
      assert_eq (\<lambda>b. evaluate_register bed_host b (g TheToken) (g Alice)) Allow,
      assert_eq (\<lambda>b. evaluate_register bed_host b (g TheToken) (g Bob)) (Deny PolicyDenied)]"

definition delegated_transfer_allows_compliant_parties :: "generator \<Rightarrow> u32 \<Rightarrow> bool" where
  "delegated_transfer_allows_compliant_parties g life = run_test (eval_fixture g life)
     [register (g ThePolicy) (register_policy g None),
      set_policy (Some (g ThePolicy)) False,
      assert_eq (\<lambda>b. evaluate_transfer_from bed_host b (g TheToken) (g Delegate) (g Alice) (g Bob)) Allow]"

definition delegated_transfer_rejects_a_blocked_spender :: "generator \<Rightarrow> u32 \<Rightarrow> bool" where
  "delegated_transfer_rejects_a_blocked_spender g life = run_test (eval_fixture g life)
     [register (g ThePolicy) (register_policy g (Some (g Delegate))),
      set_policy (Some (g ThePolicy)) False,
      assert_eq (\<lambda>b. evaluate_transfer_from bed_host b (g TheToken) (g Delegate) (g Alice) (g Bob)) (Deny SpenderNotAuthorized)]"

definition delegated_transfer_gates_from_and_to_fully :: "generator \<Rightarrow> u32 \<Rightarrow> bool" where
  "delegated_transfer_gates_from_and_to_fully g life = run_test (eval_fixture g life)
     [register (g ThePolicy) (register_policy g (Some (g Bob))),
      set_policy (Some (g ThePolicy)) False,
      assert_eq (\<lambda>b. evaluate_transfer_from bed_host b (g TheToken) (g Delegate) (g Alice) (g Bob)) (Deny PolicyDenied)]"

definition delegated_spender_is_exempt_from_freeze_and_sac :: "generator \<Rightarrow> u32 \<Rightarrow> bool" where
  "delegated_spender_is_exempt_from_freeze_and_sac g life = run_test (eval_fixture g life)
     [register (g ThePolicy) (register_policy g None),
      set_policy (Some (g ThePolicy)) True,
      as_contract (\<lambda>b. storage_freeze bed_host b (g TheToken) (g Delegate)),
      assert_eq (\<lambda>b. evaluate_transfer_from bed_host b (g TheToken) (g Delegate) (g Alice) (g Bob)) Allow,
      as_contract (\<lambda>b. storage_freeze bed_host b (g TheToken) (g Alice)),
      assert_eq (\<lambda>b. evaluate_transfer_from bed_host b (g TheToken) (g Delegate) (g Alice) (g Bob)) (Deny AccountFrozen)]"

definition merge_gates_the_merging_account :: "generator \<Rightarrow> u32 \<Rightarrow> bool" where
  "merge_gates_the_merging_account g life = run_test (eval_fixture g life)
     [register (g ThePolicy) (register_policy g (Some (g Bob))),
      set_policy (Some (g ThePolicy)) False,
      assert_eq (\<lambda>b. evaluate_merge bed_host b (g TheToken) (g Alice)) Allow,
      assert_eq (\<lambda>b. evaluate_merge bed_host b (g TheToken) (g Bob)) (Deny PolicyDenied),
      as_contract (\<lambda>b. storage_freeze bed_host b (g TheToken) (g Alice)),
      assert_eq (\<lambda>b. evaluate_merge bed_host b (g TheToken) (g Alice)) (Deny AccountFrozen)]"

definition decisions_are_isolated_per_token :: "generator \<Rightarrow> u32 \<Rightarrow> bool" where
  "decisions_are_isolated_per_token g life = run_test (eval_fixture g life)
     [register (g ThePolicy) (register_policy g None),
      set_policy (Some (g ThePolicy)) False,
      as_contract (\<lambda>b. storage_bind bed_host b (g TokenB) None),
      assert_eq (\<lambda>b. evaluate_register bed_host b (g TheToken) (g Alice)) Allow,
      assert_eq (\<lambda>b. evaluate_register bed_host b (g TokenB) (g Alice)) (Deny PolicyDenied)]"

definition denials_short_circuit_before_the_policy_call :: "generator \<Rightarrow> u32 \<Rightarrow> bool" where
  "denials_short_circuit_before_the_policy_call g life = run_test (eval_fixture g life)
     [register (g ThePolicy) (CountingPolicy (g TheToken) 0),
      set_policy (Some (g ThePolicy)) False,
      assert_eq (\<lambda>b. evaluate_deposit bed_host b (g Stranger) (g Alice) (g Bob)) (Deny UnboundToken),
      assert_eq (policy_call_count (g ThePolicy)) 0,
      as_contract (\<lambda>b. storage_freeze bed_host b (g TheToken) (g Alice)),
      assert_eq (\<lambda>b. evaluate_deposit bed_host b (g TheToken) (g Alice) (g Bob)) (Deny AccountFrozen),
      assert_eq (policy_call_count (g ThePolicy)) 0,
      as_contract (\<lambda>b. storage_unfreeze bed_host b (g TheToken) (g Alice)),
      as_contract (\<lambda>b. storage_freeze bed_host b (g TheToken) (g Bob)),
      assert_eq (\<lambda>b. evaluate_deposit bed_host b (g TheToken) (g Alice) (g Bob)) (Deny AccountFrozen),
      assert_eq (policy_call_count (g ThePolicy)) 1]"

definition allowed_path_consults_the_policy_exactly_once_per_party :: "generator \<Rightarrow> u32 \<Rightarrow> bool" where
  "allowed_path_consults_the_policy_exactly_once_per_party g life = run_test (eval_fixture g life)
     [register (g ThePolicy) (CountingPolicy (g TheToken) 0),
      set_policy (Some (g ThePolicy)) False,
      assert_eq (\<lambda>b. evaluate_deposit bed_host b (g TheToken) (g Alice) (g Bob)) Allow,
      assert_eq (policy_call_count (g ThePolicy)) 2,
      assert_eq (\<lambda>b. evaluate_register bed_host b (g TheToken) (g Alice)) Allow,
      assert_eq (policy_call_count (g ThePolicy)) 3]"

section \<open>They pass\<close>

lemma evaluator_tests_1:
  assumes "inj g"
  shows "unconfigured_contract_denies_every_operation g life"
    "unbound_token_is_rejected_before_any_gate g life"
    "fully_compliant_operation_is_allowed g life"
    "frozen_sender_is_rejected g life"
    "frozen_recipient_is_rejected g life"
    "freeze_is_reported_before_a_later_policy_denial g life"
    "blocked_sender_is_policy_denied g life"
    "blocked_recipient_is_policy_denied g life"
  by (simp_all add: bed_code inj_eq [OF assms]
      unconfigured_contract_denies_every_operation_def unbound_token_is_rejected_before_any_gate_def
      fully_compliant_operation_is_allowed_def frozen_sender_is_rejected_def
      frozen_recipient_is_rejected_def freeze_is_reported_before_a_later_policy_denial_def
      blocked_sender_is_policy_denied_def blocked_recipient_is_policy_denied_def)

lemma evaluator_tests_2:
  assumes "inj g"
  shows "reverting_policy_is_unavailable g life"
    "missing_policy_gate_skips_policy_entirely g life"
    "sac_passthrough_denies_when_sac_deauthorizes g life"
    "sac_passthrough_consults_the_sac g life"
    "sac_is_not_consulted_when_passthrough_is_off g life"
    "reverting_sac_denies g life"
    "withdraw_gates_the_exiting_account g life"
    "register_gates_the_registered_account g life"
  by (simp_all add: bed_code inj_eq [OF assms]
      reverting_policy_is_unavailable_def missing_policy_gate_skips_policy_entirely_def
      sac_passthrough_denies_when_sac_deauthorizes_def sac_passthrough_consults_the_sac_def
      sac_is_not_consulted_when_passthrough_is_off_def reverting_sac_denies_def
      withdraw_gates_the_exiting_account_def register_gates_the_registered_account_def)

lemma evaluator_tests_3:
  assumes "inj g"
  shows "delegated_transfer_allows_compliant_parties g life"
    "delegated_transfer_rejects_a_blocked_spender g life"
    "delegated_transfer_gates_from_and_to_fully g life"
    "delegated_spender_is_exempt_from_freeze_and_sac g life"
    "merge_gates_the_merging_account g life"
    "decisions_are_isolated_per_token g life"
    "denials_short_circuit_before_the_policy_call g life"
    "allowed_path_consults_the_policy_exactly_once_per_party g life"
  by (simp_all add: bed_code inj_eq [OF assms]
      delegated_transfer_allows_compliant_parties_def delegated_transfer_rejects_a_blocked_spender_def
      delegated_transfer_gates_from_and_to_fully_def delegated_spender_is_exempt_from_freeze_and_sac_def
      merge_gates_the_merging_account_def decisions_are_isolated_per_token_def
      denials_short_circuit_before_the_policy_call_def allowed_path_consults_the_policy_exactly_once_per_party_def)

definition evaluator_suite :: "generator \<Rightarrow> u32 \<Rightarrow> bool list" where
  "evaluator_suite g life =
     [unconfigured_contract_denies_every_operation g life,
      unbound_token_is_rejected_before_any_gate g life,
      fully_compliant_operation_is_allowed g life,
      frozen_sender_is_rejected g life,
      frozen_recipient_is_rejected g life,
      freeze_is_reported_before_a_later_policy_denial g life,
      blocked_sender_is_policy_denied g life,
      blocked_recipient_is_policy_denied g life,
      reverting_policy_is_unavailable g life,
      missing_policy_gate_skips_policy_entirely g life,
      sac_passthrough_denies_when_sac_deauthorizes g life,
      sac_passthrough_consults_the_sac g life,
      sac_is_not_consulted_when_passthrough_is_off g life,
      reverting_sac_denies g life,
      withdraw_gates_the_exiting_account g life,
      register_gates_the_registered_account g life,
      delegated_transfer_allows_compliant_parties g life,
      delegated_transfer_rejects_a_blocked_spender g life,
      delegated_transfer_gates_from_and_to_fully g life,
      delegated_spender_is_exempt_from_freeze_and_sac g life,
      merge_gates_the_merging_account g life,
      decisions_are_isolated_per_token g life,
      denials_short_circuit_before_the_policy_call g life,
      allowed_path_consults_the_policy_exactly_once_per_party g life]"

lemma evaluator_suite_passes: "inj g \<Longrightarrow> list_all id (evaluator_suite g life)"
  by (simp add: evaluator_suite_def evaluator_tests_1 evaluator_tests_2 evaluator_tests_3)

end
