(* ===== verification/Contract_Suite.thy ===== *)
theory Contract_Suite
  imports Test_Bed
begin

text \<open>
  The unit suite of the contract, the \<^verbatim>\<open>tests\<close> module of \<^verbatim>\<open>contracts/compliance-hooks/src/lib.rs\<close>: every
  test function as a definition of the same name (one is renamed, a property has its name), run through
  the entry points with and without mocked authorizations, events observed after each invocation.
\<close>

section \<open>Fixture and clients\<close>

definition policy_address :: "address \<Rightarrow> address \<Rightarrow> double" where
  "policy_address blocked tk = DenylistPolicy (Some blocked) tk"

definition policy_allowing :: "address \<Rightarrow> double" where
  "policy_allowing tk = DenylistPolicy None tk"

definition contract_fixture :: "generator \<Rightarrow> step list" where
  "contract_fixture g =
     [register (g TheSac) (MockSac (g Alice) (g Bob)),
      call_ok (Initialize (g Operator)),
      register (g ThePolicy) (policy_allowing (g TheToken)),
      call_ok (SetConfig (Some (g ThePolicy)) True),
      call_ok (BindToken (g TheToken) (Some (g TheSac)))]"

definition try_before_merge :: "address \<Rightarrow> address \<Rightarrow> bed \<Rightarrow> ((contract_error + unit) \<times> bed) option" where
  "try_before_merge tk acc = hook_result (BeforeMerge tk acc)"

definition try_before_transfer_from ::
  "address \<Rightarrow> address \<Rightarrow> address \<Rightarrow> address \<Rightarrow> bed \<Rightarrow> ((contract_error + unit) \<times> bed) option" where
  "try_before_transfer_from tk spender src dst = hook_result (BeforeTransferFrom tk spender src dst)"

definition try_before_deposit ::
  "address \<Rightarrow> address \<Rightarrow> address \<Rightarrow> bed \<Rightarrow> ((contract_error + unit) \<times> bed) option" where
  "try_before_deposit tk src dst = hook_result (BeforeDeposit tk src dst)"

definition client_look :: "(bed \<Rightarrow> 'a option) \<Rightarrow> 'a \<Rightarrow> step" where
  "client_look f v = assert_eq (client_read (looking f)) v"

text \<open>The same configuration, read from the contract and written back.\<close>

definition rewrite_config :: step where
  "rewrite_config b =
     (case read_config bed_host (opened False b) of
        Some (Some current) \<Rightarrow> call_ok (SetConfig (cfg_policy current) (cfg_sac_passthrough current)) (opened False b)
      | _ \<Rightarrow> None)"

lemmas contract_client_defs =
  policy_address_def policy_allowing_def contract_fixture_def try_before_merge_def try_before_transfer_from_def
  try_before_deposit_def client_look_def rewrite_config_def read_admin_def read_token_is_bound_def
  read_initialized_def read_state_version_def read_config_def read_config_version_def read_is_frozen_def
  VERSION_def

lemmas entry_point_defs =
  initialize_def set_config_def bind_token_def unbind_token_def freeze_def unfreeze_def admin_gate_def
  scope_gate_def enforce_def hook_defs emit_defs

section \<open>The tests\<close>

definition documented_codes :: "u32 list" where
  "documented_codes = [2, 3, 4, 5, 8, 9, 10, 12]"

definition every_error_code_matches_the_documented_table :: bool where
  "every_error_code_matches_the_documented_table \<longleftrightarrow>
     sort (map error_code [UnboundTokenErr, PolicyDeniedErr, AccountFrozenErr, SpenderNotAuthorizedErr,
       SacAuthorizationFailedErr, InvalidConfigurationErr, PolicyUnavailableErr, AlreadyInitializedErr]) =
     documented_codes"

definition initialize_stamps_the_state_layout_version :: "generator \<Rightarrow> u32 \<Rightarrow> bool" where
  "initialize_stamps_the_state_layout_version g life = run_test (host_env life)
     [client_look (read_state_version bed_host) 0,
      is_err False (Initialize (g Stranger)),
      call_ok (Initialize (g Operator)),
      client_look (read_state_version bed_host) VERSION,
      is_err False (Initialize (g Newcomer)),
      client_look (read_state_version bed_host) VERSION]"

definition uninitialized_contract_test :: "generator \<Rightarrow> u32 \<Rightarrow> bool" where
  "uninitialized_contract_test g life = run_test (host_env life)
     [err_with False (BindToken (g TheToken) None) InvalidConfigurationErr,
      assert_eq (try_before_deposit (g TheToken) (g Alice) (g Bob)) (Inl InvalidConfigurationErr)]"

definition initialize_records_the_admin_and_emits_one_event :: "generator \<Rightarrow> u32 \<Rightarrow> bool" where
  "initialize_records_the_admin_and_emits_one_event g life = run_test (host_env life)
     [call_ok (Initialize (g Operator)),
      events_are [InitializedEv (g Operator)],
      client_look (read_admin bed_host) (Some (g Operator)),
      \<lambda>b. assert_eq (client_read (looking (read_admin bed_host))) None (host_env life)]"

definition double_initialization_reverts :: "generator \<Rightarrow> u32 \<Rightarrow> bool" where
  "double_initialization_reverts g life = run_test (host_env life)
     [call_ok (Initialize (g Operator)),
      err_with False (Initialize (g Newcomer)) AlreadyInitializedErr]"

definition unauthorized_admin_operations_revert :: "generator \<Rightarrow> u32 \<Rightarrow> bool" where
  "unauthorized_admin_operations_revert g life = run_test (host_env life) (contract_fixture g @
     [is_err False (BindToken (g Stranger) None)])"

definition fully_compliant_operations_are_allowed :: "generator \<Rightarrow> u32 \<Rightarrow> bool" where
  "fully_compliant_operations_are_allowed g life = run_test (host_env life)
     [register (g TheSac) (MockSac (g Alice) (g Bob)),
      register (g ThePolicy) (policy_allowing (g TheToken)),
      call_ok (Initialize (g Operator)),
      call_ok (SetConfig (Some (g ThePolicy)) True),
      call_ok (BindToken (g TheToken) (Some (g TheSac))),
      call_ok (BeforeRegister (g TheToken) (g Alice)),
      call_ok (BeforeDeposit (g TheToken) (g Alice) (g Bob)),
      call_ok (BeforeTransfer (g TheToken) (g Alice) (g Bob)),
      call_ok (BeforeWithdraw (g TheToken) (g Alice)),
      assert_eq (client_read (\<lambda>b. read_token_is_bound bed_host b (g TheToken))) True,
      client_look (read_initialized bed_host) True]"

definition blocked_party_reverts_with_policy_denied :: "generator \<Rightarrow> u32 \<Rightarrow> bool" where
  "blocked_party_reverts_with_policy_denied g life = run_test (host_env life)
     [register (g TheSac) (MockSac (g Alice) (g Bob)),
      register (g ThePolicy) (policy_address (g Bob) (g TheToken)),
      call_ok (Initialize (g Operator)),
      call_ok (SetConfig (Some (g ThePolicy)) True),
      call_ok (BindToken (g TheToken) (Some (g TheSac))),
      assert_eq (try_before_deposit (g TheToken) (g Alice) (g Bob)) (Inl PolicyDeniedErr)]"

definition unbound_token_reverts_before_any_gate :: "generator \<Rightarrow> u32 \<Rightarrow> bool" where
  "unbound_token_reverts_before_any_gate g life = run_test (host_env life) (contract_fixture g @
     [assert_eq (try_before_deposit (g Stranger) (g Alice) (g Bob)) (Inl UnboundTokenErr)])"

definition frozen_party_reverts_with_account_frozen :: "generator \<Rightarrow> u32 \<Rightarrow> bool" where
  "frozen_party_reverts_with_account_frozen g life = run_test (host_env life) (contract_fixture g @
     [call_ok (FreezeAccount (g TheToken) (g Alice)),
      assert_eq (client_read (answering (\<lambda>b. read_is_frozen bed_host b (g TheToken) (g Alice)))) True,
      assert_eq (try_before_deposit (g TheToken) (g Alice) (g Bob)) (Inl AccountFrozenErr)])"

definition freeze_is_an_admin_gated_state_change_with_one_event :: "generator \<Rightarrow> u32 \<Rightarrow> bool" where
  "freeze_is_an_admin_gated_state_change_with_one_event g life = run_test (host_env life) (contract_fixture g @
     [assert_eq (client_read (answering (\<lambda>b. read_is_frozen bed_host b (g TheToken) (g Alice)))) False,
      call_ok (FreezeAccount (g TheToken) (g Alice)),
      events_are [AccountFrozenEv (g TheToken) (g Alice)],
      assert_eq (client_read (answering (\<lambda>b. read_is_frozen bed_host b (g TheToken) (g Alice)))) True,
      call_ok (FreezeAccount (g TheToken) (g Alice)),
      events_are []])"

definition unfreeze_restores_access_and_emits_one_event :: "generator \<Rightarrow> u32 \<Rightarrow> bool" where
  "unfreeze_restores_access_and_emits_one_event g life = run_test (host_env life) (contract_fixture g @
     [call_ok (FreezeAccount (g TheToken) (g Alice)),
      assert_eq (try_before_deposit (g TheToken) (g Alice) (g Bob)) (Inl AccountFrozenErr),
      call_ok (UnfreezeAccount (g TheToken) (g Alice)),
      events_are [AccountUnfrozenEv (g TheToken) (g Alice)],
      assert_eq (client_read (answering (\<lambda>b. read_is_frozen bed_host b (g TheToken) (g Alice)))) False,
      assert_eq (try_before_deposit (g TheToken) (g Alice) (g Bob)) (Inr ()),
      call_ok (UnfreezeAccount (g TheToken) (g Alice)),
      events_are []])"

definition freeze_requires_a_bound_token :: "generator \<Rightarrow> u32 \<Rightarrow> bool" where
  "freeze_requires_a_bound_token g life = run_test (host_env life) (contract_fixture g @
     [err_with True (FreezeAccount (g Stranger) (g Alice)) UnboundTokenErr,
      assert_eq (client_read (answering (\<lambda>b. read_is_frozen bed_host b (g Stranger) (g Alice)))) False])"

definition freeze_requires_an_active_configuration :: "generator \<Rightarrow> u32 \<Rightarrow> bool" where
  "freeze_requires_an_active_configuration g life = run_test (host_env life)
     [call_ok (Initialize (g Operator)),
      call_ok (BindToken (g TheToken) None),
      err_with True (FreezeAccount (g TheToken) (g Alice)) InvalidConfigurationErr]"

definition unauthorized_freeze_reverts :: "generator \<Rightarrow> u32 \<Rightarrow> bool" where
  "unauthorized_freeze_reverts g life = run_test (host_env life) (contract_fixture g @
     [is_err False (FreezeAccount (g TheToken) (g Alice))])"

definition sac_denied_party_reverts_with_sac_authorization_failed :: "generator \<Rightarrow> u32 \<Rightarrow> bool" where
  "sac_denied_party_reverts_with_sac_authorization_failed g life = run_test (host_env life)
     [register (g TheSac) (MockSac (g Alice) (g Bob)),
      register (g ThePolicy) (policy_allowing (g TheToken)),
      call_ok (Initialize (g Operator)),
      call_ok (SetConfig (Some (g ThePolicy)) True),
      call_ok (BindToken (g TheToken) (Some (g TheSac))),
      assert_eq (try_before_deposit (g TheToken) (g Carol) (g Alice)) (Inl SacAuthorizationFailedErr)]"

definition reads_reflect_configuration :: "generator \<Rightarrow> u32 \<Rightarrow> bool" where
  "reads_reflect_configuration g life = run_test (host_env life) (contract_fixture g @
     [assert_eq (client_read (\<lambda>b. read_token_is_bound bed_host b (g TheToken))) True,
      client_look (read_initialized bed_host) True,
      client_look (\<lambda>b. map_option (map_option cfg_sac_passthrough) (read_config bed_host b)) (Some True),
      call_ok (UnbindToken (g TheToken)),
      assert_eq (client_read (\<lambda>b. read_token_is_bound bed_host b (g TheToken))) False,
      assert_eq (try_before_deposit (g TheToken) (g Alice) (g Bob)) (Inl UnboundTokenErr)])"

definition merge_and_delegated_hooks_are_gated :: "generator \<Rightarrow> u32 \<Rightarrow> bool" where
  "merge_and_delegated_hooks_are_gated g life = run_test (host_env life) (contract_fixture g @
     [call_ok (BeforeMerge (g TheToken) (g Alice)),
      assert_eq (try_before_transfer_from (g TheToken) (g Delegate) (g Alice) (g Bob)) (Inr ()),
      call_ok (FreezeAccount (g TheToken) (g Delegate)),
      assert_eq (try_before_transfer_from (g TheToken) (g Delegate) (g Alice) (g Bob)) (Inr ()),
      call_ok (FreezeAccount (g TheToken) (g Alice)),
      assert_eq (try_before_transfer_from (g TheToken) (g Delegate) (g Alice) (g Bob)) (Inl AccountFrozenErr),
      assert_eq (try_before_merge (g TheToken) (g Alice)) (Inl AccountFrozenErr),
      call_ok (UnfreezeAccount (g TheToken) (g Alice)),
      call_ok (BeforeMerge (g TheToken) (g Alice)),
      assert_eq (try_before_transfer_from (g TheToken) (g Delegate) (g Alice) (g Bob)) (Inr ())])"

definition blocked_spender_is_rejected_at_the_hook :: "generator \<Rightarrow> u32 \<Rightarrow> bool" where
  "blocked_spender_is_rejected_at_the_hook g life = run_test (host_env life)
     [register (g TheSac) (MockSac (g Alice) (g Bob)),
      register (g ThePolicy) (policy_address (g Delegate) (g TheToken)),
      call_ok (Initialize (g Operator)),
      call_ok (SetConfig (Some (g ThePolicy)) True),
      call_ok (BindToken (g TheToken) (Some (g TheSac))),
      assert_eq (try_before_transfer_from (g TheToken) (g Delegate) (g Alice) (g Bob)) (Inl SpenderNotAuthorizedErr)]"

definition config_rewrites_bump_the_version_and_emit_events_only_on_changes :: "generator \<Rightarrow> u32 \<Rightarrow> bool" where
  "config_rewrites_bump_the_version_and_emit_events_only_on_changes g life = run_test (host_env life) (contract_fixture g @
     [client_look (read_config_version bed_host) 1,
      rewrite_config,
      events_are [],
      client_look (read_config_version bed_host) 1,
      register (g PolicyB) (policy_allowing (g TheToken)),
      call_ok (SetConfig (Some (g PolicyB)) True),
      events_are [ComplianceConfigChangedEv (Some (g PolicyB)) True],
      client_look (read_config_version bed_host) 2,
      call_ok (SetConfig (Some (g PolicyB)) False),
      events_are [ComplianceConfigChangedEv (Some (g PolicyB)) False],
      client_look (read_config_version bed_host) 3])"

definition config_version_is_zero_until_the_first_write :: "generator \<Rightarrow> u32 \<Rightarrow> bool" where
  "config_version_is_zero_until_the_first_write g life = run_test (host_env life)
     [client_look (read_config_version bed_host) 0]"

definition bind_and_unbind_emit_events_only_on_state_changes :: "generator \<Rightarrow> u32 \<Rightarrow> bool" where
  "bind_and_unbind_emit_events_only_on_state_changes g life = run_test (host_env life)
     [register (g TheSac) (MockSac (g Alice) (g Bob)),
      register (g ThePolicy) (policy_allowing (g TheToken)),
      call_ok (Initialize (g Operator)),
      call_ok (SetConfig (Some (g ThePolicy)) True),
      call_ok (BindToken (g TheToken) (Some (g TheSac))),
      call_ok (BindToken (g TheToken) (Some (g TheSac))),
      events_are [],
      call_ok (BindToken (g TheToken) None),
      events_are [TokenBoundEv (g TheToken)],
      assert_eq (client_read (\<lambda>b. read_token_is_bound bed_host b (g TheToken))) True,
      call_ok (UnbindToken (g TheToken)),
      events_are [TokenUnboundEv (g TheToken)],
      assert_eq (client_read (\<lambda>b. read_token_is_bound bed_host b (g TheToken))) False,
      call_ok (UnbindToken (g TheToken)),
      events_are []]"

definition multi_token_binding_keeps_enforcement_isolated :: "generator \<Rightarrow> u32 \<Rightarrow> bool" where
  "multi_token_binding_keeps_enforcement_isolated g life = run_test (host_env life)
     [register (g TheSac) (MockSac (g Alice) (g Bob)),
      register (g SacB) (MockSac (g Alice) (g Bob)),
      register (g ThePolicy) (MultiTokenPolicy (Some (g Bob))),
      call_ok (Initialize (g Operator)),
      call_ok (SetConfig (Some (g ThePolicy)) True),
      call_ok (BindToken (g TheToken) (Some (g TheSac))),
      call_ok (BindToken (g TokenB) (Some (g SacB))),
      assert_eq (try_before_deposit (g TheToken) (g Alice) (g Alice)) (Inr ()),
      assert_eq (try_before_deposit (g TokenB) (g Alice) (g Alice)) (Inr ()),
      assert_eq (try_before_deposit (g TheToken) (g Alice) (g Bob)) (Inl PolicyDeniedErr),
      assert_eq (try_before_deposit (g TokenB) (g Alice) (g Bob)) (Inl PolicyDeniedErr),
      call_ok (FreezeAccount (g TheToken) (g Alice)),
      assert_eq (client_read (answering (\<lambda>b. read_is_frozen bed_host b (g TheToken) (g Alice)))) True,
      assert_eq (client_read (answering (\<lambda>b. read_is_frozen bed_host b (g TokenB) (g Alice)))) False,
      assert_eq (try_before_deposit (g TheToken) (g Alice) (g Alice)) (Inl AccountFrozenErr),
      assert_eq (try_before_deposit (g TokenB) (g Alice) (g Alice)) (Inr ()),
      call_ok (UnbindToken (g TokenB)),
      assert_eq (try_before_deposit (g TokenB) (g Alice) (g Alice)) (Inl UnboundTokenErr)]"

section \<open>They pass\<close>

lemma error_codes_documented: "every_error_code_matches_the_documented_table"
  by (simp add: every_error_code_matches_the_documented_table_def documented_codes_def)

lemma contract_tests_1:
  assumes "inj g"
  shows "initialize_stamps_the_state_layout_version g life"
    "uninitialized_contract_test g life"
    "initialize_records_the_admin_and_emits_one_event g life"
    "double_initialization_reverts g life"
    "unauthorized_admin_operations_revert g life"
    "fully_compliant_operations_are_allowed g life"
  by (simp_all add: bed_code contract_client_defs entry_point_defs inj_eq [OF assms]
      initialize_stamps_the_state_layout_version_def uninitialized_contract_test_def
      initialize_records_the_admin_and_emits_one_event_def double_initialization_reverts_def
      unauthorized_admin_operations_revert_def fully_compliant_operations_are_allowed_def)

lemma contract_tests_2:
  assumes "inj g"
  shows "blocked_party_reverts_with_policy_denied g life"
    "unbound_token_reverts_before_any_gate g life"
    "frozen_party_reverts_with_account_frozen g life"
    "freeze_is_an_admin_gated_state_change_with_one_event g life"
    "unfreeze_restores_access_and_emits_one_event g life"
    "freeze_requires_a_bound_token g life"
  by (simp_all add: bed_code contract_client_defs entry_point_defs inj_eq [OF assms]
      blocked_party_reverts_with_policy_denied_def unbound_token_reverts_before_any_gate_def
      frozen_party_reverts_with_account_frozen_def freeze_is_an_admin_gated_state_change_with_one_event_def
      unfreeze_restores_access_and_emits_one_event_def freeze_requires_a_bound_token_def)

lemma contract_tests_3:
  assumes "inj g"
  shows "freeze_requires_an_active_configuration g life"
    "unauthorized_freeze_reverts g life"
    "sac_denied_party_reverts_with_sac_authorization_failed g life"
    "reads_reflect_configuration g life"
    "merge_and_delegated_hooks_are_gated g life"
    "blocked_spender_is_rejected_at_the_hook g life"
  by (simp_all add: bed_code contract_client_defs entry_point_defs inj_eq [OF assms]
      freeze_requires_an_active_configuration_def unauthorized_freeze_reverts_def
      sac_denied_party_reverts_with_sac_authorization_failed_def reads_reflect_configuration_def
      merge_and_delegated_hooks_are_gated_def blocked_spender_is_rejected_at_the_hook_def)

lemma contract_tests_4:
  assumes "inj g"
  shows "config_rewrites_bump_the_version_and_emit_events_only_on_changes g life"
    "config_version_is_zero_until_the_first_write g life"
    "bind_and_unbind_emit_events_only_on_state_changes g life"
    "multi_token_binding_keeps_enforcement_isolated g life"
  by (simp_all add: bed_code contract_client_defs entry_point_defs inj_eq [OF assms]
      config_rewrites_bump_the_version_and_emit_events_only_on_changes_def config_version_is_zero_until_the_first_write_def
      bind_and_unbind_emit_events_only_on_state_changes_def multi_token_binding_keeps_enforcement_isolated_def)

definition contract_suite :: "generator \<Rightarrow> u32 \<Rightarrow> bool list" where
  "contract_suite g life =
     [every_error_code_matches_the_documented_table,
      initialize_stamps_the_state_layout_version g life,
      uninitialized_contract_test g life,
      initialize_records_the_admin_and_emits_one_event g life,
      double_initialization_reverts g life,
      unauthorized_admin_operations_revert g life,
      fully_compliant_operations_are_allowed g life,
      blocked_party_reverts_with_policy_denied g life,
      unbound_token_reverts_before_any_gate g life,
      frozen_party_reverts_with_account_frozen g life,
      freeze_is_an_admin_gated_state_change_with_one_event g life,
      unfreeze_restores_access_and_emits_one_event g life,
      freeze_requires_a_bound_token g life,
      freeze_requires_an_active_configuration g life,
      unauthorized_freeze_reverts g life,
      sac_denied_party_reverts_with_sac_authorization_failed g life,
      reads_reflect_configuration g life,
      merge_and_delegated_hooks_are_gated g life,
      blocked_spender_is_rejected_at_the_hook g life,
      config_rewrites_bump_the_version_and_emit_events_only_on_changes g life,
      config_version_is_zero_until_the_first_write g life,
      bind_and_unbind_emit_events_only_on_state_changes g life,
      multi_token_binding_keeps_enforcement_isolated g life]"

lemma contract_suite_passes: "inj g \<Longrightarrow> list_all id (contract_suite g life)"
  by (simp add: contract_suite_def error_codes_documented contract_tests_1 contract_tests_2 contract_tests_3 contract_tests_4)

end
