(* ===== verification/Crate_Suites.thy ===== *)
theory Crate_Suites
  imports Test_Bed "HOL-Library.List_Lexorder" "HOL-Library.Char_ord"
begin

text \<open>
  The unit suites of the smaller crates: \<^verbatim>\<open>crates/storage\<close>, \<^verbatim>\<open>crates/authorization\<close>,
  \<^verbatim>\<open>crates/policy-client\<close>, \<^verbatim>\<open>crates/compliance/src/sac.rs\<close>, \<^verbatim>\<open>crates/events\<close>,
  \<^verbatim>\<open>contracts/sample-policy\<close> and \<^verbatim>\<open>crates/hook-core\<close>. Every test function is a definition of the same
  name. The one about the attribution of events runs on a host that files each event under the contract
  that publishes it.
\<close>

section \<open>Storage\<close>

definition admin_round_trip :: "generator \<Rightarrow> u32 \<Rightarrow> bool" where
  "admin_round_trip g life = run_test (host_env life)
     [assert_eq (looking (stored_admin bed_host)) None,
      as_contract (\<lambda>b. set_admin bed_host b (g Operator)),
      assert_eq (looking (stored_admin bed_host)) (Some (g Operator))]"

definition admin_is_overwritable :: "generator \<Rightarrow> u32 \<Rightarrow> bool" where
  "admin_is_overwritable g life = run_test (host_env life)
     [as_contract (\<lambda>b. set_admin bed_host b (g Operator)),
      as_contract (\<lambda>b. set_admin bed_host b (g Newcomer)),
      assert_eq (looking (stored_admin bed_host)) (Some (g Newcomer))]"

definition binding_round_trip :: "generator \<Rightarrow> u32 \<Rightarrow> bool" where
  "binding_round_trip g life = run_test (host_env life)
     [assert_eq (\<lambda>b. is_token_bound bed_host b (g TheToken)) False,
      assert_eq (\<lambda>b. token_binding bed_host b (g TheToken)) None,
      as_contract (\<lambda>b. storage_bind bed_host b (g TheToken) (Some (g TheSac))),
      assert_eq (\<lambda>b. is_token_bound bed_host b (g TheToken)) True,
      assert_eq (\<lambda>b. token_binding bed_host b (g TheToken)) (Some \<lparr>binding_sac = Some (g TheSac)\<rparr>)]"

text \<open>
  \<^verbatim>\<open>set_sequence_number\<close> jumps \<open>n\<close> ledgers ahead: the remaining TTL of every entry shrinks by \<open>n\<close>.
\<close>

definition advance_ledger :: "u32 \<Rightarrow> bed \<Rightarrow> bed" where
  "advance_ledger n b = b\<lparr>bed_ttl := (\<lambda>k. if n \<le> bed_ttl b k then bed_ttl b k - n else 0)\<rparr>"

definition assert_ttl :: "(u32 \<Rightarrow> bool) \<Rightarrow> data_key \<Rightarrow> step" where
  "assert_ttl P key b = (if P (persistent_ttl bed_host b key) then Some b else None)"

definition reads_renew_the_binding_ttl :: "generator \<Rightarrow> u32 \<Rightarrow> bool" where
  "reads_renew_the_binding_ttl g life = run_test (host_env life)
     [as_contract (\<lambda>b. storage_bind bed_host b (g TheToken) None),
      assert_eq (\<lambda>b. is_token_bound bed_host b (g TheToken)) True,
      as_contract (advance_ledger 6000000),
      assert_ttl (\<lambda>ttl. ttl < TTL_THRESHOLD) (TokenBinding (g TheToken)),
      \<lambda>b. (case token_binding bed_host b (g TheToken) of Some (Some _, b') \<Rightarrow> Some b' | _ \<Rightarrow> None),
      assert_ttl (\<lambda>ttl. TTL_EXTEND_TO \<le> ttl) (TokenBinding (g TheToken)),
      assert_eq (\<lambda>b. is_token_bound bed_host b (g TheToken)) True]"

definition bindings_are_isolated_per_token :: "generator \<Rightarrow> u32 \<Rightarrow> bool" where
  "bindings_are_isolated_per_token g life = run_test (host_env life)
     [as_contract (\<lambda>b. storage_bind bed_host b (g TheToken) None),
      assert_eq (\<lambda>b. is_token_bound bed_host b (g TheToken)) True,
      assert_eq (\<lambda>b. is_token_bound bed_host b (g TokenB)) False]"

definition unbind_removes_entry :: "generator \<Rightarrow> u32 \<Rightarrow> bool" where
  "unbind_removes_entry g life = run_test (host_env life)
     [as_contract (\<lambda>b. storage_bind bed_host b (g TheToken) None),
      as_contract (\<lambda>b. storage_unbind bed_host b (g TheToken)),
      assert_eq (\<lambda>b. is_token_bound bed_host b (g TheToken)) False,
      as_contract (\<lambda>b. storage_unbind bed_host b (g TheToken))]"

definition config_defaults_to_none :: "generator \<Rightarrow> u32 \<Rightarrow> bool" where
  "config_defaults_to_none g life = run_test (host_env life)
     [assert_eq (looking (compliance_config bed_host)) None]"

definition config_round_trip :: "generator \<Rightarrow> u32 \<Rightarrow> bool" where
  "config_round_trip g life = run_test (host_env life)
     [\<lambda>b. set_compliance_config bed_host b \<lparr>cfg_policy = Some (g ThePolicy), cfg_sac_passthrough = True\<rparr>,
      assert_eq (looking (compliance_config bed_host)) (Some \<lparr>cfg_policy = Some (g ThePolicy), cfg_sac_passthrough = True\<rparr>)]"

definition config_write_self_heals_a_missing_layout_stamp :: "generator \<Rightarrow> u32 \<Rightarrow> bool" where
  "config_write_self_heals_a_missing_layout_stamp g life = run_test (host_env life)
     [assert_eq (looking (storage_version bed_host)) None,
      \<lambda>b. set_compliance_config bed_host b \<lparr>cfg_policy = Some (g ThePolicy), cfg_sac_passthrough = True\<rparr>,
      assert_eq (looking (storage_version bed_host)) (Some VERSION),
      as_contract (\<lambda>b. instance_set bed_host b Version (VU32 123)),
      \<lambda>b. set_compliance_config bed_host b \<lparr>cfg_policy = Some (g ThePolicy), cfg_sac_passthrough = True\<rparr>,
      assert_eq (looking (storage_version bed_host)) (Some 123)]"

definition disabled_config_short_circuits :: "generator \<Rightarrow> u32 \<Rightarrow> bool" where
  "disabled_config_short_circuits g life = run_test (host_env life)
     [\<lambda>b. set_compliance_config bed_host b disabled,
      assert_eq (looking (compliance_config bed_host)) (Some \<lparr>cfg_policy = None, cfg_sac_passthrough = False\<rparr>)]"

definition config_version_tracks_rewrites :: "generator \<Rightarrow> u32 \<Rightarrow> bool" where
  "config_version_tracks_rewrites g life = run_test (host_env life)
     [assert_eq (looking (storage_config_version bed_host)) None,
      \<lambda>b. set_compliance_config bed_host b \<lparr>cfg_policy = Some (g ThePolicy), cfg_sac_passthrough = False\<rparr>,
      bump_config_version bed_host,
      assert_eq (looking (storage_config_version bed_host)) (Some 1),
      \<lambda>b. set_compliance_config bed_host b \<lparr>cfg_policy = Some (g PolicyB), cfg_sac_passthrough = True\<rparr>,
      bump_config_version bed_host,
      assert_eq (looking (storage_config_version bed_host)) (Some 2)]"

definition freeze_round_trip :: "generator \<Rightarrow> u32 \<Rightarrow> bool" where
  "freeze_round_trip g life = run_test (host_env life)
     [assert_eq (answering (\<lambda>b. storage_is_frozen bed_host b (g TheToken) (g Alice))) False,
      as_contract (\<lambda>b. storage_freeze bed_host b (g TheToken) (g Alice)),
      assert_eq (answering (\<lambda>b. storage_is_frozen bed_host b (g TheToken) (g Alice))) True,
      as_contract (\<lambda>b. storage_unfreeze bed_host b (g TheToken) (g Alice)),
      assert_eq (answering (\<lambda>b. storage_is_frozen bed_host b (g TheToken) (g Alice))) False]"

definition freeze_is_isolated_per_token :: "generator \<Rightarrow> u32 \<Rightarrow> bool" where
  "freeze_is_isolated_per_token g life = run_test (host_env life)
     [as_contract (\<lambda>b. storage_freeze bed_host b (g TheToken) (g Alice)),
      assert_eq (answering (\<lambda>b. storage_is_frozen bed_host b (g TheToken) (g Alice))) True,
      assert_eq (answering (\<lambda>b. storage_is_frozen bed_host b (g TokenB) (g Alice))) False]"

definition freeze_is_isolated_per_account :: "generator \<Rightarrow> u32 \<Rightarrow> bool" where
  "freeze_is_isolated_per_account g life = run_test (host_env life)
     [as_contract (\<lambda>b. storage_freeze bed_host b (g TheToken) (g Alice)),
      assert_eq (answering (\<lambda>b. storage_is_frozen bed_host b (g TheToken) (g Alice))) True,
      assert_eq (answering (\<lambda>b. storage_is_frozen bed_host b (g TheToken) (g Bob))) False]"

definition unfreeze_is_idempotent :: "generator \<Rightarrow> u32 \<Rightarrow> bool" where
  "unfreeze_is_idempotent g life = run_test (host_env life)
     [as_contract (\<lambda>b. storage_unfreeze bed_host b (g TheToken) (g Alice)),
      assert_eq (answering (\<lambda>b. storage_is_frozen bed_host b (g TheToken) (g Alice))) False]"

definition version_is_absent_until_written :: "generator \<Rightarrow> u32 \<Rightarrow> bool" where
  "version_is_absent_until_written g life = run_test (host_env life)
     [assert_eq (looking (storage_version bed_host)) None,
      as_contract (\<lambda>b. set_version bed_host b VERSION),
      assert_eq (looking (storage_version bed_host)) (Some VERSION)]"

definition key_classification_is_stable :: "generator \<Rightarrow> u32 \<Rightarrow> bool" where
  "key_classification_is_stable g life \<longleftrightarrow>
     map data_key_class [Admin, Config, ConfigVersion, Version] =
       [''instance'', ''instance'', ''instance'', ''instance''] \<and>
     data_key_class (TokenBinding (g Alice)) = ''persistent'' \<and>
     data_key_class (Freeze (g Alice) (g Bob)) = ''persistent''"

section \<open>Authorization\<close>

text \<open>The hosts that expose the gates through an invocation: zero, or the code of the reason.\<close>

definition gate_code :: "((rejection_reason + unit) \<times> bed) option \<Rightarrow> (u32 \<times> bed) option" where
  "gate_code r = map_option (map_prod (\<lambda>res. case res of Inl reason \<Rightarrow> reason_code reason | Inr _ \<Rightarrow> 0) id) r"

definition host_admin_gate :: "bool \<Rightarrow> bed \<Rightarrow> (u32 \<times> bed) option" where
  "host_admin_gate auths b = gate_code (require_admin bed_host (opened auths b))"

definition host_scope_gate :: "address \<Rightarrow> bed \<Rightarrow> (u32 \<times> bed) option" where
  "host_scope_gate tk b = gate_code (require_token_bound bed_host (opened False b) tk)"

definition uninitialized_contract_rejects_configuration_changes :: "generator \<Rightarrow> u32 \<Rightarrow> bool" where
  "uninitialized_contract_rejects_configuration_changes g life = run_test (host_env life)
     [assert_eq (host_admin_gate False) (reason_code InvalidConfiguration),
      assert_eq (looking (is_initialized bed_host)) False]"

definition authorized_admin_passes_the_gate :: "generator \<Rightarrow> u32 \<Rightarrow> bool" where
  "authorized_admin_passes_the_gate g life = run_test (host_env life)
     [as_contract (\<lambda>b. set_admin bed_host b (g Alice)),
      assert_eq (looking (is_initialized bed_host)) True,
      assert_eq (host_admin_gate True) 0]"

definition initialized_state_is_persisted :: "generator \<Rightarrow> u32 \<Rightarrow> bool" where
  "initialized_state_is_persisted g life = run_test (host_env life)
     [assert_eq (looking (is_initialized bed_host)) False,
      as_contract (\<lambda>b. set_admin bed_host b (g Alice)),
      assert_eq (looking (is_initialized bed_host)) True]"

definition unauthorized_caller_reverts_the_transaction :: "generator \<Rightarrow> u32 \<Rightarrow> bool" where
  "unauthorized_caller_reverts_the_transaction g life \<longleftrightarrow> \<not> run_test (host_env life)
     [as_contract (\<lambda>b. set_admin bed_host b (g Alice)),
      \<lambda>b. map_option snd (host_admin_gate False b)]"

definition unbound_token_is_rejected :: "generator \<Rightarrow> u32 \<Rightarrow> bool" where
  "unbound_token_is_rejected g life = run_test (host_env life)
     [assert_eq (\<lambda>b. is_token_bound bed_host b (g TheToken)) False,
      assert_eq (host_scope_gate (g TheToken)) (reason_code UnboundToken)]"

definition bound_token_is_in_scope :: "generator \<Rightarrow> u32 \<Rightarrow> bool" where
  "bound_token_is_in_scope g life = run_test (host_env life)
     [as_contract (\<lambda>b. storage_bind bed_host b (g TheToken) None),
      assert_eq (\<lambda>b. is_token_bound bed_host b (g TheToken)) True,
      assert_eq (host_scope_gate (g TheToken)) 0]"

definition scope_is_isolated_per_token :: "generator \<Rightarrow> u32 \<Rightarrow> bool" where
  "scope_is_isolated_per_token g life = run_test (host_env life)
     [as_contract (\<lambda>b. storage_bind bed_host b (g TheToken) None),
      assert_eq (host_scope_gate (g TheToken)) 0,
      assert_eq (host_scope_gate (g TokenB)) (reason_code UnboundToken)]"

definition unbinding_revokes_scope :: "generator \<Rightarrow> u32 \<Rightarrow> bool" where
  "unbinding_revokes_scope g life = run_test (host_env life)
     [as_contract (\<lambda>b. storage_bind bed_host b (g TheToken) None),
      assert_eq (\<lambda>b. is_token_bound bed_host b (g TheToken)) True,
      assert_eq (host_scope_gate (g TheToken)) 0,
      as_contract (\<lambda>b. storage_unbind bed_host b (g TheToken)),
      assert_eq (host_scope_gate (g TheToken)) (reason_code UnboundToken)]"

section \<open>Policy client and SAC gate\<close>

definition authorized_account_returns_true :: "generator \<Rightarrow> u32 \<Rightarrow> bool" where
  "authorized_account_returns_true g life = run_test (host_env life)
     [register (g ThePolicy) (WhitelistPolicy (g Alice) (g TheToken)),
      assert_eq (answering (\<lambda>b. policy_client_is_authorized (policy_client_new (g ThePolicy)) bed_host b (g Alice) (g TheToken))) (Inr True)]"

definition non_whitelisted_account_returns_false :: "generator \<Rightarrow> u32 \<Rightarrow> bool" where
  "non_whitelisted_account_returns_false g life = run_test (host_env life)
     [register (g ThePolicy) (WhitelistPolicy (g Alice) (g TheToken)),
      assert_eq (answering (\<lambda>b. policy_client_is_authorized (policy_client_new (g ThePolicy)) bed_host b (g Bob) (g TheToken))) (Inr False)]"

definition token_is_passed_through_to_the_policy :: "generator \<Rightarrow> u32 \<Rightarrow> bool" where
  "token_is_passed_through_to_the_policy g life = run_test (host_env life)
     [register (g ThePolicy) (WhitelistPolicy (g Alice) (g TheToken)),
      assert_eq (answering (\<lambda>b. policy_client_is_authorized (policy_client_new (g ThePolicy)) bed_host b (g Alice) (g TheToken))) (Inr True),
      assert_eq (answering (\<lambda>b. policy_client_is_authorized (policy_client_new (g ThePolicy)) bed_host b (g Alice) (g TokenB))) (Inr False)]"

definition reverting_policy_is_reported_unavailable :: "generator \<Rightarrow> u32 \<Rightarrow> bool" where
  "reverting_policy_is_reported_unavailable g life = run_test (host_env life)
     [register (g ThePolicy) RevertingPolicy,
      assert_eq (answering (\<lambda>b. policy_client_is_authorized (policy_client_new (g ThePolicy)) bed_host b (g Alice) (g TheToken))) (Inl PolicyUnavailable)]"

definition missing_policy_contract_is_reported_unavailable :: "generator \<Rightarrow> u32 \<Rightarrow> bool" where
  "missing_policy_contract_is_reported_unavailable g life = run_test (host_env life)
     [assert_eq (answering (\<lambda>b. policy_is_authorized bed_host b (g Ghost) (g Alice) (g TheToken))) (Inl PolicyUnavailable)]"

definition client_and_free_function_agree :: "generator \<Rightarrow> u32 \<Rightarrow> bool" where
  "client_and_free_function_agree g life = run_test (host_env life)
     [register (g ThePolicy) (WhitelistPolicy (g Alice) (g TheToken)),
      \<lambda>b. (case policy_is_authorized bed_host b (g ThePolicy) (g Alice) (g TheToken) of (r, b') \<Rightarrow> assert_eq (answering (\<lambda>b. policy_client_is_authorized (policy_client_new (g ThePolicy)) bed_host b (g Alice) (g TheToken))) r b')]"

definition authorized_account_passes :: "generator \<Rightarrow> u32 \<Rightarrow> bool" where
  "authorized_account_passes g life = run_test (host_env life)
     [register (g TheSac) (SingleSac (g Alice)),
      assert_eq (answering (\<lambda>b. sac_is_authorized bed_host b (g TheSac) (g Alice))) (Inr True),
      assert_eq (answering (\<lambda>b. sac_is_authorized bed_host b (g TheSac) (g Bob))) (Inr False)]"

definition reverting_sac_fails_closed :: "generator \<Rightarrow> u32 \<Rightarrow> bool" where
  "reverting_sac_fails_closed g life = run_test (host_env life)
     [register (g TheSac) RevertingSac,
      assert_eq (answering (\<lambda>b. sac_is_authorized bed_host b (g TheSac) (g Alice))) (Inl SacAuthorizationFailed)]"

definition missing_sac_fails_closed :: "generator \<Rightarrow> u32 \<Rightarrow> bool" where
  "missing_sac_fails_closed g life = run_test (host_env life)
     [assert_eq (answering (\<lambda>b. sac_is_authorized bed_host b (g Ghost) (g Alice))) (Inl SacAuthorizationFailed)]"

section \<open>Events\<close>

text \<open>The host with one publishing entry per event: an invocation that emits.\<close>

definition event_host :: "(bed \<Rightarrow> bed) \<Rightarrow> step" where
  "event_host emit b = Some (emit (opened False b))"

definition initialization_event_carries_the_admin_topic :: "generator \<Rightarrow> u32 \<Rightarrow> bool" where
  "initialization_event_carries_the_admin_topic g life = run_test (host_env life)
     [event_host (\<lambda>b. emit_initialized bed_host b (g Operator)),
      events_are [InitializedEv (g Operator)]]"

definition freeze_event_carries_name_token_and_account_topics :: "generator \<Rightarrow> u32 \<Rightarrow> bool" where
  "freeze_event_carries_name_token_and_account_topics g life = run_test (host_env life)
     [event_host (\<lambda>b. emit_account_frozen bed_host b (g TheToken) (g Alice)),
      events_are [AccountFrozenEv (g TheToken) (g Alice)]]"

definition each_invocation_reports_only_its_own_events :: "generator \<Rightarrow> u32 \<Rightarrow> bool" where
  "each_invocation_reports_only_its_own_events g life = run_test (host_env life)
     [event_host (\<lambda>b. emit_account_frozen bed_host b (g TheToken) (g Alice)),
      event_host (\<lambda>b. emit_account_unfrozen bed_host b (g TheToken) (g Alice)),
      events_are [AccountUnfrozenEv (g TheToken) (g Alice)]]"

definition binding_events_carry_token_topic :: "generator \<Rightarrow> u32 \<Rightarrow> bool" where
  "binding_events_carry_token_topic g life = run_test (host_env life)
     [event_host (\<lambda>b. emit_token_bound bed_host b (g TheToken)),
      events_are [TokenBoundEv (g TheToken)],
      event_host (\<lambda>b. emit_token_unbound bed_host b (g TheToken)),
      events_are [TokenUnboundEv (g TheToken)]]"

definition config_event_carries_policy_and_flag_as_data :: "generator \<Rightarrow> u32 \<Rightarrow> bool" where
  "config_event_carries_policy_and_flag_as_data g life = run_test (host_env life)
     [event_host (\<lambda>b. emit_compliance_config_changed bed_host b (Some (g ThePolicy)) True),
      events_are [ComplianceConfigChangedEv (Some (g ThePolicy)) True]]"

text \<open>
  \<^verbatim>\<open>events().all()\<close> lists every event with the contract that published it. \<open>attributing self H\<close> is \<open>H\<close> running
  the contract \<open>self\<close>, with that list beside its state; \<open>filter_by_contract\<close> selects one contract's events.
\<close>

type_synonym attributed_events = "(address \<times> event) list"

definition attributing :: "address \<Rightarrow> 's chost \<Rightarrow> ('s \<times> attributed_events) chost" where
  "attributing self H =
    \<lparr>instance_has = (\<lambda>e. instance_has H (fst e)),
     instance_get = (\<lambda>e. instance_get H (fst e)),
     instance_set = (\<lambda>e k v. (instance_set H (fst e) k v, snd e)),
     persistent_has = (\<lambda>e. persistent_has H (fst e)),
     persistent_get = (\<lambda>e. persistent_get H (fst e)),
     persistent_set = (\<lambda>e k v. (persistent_set H (fst e) k v, snd e)),
     persistent_remove = (\<lambda>e k. (persistent_remove H (fst e) k, snd e)),
     persistent_ttl = (\<lambda>e. persistent_ttl H (fst e)),
     extend_ttl = (\<lambda>e k lo hi. (extend_ttl H (fst e) k lo hi, snd e)),
     authorized = (\<lambda>e. authorized H (fst e)),
     require_auth = (\<lambda>e a. map_option (\<lambda>e'. (e', snd e)) (require_auth H (fst e) a)),
     published = (\<lambda>e. published H (fst e)),
     publish_event = (\<lambda>e ev. (publish_event H (fst e) ev, snd e @ [(self, ev)])),
     try_invoke = (\<lambda>e c f args. map_prod id (\<lambda>e'. (e', snd e)) (try_invoke H (fst e) c f args))\<rparr>"

definition filter_by_contract :: "address \<Rightarrow> attributed_events \<Rightarrow> attributed_events" where
  "filter_by_contract c = filter (\<lambda>(publisher, _). publisher = c)"

definition events_are_attributed_to_the_publishing_contract :: "generator \<Rightarrow> u32 \<Rightarrow> bool" where
  "events_are_attributed_to_the_publishing_contract g life =
     (let host = g Stranger;
          all = snd (emit_token_bound (attributing host bed_host) (opened False (host_env life), []) (g TheToken)) in
      length all = 1 \<and> length (filter_by_contract host all) = 1)"

section \<open>Sample policy\<close>

definition policy_instance :: "address option \<Rightarrow> (policy_key, address option, unit) ledger" where
  "policy_instance blocked = policy_constructor ledger_host
     \<lparr>l_instance = Map.empty, l_persistent = Map.empty, l_ttl = (\<lambda>_. 0), l_signers = [], l_events = [],
      l_views = (\<lambda>_ _ _. Inl Abort)\<rparr> blocked"

definition allow_all_configuration_authorizes_everyone :: "generator \<Rightarrow> u32 \<Rightarrow> bool" where
  "allow_all_configuration_authorizes_everyone g life =
     list_all (\<lambda>acc. sample_is_authorized ledger_host (policy_instance None) acc (g TheToken) = Some True)
       [g Alice, g Bob, g Carol]"

definition deny_list_configuration_blocks_only_the_pinned_account :: "generator \<Rightarrow> u32 \<Rightarrow> bool" where
  "deny_list_configuration_blocks_only_the_pinned_account g life \<longleftrightarrow>
     sample_is_authorized ledger_host (policy_instance (Some (g Bob))) (g Bob) (g TheToken) = Some False \<and>
     sample_is_authorized ledger_host (policy_instance (Some (g Bob))) (g Alice) (g TheToken) = Some True \<and>
     sample_is_authorized ledger_host (policy_instance None) (g Bob) (g TheToken) = Some True"

section \<open>Domain model\<close>

definition fund_holders_are_fully_gated :: bool where
  "fund_holders_are_fully_gated \<longleftrightarrow>
     list_all (\<lambda>role. role_gate_class role = Full \<and> holds_funds role) [Account, From, To]"

definition spender_is_policy_only :: bool where
  "spender_is_policy_only \<longleftrightarrow>
     role_gate_class Spender = PolicyOnly \<and> \<not> holds_funds Spender"

definition role_names_are_stable :: bool where
  "role_names_are_stable \<longleftrightarrow>
     map role_name [Account, From, To, Spender] = [''account'', ''from'', ''to'', ''spender'']"

definition all_operations :: "operation list" where
  "all_operations = [Register, Deposit, Merge, Transfer, TransferFrom, Withdraw]"

definition lowercase_or_underscore :: "char \<Rightarrow> bool" where
  "lowercase_or_underscore c \<longleftrightarrow> of_char c \<in> {97..122::nat} \<or> c = CHR ''_''"

definition operation_names_are_stable_and_lowercase :: bool where
  "operation_names_are_stable_and_lowercase \<longleftrightarrow>
     map operation_name all_operations =
       [''register'', ''deposit'', ''merge'', ''transfer'', ''transfer_from'', ''withdraw''] \<and>
     list_all (list_all lowercase_or_underscore) (map operation_name all_operations)"

definition parties_reflect_who_holds_funds :: bool where
  "parties_reflect_who_holds_funds \<longleftrightarrow>
     parties Register = [Account] \<and> parties Merge = [Account] \<and> parties Deposit = [From, To] \<and>
     parties Transfer = [From, To] \<and> parties TransferFrom = [Spender, From, To] \<and> parties Withdraw = [From, To]"

definition bilateral_classification :: bool where
  "bilateral_classification \<longleftrightarrow>
     is_bilateral Deposit \<and> is_bilateral Transfer \<and> is_bilateral TransferFrom \<and> is_bilateral Withdraw \<and>
     \<not> is_bilateral Register \<and> \<not> is_bilateral Merge"

definition names_round_trip_through_operation :: bool where
  "names_round_trip_through_operation \<longleftrightarrow>
     list_all (\<lambda>op. operation_name op \<noteq> [] \<and> parties op \<noteq> []) all_operations"

definition allow_has_no_reason :: bool where
  "allow_has_no_reason \<longleftrightarrow>
     is_allowed Allow \<and> decision_reason Allow = None"

definition deny_carries_its_reason :: bool where
  "deny_carries_its_reason \<longleftrightarrow>
     \<not> is_allowed (Deny AccountFrozen) \<and> decision_reason (Deny AccountFrozen) = Some AccountFrozen"

definition combination_keeps_first_rejection :: bool where
  "combination_keeps_first_rejection \<longleftrightarrow>
     and_then (Deny AccountFrozen) (Deny PolicyDenied) = Deny AccountFrozen \<and>
     and_then Allow (Deny PolicyDenied) = Deny PolicyDenied \<and> and_then Allow Allow = Allow"

definition listed_reasons :: "rejection_reason list" where
  "listed_reasons = [UnboundToken, PolicyDenied, AccountFrozen, SpenderNotAuthorized, SacAuthorizationFailed,
     InvalidConfiguration, PolicyUnavailable]"

definition names_are_stable_and_unique :: bool where
  "names_are_stable_and_unique \<longleftrightarrow>
     length (remdups_adj (sort (map reason_name listed_reasons))) = length listed_reasons \<and>
     length (remdups_adj (sort (map reason_code listed_reasons))) = length listed_reasons"

definition names_round_trip :: bool where
  "names_round_trip \<longleftrightarrow>
     list_all (\<lambda>r. reason_from_name (reason_name r) = Some r) [AccountFrozen, PolicyDenied, SpenderNotAuthorized] \<and>
     reason_from_name ''nonsense'' = None"

definition codes_round_trip_and_all_are_covered :: bool where
  "codes_round_trip_and_all_are_covered \<longleftrightarrow>
     length ALL_REASONS = 7 \<and> list_all (\<lambda>r. reason_from_code (reason_code r) = Some r) ALL_REASONS \<and>
     list_all (\<lambda>code. reason_from_code code \<noteq> None) [2, 3, 4, 5, 8, 9, 10] \<and>
     list_all (\<lambda>code. reason_from_code code = None) [0, 1, 6, 7, 11, 12]"

definition hook_context_expands_to_one_context_per_party :: bool where
  "hook_context_expands_to_one_context_per_party \<longleftrightarrow>
     operation_contexts (new_hook_context (42 :: 64 word) TransferFrom) =
     [new_operation_context TransferFrom Spender, new_operation_context TransferFrom From,
      new_operation_context TransferFrom To]"

definition single_party_operations_expand_to_one :: bool where
  "single_party_operations_expand_to_one \<longleftrightarrow>
     list_all (\<lambda>op. length (operation_contexts (new_hook_context ''token'' op)) = 1) [Register, Merge]"

definition hook_context_carries_token_identity :: bool where
  "hook_context_carries_token_identity \<longleftrightarrow>
     ctx_token (new_hook_context ''token-a'' Transfer) = ''token-a''"

section \<open>They pass\<close>

lemmas suite_host_defs =
  gate_code_def host_admin_gate_def host_scope_gate_def event_host_def policy_instance_def policy_constructor_def
  sample_is_authorized_def ledger_host_def policy_client_new_def policy_client_is_authorized_def disabled_def
  VERSION_def emit_defs

lemma crate_tests_1:
  assumes "inj g"
  shows "admin_round_trip g life"
    "admin_is_overwritable g life"
    "binding_round_trip g life"
    "bindings_are_isolated_per_token g life"
    "unbind_removes_entry g life"
    "config_defaults_to_none g life"
    "config_round_trip g life"
    "config_write_self_heals_a_missing_layout_stamp g life"
    "disabled_config_short_circuits g life"
    "config_version_tracks_rewrites g life"
  by (simp_all add: bed_code suite_host_defs inj_eq [OF assms]
      admin_round_trip_def admin_is_overwritable_def
      binding_round_trip_def bindings_are_isolated_per_token_def
      unbind_removes_entry_def config_defaults_to_none_def
      config_round_trip_def config_write_self_heals_a_missing_layout_stamp_def
      disabled_config_short_circuits_def config_version_tracks_rewrites_def)

lemma crate_tests_2:
  assumes "inj g"
  shows "freeze_round_trip g life"
    "freeze_is_isolated_per_token g life"
    "freeze_is_isolated_per_account g life"
    "unfreeze_is_idempotent g life"
    "version_is_absent_until_written g life"
    "key_classification_is_stable g life"
    "uninitialized_contract_rejects_configuration_changes g life"
    "authorized_admin_passes_the_gate g life"
    "initialized_state_is_persisted g life"
    "unauthorized_caller_reverts_the_transaction g life"
  by (simp_all add: bed_code suite_host_defs inj_eq [OF assms]
      freeze_round_trip_def freeze_is_isolated_per_token_def
      freeze_is_isolated_per_account_def unfreeze_is_idempotent_def
      version_is_absent_until_written_def key_classification_is_stable_def
      uninitialized_contract_rejects_configuration_changes_def authorized_admin_passes_the_gate_def
      initialized_state_is_persisted_def unauthorized_caller_reverts_the_transaction_def)

lemma crate_tests_3:
  assumes "inj g"
  shows "unbound_token_is_rejected g life"
    "bound_token_is_in_scope g life"
    "scope_is_isolated_per_token g life"
    "unbinding_revokes_scope g life"
    "authorized_account_returns_true g life"
    "non_whitelisted_account_returns_false g life"
    "token_is_passed_through_to_the_policy g life"
    "reverting_policy_is_reported_unavailable g life"
    "missing_policy_contract_is_reported_unavailable g life"
    "client_and_free_function_agree g life"
  by (simp_all add: bed_code suite_host_defs inj_eq [OF assms]
      unbound_token_is_rejected_def bound_token_is_in_scope_def
      scope_is_isolated_per_token_def unbinding_revokes_scope_def
      authorized_account_returns_true_def non_whitelisted_account_returns_false_def
      token_is_passed_through_to_the_policy_def reverting_policy_is_reported_unavailable_def
      missing_policy_contract_is_reported_unavailable_def client_and_free_function_agree_def)

lemma crate_tests_4:
  assumes "inj g"
  shows "authorized_account_passes g life"
    "reverting_sac_fails_closed g life"
    "missing_sac_fails_closed g life"
    "initialization_event_carries_the_admin_topic g life"
    "freeze_event_carries_name_token_and_account_topics g life"
    "each_invocation_reports_only_its_own_events g life"
    "binding_events_carry_token_topic g life"
    "config_event_carries_policy_and_flag_as_data g life"
    "events_are_attributed_to_the_publishing_contract g life"
    "allow_all_configuration_authorizes_everyone g life"
    "deny_list_configuration_blocks_only_the_pinned_account g life"
  by (simp_all add: bed_code suite_host_defs inj_eq [OF assms]
      authorized_account_passes_def reverting_sac_fails_closed_def
      missing_sac_fails_closed_def initialization_event_carries_the_admin_topic_def
      freeze_event_carries_name_token_and_account_topics_def each_invocation_reports_only_its_own_events_def
      binding_events_carry_token_topic_def config_event_carries_policy_and_flag_as_data_def
      events_are_attributed_to_the_publishing_contract_def attributing_def filter_by_contract_def
      allow_all_configuration_authorizes_everyone_def deny_list_configuration_blocks_only_the_pinned_account_def)

lemma domain_tests:
  "fund_holders_are_fully_gated"
  "spender_is_policy_only"
  "role_names_are_stable"
  "operation_names_are_stable_and_lowercase"
  "parties_reflect_who_holds_funds"
  "bilateral_classification"
  "names_round_trip_through_operation"
  "allow_has_no_reason"
  "deny_carries_its_reason"
  "combination_keeps_first_rejection"
  "names_are_stable_and_unique"
  "names_round_trip"
  "codes_round_trip_and_all_are_covered"
  "hook_context_expands_to_one_context_per_party"
  "single_party_operations_expand_to_one"
  "hook_context_carries_token_identity"
  by code_simp+

text \<open>
  A new entry outlives the jump of the TTL test and is then due for renewal.
\<close>

lemma ttl_test:
  assumes "inj g" and "6000000 < life" and "life < 6501120"
  shows "reads_renew_the_binding_ttl g life"
proof -
  have ttl: "6000000 \<le> life" "\<not> life < 501120" "life - 6000000 < 501120" "life - 6000000 < 518400"
    using assms(2,3) by unat_arith+
  show ?thesis
    by (simp add: reads_renew_the_binding_ttl_def bed_code assert_ttl_def advance_ledger_def created_def renewed_def
        TTL_THRESHOLD_def TTL_EXTEND_TO_def DAY_IN_LEDGERS_def ttl)
qed

definition crate_suites :: "generator \<Rightarrow> u32 \<Rightarrow> bool list" where
  "crate_suites g life =
     [reads_renew_the_binding_ttl g life,
      admin_round_trip g life,
      admin_is_overwritable g life,
      binding_round_trip g life,
      bindings_are_isolated_per_token g life,
      unbind_removes_entry g life,
      config_defaults_to_none g life,
      config_round_trip g life,
      config_write_self_heals_a_missing_layout_stamp g life,
      disabled_config_short_circuits g life,
      config_version_tracks_rewrites g life,
      freeze_round_trip g life,
      freeze_is_isolated_per_token g life,
      freeze_is_isolated_per_account g life,
      unfreeze_is_idempotent g life,
      version_is_absent_until_written g life,
      key_classification_is_stable g life,
      uninitialized_contract_rejects_configuration_changes g life,
      authorized_admin_passes_the_gate g life,
      initialized_state_is_persisted g life,
      unauthorized_caller_reverts_the_transaction g life,
      unbound_token_is_rejected g life,
      bound_token_is_in_scope g life,
      scope_is_isolated_per_token g life,
      unbinding_revokes_scope g life,
      authorized_account_returns_true g life,
      non_whitelisted_account_returns_false g life,
      token_is_passed_through_to_the_policy g life,
      reverting_policy_is_reported_unavailable g life,
      missing_policy_contract_is_reported_unavailable g life,
      client_and_free_function_agree g life,
      authorized_account_passes g life,
      reverting_sac_fails_closed g life,
      missing_sac_fails_closed g life,
      initialization_event_carries_the_admin_topic g life,
      freeze_event_carries_name_token_and_account_topics g life,
      each_invocation_reports_only_its_own_events g life,
      binding_events_carry_token_topic g life,
      config_event_carries_policy_and_flag_as_data g life,
      events_are_attributed_to_the_publishing_contract g life,
      allow_all_configuration_authorizes_everyone g life,
      deny_list_configuration_blocks_only_the_pinned_account g life,
      fund_holders_are_fully_gated,
      spender_is_policy_only,
      role_names_are_stable,
      operation_names_are_stable_and_lowercase,
      parties_reflect_who_holds_funds,
      bilateral_classification,
      names_round_trip_through_operation,
      allow_has_no_reason,
      deny_carries_its_reason,
      combination_keeps_first_rejection,
      names_are_stable_and_unique,
      names_round_trip,
      codes_round_trip_and_all_are_covered,
      hook_context_expands_to_one_context_per_party,
      single_party_operations_expand_to_one,
      hook_context_carries_token_identity]"

lemma crate_suites_pass:
  "inj g \<Longrightarrow> 6000000 < life \<Longrightarrow> life < 6501120 \<Longrightarrow> list_all id (crate_suites g life)"
  by (simp add: crate_suites_def ttl_test domain_tests crate_tests_1 crate_tests_2 crate_tests_3 crate_tests_4)

end
