(* ===== verification/Cli_Suite.thy ===== *)
theory Cli_Suite
  imports Cli_Health
begin

text \<open>
  The unit suites of the operator CLI: the \<^verbatim>\<open>tests\<close> modules of \<^verbatim>\<open>cli/src/main.rs\<close>, \<^verbatim>\<open>cli/src/stellar.rs\<close>
  and \<^verbatim>\<open>cli/src/config.rs\<close>. Every test function is a definition of the same name,
  evaluated on a scripted runner; files have short names instead of paths below the temporary directory. The configuration files of the suites are given by the records that
  \<^verbatim>\<open>serde_json\<close> reads from them; the test that saves a record and loads it again takes the pair of
  functions between records and text as its parameter.
\<close>

section \<open>The scripted runner\<close>

record script_world =
  sw_queue :: "run_outcome list"
  sw_calls :: "string list list"
  sw_files :: "(string \<times> string) list"
  sw_exhausted :: bool

text \<open>A call on the empty queue panics: \<open>sw_exhausted\<close> fails the test.\<close>

definition scripted_run :: "script_world \<Rightarrow> string list \<Rightarrow> (string + run_outcome) \<times> script_world" where
  "scripted_run w args =
     (case sw_queue w of
        [] \<Rightarrow> (Inl ''scripted runner exhausted'', w\<lparr>sw_calls := sw_calls w @ [args], sw_exhausted := True\<rparr>)
      | r # rs \<Rightarrow> (Inr r, w\<lparr>sw_queue := rs, sw_calls := sw_calls w @ [args]\<rparr>))"

definition scripted :: "script_world cli_host" where
  "scripted =
    \<lparr>run_stellar = scripted_run, print_line = (\<lambda>w _. w), env_var = (\<lambda>_ _. None),
     path_exists = (\<lambda>w path. map_of (sw_files w) path \<noteq> None),
     read_file = (\<lambda>w path. case map_of (sw_files w) path of None \<Rightarrow> Inl ''not found'' | Some s \<Rightarrow> Inr s),
     write_file = (\<lambda>w path s. (Inr (), w\<lparr>sw_files := (path, s) # sw_files w\<rparr>))\<rparr>"

definition script :: "run_outcome list \<Rightarrow> (string \<times> string) list \<Rightarrow> script_world" where
  "script outcomes files = \<lparr>sw_queue = outcomes, sw_calls = [], sw_files = files, sw_exhausted = False\<rparr>"

definition ok_out :: "string \<Rightarrow> run_outcome" where
  "ok_out out = \<lparr>run_ok = True, run_stdout = out, run_stderr = []\<rparr>"

definition err_out :: "string \<Rightarrow> run_outcome" where
  "err_out err = \<lparr>run_ok = False, run_stdout = [], run_stderr = err\<rparr>"

text \<open>Every output of the suites ends with a line feed.\<close>

definition ok_line :: "string \<Rightarrow> run_outcome" where
  "ok_line out = ok_out (out @ [newline])"

definition err_line :: "string \<Rightarrow> run_outcome" where
  "err_line err = err_out (err @ [newline])"

definition contains :: "string \<Rightarrow> string \<Rightarrow> bool" where
  "contains s pat \<longleftrightarrow> text_find pat s \<noteq> None"

text \<open>The placeholder addresses of the suite.\<close>

definition ADMIN_KEY :: string where "ADMIN_KEY = ''GBQZ'' @ ELLIPSIS @ ''ADMIN''"

definition HOOKS_ID :: string where "HOOKS_ID = ''CA'' @ ELLIPSIS @ ''HOOKS''"

definition POLICY_ID :: string where "POLICY_ID = ''CA'' @ ELLIPSIS @ ''POLICY''"

definition ROTATED_ID :: string where "ROTATED_ID = ''CB'' @ ELLIPSIS @ ''ROTATED''"

definition USD_ID :: string where "USD_ID = ''G'' @ ELLIPSIS @ ''USD''"

definition ACCOUNT_KEY :: string where "ACCOUNT_KEY = ''GBQZ'' @ ELLIPSIS @ ''ACCOUNT''"

text \<open>The configuration every test of \<^verbatim>\<open>main.rs\<close> loads.\<close>

definition suite_config :: deployment where
  "suite_config =
    \<lparr>dep_network = ''local'', dep_rpc_url = ''http://localhost:8000/rpc'',
     dep_network_passphrase = ''Standalone Network ; February 2017'',
     dep_hooks_contract_id = HOOKS_ID,
     dep_policy = Some \<lparr>policy_contract_id = POLICY_ID\<rparr>,
     dep_sac_passthrough = False,
     dep_admin = \<lparr>admin_public_key = ADMIN_KEY, admin_stellar_identity = Some ''admin'',
       admin_secret_key_env = None\<rparr>,
     dep_tokens = [\<lparr>token_alias = ''usd'', token_contract_id = USD_ID,
       token_sac_contract_id = None\<rparr>]\<rparr>"

text \<open>The \<^verbatim>\<open>config\<close> answers of the suite: a policy by its name, as JSON.\<close>

definition json_answer :: "string \<Rightarrow> string" where
  "json_answer pol = ''{'' @ [CHR 0x22] @ ''policy'' @ [CHR 0x22] @ '':'' @ [CHR 0x22] @ pol @ [CHR 0x22] @ '','' @
     [CHR 0x22] @ ''sac_passthrough'' @ [CHR 0x22] @ '':false}''"

definition suite_codec :: "(deployment \<Rightarrow> string) \<Rightarrow> (string \<Rightarrow> string + deployment) \<Rightarrow> json_codec" where
  "suite_codec print_config parse_config =
    \<lparr>config_from_str = parse_config, config_to_string_pretty = (\<lambda>cfg. Inr (print_config cfg)),
     json_policy_field = (\<lambda>s. List.find (\<lambda>pol. s = json_answer pol)
       [POLICY_ID, ROTATED_ID])\<rparr>"

definition plain_codec :: json_codec where
  "plain_codec = suite_codec (\<lambda>_. []) (\<lambda>_. Inr suite_config)"

section \<open>The smoke test\<close>

definition healthy_deployment :: "run_outcome list" where
  "healthy_deployment =
     [ok_line ''true'', ok_line ADMIN_KEY, ok_line (json_answer POLICY_ID),
      ok_line ''1'', ok_line ''1'', ok_line ''true'', ok_line ''false'',
      err_line (CROSS_MARK @ '' error: transaction simulation failed: HostError: Error(Contract, #2)'')]"

definition suite_verify :: "run_outcome list \<Rightarrow> string option \<Rightarrow> check list \<times> script_world" where
  "suite_verify outcomes account =
     verify scripted plain_codec suite_config ADMIN_KEY account (script outcomes [])"

definition fails :: "check list \<Rightarrow> string list" where
  "fails checks = map check_name (filter (\<lambda>c. check_status c = Fail) checks)"

text \<open>The names of the failing checks, when the script was long enough.\<close>

definition failing :: "run_outcome list \<Rightarrow> string option \<Rightarrow> string list option" where
  "failing outcomes account =
     (case suite_verify outcomes account of
        (checks, w) \<Rightarrow> if sw_exhausted w then None else Some (fails checks))"

definition verify_passes_a_healthy_deployment_without_any_secret :: bool where
  "verify_passes_a_healthy_deployment_without_any_secret \<longleftrightarrow>
     (case suite_verify healthy_deployment None of
        (checks, w) \<Rightarrow>
          \<not> sw_exhausted w \<and> fails checks = [] \<and>
          length (filter (\<lambda>c. check_status c = Pass) checks) = 9 \<and>
          length (filter (\<lambda>c. check_status c = Skip) checks) = 1 \<and>
          list_all (\<lambda>call. List.member call ''--send=no'' \<and> List.member call ''--source-account'' \<and>
            \<not> List.member call ''--source'') (sw_calls w))"

definition verify_fails_when_the_gate_allows_an_unbound_token :: bool where
  "verify_fails_when_the_gate_allows_an_unbound_token \<longleftrightarrow>
     failing (healthy_deployment[length healthy_deployment - 1 := ok_line ''null'']) None = Some [''fail-closed probe'']"

definition verify_reports_an_unconfigured_contract :: bool where
  "verify_reports_an_unconfigured_contract \<longleftrightarrow>
     failing (healthy_deployment[2 := ok_line ''null'', 3 := ok_line ''0'', 5 := ok_line ''false'']) None =
       Some [''compliance configuration present'', ''config_version'', ''token usd bound'']"

definition verify_flags_a_policy_that_no_longer_matches_the_record :: bool where
  "verify_flags_a_policy_that_no_longer_matches_the_record \<longleftrightarrow>
     failing (healthy_deployment[2 := ok_line (json_answer ROTATED_ID)]) None =
       Some [''recorded policy matches the contract'']"

definition verify_stops_early_when_the_contract_is_unreachable :: bool where
  "verify_stops_early_when_the_contract_is_unreachable \<longleftrightarrow>
     (case suite_verify [err_line (CROSS_MARK @ '' error: account not found'')] None of
        (checks, w) \<Rightarrow> \<not> sw_exhausted w \<and> length checks = 1 \<and> fails checks = [''contract reachable''])"

definition verify_samples_a_real_gate_decision_when_an_account_is_given :: bool where
  "verify_samples_a_real_gate_decision_when_an_account_is_given \<longleftrightarrow>
     (case suite_verify (healthy_deployment @ [err_line ''HostError: Error(Contract, #4)'']) (Some ACCOUNT_KEY) of
        (checks, w) \<Rightarrow>
          \<not> sw_exhausted w \<and> fails checks = [] \<and> filter (\<lambda>c. check_status c = Skip) checks = [] \<and>
          (case List.find (\<lambda>c. check_name c = ''gate sample on usd'') checks of
             None \<Rightarrow> False | Some sample \<Rightarrow> contains (check_detail sample) ''account_frozen''))"

definition verify_fails_a_gate_sample_that_cannot_reach_a_decision :: bool where
  "verify_fails_a_gate_sample_that_cannot_reach_a_decision \<longleftrightarrow>
     failing (healthy_deployment @ [err_line ''HostError: Error(Contract, #10)'']) (Some ACCOUNT_KEY) =
       Some [''gate sample on usd'']"

definition placeholder_source_accounts_are_rejected_before_any_ledger_call :: bool where
  "placeholder_source_accounts_are_rejected_before_any_ledger_call \<longleftrightarrow>
     \<not> is_stellar_address ADMIN_KEY \<and>
     is_stellar_address (CHR ''G'' # replicate 55 (CHR ''A'')) \<and>
     \<not> is_stellar_address (CHR ''S'' # replicate 55 (CHR ''A''))"

section \<open>Network, error reference, bring-up\<close>

definition ensure_network_registers_a_missing_network :: bool where
  "ensure_network_registers_a_missing_network \<longleftrightarrow>
     (case ensure_network scripted suite_config
         (script [ok_line (''futurenet'' @ [newline] @ ''testnet''), ok_line ''added''] []) of
        (r, w) \<Rightarrow>
          r = Inr () \<and> length (sw_calls w) = 2 \<and> sw_calls w ! 0 ! 0 = ''network'' \<and>
          List.member (sw_calls w ! 1) ''--rpc-url'')"

definition ensure_network_skips_when_already_registered :: bool where
  "ensure_network_skips_when_already_registered \<longleftrightarrow>
     (case ensure_network scripted suite_config (script [ok_line (''local'' @ [newline] @ ''futurenet'')] []) of
        (r, w) \<Rightarrow> r = Inr () \<and> length (sw_calls w) = 1)"

definition decode_references_are_offline :: bool where
  "decode_references_are_offline \<longleftrightarrow>
     fst (print_errors scripted None (script [] [])) = Inr ()"

definition fake_id :: "char \<Rightarrow> string" where
  "fake_id letter = CHR ''C'' # replicate 55 letter"

definition CHECK_MARK :: string where "CHECK_MARK = [CHR 0xE2, CHR 0x9C, CHR 0x85]"

definition deployed_line :: "char \<Rightarrow> run_outcome" where
  "deployed_line letter = ok_line (CHECK_MARK @ '' Deployed!'' @ [newline] @ fake_id letter)"

definition after_dashes :: "string list \<Rightarrow> string list" where
  "after_dashes args = drop 1 (dropWhile (\<lambda>a. a \<noteq> ''--'') args)"

text \<open>\<^verbatim>\<open>windows(2).any(|w| w == [a, b])\<close>\<close>

fun has_window :: "string \<Rightarrow> string \<Rightarrow> string list \<Rightarrow> bool" where
  "has_window a b (x # y # rest) = ((x = a \<and> y = b) \<or> has_window a b (y # rest))"
| "has_window a b _ = False"

definition deploy_runs_the_full_lifecycle_in_order :: bool where
  "deploy_runs_the_full_lifecycle_in_order \<longleftrightarrow>
     (case run_deploy scripted plain_codec suite_config None ''admin'' ''hooks.wasm'' (Some ''policy.wasm'')
         (Some (''GBQZ'' @ ELLIPSIS @ ''BOB'')) None False None
         (script [deployed_line (CHR ''A''), deployed_line (CHR ''B''), ok_line ''null'', ok_line ''null'', ok_line ''null'']
           [(''hooks.wasm'', ''wasm''), (''policy.wasm'', ''wasm'')]) of
        (r, w) \<Rightarrow>
          (let calls = sw_calls w in
           r = Inr () \<and> length calls = 5 \<and>
           has_window ''--wasm'' ''hooks.wasm'' (calls ! 0) \<and> has_window ''--wasm'' ''policy.wasm'' (calls ! 1) \<and>
           after_dashes (calls ! 1) = [''--blocked'', [CHR 0x22] @ ''GBQZ'' @ ELLIPSIS @ ''BOB'' @ [CHR 0x22]] \<and>
           List.member (calls ! 2) (fake_id (CHR ''A'')) \<and>
           after_dashes (calls ! 2) ! 0 = ''initialize'' \<and> after_dashes (calls ! 3) ! 0 = ''set_config'' \<and>
           has_window ''--policy'' ([CHR 0x22] @ fake_id (CHR ''B'') @ [CHR 0x22]) (calls ! 3) \<and>
           has_window ''--sac_passthrough'' ''false'' (calls ! 3) \<and>
           after_dashes (calls ! 4) ! 0 = ''bind_token''))"

text \<open>The record of the bring-up is printed to the target and parsed from it again.\<close>

definition saved_config :: deployment where
  "saved_config = recorded_config suite_config (fake_id (CHR ''C'')) (Some POLICY_ID) False"

definition deploy_save_records_fresh_ids_into_the_config ::
  "(deployment \<Rightarrow> string) \<Rightarrow> (string \<Rightarrow> string + deployment) \<Rightarrow> bool" where
  "deploy_save_records_fresh_ids_into_the_config print_config parse_config \<longleftrightarrow>
     (case run_deploy scripted (suite_codec print_config parse_config) suite_config (Some ''configuration.json'')
         ''admin'' ''hooks.wasm'' None None None False None
         (script [deployed_line (CHR ''C''), ok_line ''null'', ok_line ''null'', ok_line ''null'']
           [(''hooks.wasm'', ''wasm''), (''configuration.json'', print_config suite_config)]) of
        (r, w) \<Rightarrow>
          r = Inr () \<and> \<not> sw_exhausted w \<and>
          (case fst (config_load scripted (suite_codec print_config parse_config) ''configuration.json'' w) of
             Inl _ \<Rightarrow> False
           | Inr saved \<Rightarrow>
               dep_hooks_contract_id saved = fake_id (CHR ''C'') \<and>
               map_option policy_contract_id (dep_policy saved) = Some POLICY_ID \<and>
               map token_alias (dep_tokens saved) = [''usd'']))"

section \<open>The ledger boundary\<close>

definition run_fail :: "string \<Rightarrow> run_outcome" where
  "run_fail out = \<lparr>run_ok = False, run_stdout = out, run_stderr = []\<rparr>"

definition fail_line :: "string \<Rightarrow> run_outcome" where
  "fail_line out = run_fail (out @ [newline])"

definition invoke_argv_is_shaped_like_docs_deployment_md :: bool where
  "invoke_argv_is_shaped_like_docs_deployment_md \<longleftrightarrow>
     invoke_args (Some ''admin'') HOOKS_ID ''local'' ''set_config''
       [(''policy'', opt_address (Some POLICY_ID)), (''sac_passthrough'', boolean_param False)] =
     [''contract'', ''invoke'', ''--id'', HOOKS_ID, ''--source'', ''admin'', ''--network'',
      ''local'', ''--'', ''set_config'', ''--policy'', [CHR 0x22] @ POLICY_ID @ [CHR 0x22],
      ''--sac_passthrough'', ''false'']"

definition option_addresses_take_json_values :: bool where
  "option_addresses_take_json_values \<longleftrightarrow>
     opt_address (Some ''CABC'') = [CHR 0x22] @ ''CABC'' @ [CHR 0x22] \<and> opt_address None = ''null'' \<and>
     address_param ''GABC'' = ''GABC'' \<and> boolean_param True = ''true''"

definition bind_with_null_sac_omits_nothing_important :: bool where
  "bind_with_null_sac_omits_nothing_important \<longleftrightarrow>
     last (invoke_args None HOOKS_ID ''local'' ''bind_token''
       [(''token'', address_param (''G'' @ ELLIPSIS @ ''TOKEN'')), (''sac'', opt_address None)]) = ''null''"

definition deploy_argv_has_wasm_source_network_and_constructor_after_dashdash :: bool where
  "deploy_argv_has_wasm_source_network_and_constructor_after_dashdash \<longleftrightarrow>
     deploy_args ''/tmp/hooks.wasm'' ''admin'' ''local'' [(''blocked'', opt_address (Some (''GBQZ'' @ ELLIPSIS)))] =
       [''contract'', ''deploy'', ''--wasm'', ''/tmp/hooks.wasm'', ''--source'', ''admin'', ''--network'', ''local'',
        ''--'', ''--blocked'', [CHR 0x22] @ ''GBQZ'' @ ELLIPSIS @ [CHR 0x22]] \<and>
     length (deploy_args ''/tmp/hooks.wasm'' ''admin'' ''local'' []) = 8 \<and>
     last (deploy_args ''/tmp/hooks.wasm'' ''admin'' ''local'' []) = ''local''"

definition deployed_ids_are_parsed_from_the_output_tail :: bool where
  "deployed_ids_are_parsed_from_the_output_tail \<longleftrightarrow>
     parse_deployed_id ([CHR 0xE2, CHR 0x84, CHR 0xB9, CHR 0xEF, CHR 0xB8, CHR 0x8F] @ ''  Uploading'' @ ELLIPSIS @ [newline] @
       CHECK_MARK @ '' Deployed!'' @ [newline] @ fake_id (CHR ''A'') @ [newline]) = Some (fake_id (CHR ''A'')) \<and>
     parse_deployed_id (CHECK_MARK @ '' Deployed!'' @ [newline] @ ''nope'' @ [newline]) = None"

definition successful_read_yields_the_value_line :: bool where
  "successful_read_yields_the_value_line \<longleftrightarrow>
     interpret_outcome (ok_line ([newline] @ ''false'')) = Inr (Some ''false'')"

definition successful_send_yields_null_value :: bool where
  "successful_send_yields_null_value \<longleftrightarrow>
     interpret_outcome (ok_line (CHECK_MARK @ '' Transaction submitted successfully!'' @ [newline] @ ''null'')) =
       Inr (Some ''null'')"

definition contract_reverts_decode_to_stable_reasons :: bool where
  "contract_reverts_decode_to_stable_reasons \<longleftrightarrow>
     list_all (\<lambda>(raw, name).
         case decode_contract_error raw of
           Some (Rejection r) \<Rightarrow> reason_name r = name \<and> contains (describe (Rejection r)) name
         | _ \<Rightarrow> False)
       [(''Error(Contract, #2)'', ''unbound_token''), (''Error(Contract, #3)'', ''policy_denied''),
        (''Error(Contract, #4)'', ''account_frozen'')]"

definition failed_run_with_contract_error_describes_the_reason :: bool where
  "failed_run_with_contract_error_describes_the_reason \<longleftrightarrow>
     (case interpret_outcome (fail_line (CROSS_MARK @
         '' error: transaction simulation failed: HostError: Error(Contract, #4)'')) of
        Inl err \<Rightarrow> contains err ''account_frozen'' | Inr _ \<Rightarrow> False)"

definition double_initialization_maps_to_the_contract_code :: bool where
  "double_initialization_maps_to_the_contract_code \<longleftrightarrow>
     (case decode_contract_error ''HostError: Error(Contract, #12)'' of
        Some revert \<Rightarrow> revert = AlreadyInitialized \<and> contains (describe revert) ''already_initialized''
      | None \<Rightarrow> False)"

definition non_contract_failures_surface_the_raw_tail :: bool where
  "non_contract_failures_surface_the_raw_tail \<longleftrightarrow>
     (case interpret_outcome (fail_line (''some log line'' @ [newline] @ CROSS_MARK @ '' error: account not found'')) of
        Inl err \<Rightarrow> contains err ''account not found'' | Inr _ \<Rightarrow> False)"

section \<open>The configuration record\<close>

definition sample_config :: deployment where
  "sample_config =
    \<lparr>dep_network = ''local'', dep_rpc_url = ''http://localhost:8000/rpc'',
     dep_network_passphrase = ''Standalone Network ; February 2017'',
     dep_hooks_contract_id = ''CA42K3YO7EDNT4PRRK7GBOACOLGJHSQBDGT57KH2W3JTGQSNDAB7USQL'',
     dep_policy = Some \<lparr>policy_contract_id = ''CAC3QOZH4VXD4MEZOXI3X7J4OY4BPRYSKMLKICHS7NGTNW2BZIF637EE''\<rparr>,
     dep_sac_passthrough = False,
     dep_admin = \<lparr>admin_public_key = ''GBQZUZ2MKEJJXOMHVQMLTWPRDJIBPP6GB73JOZC2TSY5RT6CXX2YRDZS'',
       admin_stellar_identity = Some ''admin'', admin_secret_key_env = None\<rparr>,
     dep_tokens = [\<lparr>token_alias = ''usd'',
       token_contract_id = ''GDHXVAXOEMOBX6SL43YX5OYF2XPLPNJFWRRYPPKGBPJ3P5HHDH7KXSBE'',
       token_sac_contract_id = None\<rparr>]\<rparr>"

definition token_resolution_accepts_alias_and_bare_address :: bool where
  "token_resolution_accepts_alias_and_bare_address \<longleftrightarrow>
     resolve_token sample_config ''usd'' = Inr ''GDHXVAXOEMOBX6SL43YX5OYF2XPLPNJFWRRYPPKGBPJ3P5HHDH7KXSBE'' \<and>
     resolve_token sample_config ''CA42K3YO7EDNT4PRRK7GBOACOLGJHSQBDGT57KH2W3JTGQSNDAB7USQL'' =
       Inr ''CA42K3YO7EDNT4PRRK7GBOACOLGJHSQBDGT57KH2W3JTGQSNDAB7USQL'' \<and>
     (case resolve_token sample_config ''nope'' of Inl _ \<Rightarrow> True | Inr _ \<Rightarrow> False) \<and>
     sac_for sample_config ''usd'' = None"

definition admin_source_prefers_identity_over_env :: bool where
  "admin_source_prefers_identity_over_env \<longleftrightarrow>
     admin_source scripted (script [] []) sample_config None = Inr ''admin'' \<and>
     admin_source scripted (script [] []) sample_config (Some ''deployer'') = Inr ''deployer''"

definition admin_source_falls_back_to_secret_env :: bool where
  "admin_source_falls_back_to_secret_env \<longleftrightarrow>
     (case admin_source scripted (script [] [])
         \<lparr>dep_network = ''testnet'', dep_rpc_url = ''https://soroban-testnet.stellar.org'',
          dep_network_passphrase = ''Test SDF Network ; September 2015'', dep_hooks_contract_id = ''C'' @ ELLIPSIS,
          dep_policy = None, dep_sac_passthrough = False,
          dep_admin = \<lparr>admin_public_key = ''G'' @ ELLIPSIS, admin_stellar_identity = None,
            admin_secret_key_env = Some ''SAFEGUARD_ADMIN_SK''\<rparr>,
          dep_tokens = []\<rparr> None of
        Inl err \<Rightarrow> contains err ''SAFEGUARD_ADMIN_SK'' | Inr _ \<Rightarrow> False)"

section \<open>They pass\<close>

text \<open>What the scripted outcomes are read as.\<close>

lemmas script_defs = suite_verify_def failing_def fails_def healthy_deployment_def script_def

lemma view_scripted:
  "sw_queue w = r # rs \<Longrightarrow> view scripted source i network func params w =
     (read_view (Inr r), w\<lparr>sw_queue := rs, sw_calls := sw_calls w @ [view_args source i network func params]\<rparr>)"
  by (simp add: view_reads scripted_def scripted_run_def)

lemma gate_scripted:
  "sw_queue w = r # rs \<Longrightarrow> gate scripted source i network func params w =
     (read_gate (Inr r), w\<lparr>sw_queue := rs, sw_calls := sw_calls w @ [view_args source i network func params]\<rparr>)"
  by (simp add: gate_reads scripted_def scripted_run_def)

lemma scripted_views:
  "read_view (Inr (ok_line ''true'')) = Inr ''true''" "read_view (Inr (ok_line ''false'')) = Inr ''false''"
  "read_view (Inr (ok_line ''1'')) = Inr ''1''" "read_view (Inr (ok_line ''0'')) = Inr ''0''"
  "read_view (Inr (ok_line ''null'')) = Inr ''null''" "read_view (Inr (ok_line ADMIN_KEY)) = Inr ADMIN_KEY"
  "read_view (Inr (ok_line (json_answer POLICY_ID))) = Inr (json_answer POLICY_ID)"
  "read_view (Inr (ok_line (json_answer ROTATED_ID))) = Inr (json_answer ROTATED_ID)"
  by code_simp+

lemma scripted_unreachable:
  "read_view (Inr (err_line (CROSS_MARK @ '' error: account not found''))) =
     Inl (CROSS_MARK @ '' error: account not found'')"
  by code_simp

lemma code_texts:
  "u32_text 0 = ''0''" "u32_text 1 = ''1''" "u32_text 2 = ''2''" "u32_text 3 = ''3''" "u32_text 4 = ''4''"
  "u32_text 10 = ''10''" "u32_text 12 = ''12''"
  by code_simp+

lemma revert_texts:
  "revert_of UnboundTokenErr = Rejection UnboundToken" "revert_of PolicyDeniedErr = Rejection PolicyDenied"
  "revert_of AccountFrozenErr = Rejection AccountFrozen" "revert_of PolicyUnavailableErr = Rejection PolicyUnavailable"
  using revert_of_reason [of UnboundToken] revert_of_reason [of PolicyDenied] revert_of_reason [of AccountFrozen]
    revert_of_reason [of PolicyUnavailable] by simp_all

lemma decode_scripted:
  "text_find revert_marker before = None \<Longrightarrow>
   decode_contract_error (before @ revert_marker @ u32_text (error_code err) @ '')'' @ after) = Some (revert_of err)"
  using decode_revert_text [of before err after] by (simp add: revert_line_def text_find_None)

lemma scripted_decodes:
  "decode_contract_error ''Error(Contract, #2)'' = Some (Rejection UnboundToken)"
  "decode_contract_error ''Error(Contract, #3)'' = Some (Rejection PolicyDenied)"
  "decode_contract_error ''Error(Contract, #4)'' = Some (Rejection AccountFrozen)"
  "decode_contract_error ''HostError: Error(Contract, #12)'' = Some AlreadyInitialized"
  using decode_scripted [of "[]" UnboundTokenErr "[]"] decode_scripted [of "[]" PolicyDeniedErr "[]"]
    decode_scripted [of "[]" AccountFrozenErr "[]"] decode_scripted [of "''HostError: ''" AlreadyInitializedErr "[]"]
    revert_from_error_code [of AlreadyInitializedErr]
  by (simp_all add: code_texts revert_texts revert_marker_def revert_of_def reason_from_code_def ALL_REASONS_def)

lemma scripted_gates:
  "read_gate (Inr (ok_line ''null'')) = Inr Allowed"
  "read_gate (Inr (err_line (CROSS_MARK @ '' error: transaction simulation failed: HostError: Error(Contract, #2)''))) =
     Inr (Denied (Rejection UnboundToken))"
  "read_gate (Inr (err_line ''HostError: Error(Contract, #4)'')) = Inr (Denied (Rejection AccountFrozen))"
  "read_gate (Inr (err_line ''HostError: Error(Contract, #10)'')) = Inr (Denied (Rejection PolicyUnavailable))"
  using decode_scripted [of "[newline] @ CROSS_MARK @ '' error: transaction simulation failed: HostError: ''"
      UnboundTokenErr "[newline]"]
    decode_scripted [of "[newline] @ ''HostError: ''" AccountFrozenErr "[newline]"]
    decode_scripted [of "[newline] @ ''HostError: ''" PolicyUnavailableErr "[newline]"]
  by (simp_all add: read_gate_def ok_line_def err_line_def ok_out_def err_out_def combined_def code_texts revert_texts revert_marker_def
      CROSS_MARK_def newline_def)

lemma scripted_texts:
  "unquote ''true'' = ''true''" "unquote ''false'' = ''false''" "unquote ''null'' = ''null''"
  "unquote ADMIN_KEY = ADMIN_KEY" "unquote (json_answer POLICY_ID) \<noteq> ''null''"
  "unquote (json_answer ROTATED_ID) \<noteq> ''null''" "text_trim (json_answer POLICY_ID) \<noteq> []"
  "text_trim (json_answer ROTATED_ID) \<noteq> []" "text_trim ''1'' = ''1''" "text_trim ''0'' = ''0''"
  "json_answer POLICY_ID \<noteq> json_answer ROTATED_ID" "POLICY_ID \<noteq> ROTATED_ID" "ROTATED_ID \<noteq> POLICY_ID"
  "''--source'' \<noteq> ADMIN_KEY" "''--source'' \<noteq> HOOKS_ID" "''--source'' \<noteq> USD_ID" "''--source'' \<noteq> ACCOUNT_KEY"
  by code_simp+

lemma scripted_numbers: "parse_u32 ''1'' = Some 1" "parse_u32 ''0'' = Some 0"
  using parse_u32_text [of 1] parse_u32_text [of 0] by (simp_all add: code_texts)

lemma scripted_policy:
  "json_policy_field plain_codec (json_answer POLICY_ID) = Some POLICY_ID"
  "json_policy_field plain_codec (json_answer ROTATED_ID) = Some ROTATED_ID"
  using scripted_texts(11) by (simp_all add: plain_codec_def suite_codec_def)

lemma frozen_sample:
  "contains (check_detail (judge_sample t ACCOUNT_KEY (Inr (Denied (Rejection AccountFrozen))))) ''account_frozen''"
  "check_status (judge_sample t ACCOUNT_KEY (Inr (Denied (Rejection AccountFrozen)))) = Pass"
  "check_name (judge_sample t ACCOUNT_KEY (Inr (Denied (Rejection AccountFrozen)))) = ''gate sample on '' @ token_alias t"
  by (simp_all add: judge_sample_def check_pass_def Let_def code_texts contains_def)

lemmas smoke_defs =
  verify_def check_initialized_def check_admin_def check_config_def check_recorded_policy_def version_floors_def
  check_version_def check_binding_def check_tokens_def judge_probe_def check_probe_def check_sample_def
  suite_config_def check_defs Let_def

lemmas smoke_run =
  script_defs smoke_defs view_scripted gate_scripted scripted_views scripted_gates scripted_unreachable scripted_texts
  scripted_numbers scripted_policy view_args_def param_args_def address_param_def

lemma verify_passes_a_healthy_deployment_without_any_secret_test:
  "verify_passes_a_healthy_deployment_without_any_secret"
  by (simp add: verify_passes_a_healthy_deployment_without_any_secret_def
      smoke_run judge_sample_def)

lemma verify_fails_when_the_gate_allows_an_unbound_token_test:
  "verify_fails_when_the_gate_allows_an_unbound_token"
  by (simp add: verify_fails_when_the_gate_allows_an_unbound_token_def
      smoke_run judge_sample_def)

lemma verify_reports_an_unconfigured_contract_test:
  "verify_reports_an_unconfigured_contract"
  by (simp add: verify_reports_an_unconfigured_contract_def
      smoke_run judge_sample_def)

lemma verify_flags_a_policy_that_no_longer_matches_the_record_test:
  "verify_flags_a_policy_that_no_longer_matches_the_record"
  by (simp add: verify_flags_a_policy_that_no_longer_matches_the_record_def
      smoke_run judge_sample_def)

lemma verify_stops_early_when_the_contract_is_unreachable_test:
  "verify_stops_early_when_the_contract_is_unreachable"
  by (simp add: verify_stops_early_when_the_contract_is_unreachable_def
      smoke_run judge_sample_def)

lemma verify_samples_a_real_gate_decision_when_an_account_is_given_test:
  "verify_samples_a_real_gate_decision_when_an_account_is_given"
  by (simp add: verify_samples_a_real_gate_decision_when_an_account_is_given_def
      smoke_run frozen_sample)

lemma verify_fails_a_gate_sample_that_cannot_reach_a_decision_test:
  "verify_fails_a_gate_sample_that_cannot_reach_a_decision"
  by (simp add: verify_fails_a_gate_sample_that_cannot_reach_a_decision_def
      smoke_run judge_sample_def)

lemma contract_reverts_decode_to_stable_reasons_test: "contract_reverts_decode_to_stable_reasons"
  by (simp add: contract_reverts_decode_to_stable_reasons_def scripted_decodes describe_def code_texts contains_def)

lemma double_initialization_maps_to_the_contract_code_test: "double_initialization_maps_to_the_contract_code"
  by (simp add: double_initialization_maps_to_the_contract_code_def scripted_decodes describe_def contains_def)

lemma failed_run_with_contract_error_describes_the_reason_test: "failed_run_with_contract_error_describes_the_reason"
  using decode_scripted [of "CROSS_MARK @ '' error: transaction simulation failed: HostError: ''" AccountFrozenErr
      "[newline, newline]"]
  by (simp add: failed_run_with_contract_error_describes_the_reason_def interpret_outcome_def fail_line_def run_fail_def combined_def
      Let_def describe_def contains_def code_texts revert_texts revert_marker_def CROSS_MARK_def newline_def)

lemma cli_tests_1:
  "placeholder_source_accounts_are_rejected_before_any_ledger_call"
  "ensure_network_registers_a_missing_network"
  "ensure_network_skips_when_already_registered"
  "decode_references_are_offline"
  "deploy_runs_the_full_lifecycle_in_order"
  "invoke_argv_is_shaped_like_docs_deployment_md"
  "option_addresses_take_json_values"
  "bind_with_null_sac_omits_nothing_important"
  "deploy_argv_has_wasm_source_network_and_constructor_after_dashdash"
  "deployed_ids_are_parsed_from_the_output_tail"
  by code_simp+

lemma cli_tests_2:
  "successful_read_yields_the_value_line"
  "successful_send_yields_null_value"
  "non_contract_failures_surface_the_raw_tail"
  "token_resolution_accepts_alias_and_bare_address"
  "admin_source_prefers_identity_over_env"
  "admin_source_falls_back_to_secret_env"
  by code_simp+

lemma scripted_deploys:
  "run_ok (deployed_line letter)" "parse_deployed_id (run_stdout (deployed_line (CHR ''C''))) = Some (fake_id (CHR ''C''))"
  "interpret_outcome (ok_line ''null'') = Inr (Some ''null'')"
  by (simp add: deployed_line_def ok_line_def ok_out_def, code_simp, code_simp)

text \<open>The saved record is parsed from what was printed, the trailing line feed included.\<close>

lemma deploy_save_test:
  assumes "parse_config (print_config saved_config @ [newline]) = Inr saved_config"
  shows "deploy_save_records_fresh_ids_into_the_config print_config parse_config"
  by (simp add: deploy_save_records_fresh_ids_into_the_config_def run_deploy_def and_do_def deploy_hooks_def
      resolve_policy_def bring_up_def hooks_invoke_def send_raw_def println_def config_save_def config_load_def
      map_err_def lift_result_def done_with_def scripted_def scripted_run_def script_def suite_codec_def
      suite_config_def recorded_config_def scripted_deploys Let_def
      assms [unfolded saved_config_def suite_config_def recorded_config_def, simplified])

definition cli_suite :: "(deployment \<Rightarrow> string) \<Rightarrow> (string \<Rightarrow> string + deployment) \<Rightarrow> bool list" where
  "cli_suite print_config parse_config =
     [deploy_save_records_fresh_ids_into_the_config print_config parse_config,
      verify_passes_a_healthy_deployment_without_any_secret,
      verify_fails_when_the_gate_allows_an_unbound_token,
      verify_reports_an_unconfigured_contract,
      verify_flags_a_policy_that_no_longer_matches_the_record,
      verify_stops_early_when_the_contract_is_unreachable,
      verify_samples_a_real_gate_decision_when_an_account_is_given,
      verify_fails_a_gate_sample_that_cannot_reach_a_decision,
      placeholder_source_accounts_are_rejected_before_any_ledger_call,
      ensure_network_registers_a_missing_network,
      ensure_network_skips_when_already_registered,
      decode_references_are_offline,
      deploy_runs_the_full_lifecycle_in_order,
      invoke_argv_is_shaped_like_docs_deployment_md,
      option_addresses_take_json_values,
      bind_with_null_sac_omits_nothing_important,
      deploy_argv_has_wasm_source_network_and_constructor_after_dashdash,
      deployed_ids_are_parsed_from_the_output_tail,
      successful_read_yields_the_value_line,
      successful_send_yields_null_value,
      contract_reverts_decode_to_stable_reasons,
      failed_run_with_contract_error_describes_the_reason,
      double_initialization_maps_to_the_contract_code,
      non_contract_failures_surface_the_raw_tail,
      token_resolution_accepts_alias_and_bare_address,
      admin_source_prefers_identity_over_env,
      admin_source_falls_back_to_secret_env]"

lemma cli_suite_passes:
  "parse_config (print_config saved_config @ [newline]) = Inr saved_config \<Longrightarrow>
   list_all id (cli_suite print_config parse_config)"
  by (simp add: cli_suite_def deploy_save_test
      verify_passes_a_healthy_deployment_without_any_secret_test
      verify_fails_when_the_gate_allows_an_unbound_token_test
      verify_reports_an_unconfigured_contract_test
      verify_flags_a_policy_that_no_longer_matches_the_record_test
      verify_stops_early_when_the_contract_is_unreachable_test
      verify_samples_a_real_gate_decision_when_an_account_is_given_test
      verify_fails_a_gate_sample_that_cannot_reach_a_decision_test
      contract_reverts_decode_to_stable_reasons_test
      double_initialization_maps_to_the_contract_code_test
      failed_run_with_contract_error_describes_the_reason_test cli_tests_1 cli_tests_2)

end
