(* ===== verification/Integration_Bed.thy ===== *)
theory Integration_Bed
  imports Sample_Policy
begin

text \<open>
  The support module of the integration suites, \<^verbatim>\<open>contracts/compliance-hooks/tests/common/mod.rs\<close>: the two
  contracts the suites register, the raw invocation helpers with their scoping of mocked authorizations,
  and the deployment context \<^verbatim>\<open>Ctx\<close> with its shorthands. A world is the ledger of the contract under test,
  the flag of the auth manager, the registered contracts and the number of addresses generated so far;
  \<open>g n\<close> is the \<open>n\<close>-th generated address. \<open>None\<close> is a panic of the test.

  \<open>portrays\<close> relates a world to the few facts the suites keep of it (\<open>picture\<close>), and the lemmas of the last
  section say what each helper answers and how it moves the picture.
\<close>

section \<open>The registered contracts\<close>

datatype fixture = Policy "address option" | Sac address address

definition fixture_is_authorized :: "address option \<Rightarrow> address \<Rightarrow> address \<Rightarrow> bool" where
  "fixture_is_authorized blocked account tk \<longleftrightarrow> Some account \<noteq> blocked"

definition fixture_authorized :: "address \<Rightarrow> address \<Rightarrow> address \<Rightarrow> bool" where
  "fixture_authorized a b i \<longleftrightarrow> i = a \<or> i = b"

text \<open>Neither of them writes, so a call on one is an answer.\<close>

definition fixture_answer :: "(address \<Rightarrow> fixture option) \<Rightarrow> views" where
  "fixture_answer contracts callee f args =
     (case (contracts callee, args) of
        (Some (Policy blocked), [acc, tk]) \<Rightarrow>
          if f = POLICY_FN then Inr (Inr (fixture_is_authorized blocked acc tk)) else Inl Abort
      | (Some (Sac a b), [i]) \<Rightarrow>
          if f = SAC_AUTHORIZED_FN then Inr (Inr (fixture_authorized a b i)) else Inl Abort
      | _ \<Rightarrow> Inl Abort)"

section \<open>The environment\<close>

type_synonym store = "(data_key, stored, event) ledger"

record world =
  kept :: store
  mocked :: bool
  contracts :: "address \<Rightarrow> fixture option"
  minted :: nat

text \<open>The host the contract under test runs on, with the other contracts and the auth manager in place.\<close>

definition suite_host :: "(address \<Rightarrow> fixture option) \<Rightarrow> bool \<Rightarrow> store chost" where
  "suite_host cs auths = ledger_host
    \<lparr>authorized := (\<lambda>_ _. auths),
     require_auth := (\<lambda>e _. if auths then Some e else None),
     try_invoke := (\<lambda>e callee f args. (fixture_answer cs callee f args, e))\<rparr>"

lemma suite_host_simps [simp]:
  "instance_get (suite_host cs auths) = instance_get ledger_host"
  "persistent_get (suite_host cs auths) = persistent_get ledger_host"
  "published (suite_host cs auths) = published ledger_host"
  "authorized (suite_host cs auths) e = (\<lambda>_. auths)"
  "try_invoke (suite_host cs auths) e callee f args = (fixture_answer cs callee f args, e)"
  by (simp_all add: suite_host_def fun_eq_iff)

interpretation suite: view_contract_host "suite_host cs auths"
  by unfold_locales
    (auto simp: suite_host_def ledger_host_def quiet_def same_entries_def same_views_def split: if_splits)

lemma suite_state [simp]:
  "state_of (suite_host cs auths) = state_of ledger_host"
  "well_typed (suite_host cs auths) = well_typed ledger_host"
  "views_of (suite_host cs auths) e = fixture_answer cs"
  by (simp_all add: state_of_def well_typed_def views_of_def fun_eq_iff)

definition generate :: "(nat \<Rightarrow> address) \<Rightarrow> world \<Rightarrow> address \<times> world" where
  "generate g s = (g (minted s), s\<lparr>minted := Suc (minted s)\<rparr>)"

definition enroll :: "(nat \<Rightarrow> address) \<Rightarrow> fixture \<Rightarrow> world \<Rightarrow> address \<times> world" where
  "enroll g d s = (let (a, s) = generate g s in (a, s\<lparr>contracts := (contracts s)(a \<mapsto> d)\<rparr>))"

definition new_env :: world where
  "new_env =
    \<lparr>kept = \<lparr>l_instance = (\<lambda>_. None), l_persistent = (\<lambda>_. None), l_ttl = (\<lambda>_. 0), l_signers = [],
       l_events = [], l_views = (\<lambda>_ _ _. Inl Abort)\<rparr>,
     mocked = False, contracts = Map.empty, minted = 0\<rparr>"

section \<open>Invocation by name\<close>

datatype val = AddressVal address | VoidVal | BoolVal bool

fun address_val :: "val \<Rightarrow> address option" where
  "address_val (AddressVal a) = Some a"
| "address_val _ = None"

fun optional_val :: "val \<Rightarrow> address option option" where
  "optional_val (AddressVal a) = Some (Some a)"
| "optional_val VoidVal = Some None"
| "optional_val (BoolVal _) = None"

fun bool_val :: "val \<Rightarrow> bool option" where
  "bool_val (BoolVal b) = Some b"
| "bool_val _ = None"

definition into_val :: "address option \<Rightarrow> val" where
  "into_val a = (case a of None \<Rightarrow> VoidVal | Some x \<Rightarrow> AddressVal x)"

lemma optional_into_val [simp]: "optional_val (into_val a) = Some a"
  by (cases a) (simp_all add: into_val_def)

definition address_call :: "string \<Rightarrow> address list \<Rightarrow> entry_call option" where
  "address_call func as =
     (case as of
        [a] \<Rightarrow>
          if func = ''initialize'' then Some (Initialize a)
          else if func = ''unbind_token'' then Some (UnbindToken a)
          else None
      | [a, b] \<Rightarrow>
          if func = ''freeze'' then Some (FreezeAccount a b)
          else if func = ''unfreeze'' then Some (UnfreezeAccount a b)
          else if func = ''before_register'' then Some (BeforeRegister a b)
          else if func = ''before_withdraw'' then Some (BeforeWithdraw a b)
          else if func = ''before_merge'' then Some (BeforeMerge a b)
          else None
      | [a, b, c] \<Rightarrow>
          if func = ''before_deposit'' then Some (BeforeDeposit a b c)
          else if func = ''before_transfer'' then Some (BeforeTransfer a b c)
          else None
      | [a, b, c, d] \<Rightarrow>
          if func = ''before_transfer_from'' then Some (BeforeTransferFrom a b c d) else None
      | _ \<Rightarrow> None)"

text \<open>Which entry point an argument vector reaches; \<open>None\<close> is a missing function or an ill-typed argument.\<close>

definition entry_of :: "string \<Rightarrow> val list \<Rightarrow> entry_call option" where
  "entry_of func args =
     (if func = ''set_config'' then
        (case args of
           [p, s] \<Rightarrow> do { pol \<leftarrow> optional_val p; passthrough \<leftarrow> bool_val s; Some (SetConfig pol passthrough) }
         | _ \<Rightarrow> None)
      else if func = ''bind_token'' then
        (case args of
           [t, s] \<Rightarrow> do { tk \<leftarrow> address_val t; sac \<leftarrow> optional_val s; Some (BindToken tk sac) }
         | _ \<Rightarrow> None)
      else do { as \<leftarrow> those (map address_val args); address_call func as })"

text \<open>
  \<^verbatim>\<open>try_invoke_contract::<(), ContractError>\<close>: \<open>Inl (Some err)\<close> is \<^verbatim>\<open>Err(Ok(err))\<close>, \<open>Inl None\<close> the failure at the
  host level \<^verbatim>\<open>Err(Err(_))\<close>. A failed invocation is rolled back.
\<close>

definition try_contract :: "string \<Rightarrow> val list \<Rightarrow> world \<Rightarrow> (contract_error option + unit) \<times> world" where
  "try_contract func args s =
     (case Option.bind (entry_of func args) (dispatch (suite_host (contracts s) (mocked s)) (kept s)) of
        None \<Rightarrow> (Inl None, s)
      | Some (Inl err, _) \<Rightarrow> (Inl (Some err), s)
      | Some (Inr _, e) \<Rightarrow> (Inr (), s\<lparr>kept := e\<rparr>))"

type_synonym outcome_in = "((contract_error + unit) \<times> world) option"

definition call_args :: "string \<Rightarrow> val list \<Rightarrow> world \<Rightarrow> outcome_in" where
  "call_args func args s =
     (case try_contract func args s of
        (Inr _, s) \<Rightarrow> Some (Inr (), s)
      | (Inl (Some err), s) \<Rightarrow> Some (Inl err, s)
      | (Inl None, _) \<Rightarrow> None)"

definition authorized_call :: "string \<Rightarrow> val list \<Rightarrow> world \<Rightarrow> outcome_in" where
  "authorized_call func args s =
     (let old = mocked s;
          s = s\<lparr>mocked := True\<rparr>
      in do {
        (res, s) \<leftarrow> call_args func args s;
        Some (res, s\<lparr>mocked := old\<rparr>)
      })"

definition assert_reverted :: "string \<Rightarrow> val list \<Rightarrow> world \<Rightarrow> world option" where
  "assert_reverted func args s =
     (case try_contract func args s of (Inl _, s) \<Rightarrow> Some s | (Inr _, _) \<Rightarrow> None)"

definition view_bool :: "string \<Rightarrow> address list \<Rightarrow> world \<Rightarrow> (bool \<times> world) option" where
  "view_bool func as s =
     map_option (map_prod id (\<lambda>e. s\<lparr>kept := e\<rparr>))
       (let H = suite_host (contracts s) (mocked s) in
        case as of
          [tk] \<Rightarrow> if func = ''token_is_bound'' then read_token_is_bound H (kept s) tk else None
        | [tk, acc] \<Rightarrow> if func = ''is_frozen'' then Some (read_is_frozen H (kept s) tk acc) else None
        | _ \<Rightarrow> None)"

definition view_u32 :: "string \<Rightarrow> world \<Rightarrow> (u32 \<times> world) option" where
  "view_u32 func s =
     (if func = ''config_version''
      then map_option (\<lambda>n. (n, s)) (read_config_version (suite_host (contracts s) (mocked s)) (kept s))
      else None)"

text \<open>\<^verbatim>\<open>unwrap\<close> and \<^verbatim>\<open>assert_eq!\<close>.\<close>

definition unwrap :: "outcome_in \<Rightarrow> world option" where
  "unwrap r = (case r of Some (Inr _, s) \<Rightarrow> Some s | _ \<Rightarrow> None)"

definition expect :: "('a \<times> world) option \<Rightarrow> 'a \<Rightarrow> world option" where
  "expect r v = (case r of Some (x, s) \<Rightarrow> if x = v then Some s else None | None \<Rightarrow> None)"

section \<open>The deployment context\<close>

record ctx =
  ctx_hooks :: address
  ctx_admin :: address
  ctx_alice :: address
  ctx_bob :: address
  ctx_spender :: address
  ctx_carol :: address
  ctx_token_a :: address
  ctx_token_b :: address

definition ctx_configure :: "(nat \<Rightarrow> address) \<Rightarrow> ctx \<Rightarrow> address \<Rightarrow> bool \<Rightarrow> world \<Rightarrow> world option" where
  "ctx_configure g c policy sac_passthrough s = do {
     s \<leftarrow> unwrap (authorized_call ''initialize'' [AddressVal (ctx_admin c)] s);
     s \<leftarrow> unwrap (authorized_call ''set_config'' [AddressVal policy, BoolVal sac_passthrough] s);
     let (sac_addr, s) = enroll g (Sac (ctx_alice c) (ctx_bob c)) s;
     s \<leftarrow> unwrap (authorized_call ''bind_token'' [AddressVal (ctx_token_a c), AddressVal sac_addr] s);
     unwrap (authorized_call ''bind_token'' [AddressVal (ctx_token_b c), AddressVal sac_addr] s)
   }"

definition deploy_with :: "(nat \<Rightarrow> address) \<Rightarrow> address option \<Rightarrow> bool \<Rightarrow> (ctx \<times> world) option" where
  "deploy_with g policy_blocked sac_passthrough = do {
     let (hooks, s) = generate g new_env;
     let (admin, s) = generate g s;
     let (alice, s) = generate g s;
     let (bob, s) = generate g s;
     let (spender, s) = generate g s;
     let (carol, s) = generate g s;
     let (token_a, s) = generate g s;
     let (token_b, s) = generate g s;
     let (policy, s) = enroll g (Policy policy_blocked) s;
     let c = \<lparr>ctx_hooks = hooks, ctx_admin = admin, ctx_alice = alice, ctx_bob = bob, ctx_spender = spender,
       ctx_carol = carol, ctx_token_a = token_a, ctx_token_b = token_b\<rparr>;
     s \<leftarrow> ctx_configure g c policy sac_passthrough s;
     Some (c, s)
   }"

definition deploy :: "(nat \<Rightarrow> address) \<Rightarrow> (ctx \<times> world) option" where
  "deploy g = deploy_with g None True"

definition rotate_policy :: "(nat \<Rightarrow> address) \<Rightarrow> address option \<Rightarrow> world \<Rightarrow> world option" where
  "rotate_policy g blocked s =
     (let (policy, s) = enroll g (Policy blocked) s
      in unwrap (authorized_call ''set_config'' [AddressVal policy, BoolVal True] s))"

definition disable_policy :: "bool \<Rightarrow> world \<Rightarrow> world option" where
  "disable_policy sac_passthrough s =
     unwrap (authorized_call ''set_config'' [VoidVal, BoolVal sac_passthrough] s)"

definition ctx_freeze :: "address \<Rightarrow> address \<Rightarrow> world \<Rightarrow> world option" where
  "ctx_freeze tk acc s = unwrap (authorized_call ''freeze'' [AddressVal tk, AddressVal acc] s)"

definition ctx_unfreeze :: "address \<Rightarrow> address \<Rightarrow> world \<Rightarrow> world option" where
  "ctx_unfreeze tk acc s = unwrap (authorized_call ''unfreeze'' [AddressVal tk, AddressVal acc] s)"

definition ctx_is_frozen :: "address \<Rightarrow> address \<Rightarrow> world \<Rightarrow> (bool \<times> world) option" where
  "ctx_is_frozen tk acc = view_bool ''is_frozen'' [tk, acc]"

definition ctx_token_is_bound :: "address \<Rightarrow> world \<Rightarrow> (bool \<times> world) option" where
  "ctx_token_is_bound tk = view_bool ''token_is_bound'' [tk]"

definition ctx_hook :: "string \<Rightarrow> address \<Rightarrow> address list \<Rightarrow> world \<Rightarrow> outcome_in" where
  "ctx_hook op tk accs = call_args (''before_'' @ op) (map AddressVal (tk # accs))"

definition ctx_register :: "address \<Rightarrow> address \<Rightarrow> world \<Rightarrow> outcome_in" where
  "ctx_register tk acc = ctx_hook ''register'' tk [acc]"

definition ctx_deposit :: "address \<Rightarrow> address \<Rightarrow> address \<Rightarrow> world \<Rightarrow> outcome_in" where
  "ctx_deposit tk src dst = ctx_hook ''deposit'' tk [src, dst]"

definition ctx_transfer :: "address \<Rightarrow> address \<Rightarrow> address \<Rightarrow> world \<Rightarrow> outcome_in" where
  "ctx_transfer tk src dst = ctx_hook ''transfer'' tk [src, dst]"

definition ctx_withdraw :: "address \<Rightarrow> address \<Rightarrow> world \<Rightarrow> outcome_in" where
  "ctx_withdraw tk acc = ctx_hook ''withdraw'' tk [acc]"

definition ctx_merge :: "address \<Rightarrow> address \<Rightarrow> world \<Rightarrow> outcome_in" where
  "ctx_merge tk acc = ctx_hook ''merge'' tk [acc]"

definition ctx_transfer_from :: "address \<Rightarrow> address \<Rightarrow> address \<Rightarrow> address \<Rightarrow> world \<Rightarrow> outcome_in" where
  "ctx_transfer_from tk spender src dst = ctx_hook ''transfer_from'' tk [spender, src, dst]"

end
