(* ===== verification/Integration_Picture.thy ===== *)
theory Integration_Picture
  imports Integration_Bed Lifecycle
begin

text \<open>
  What the integration suites keep of a deployment, and why it is enough: \<open>portrays\<close> relates a world of
  \<^theory_text>\<open>Integration_Bed\<close> to a \<open>picture\<close> (bound tokens, frozen pairs, blocked account, SAC passthrough), and every
  helper answers what the picture says and moves to a world of the expected picture. One lemma per
  helper, in the style of a refinement: the contract under test is the concrete side, the picture the
  abstract one.
\<close>

section \<open>The relation\<close>

record picture =
  pic_bound :: "address \<Rightarrow> bool"
  pic_frozen :: "address \<Rightarrow> address \<Rightarrow> bool"
  pic_blocked :: "address option"
  pic_passthrough :: bool

abbreviation state_in :: "world \<Rightarrow> enforcement" where
  "state_in s \<equiv> state_of ledger_host (kept s)"

definition policy_blocks :: "(address \<Rightarrow> fixture option) \<Rightarrow> address option \<Rightarrow> address option \<Rightarrow> bool" where
  "policy_blocks cs pol blocked \<longleftrightarrow>
     (case pol of None \<Rightarrow> blocked = None | Some p \<Rightarrow> cs p = Some (Policy blocked))"

definition fixture_sac :: "ctx \<Rightarrow> (address \<Rightarrow> fixture option) \<Rightarrow> token_binding \<Rightarrow> bool" where
  "fixture_sac c cs b \<longleftrightarrow>
     (\<exists>sac. binding_sac b = Some sac \<and> cs sac = Some (Sac (ctx_alice c) (ctx_bob c)))"

text \<open>\<open>n\<close> bounds the configuration changes so far: at the last 32-bit version the next one would trap.\<close>

definition portrays :: "(nat \<Rightarrow> address) \<Rightarrow> ctx \<Rightarrow> nat \<Rightarrow> picture \<Rightarrow> world \<Rightarrow> bool" where
  "portrays g c n P s \<longleftrightarrow>
     well_typed ledger_host (kept s) \<and> \<not> mocked s \<and> dom (contracts s) \<subseteq> g ` {..<minted s} \<and>
     st_admin (state_in s) \<noteq> None \<and>
     (\<exists>cfg. st_config (state_in s) = Some cfg \<and> cfg_sac_passthrough cfg = pic_passthrough P \<and>
        policy_blocks (contracts s) (cfg_policy cfg) (pic_blocked P)) \<and>
     version_count (state_in s) \<le> n \<and>
     (\<forall>tk. (st_bindings (state_in s) tk \<noteq> None) = pic_bound P tk) \<and>
     (\<forall>tk b. st_bindings (state_in s) tk = Some b \<longrightarrow> fixture_sac c (contracts s) b) \<and>
     st_frozen (state_in s) = pic_frozen P"

definition predicted :: "ctx \<Rightarrow> picture \<Rightarrow> string \<Rightarrow> address \<Rightarrow> address list \<Rightarrow> (contract_error + unit) option" where
  "predicted c P op tk accs =
     predict op (pic_bound P tk) True (pic_passthrough P) (\<lambda>p. p = ctx_alice c \<or> p = ctx_bob c)
       (pic_frozen P tk) (pic_blocked P) accs"

lemma portrays_kept:
  assumes "portrays g c n P s" and "well_typed ledger_host e" and "state_of ledger_host e = state_in s"
  shows "portrays g c n P (s\<lparr>kept := e\<rparr>)"
  using assms by (simp add: portrays_def)

lemma portrays_more: "portrays g c n P s \<Longrightarrow> n \<le> m \<Longrightarrow> portrays g c m P s"
  by (auto simp: portrays_def)

section \<open>Invocations\<close>

text \<open>An invocation is the transition of the abstract contract.\<close>

lemma try_contract_step:
  assumes "well_typed ledger_host (kept s)" and "entry_of func args = Some call"
  shows "case spec_step (state_in s) (\<lambda>_. mocked s) (fixture_answer (contracts s)) call of
      Trapped \<Rightarrow> try_contract func args s = (Inl None, s)
    | Rejected err \<Rightarrow> try_contract func args s = (Inl (Some err), s)
    | Done st evs \<Rightarrow> \<exists>e. try_contract func args s = (Inr (), s\<lparr>kept := e\<rparr>) \<and>
        well_typed ledger_host e \<and> state_of ledger_host e = st"
  using suite.dispatch_implements [where e = "kept s" and cs = "contracts s" and auths = "mocked s" and c = call] assms
  by (auto simp: try_contract_def implements_def split: option.splits prod.splits sum.splits outcome.splits)

lemma authorized_Done:
  assumes "well_typed ledger_host (kept s)" and "entry_of func args = Some call"
    and "spec_step (state_in s) (\<lambda>_. True) (fixture_answer (contracts s)) call = Done st evs"
  shows "\<exists>e. authorized_call func args s = Some (Inr (), s\<lparr>kept := e\<rparr>) \<and>
    well_typed ledger_host e \<and> state_of ledger_host e = st"
  using try_contract_step [of "s\<lparr>mocked := True\<rparr>" func args call] assms
  by (cases s) (auto simp: authorized_call_def call_args_def Let_def)

lemma authorized_Rejected:
  assumes "well_typed ledger_host (kept s)" and "entry_of func args = Some call"
    and "spec_step (state_in s) (\<lambda>_. True) (fixture_answer (contracts s)) call = Rejected err"
  shows "authorized_call func args s = Some (Inl err, s)"
  using try_contract_step [of "s\<lparr>mocked := True\<rparr>" func args call] assms
  by (cases s) (auto simp: authorized_call_def call_args_def Let_def)

text \<open>Without a signature an administrative call fails at the host level and leaves the world alone.\<close>

lemma unauthorized_reverts:
  assumes "portrays g c n P s" and "entry_of func args = Some call"
    and "hook_of call = None" and "call \<notin> range Initialize"
  shows "assert_reverted func args s = Some s"
proof -
  obtain a where "st_admin (state_in s) = Some a" and "\<not> mocked s" using assms(1) by (auto simp: portrays_def)
  then have "spec_step (state_in s) (\<lambda>_. mocked s) (fixture_answer (contracts s)) call = Trapped"
    using assms(3,4) by (cases call) (auto simp: admin_only_def)
  with try_contract_step [of s func args call] assms(1,2) show ?thesis
    by (simp add: portrays_def assert_reverted_def)
qed

section \<open>Hooks\<close>

lemma those_addresses: "those (map (address_val \<circ> AddressVal) as) = Some as"
  by (induction as) simp_all

lemma predict_roles_cases:
  "predict_roles op = Some roles \<Longrightarrow>
   (op = ''register'' \<or> op = ''merge'' \<or> op = ''withdraw'') \<and> roles = [True] \<or>
   (op = ''deposit'' \<or> op = ''transfer'') \<and> roles = [True, True] \<or>
   op = ''transfer_from'' \<and> roles = [False, True, True]"
  unfolding predict_roles_def by (simp split: if_split_asm)

lemma hook_entry:
  assumes "predict_roles op = Some roles" and "length roles = length accs"
  shows "\<exists>call o' accs'. entry_of (''before_'' @ op) (map AddressVal (tk # accs)) = Some call \<and>
    hook_of call = Some (tk, o', accs') \<and> operation_name o' = op \<and> oracle_parties o' accs' = accs"
proof -
  have entry: "entry_of (''before_'' @ op) (map AddressVal (tk # accs)) = address_call (''before_'' @ op) (tk # accs)"
    by (simp add: entry_of_def those_addresses)
  have len_one: "\<exists>a. accs = [a]" if "length accs = Suc 0" using that by (cases accs) auto
  have len_two: "\<exists>a b. accs = [a, b]" if "length accs = Suc (Suc 0)"
    using that by (cases accs; cases "tl accs") auto
  have len_three: "\<exists>a b d. accs = [a, b, d]" if "length accs = Suc (Suc (Suc 0))"
    using that by (cases accs; cases "tl accs"; cases "tl (tl accs)") auto
  have "(op = ''register'' \<or> op = ''merge'' \<or> op = ''withdraw'') \<and> length accs = Suc 0 \<or>
      (op = ''deposit'' \<or> op = ''transfer'') \<and> length accs = Suc (Suc 0) \<or>
      op = ''transfer_from'' \<and> length accs = Suc (Suc (Suc 0))"
    using predict_roles_cases [OF assms(1)] assms(2) [symmetric] by (elim disjE conjE) simp_all
  then consider (one) a where "op = ''register'' \<or> op = ''merge'' \<or> op = ''withdraw''" "accs = [a]"
    | (two) a b where "op = ''deposit'' \<or> op = ''transfer''" "accs = [a, b]"
    | (three) a b d where "op = ''transfer_from''" "accs = [a, b, d]"
    by (elim disjE conjE; simp; blast dest: len_one len_two len_three)
  then show ?thesis
  proof cases
    case one
    then show ?thesis
      unfolding entry
      by (elim disjE)
        ((rule exI)+, rule conjI, simp add: address_call_def, rule conjI, rule hook_of.simps, simp add: oracle_parties_def)+
  next
    case two
    then show ?thesis
      unfolding entry
      by (elim disjE)
        ((rule exI)+, rule conjI, simp add: address_call_def, rule conjI, rule hook_of.simps, simp add: oracle_parties_def)+
  next
    case three
    then show ?thesis
      unfolding entry
      by -
        ((rule exI)+, rule conjI, simp add: address_call_def, rule conjI, rule hook_of.simps, simp add: oracle_parties_def)
  qed
qed

text \<open>A hook answers what the oracle predicts from the picture, and leaves the picture.\<close>

lemma consults_fixtures:
  assumes "policy_blocks cs (cfg_policy cfg) blocked" and "fixture_sac c cs b"
  shows "consults_sample (fixture_answer cs) cfg (binding_sac b) blocked (\<lambda>p. p = ctx_alice c \<or> p = ctx_bob c)"
  using assms
  by (auto simp: consults_sample_def policy_blocks_def fixture_sac_def fixture_answer_def fixture_is_authorized_def
      fixture_authorized_def split: option.splits)

lemma ctx_hook_predicted:
  assumes "portrays g c n P s" and "predict_roles op = Some roles" and "length roles = length accs"
  shows "\<exists>r s'. ctx_hook op tk accs s = Some (r, s') \<and> predicted c P op tk accs = Some r \<and> portrays g c n P s' \<and>
    state_in s' = state_in s"
proof -
  let ?H = "suite_host (contracts s) (mocked s)"
  obtain call o' accs' where entry: "entry_of (''before_'' @ op) (map AddressVal (tk # accs)) = Some call"
    and hook: "hook_of call = Some (tk, o', accs')" and op: "operation_name o' = op" "oracle_parties o' accs' = accs"
    using hook_entry [OF assms(2,3)] by blast
  obtain cfg where wt: "well_typed ledger_host (kept s)" and cfg: "st_config (state_in s) = Some cfg"
    "cfg_sac_passthrough cfg = pic_passthrough P" "policy_blocks (contracts s) (cfg_policy cfg) (pic_blocked P)"
    using assms(1) by (auto simp: portrays_def)
  obtain e' where d: "dispatch ?H (kept s) call =
      Some (enforce (decide (state_in s) (fixture_answer (contracts s)) tk o' accs'), e')"
    and q: "quiet ?H (kept s) e'"
    using suite.dispatch_hook_decides [where e = "kept s" and cs = "contracts s" and auths = "mocked s", OF _ hook] wt
    by auto
  let ?r = "enforce (decide (state_in s) (fixture_answer (contracts s)) tk o' accs')"
  have sample: "consults_sample (fixture_answer (contracts s)) cfg' (binding_sac b) (pic_blocked P)
      (\<lambda>p. p = ctx_alice c \<or> p = ctx_bob c)"
    if "st_config (state_in s) = Some cfg'" "st_bindings (state_in s) tk = Some b" for cfg' b
    using that assms(1) cfg(1,3) by (intro consults_fixtures) (simp_all add: portrays_def)
  have "map_option fst (dispatch ?H (kept s) call) =
      predict op (st_bindings (state_in s) tk \<noteq> None) (st_config (state_in s) \<noteq> None)
        (case st_config (state_in s) of None \<Rightarrow> False | Some cfg \<Rightarrow> cfg_sac_passthrough cfg)
        (\<lambda>p. p = ctx_alice c \<or> p = ctx_bob c) (st_frozen (state_in s) tk) (pic_blocked P) accs"
    using suite.hook_predicted [where e = "kept s" and cs = "contracts s" and auths = "mocked s", OF _ hook,
        unfolded suite_state, OF wt sample] op by simp
  also have "\<dots> = predicted c P op tk accs"
    using assms(1) cfg(1,2) by (simp add: predicted_def portrays_def)
  finally have "map_option fst (dispatch ?H (kept s) call) = predicted c P op tk accs" .
  with d have r: "predicted c P op tk accs = Some ?r" by simp
  have "quiet ledger_host (kept s) e'" using q by (simp add: quiet_def same_entries_def)
  then have e': "well_typed ledger_host e'" "state_of ledger_host e' = state_in s"
    using wt by (simp_all add: quiet_well_typed quiet_state_of)
  show ?thesis
  proof (cases ?r)
    case (Inl err)
    with entry d r assms(1) show ?thesis by (simp add: ctx_hook_def call_args_def try_contract_def)
  next
    case (Inr u)
    with entry d r e' portrays_kept [OF assms(1) e'] show ?thesis
      by (simp add: ctx_hook_def call_args_def try_contract_def)
  qed
qed

section \<open>Reads\<close>

lemma is_frozen_reads:
  assumes "portrays g c n P s"
  shows "\<exists>s'. ctx_is_frozen tk acc s = Some (pic_frozen P tk acc, s') \<and> portrays g c n P s' \<and>
    state_in s' = state_in s"
proof -
  let ?H = "suite_host (contracts s) (mocked s)"
  have wt: "well_typed ledger_host (kept s)" and fr: "st_frozen (state_in s) = pic_frozen P"
    using assms by (simp_all add: portrays_def)
  have "quiet ?H (kept s) (touch ?H (kept s) (Freeze tk acc))" by (rule suite.quiet_touch)
  then have "quiet ledger_host (kept s) (touch ?H (kept s) (Freeze tk acc))" by (simp add: quiet_def same_entries_def)
  with wt fr show ?thesis
    using portrays_kept [OF assms] suite.storage_is_frozen_eq [where cs = "contracts s" and auths = "mocked s" and e = "kept s"]
    by (simp add: ctx_is_frozen_def view_bool_def read_is_frozen_def Let_def quiet_well_typed quiet_state_of)
qed

lemma token_is_bound_reads:
  assumes "portrays g c n P s"
  shows "\<exists>s'. ctx_token_is_bound tk s = Some (pic_bound P tk, s') \<and> portrays g c n P s' \<and>
    state_in s' = state_in s"
proof -
  let ?H = "suite_host (contracts s) (mocked s)"
  have wt: "well_typed ledger_host (kept s)" and b: "(st_bindings (state_in s) tk \<noteq> None) = pic_bound P tk"
    using assms by (simp_all add: portrays_def)
  have "quiet ?H (kept s) (touch ?H (kept s) (TokenBinding tk))" by (rule suite.quiet_touch)
  then have "quiet ledger_host (kept s) (touch ?H (kept s) (TokenBinding tk))" by (simp add: quiet_def same_entries_def)
  with wt b show ?thesis
    using portrays_kept [OF assms] suite.is_token_bound_eq [where cs = "contracts s" and auths = "mocked s" and e = "kept s"]
    by (simp add: ctx_token_is_bound_def view_bool_def read_token_is_bound_def Let_def quiet_well_typed quiet_state_of)
qed

lemma config_version_reads:
  assumes "portrays g c n P s"
  shows "view_u32 ''config_version'' s =
    Some (case st_config_version (state_in s) of None \<Rightarrow> 0 | Some k \<Rightarrow> k, s)"
  using assms suite.storage_config_version_eq [where cs = "contracts s" and auths = "mocked s" and e = "kept s"]
  by (simp add: view_u32_def read_config_version_def portrays_def)

section \<open>Administration\<close>

lemma admin_passes: "portrays g c n P s \<Longrightarrow> admin_only (state_in s) (\<lambda>_. True) k = k"
  by (auto simp: portrays_def admin_only_def)

lemma scope_of_bound: "portrays g c n P s \<Longrightarrow> pic_bound P tk \<Longrightarrow> in_scope (state_in s) tk k = k"
  unfolding portrays_def in_scope_def by (metis option.simps(3))

lemma scope_of_unbound:
  "portrays g c n P s \<Longrightarrow> \<not> pic_bound P tk \<Longrightarrow> in_scope (state_in s) tk k = Rejected UnboundTokenErr"
  unfolding portrays_def in_scope_def by (metis option.simps(3))

lemma binds: "\<exists>evs. bound_to tk b st = Done (st\<lparr>st_bindings := (st_bindings st)(tk := Some b)\<rparr>) evs"
  by (cases st) (auto simp: bound_to_def fun_upd_idem)

lemma unbinds: "\<exists>evs. unbound tk st = Done (st\<lparr>st_bindings := (st_bindings st)(tk := None)\<rparr>) evs"
  by (cases st) (auto simp: unbound_def fun_upd_idem)

lemma flags: "\<exists>evs. flagged tk acc flag st = Done (mark_frozen tk acc flag st) evs"
  by (cases st) (auto simp: flagged_def mark_frozen_def fun_upd_idem)

text \<open>Freezing and unfreezing need a bound token.\<close>

definition flag_call :: "bool \<Rightarrow> string" where
  "flag_call flag = (if flag then ''freeze'' else ''unfreeze'')"

definition with_flag :: "address \<Rightarrow> address \<Rightarrow> bool \<Rightarrow> picture \<Rightarrow> picture" where
  "with_flag tk acc flag P = P\<lparr>pic_frozen := (pic_frozen P)(tk := (pic_frozen P tk)(acc := flag))\<rparr>"

lemma flag_entry:
  "entry_of (flag_call flag) [AddressVal tk, AddressVal acc] =
     Some (if flag then FreezeAccount tk acc else UnfreezeAccount tk acc)"
  by (simp add: flag_call_def entry_of_def address_call_def)

lemma flag_bound:
  assumes "portrays g c n P s" and "pic_bound P tk"
  shows "\<exists>s'. authorized_call (flag_call flag) [AddressVal tk, AddressVal acc] s = Some (Inr (), s') \<and>
    portrays g c n (with_flag tk acc flag P) s'"
proof -
  let ?st = "mark_frozen tk acc flag (state_in s)"
  obtain evs where "flagged tk acc flag (state_in s) = Done ?st evs" using flags by blast
  then have step: "spec_step (state_in s) (\<lambda>_. True) (fixture_answer (contracts s))
      (if flag then FreezeAccount tk acc else UnfreezeAccount tk acc) = Done ?st evs"
    by (cases flag) (simp_all add: admin_passes [OF assms(1)] scope_of_bound [OF assms])
  have wt: "well_typed ledger_host (kept s)" using assms(1) by (simp add: portrays_def)
  obtain e where "authorized_call (flag_call flag) [AddressVal tk, AddressVal acc] s = Some (Inr (), s\<lparr>kept := e\<rparr>)"
    and "well_typed ledger_host e" and "state_of ledger_host e = ?st"
    using authorized_Done [OF wt flag_entry step] by blast
  moreover from this have "portrays g c n (with_flag tk acc flag P) (s\<lparr>kept := e\<rparr>)"
    using assms(1) by (simp add: portrays_def with_flag_def mark_frozen_def version_count_def)
  ultimately show ?thesis by blast
qed

lemma flag_unbound:
  assumes "portrays g c n P s" and "\<not> pic_bound P tk"
  shows "authorized_call (flag_call flag) [AddressVal tk, AddressVal acc] s = Some (Inl UnboundTokenErr, s)"
proof (rule authorized_Rejected [OF _ flag_entry])
  show "well_typed ledger_host (kept s)" using assms(1) by (simp add: portrays_def)
  show "spec_step (state_in s) (\<lambda>_. True) (fixture_answer (contracts s))
      (if flag then FreezeAccount tk acc else UnfreezeAccount tk acc) = Rejected UnboundTokenErr"
    by (cases flag) (simp_all add: admin_passes [OF assms(1)] scope_of_unbound [OF assms])
qed

text \<open>A configuration with a registered policy (or none) is accepted as long as the version does not overflow.\<close>

lemma config_entry:
  "entry_of ''set_config'' [into_val pol, BoolVal passthrough] = Some (SetConfig pol passthrough)"
  by (simp add: entry_of_def)

lemma next_version_exists: "version_count st < 4294967295 \<Longrightarrow> \<exists>k. next_version st = Some k"
  by (cases "next_version st")
    (auto simp: next_version_def version_count_def checked_add_one split: option.splits if_splits)

lemma configured_exists:
  assumes "version_count st < 4294967295"
  shows "\<exists>st' evs. configured cfg st = Done st' evs \<and> st_config st' = Some cfg \<and> st_admin st' = st_admin st \<and>
    st_bindings st' = st_bindings st \<and> st_frozen st' = st_frozen st \<and> version_count st' \<le> Suc (version_count st)"
proof (cases "st_config st = Some cfg")
  case False
  with next_version_exists [OF assms] show ?thesis
    by (auto simp: configured_def version_count_def next_version_Some [unfolded version_count_def])
qed (simp add: configured_def)

lemma config_result:
  assumes "portrays g c n P s" and "policy_blocks (contracts s) pol blocked" and "n < 4294967295"
  shows "\<exists>s'. authorized_call ''set_config'' [into_val pol, BoolVal passthrough] s = Some (Inr (), s') \<and>
    portrays g c (Suc n) (P\<lparr>pic_blocked := blocked, pic_passthrough := passthrough\<rparr>) s'"
proof -
  let ?cfg = "\<lparr>cfg_policy = pol, cfg_sac_passthrough = passthrough\<rparr>"
  have wt: "well_typed ledger_host (kept s)" and v: "version_count (state_in s) \<le> n"
    using assms(1) by (simp_all add: portrays_def)
  obtain st evs where conf: "configured ?cfg (state_in s) = Done st evs"
    and st: "st_config st = Some ?cfg" "st_admin st = st_admin (state_in s)"
      "st_bindings st = st_bindings (state_in s)" "st_frozen st = st_frozen (state_in s)"
      "version_count st \<le> Suc (version_count (state_in s))"
    using configured_exists [of "state_in s" ?cfg] v assms(3) by auto
  have step: "spec_step (state_in s) (\<lambda>_. True) (fixture_answer (contracts s)) (SetConfig pol passthrough) = Done st evs"
    using conf by (simp add: admin_passes [OF assms(1)])
  obtain e where call: "authorized_call ''set_config'' [into_val pol, BoolVal passthrough] s = Some (Inr (), s\<lparr>kept := e\<rparr>)"
    and e: "well_typed ledger_host e" "state_of ledger_host e = st"
    using authorized_Done [OF wt config_entry step] by blast
  have "portrays g c (Suc n) (P\<lparr>pic_blocked := blocked, pic_passthrough := passthrough\<rparr>) (s\<lparr>kept := e\<rparr>)"
    using assms(1,2) e st v by (simp add: portrays_def)
  with call show ?thesis by blast
qed

lemma bind_entry:
  "entry_of ''bind_token'' [AddressVal tk, into_val sac] = Some (BindToken tk sac)"
  by (simp add: entry_of_def)

lemma bind_result:
  assumes "portrays g c n P s" and "contracts s sac = Some (Sac (ctx_alice c) (ctx_bob c))"
  shows "\<exists>e. authorized_call ''bind_token'' [AddressVal tk, into_val (Some sac)] s = Some (Inr (), s\<lparr>kept := e\<rparr>) \<and>
    portrays g c n (P\<lparr>pic_bound := (pic_bound P)(tk := True)\<rparr>) (s\<lparr>kept := e\<rparr>)"
proof -
  let ?b = "\<lparr>binding_sac = Some sac\<rparr>"
  let ?st = "(state_in s)\<lparr>st_bindings := (st_bindings (state_in s))(tk := Some ?b)\<rparr>"
  have wt: "well_typed ledger_host (kept s)" using assms(1) by (simp add: portrays_def)
  obtain evs where b: "bound_to tk ?b (state_in s) = Done ?st evs" using binds by blast
  have step: "spec_step (state_in s) (\<lambda>_. True) (fixture_answer (contracts s)) (BindToken tk (Some sac)) = Done ?st evs"
    using b by (simp add: admin_passes [OF assms(1)])
  obtain e where call: "authorized_call ''bind_token'' [AddressVal tk, into_val (Some sac)] s = Some (Inr (), s\<lparr>kept := e\<rparr>)"
    and e: "well_typed ledger_host e" "state_of ledger_host e = ?st"
    using authorized_Done [OF wt bind_entry step] by blast
  have "portrays g c n (P\<lparr>pic_bound := (pic_bound P)(tk := True)\<rparr>) (s\<lparr>kept := e\<rparr>)"
    using assms e by (simp add: portrays_def version_count_def fixture_sac_def)
  with call show ?thesis by auto
qed

lemma unbind_result:
  assumes "portrays g c n P s"
  shows "\<exists>s'. authorized_call ''unbind_token'' [AddressVal tk] s = Some (Inr (), s') \<and>
    portrays g c n (P\<lparr>pic_bound := (pic_bound P)(tk := False)\<rparr>) s'"
proof -
  let ?st = "(state_in s)\<lparr>st_bindings := (st_bindings (state_in s))(tk := None)\<rparr>"
  have wt: "well_typed ledger_host (kept s)" using assms by (simp add: portrays_def)
  obtain evs where b: "unbound tk (state_in s) = Done ?st evs" using unbinds by blast
  have step: "spec_step (state_in s) (\<lambda>_. True) (fixture_answer (contracts s)) (UnbindToken tk) = Done ?st evs"
    using b by (simp add: admin_passes [OF assms])
  have entry: "entry_of ''unbind_token'' [AddressVal tk] = Some (UnbindToken tk)"
    by (simp add: entry_of_def address_call_def)
  obtain e where call: "authorized_call ''unbind_token'' [AddressVal tk] s = Some (Inr (), s\<lparr>kept := e\<rparr>)"
    and e: "well_typed ledger_host e" "state_of ledger_host e = ?st"
    using authorized_Done [OF wt entry step] by blast
  have "portrays g c n (P\<lparr>pic_bound := (pic_bound P)(tk := False)\<rparr>) (s\<lparr>kept := e\<rparr>)"
    using assms e by (simp add: portrays_def version_count_def)
  with call show ?thesis by blast
qed

section \<open>New addresses\<close>

lemma portrays_generate: "portrays g c n P s \<Longrightarrow> portrays g c n P (snd (generate g s))"
  by (auto simp: portrays_def generate_def lessThan_Suc)

lemma policy_blocks_more: "policy_blocks cs pol blocked \<Longrightarrow> cs a = None \<Longrightarrow> policy_blocks (cs(a \<mapsto> d)) pol blocked"
  by (cases pol) (auto simp: policy_blocks_def)

lemma fixture_sac_more: "fixture_sac c cs b \<Longrightarrow> cs a = None \<Longrightarrow> fixture_sac c (cs(a \<mapsto> d)) b"
  unfolding fixture_sac_def by (metis fun_upd_other option.distinct(1))

lemma enroll_result:
  assumes "portrays g c n P s" and "inj g"
  shows "portrays g c n P (snd (enroll g d s)) \<and> contracts (snd (enroll g d s)) (fst (enroll g d s)) = Some d"
proof -
  have fresh: "contracts s (g (minted s)) = None"
  proof (rule ccontr)
    assume "contracts s (g (minted s)) \<noteq> None"
    then have "g (minted s) \<in> g ` {..<minted s}" using assms(1) by (auto simp: portrays_def)
    then show False using assms(2) by (auto dest: injD)
  qed
  obtain cfg where cfg: "st_config (state_in s) = Some cfg" "cfg_sac_passthrough cfg = pic_passthrough P"
    "policy_blocks (contracts s) (cfg_policy cfg) (pic_blocked P)"
    using assms(1) by (auto simp: portrays_def)
  have "policy_blocks ((contracts s)(g (minted s) \<mapsto> d)) (cfg_policy cfg) (pic_blocked P)"
    by (rule policy_blocks_more [OF cfg(3) fresh])
  moreover have "fixture_sac c ((contracts s)(g (minted s) \<mapsto> d)) b" if "fixture_sac c (contracts s) b" for b
    by (rule fixture_sac_more [OF that fresh])
  moreover have "insert (g (minted s)) (dom (contracts s)) \<subseteq> g ` {..<Suc (minted s)}"
    using assms(1) by (auto simp: portrays_def lessThan_Suc)
  ultimately have "portrays g c n P (snd (enroll g d s))"
    using assms(1) cfg by (simp add: portrays_def enroll_def generate_def Let_def del: insert_subset fun_upd_apply)
  then show ?thesis by (simp add: enroll_def generate_def Let_def)
qed

section \<open>A fresh deployment\<close>

definition fresh_ctx :: "(nat \<Rightarrow> address) \<Rightarrow> ctx" where
  "fresh_ctx g = \<lparr>ctx_hooks = g 0, ctx_admin = g 1, ctx_alice = g 2, ctx_bob = g 3, ctx_spender = g 4, ctx_carol = g 5,
     ctx_token_a = g 6, ctx_token_b = g 7\<rparr>"

definition open_picture :: "(nat \<Rightarrow> address) \<Rightarrow> address option \<Rightarrow> bool \<Rightarrow> picture" where
  "open_picture g blocked passthrough =
    \<lparr>pic_bound = (\<lambda>tk. tk = g 6 \<or> tk = g 7), pic_frozen = (\<lambda>_ _. False), pic_blocked = blocked,
     pic_passthrough = passthrough\<rparr>"

lemma blank_state:
  "well_typed ledger_host (kept new_env)"
  "state_in new_env = \<lparr>st_admin = None, st_config = None, st_config_version = None, st_version = None,
     st_bindings = (\<lambda>_. None), st_frozen = (\<lambda>_ _. False)\<rparr>"
  "mocked new_env = False" "contracts new_env = Map.empty" "minted new_env = 0"
  by (simp_all add: new_env_def well_typed_def state_of_def ledger_host_def)

lemma deploy_result:
  assumes "inj g"
  shows "\<exists>s. deploy_with g blocked passthrough = Some (fresh_ctx g, s) \<and> minted s = 10 \<and>
    portrays g (fresh_ctx g) 1 (open_picture g blocked passthrough) s"
proof -
  let ?c = "fresh_ctx g"
  let ?s0 = "new_env\<lparr>minted := 9, contracts := [g 8 \<mapsto> Policy blocked]\<rparr>"
  let ?cfg = "\<lparr>cfg_policy = Some (g 8), cfg_sac_passthrough = passthrough\<rparr>"
  let ?st1 = "(state_in new_env)\<lparr>st_admin := Some (g 1), st_version := Some VERSION\<rparr>"
  let ?st2 = "?st1\<lparr>st_config := Some ?cfg, st_config_version := Some 1\<rparr>"
  let ?P = "\<lparr>pic_bound = (\<lambda>_. False), pic_frozen = (\<lambda>_ _. False), pic_blocked = blocked, pic_passthrough = passthrough\<rparr>"
  have entry: "entry_of ''initialize'' [AddressVal (g 1)] = Some (Initialize (g 1))"
    by (simp add: entry_of_def address_call_def)
  obtain e1 where call1: "authorized_call ''initialize'' [AddressVal (g 1)] ?s0 = Some (Inr (), ?s0\<lparr>kept := e1\<rparr>)"
    and e1: "well_typed ledger_host e1" "state_of ledger_host e1 = ?st1"
    using authorized_Done [of ?s0, OF _ entry, of ?st1 "[InitializedEv (g 1)]"] by (auto simp: blank_state)
  let ?s1 = "?s0\<lparr>kept := e1\<rparr>"
  obtain e2 where call2: "authorized_call ''set_config'' [into_val (Some (g 8)), BoolVal passthrough] ?s1 =
      Some (Inr (), ?s1\<lparr>kept := e2\<rparr>)"
    and e2: "well_typed ledger_host e2" "state_of ledger_host e2 = ?st2"
    using authorized_Done [of ?s1, OF _ config_entry, of "Some (g 8)" passthrough ?st2 "[ComplianceConfigChangedEv (Some (g 8)) passthrough]"] e1
    by (auto simp: blank_state admin_only_def configured_def next_version_def checked_add_one VERSION_def)
  let ?s2 = "?s1\<lparr>kept := e2\<rparr>"
  have "portrays g ?c 1 ?P ?s2"
    using e2 by (simp add: portrays_def blank_state policy_blocks_def version_count_def)
  then have p3: "portrays g ?c 1 ?P (snd (enroll g (Sac (g 2) (g 3)) ?s2))"
    and sac: "contracts (snd (enroll g (Sac (g 2) (g 3)) ?s2)) (g 9) = Some (Sac (ctx_alice ?c) (ctx_bob ?c))"
    using enroll_result [OF _ assms, of ?c 1 ?P ?s2 "Sac (g 2) (g 3)"]
    by (simp_all add: enroll_def generate_def Let_def fresh_ctx_def)
  let ?s3 = "snd (enroll g (Sac (g 2) (g 3)) ?s2)"
  obtain e4 where call4: "authorized_call ''bind_token'' [AddressVal (g 6), into_val (Some (g 9))] ?s3 = Some (Inr (), ?s3\<lparr>kept := e4\<rparr>)"
    and p4: "portrays g ?c 1 (?P\<lparr>pic_bound := (pic_bound ?P)(g 6 := True)\<rparr>) (?s3\<lparr>kept := e4\<rparr>)"
    using bind_result [OF p3 sac] by blast
  let ?s4 = "?s3\<lparr>kept := e4\<rparr>"
  have sac4: "contracts ?s4 (g 9) = Some (Sac (ctx_alice ?c) (ctx_bob ?c))" using sac by simp
  obtain e5 where call5: "authorized_call ''bind_token'' [AddressVal (g 7), into_val (Some (g 9))] ?s4 = Some (Inr (), ?s4\<lparr>kept := e5\<rparr>)"
    and p5: "portrays g ?c 1 (?P\<lparr>pic_bound := (pic_bound ?P)(g 6 := True, g 7 := True)\<rparr>) (?s4\<lparr>kept := e5\<rparr>)"
    using bind_result [OF p4 sac4] by auto
  have "?P\<lparr>pic_bound := (pic_bound ?P)(g 6 := True, g 7 := True)\<rparr> = open_picture g blocked passthrough"
    by (simp add: open_picture_def fun_eq_iff)
  with p5 have "portrays g ?c 1 (open_picture g blocked passthrough) (?s4\<lparr>kept := e5\<rparr>)" by simp
  moreover have "minted (?s4\<lparr>kept := e5\<rparr>) = 10" by (simp add: enroll_def generate_def Let_def)
  moreover have "deploy_with g blocked passthrough = Some (?c, ?s4\<lparr>kept := e5\<rparr>)"
    using call1 call2 call4 call5
    by (simp add: deploy_with_def ctx_configure_def fresh_ctx_def generate_def enroll_def unwrap_def Let_def into_val_def
        blank_state numeral_eq_Suc)
  ultimately show ?thesis by blast
qed

end
