(* ===== verification/Integration_Suites.thy ===== *)
theory Integration_Suites
  imports Integration_Picture
begin

text \<open>
  The threat-model suite (\<^verbatim>\<open>contracts/compliance-hooks/tests/security.rs\<close>) and the invariant suite
  (\<^verbatim>\<open>contracts/compliance-hooks/tests/invariants.rs\<close>): every test function as a definition of the same name
  over the helpers of \<^theory_text>\<open>Integration_Bed\<close>, and the proof that they all pass. A test is run forward on the
  picture of the deployment: \<open>suite_steps\<close> holds one rule per helper.
\<close>

section \<open>Running a test\<close>

definition passes :: "'a option \<Rightarrow> bool" where
  "passes m \<longleftrightarrow> m \<noteq> None"

fun for_all :: "'a list \<Rightarrow> ('a \<Rightarrow> world \<Rightarrow> world option) \<Rightarrow> world \<Rightarrow> world option" where
  "for_all [] body s = Some s"
| "for_all (x # xs) body s = Option.bind (body x s) (for_all xs body)"

text \<open>\<^verbatim>\<open>let _ = result\<close>: the outcome is dropped, a panic is not.\<close>

definition ignore :: "('a \<times> world) option \<Rightarrow> world option" where
  "ignore r = map_option snd r"

section \<open>The threat-model suite\<close>

definition unbound_token_cannot_trigger_enforcement :: "(nat \<Rightarrow> address) \<Rightarrow> bool" where
  "unbound_token_cannot_trigger_enforcement g = passes (do {
     (c, s) \<leftarrow> deploy g;
     let (stranger, s) = generate g s;
     s \<leftarrow> expect (ctx_hook ''deposit'' stranger [ctx_alice c, ctx_bob c] s) (Inl UnboundTokenErr);
     s \<leftarrow> expect (ctx_deposit (ctx_token_a c) (ctx_alice c) (ctx_bob c) s) (Inr ());
     Some s
   })"

definition token_cannot_borrow_another_tokens_binding :: "(nat \<Rightarrow> address) \<Rightarrow> bool" where
  "token_cannot_borrow_another_tokens_binding g = passes (do {
     (c, s) \<leftarrow> deploy g;
     let (stranger, s) = generate g s;
     s \<leftarrow> expect (ctx_deposit (ctx_token_b c) (ctx_alice c) (ctx_bob c) s) (Inr ());
     s \<leftarrow> expect (ctx_deposit stranger (ctx_alice c) (ctx_bob c) s) (Inl UnboundTokenErr);
     Some s
   })"

definition frozen_account_cannot_bypass_through_any_operation :: "(nat \<Rightarrow> address) \<Rightarrow> bool" where
  "frozen_account_cannot_bypass_through_any_operation g = passes (do {
     (c, s) \<leftarrow> deploy g;
     s \<leftarrow> ctx_freeze (ctx_token_a c) (ctx_alice c) s;
     s \<leftarrow> expect (ctx_register (ctx_token_a c) (ctx_alice c) s) (Inl AccountFrozenErr);
     s \<leftarrow> expect (ctx_deposit (ctx_token_a c) (ctx_alice c) (ctx_bob c) s) (Inl AccountFrozenErr);
     s \<leftarrow> expect (ctx_transfer (ctx_token_a c) (ctx_alice c) (ctx_bob c) s) (Inl AccountFrozenErr);
     s \<leftarrow> expect (ctx_withdraw (ctx_token_a c) (ctx_alice c) s) (Inl AccountFrozenErr);
     s \<leftarrow> expect (ctx_merge (ctx_token_a c) (ctx_alice c) s) (Inl AccountFrozenErr);
     s \<leftarrow> expect (ctx_transfer_from (ctx_token_a c) (ctx_spender c) (ctx_alice c) (ctx_bob c) s) (Inl AccountFrozenErr);
     s \<leftarrow> expect (ctx_transfer (ctx_token_a c) (ctx_bob c) (ctx_alice c) s) (Inl AccountFrozenErr);
     s \<leftarrow> expect (ctx_deposit (ctx_token_b c) (ctx_alice c) (ctx_bob c) s) (Inr ());
     Some s
   })"

definition policy_blocked_account_cannot_bypass_through_any_operation :: "(nat \<Rightarrow> address) \<Rightarrow> bool" where
  "policy_blocked_account_cannot_bypass_through_any_operation g = passes (do {
     (c, s) \<leftarrow> deploy g;
     s \<leftarrow> rotate_policy g (Some (ctx_alice c)) s;
     s \<leftarrow> expect (ctx_register (ctx_token_a c) (ctx_alice c) s) (Inl PolicyDeniedErr);
     s \<leftarrow> expect (ctx_deposit (ctx_token_a c) (ctx_alice c) (ctx_bob c) s) (Inl PolicyDeniedErr);
     s \<leftarrow> expect (ctx_transfer (ctx_token_a c) (ctx_alice c) (ctx_bob c) s) (Inl PolicyDeniedErr);
     s \<leftarrow> expect (ctx_withdraw (ctx_token_a c) (ctx_alice c) s) (Inl PolicyDeniedErr);
     s \<leftarrow> expect (ctx_merge (ctx_token_a c) (ctx_alice c) s) (Inl PolicyDeniedErr);
     s \<leftarrow> expect (ctx_transfer_from (ctx_token_a c) (ctx_spender c) (ctx_alice c) (ctx_bob c) s) (Inl PolicyDeniedErr);
     s \<leftarrow> expect (ctx_transfer (ctx_token_a c) (ctx_bob c) (ctx_alice c) s) (Inl PolicyDeniedErr);
     s \<leftarrow> expect (ctx_deposit (ctx_token_a c) (ctx_bob c) (ctx_bob c) s) (Inr ());
     Some s
   })"

definition delegation_cannot_route_around_a_blocked_owner :: "(nat \<Rightarrow> address) \<Rightarrow> bool" where
  "delegation_cannot_route_around_a_blocked_owner g = passes (do {
     (c, s) \<leftarrow> deploy g;
     s \<leftarrow> rotate_policy g (Some (ctx_alice c)) s;
     s \<leftarrow> expect (ctx_transfer_from (ctx_token_a c) (ctx_spender c) (ctx_alice c) (ctx_bob c) s) (Inl PolicyDeniedErr);
     s \<leftarrow> expect (ctx_transfer_from (ctx_token_a c) (ctx_spender c) (ctx_bob c) (ctx_alice c) s) (Inl PolicyDeniedErr);
     Some s
   })"

definition disabling_the_policy_does_not_lift_a_freeze :: "(nat \<Rightarrow> address) \<Rightarrow> bool" where
  "disabling_the_policy_does_not_lift_a_freeze g = passes (do {
     (c, s) \<leftarrow> deploy g;
     s \<leftarrow> ctx_freeze (ctx_token_a c) (ctx_alice c) s;
     s \<leftarrow> disable_policy False s;
     s \<leftarrow> expect (ctx_deposit (ctx_token_a c) (ctx_alice c) (ctx_bob c) s) (Inl AccountFrozenErr);
     s \<leftarrow> expect (ctx_is_frozen (ctx_token_a c) (ctx_alice c) s) True;
     Some s
   })"

definition sac_passthrough_still_denies_unauthorized_depositors :: "(nat \<Rightarrow> address) \<Rightarrow> bool" where
  "sac_passthrough_still_denies_unauthorized_depositors g = passes (do {
     (c, s) \<leftarrow> deploy g;
     s \<leftarrow> expect (ctx_deposit (ctx_token_a c) (ctx_carol c) (ctx_alice c) s) (Inl SacAuthorizationFailedErr);
     Some s
   })"

definition freeze_state_never_leaks_across_tokens :: "(nat \<Rightarrow> address) \<Rightarrow> bool" where
  "freeze_state_never_leaks_across_tokens g = passes (do {
     (c, s) \<leftarrow> deploy g;
     s \<leftarrow> ctx_freeze (ctx_token_a c) (ctx_alice c) s;
     s \<leftarrow> ctx_freeze (ctx_token_b c) (ctx_bob c) s;
     s \<leftarrow> expect (ctx_is_frozen (ctx_token_a c) (ctx_alice c) s) True;
     s \<leftarrow> expect (ctx_is_frozen (ctx_token_b c) (ctx_alice c) s) False;
     s \<leftarrow> expect (ctx_is_frozen (ctx_token_b c) (ctx_bob c) s) True;
     s \<leftarrow> expect (ctx_is_frozen (ctx_token_a c) (ctx_bob c) s) False;
     s \<leftarrow> expect (ctx_deposit (ctx_token_a c) (ctx_alice c) (ctx_alice c) s) (Inl AccountFrozenErr);
     s \<leftarrow> expect (ctx_deposit (ctx_token_b c) (ctx_alice c) (ctx_alice c) s) (Inr ());
     s \<leftarrow> expect (ctx_deposit (ctx_token_b c) (ctx_bob c) (ctx_bob c) s) (Inl AccountFrozenErr);
     s \<leftarrow> expect (ctx_deposit (ctx_token_a c) (ctx_bob c) (ctx_bob c) s) (Inr ());
     Some s
   })"

definition unbinding_one_token_revokes_only_that_scope :: "(nat \<Rightarrow> address) \<Rightarrow> bool" where
  "unbinding_one_token_revokes_only_that_scope g = passes (do {
     (c, s) \<leftarrow> deploy g;
     s \<leftarrow> unwrap (authorized_call ''unbind_token'' [AddressVal (ctx_token_a c)] s);
     s \<leftarrow> expect (ctx_token_is_bound (ctx_token_a c) s) False;
     s \<leftarrow> expect (ctx_token_is_bound (ctx_token_b c) s) True;
     s \<leftarrow> expect (ctx_deposit (ctx_token_a c) (ctx_alice c) (ctx_bob c) s) (Inl UnboundTokenErr);
     s \<leftarrow> expect (ctx_deposit (ctx_token_b c) (ctx_alice c) (ctx_bob c) s) (Inr ());
     Some s
   })"

definition unauthorized_configuration_rotation_reverts_and_leaves_state :: "(nat \<Rightarrow> address) \<Rightarrow> bool" where
  "unauthorized_configuration_rotation_reverts_and_leaves_state g = passes (do {
     (c, s) \<leftarrow> deploy g;
     let (attacker_policy, s) = enroll g (Policy (Some (ctx_alice c))) s;
     s \<leftarrow> assert_reverted ''set_config'' [AddressVal attacker_policy, BoolVal True] s;
     s \<leftarrow> expect (ctx_deposit (ctx_token_a c) (ctx_alice c) (ctx_alice c) s) (Inr ());
     Some s
   })"

definition unauthorized_bind_and_unbind_revert_and_leave_state :: "(nat \<Rightarrow> address) \<Rightarrow> bool" where
  "unauthorized_bind_and_unbind_revert_and_leave_state g = passes (do {
     (c, s) \<leftarrow> deploy g;
     let (stranger, s) = generate g s;
     s \<leftarrow> assert_reverted ''bind_token'' [AddressVal stranger, VoidVal] s;
     s \<leftarrow> expect (ctx_token_is_bound stranger s) False;
     s \<leftarrow> assert_reverted ''unbind_token'' [AddressVal (ctx_token_a c)] s;
     s \<leftarrow> expect (ctx_token_is_bound (ctx_token_a c) s) True;
     s \<leftarrow> expect (ctx_deposit (ctx_token_a c) (ctx_alice c) (ctx_bob c) s) (Inr ());
     Some s
   })"

definition unauthorized_freeze_reverts_and_leaves_state :: "(nat \<Rightarrow> address) \<Rightarrow> bool" where
  "unauthorized_freeze_reverts_and_leaves_state g = passes (do {
     (c, s) \<leftarrow> deploy g;
     s \<leftarrow> assert_reverted ''freeze'' [AddressVal (ctx_token_a c), AddressVal (ctx_alice c)] s;
     s \<leftarrow> expect (ctx_is_frozen (ctx_token_a c) (ctx_alice c) s) False;
     s \<leftarrow> expect (ctx_deposit (ctx_token_a c) (ctx_alice c) (ctx_alice c) s) (Inr ());
     s \<leftarrow> ctx_freeze (ctx_token_a c) (ctx_alice c) s;
     s \<leftarrow> expect (ctx_is_frozen (ctx_token_a c) (ctx_alice c) s) True;
     Some s
   })"

definition double_initialization_cannot_rotate_the_admin :: "(nat \<Rightarrow> address) \<Rightarrow> bool" where
  "double_initialization_cannot_rotate_the_admin g = passes (do {
     let (hooks, s) = generate g new_env;
     let (admin1, s) = generate g s;
     let (admin2, s) = generate g s;
     let (tk, s) = generate g s;
     s \<leftarrow> unwrap (authorized_call ''initialize'' [AddressVal admin1] s);
     s \<leftarrow> expect (call_args ''initialize'' [AddressVal admin2] s) (Inl AlreadyInitializedErr);
     s \<leftarrow> assert_reverted ''bind_token'' [AddressVal tk, VoidVal] s;
     s \<leftarrow> unwrap (authorized_call ''bind_token'' [AddressVal tk, VoidVal] s);
     s \<leftarrow> expect (view_bool ''token_is_bound'' [tk] s) True;
     Some s
   })"

definition admin_policy_rotation_is_effective_and_gated :: "(nat \<Rightarrow> address) \<Rightarrow> bool" where
  "admin_policy_rotation_is_effective_and_gated g = passes (do {
     (c, s) \<leftarrow> deploy g;
     s \<leftarrow> expect (ctx_deposit (ctx_token_a c) (ctx_alice c) (ctx_bob c) s) (Inr ());
     s \<leftarrow> rotate_policy g (Some (ctx_bob c)) s;
     s \<leftarrow> expect (ctx_deposit (ctx_token_a c) (ctx_alice c) (ctx_bob c) s) (Inl PolicyDeniedErr);
     s \<leftarrow> expect (ctx_deposit (ctx_token_a c) (ctx_alice c) (ctx_alice c) s) (Inr ());
     let (allow_all, s) = enroll g (Policy None) s;
     s \<leftarrow> assert_reverted ''set_config'' [AddressVal allow_all, BoolVal True] s;
     s \<leftarrow> expect (ctx_deposit (ctx_token_a c) (ctx_alice c) (ctx_bob c) s) (Inl PolicyDeniedErr);
     Some s
   })"

definition security_suite :: "(nat \<Rightarrow> address) \<Rightarrow> bool list" where
  "security_suite g =
     [unbound_token_cannot_trigger_enforcement g,
      token_cannot_borrow_another_tokens_binding g,
      frozen_account_cannot_bypass_through_any_operation g,
      policy_blocked_account_cannot_bypass_through_any_operation g,
      delegation_cannot_route_around_a_blocked_owner g,
      disabling_the_policy_does_not_lift_a_freeze g,
      sac_passthrough_still_denies_unauthorized_depositors g,
      freeze_state_never_leaks_across_tokens g,
      unbinding_one_token_revokes_only_that_scope g,
      unauthorized_configuration_rotation_reverts_and_leaves_state g,
      unauthorized_bind_and_unbind_revert_and_leave_state g,
      unauthorized_freeze_reverts_and_leaves_state g,
      double_initialization_cannot_rotate_the_admin g,
      admin_policy_rotation_is_effective_and_gated g]"

section \<open>The invariant suite\<close>

text \<open>The observable state: the configuration version, which tokens are bound and who is frozen where.\<close>

definition snapshot :: "ctx \<Rightarrow> world \<Rightarrow> (u32 list \<times> world) option" where
  "snapshot c s = do {
     (version, s) \<leftarrow> view_u32 ''config_version'' s;
     (bound_a, s) \<leftarrow> ctx_token_is_bound (ctx_token_a c) s;
     (bound_b, s) \<leftarrow> ctx_token_is_bound (ctx_token_b c) s;
     (alice_a, s) \<leftarrow> ctx_is_frozen (ctx_token_a c) (ctx_alice c) s;
     (bob_a, s) \<leftarrow> ctx_is_frozen (ctx_token_a c) (ctx_bob c) s;
     (carol_a, s) \<leftarrow> ctx_is_frozen (ctx_token_a c) (ctx_carol c) s;
     (alice_b, s) \<leftarrow> ctx_is_frozen (ctx_token_b c) (ctx_alice c) s;
     (bob_b, s) \<leftarrow> ctx_is_frozen (ctx_token_b c) (ctx_bob c) s;
     (carol_b, s) \<leftarrow> ctx_is_frozen (ctx_token_b c) (ctx_carol c) s;
     Some (version # map of_bool [bound_a, bound_b, alice_a, bob_a, carol_a, alice_b, bob_b, carol_b], s)
   }"

definition hook_evaluations_never_write_contract_state :: "(nat \<Rightarrow> address) \<Rightarrow> bool" where
  "hook_evaluations_never_write_contract_state g = passes (do {
     (c, s) \<leftarrow> deploy g;
     s \<leftarrow> ctx_freeze (ctx_token_a c) (ctx_alice c) s;
     s \<leftarrow> ctx_freeze (ctx_token_b c) (ctx_bob c) s;
     s \<leftarrow> rotate_policy g (Some (ctx_bob c)) s;
     (before, s) \<leftarrow> snapshot c s;
     s \<leftarrow> for_all
       [(''register'', [ctx_carol c]),
        (''deposit'', [ctx_alice c, ctx_bob c]),
        (''deposit'', [ctx_carol c, ctx_alice c]),
        (''deposit'', [ctx_carol c, ctx_carol c]),
        (''transfer'', [ctx_alice c, ctx_alice c]),
        (''transfer'', [ctx_bob c, ctx_carol c]),
        (''withdraw'', [ctx_bob c]),
        (''merge'', [ctx_carol c]),
        (''transfer_from'', [ctx_spender c, ctx_carol c, ctx_bob c]),
        (''transfer_from'', [ctx_spender c, ctx_spender c, ctx_carol c])]
       (\<lambda>(op, accs). for_all [ctx_token_a c, ctx_token_b c] (\<lambda>tk s. ignore (ctx_hook op tk accs s))) s;
     expect (snapshot c s) before
   })"

text \<open>Every combination of \<open>n\<close> more parties after \<open>cur\<close>.\<close>

fun combos_after :: "nat \<Rightarrow> address list \<Rightarrow> address list \<Rightarrow> address list list" where
  "combos_after 0 pool cur = [cur]"
| "combos_after (Suc n) pool cur = concat (map (\<lambda>p. combos_after n pool (cur @ [p])) pool)"

definition combos :: "nat \<Rightarrow> address list \<Rightarrow> address list list" where
  "combos arity pool = combos_after arity pool []"

definition matrix_pool :: "ctx \<Rightarrow> address list" where
  "matrix_pool c = [ctx_alice c, ctx_bob c, ctx_carol c]"

definition assert_matrix_matches_oracle ::
  "ctx \<Rightarrow> address list \<Rightarrow> bool \<Rightarrow> address option \<Rightarrow> bool \<Rightarrow> world \<Rightarrow> world option" where
  "assert_matrix_matches_oracle c tokens frozen_alice_on_a blocked sac_passthrough =
     for_all tokens (\<lambda>tk.
     for_all [(''register'', 1), (''merge'', 1), (''withdraw'', 1), (''deposit'', 2), (''transfer'', 2), (''transfer_from'', 3)]
       (\<lambda>(op, arity).
     for_all (combos arity (matrix_pool c)) (\<lambda>accs s. do {
       expected \<leftarrow> predict op True True sac_passthrough (\<lambda>p. p = ctx_alice c \<or> p = ctx_bob c)
         (\<lambda>p. frozen_alice_on_a \<and> tk = ctx_token_a c \<and> p = ctx_alice c) blocked accs;
       expect (ctx_hook op tk accs s) expected
     })))"

definition frozen_until_unfrozen_regardless_of_policy_configuration :: "(nat \<Rightarrow> address) \<Rightarrow> bool" where
  "frozen_until_unfrozen_regardless_of_policy_configuration g = passes (do {
     (c, s) \<leftarrow> deploy g;
     s \<leftarrow> ctx_freeze (ctx_token_a c) (ctx_alice c) s;
     s \<leftarrow> for_all
       [(rotate_policy g None, None, True), (rotate_policy g (Some (ctx_bob c)), Some (ctx_bob c), True),
        (disable_policy False, None, False), (disable_policy True, None, True)]
       (\<lambda>(rewrite, blocked, sac_passthrough) s. do {
         s \<leftarrow> rewrite s;
         s \<leftarrow> expect (ctx_is_frozen (ctx_token_a c) (ctx_alice c) s) True;
         assert_matrix_matches_oracle c [ctx_token_a c, ctx_token_b c] True blocked sac_passthrough s
       }) s;
     s \<leftarrow> ctx_unfreeze (ctx_token_a c) (ctx_alice c) s;
     s \<leftarrow> expect (ctx_is_frozen (ctx_token_a c) (ctx_alice c) s) False;
     s \<leftarrow> expect (ctx_deposit (ctx_token_a c) (ctx_alice c) (ctx_alice c) s) (Inr ());
     Some s
   })"

definition every_outcome_matches_the_oracle_in_the_open_state :: "(nat \<Rightarrow> address) \<Rightarrow> bool" where
  "every_outcome_matches_the_oracle_in_the_open_state g = passes (do {
     (c, s) \<leftarrow> deploy g;
     s \<leftarrow> assert_matrix_matches_oracle c [ctx_token_a c, ctx_token_b c] False None True s;
     Some s
   })"

definition every_outcome_matches_the_oracle_with_frozen_and_blocked_parties :: "(nat \<Rightarrow> address) \<Rightarrow> bool" where
  "every_outcome_matches_the_oracle_with_frozen_and_blocked_parties g = passes (do {
     (c, s) \<leftarrow> deploy g;
     s \<leftarrow> ctx_freeze (ctx_token_a c) (ctx_alice c) s;
     s \<leftarrow> rotate_policy g (Some (ctx_bob c)) s;
     s \<leftarrow> assert_matrix_matches_oracle c [ctx_token_a c, ctx_token_b c] True (Some (ctx_bob c)) True s;
     Some s
   })"

definition out_of_scope_never_allows_an_operation :: "(nat \<Rightarrow> address) \<Rightarrow> bool" where
  "out_of_scope_never_allows_an_operation g = passes (do {
     (c, s) \<leftarrow> deploy g;
     let (stranger, s) = generate g s;
     let pool = [ctx_alice c, ctx_bob c];
     s \<leftarrow> for_all [(''register'', 1), (''deposit'', 2), (''transfer'', 2), (''withdraw'', 1), (''merge'', 1), (''transfer_from'', 3)]
       (\<lambda>(op, arity). for_all (combos arity pool) (\<lambda>accs s. expect (ctx_hook op stranger accs s) (Inl UnboundTokenErr))) s;
     s \<leftarrow> unwrap (authorized_call ''unbind_token'' [AddressVal (ctx_token_a c)] s);
     s \<leftarrow> for_all (combos 2 pool) (\<lambda>accs s. expect (ctx_hook ''transfer'' (ctx_token_a c) accs s) (Inl UnboundTokenErr)) s;
     s \<leftarrow> expect (ctx_hook ''transfer'' (ctx_token_b c) [ctx_alice c, ctx_bob c] s) (Inr ());
     Some s
   })"

definition unconfigured_contract_never_allows_an_operation :: "(nat \<Rightarrow> address) \<Rightarrow> bool" where
  "unconfigured_contract_never_allows_an_operation g = passes (do {
     let (hooks, s) = generate g new_env;
     let (tk, s) = generate g s;
     let (alice, s) = generate g s;
     let (bob, s) = generate g s;
     let (admin, s) = generate g s;
     s \<leftarrow> unwrap (authorized_call ''initialize'' [AddressVal admin] s);
     s \<leftarrow> unwrap (authorized_call ''bind_token'' [AddressVal tk, VoidVal] s);
     s \<leftarrow> for_all [(''register'', [alice]), (''deposit'', [alice, bob]), (''transfer'', [alice, bob]), (''withdraw'', [alice]),
         (''merge'', [alice])]
       (\<lambda>(op, accs) s. expect (call_args (''before_'' @ op) (map AddressVal (tk # accs)) s) (Inl InvalidConfigurationErr)) s;
     Some s
   })"

definition invariant_suite :: "(nat \<Rightarrow> address) \<Rightarrow> bool list" where
  "invariant_suite g =
     [hook_evaluations_never_write_contract_state g,
      frozen_until_unfrozen_regardless_of_policy_configuration g,
      every_outcome_matches_the_oracle_in_the_open_state g,
      every_outcome_matches_the_oracle_with_frozen_and_blocked_parties g,
      out_of_scope_never_allows_an_operation g,
      unconfigured_contract_never_allows_an_operation g]"

section \<open>One rule per helper\<close>

lemma passes_simps [simp]: "passes (Some x)" "\<not> passes None"
  by (simp_all add: passes_def)

lemma passes_deploy:
  assumes "inj g"
    and "\<And>s. minted s = 10 \<Longrightarrow> portrays g (fresh_ctx g) 1 (open_picture g None True) s \<Longrightarrow> passes (k (fresh_ctx g) s)"
  shows "passes (Option.bind (deploy g) (\<lambda>(c, s). k c s))"
  using deploy_result [OF assms(1), of None True] assms(2) by (auto simp: deploy_def)

lemma passes_generate:
  assumes "portrays g c n P s" and "minted s = m"
    and "\<And>s'. portrays g c n P s' \<Longrightarrow> passes (k (g m) s')"
  shows "passes (case generate g s of (a, s) \<Rightarrow> k a s)"
  using portrays_generate [OF assms(1)] assms(2,3) by (simp add: generate_def)

lemma passes_enroll:
  assumes "portrays g c n P s" and "inj g" and "\<And>a s'. portrays g c n P s' \<Longrightarrow> passes (k a s')"
  shows "passes (case enroll g d s of (a, s) \<Rightarrow> k a s)"
  using enroll_result [OF assms(1,2), of d] assms(3) by (simp add: case_prod_beta)

lemma passes_hook:
  assumes "portrays g c n P s" and "predict_roles op = Some roles" and "length roles = length accs"
    and "predicted c P op tk accs = Some r" and "\<And>s'. portrays g c n P s' \<Longrightarrow> passes (k s')"
  shows "passes (Option.bind (expect (ctx_hook op tk accs s) r) k)"
  using ctx_hook_predicted [OF assms(1-3), of tk] assms(4,5) by (auto simp: expect_def)

lemma passes_freeze:
  assumes "portrays g c n P s" and "pic_bound P tk" and "\<And>s'. portrays g c n (with_flag tk acc True P) s' \<Longrightarrow> passes (k s')"
  shows "passes (Option.bind (ctx_freeze tk acc s) k)"
  using flag_bound [OF assms(1,2), of True acc] assms(3) by (auto simp: ctx_freeze_def flag_call_def unwrap_def)

lemma passes_unfreeze:
  assumes "portrays g c n P s" and "pic_bound P tk" and "\<And>s'. portrays g c n (with_flag tk acc False P) s' \<Longrightarrow> passes (k s')"
  shows "passes (Option.bind (ctx_unfreeze tk acc s) k)"
  using flag_bound [OF assms(1,2), of False acc] assms(3) by (auto simp: ctx_unfreeze_def flag_call_def unwrap_def)

lemma passes_rotate:
  assumes "portrays g c n P s" and "inj g" and "n < 4294967295"
    and "\<And>s'. portrays g c (Suc n) (P\<lparr>pic_blocked := blocked, pic_passthrough := True\<rparr>) s' \<Longrightarrow> passes (k s')"
  shows "passes (Option.bind (rotate_policy g blocked s) k)"
proof -
  let ?s = "snd (enroll g (Policy blocked) s)"
  have "policy_blocks (contracts ?s) (Some (fst (enroll g (Policy blocked) s))) blocked"
    using enroll_result [OF assms(1,2)] by (simp add: policy_blocks_def)
  from config_result [OF conjunct1 [OF enroll_result [OF assms(1,2)]] this assms(3), of True] assms(4)
  show ?thesis by (auto simp: rotate_policy_def case_prod_beta unwrap_def into_val_def Let_def)
qed

lemma passes_disable:
  assumes "portrays g c n P s" and "n < 4294967295"
    and "\<And>s'. portrays g c (Suc n) (P\<lparr>pic_blocked := None, pic_passthrough := passthrough\<rparr>) s' \<Longrightarrow> passes (k s')"
  shows "passes (Option.bind (disable_policy passthrough s) k)"
proof -
  have "policy_blocks (contracts s) None None" by (simp add: policy_blocks_def)
  from config_result [OF assms(1) this assms(2), of passthrough] assms(3)
  show ?thesis by (auto simp: disable_policy_def unwrap_def into_val_def)
qed

lemma passes_unbind:
  assumes "portrays g c n P s" and "\<And>s'. portrays g c n (P\<lparr>pic_bound := (pic_bound P)(tk := False)\<rparr>) s' \<Longrightarrow> passes (k s')"
  shows "passes (Option.bind (unwrap (authorized_call ''unbind_token'' [AddressVal tk] s)) k)"
  using unbind_result [OF assms(1), of tk] assms(2) by (auto simp: unwrap_def)

lemma passes_is_frozen:
  assumes "portrays g c n P s" and "pic_frozen P tk acc = b" and "\<And>s'. portrays g c n P s' \<Longrightarrow> passes (k s')"
  shows "passes (Option.bind (expect (ctx_is_frozen tk acc s) b) k)"
  using is_frozen_reads [OF assms(1), of tk acc] assms(2,3) by (auto simp: expect_def)

lemma passes_is_bound:
  assumes "portrays g c n P s" and "pic_bound P tk = b" and "\<And>s'. portrays g c n P s' \<Longrightarrow> passes (k s')"
  shows "passes (Option.bind (expect (ctx_token_is_bound tk s) b) k)"
  using token_is_bound_reads [OF assms(1), of tk] assms(2,3) by (auto simp: expect_def)

lemma passes_reverted:
  assumes "portrays g c n P s" and "entry_of func args = Some call" and "hook_of call = None" and "call \<notin> range Initialize"
    and "passes (k s)"
  shows "passes (Option.bind (assert_reverted func args s) k)"
  using unauthorized_reverts [OF assms(1-4)] assms(5) by simp

lemmas suite_steps =
  passes_generate passes_enroll passes_hook passes_freeze passes_unfreeze passes_rotate passes_disable passes_unbind
  passes_is_frozen passes_is_bound passes_reverted

lemmas shorthands =
  ctx_register_def ctx_deposit_def ctx_transfer_def ctx_withdraw_def ctx_merge_def ctx_transfer_from_def Let_def

lemmas picture_facts =
  predicted_def predict_def predict_roles_def with_flag_def open_picture_def fresh_ctx_def entry_of_def address_call_def
  image_iff inj_eq

lemma unbound_token_cannot_trigger_enforcement_passes: "inj g \<Longrightarrow> unbound_token_cannot_trigger_enforcement g"
  unfolding unbound_token_cannot_trigger_enforcement_def shorthands
  by (rule passes_deploy, assumption)
    (rule suite_steps | assumption | simp add: picture_facts)+

lemma token_cannot_borrow_another_tokens_binding_passes: "inj g \<Longrightarrow> token_cannot_borrow_another_tokens_binding g"
  unfolding token_cannot_borrow_another_tokens_binding_def shorthands
  by (rule passes_deploy, assumption)
    (rule suite_steps | assumption | simp add: picture_facts)+

lemma frozen_account_cannot_bypass_through_any_operation_passes: "inj g \<Longrightarrow> frozen_account_cannot_bypass_through_any_operation g"
  unfolding frozen_account_cannot_bypass_through_any_operation_def shorthands
  by (rule passes_deploy, assumption)
    (rule suite_steps | assumption | simp add: picture_facts)+

lemma policy_blocked_account_cannot_bypass_through_any_operation_passes: "inj g \<Longrightarrow> policy_blocked_account_cannot_bypass_through_any_operation g"
  unfolding policy_blocked_account_cannot_bypass_through_any_operation_def shorthands
  by (rule passes_deploy, assumption)
    (rule suite_steps | assumption | simp add: picture_facts)+

lemma delegation_cannot_route_around_a_blocked_owner_passes: "inj g \<Longrightarrow> delegation_cannot_route_around_a_blocked_owner g"
  unfolding delegation_cannot_route_around_a_blocked_owner_def shorthands
  by (rule passes_deploy, assumption)
    (rule suite_steps | assumption | simp add: picture_facts)+

lemma disabling_the_policy_does_not_lift_a_freeze_passes: "inj g \<Longrightarrow> disabling_the_policy_does_not_lift_a_freeze g"
  unfolding disabling_the_policy_does_not_lift_a_freeze_def shorthands
  by (rule passes_deploy, assumption)
    (rule suite_steps | assumption | simp add: picture_facts)+

lemma sac_passthrough_still_denies_unauthorized_depositors_passes: "inj g \<Longrightarrow> sac_passthrough_still_denies_unauthorized_depositors g"
  unfolding sac_passthrough_still_denies_unauthorized_depositors_def shorthands
  by (rule passes_deploy, assumption)
    (rule suite_steps | assumption | simp add: picture_facts)+

lemma freeze_state_never_leaks_across_tokens_passes: "inj g \<Longrightarrow> freeze_state_never_leaks_across_tokens g"
  unfolding freeze_state_never_leaks_across_tokens_def shorthands
  by (rule passes_deploy, assumption)
    (rule suite_steps | assumption | simp add: picture_facts)+

lemma unbinding_one_token_revokes_only_that_scope_passes: "inj g \<Longrightarrow> unbinding_one_token_revokes_only_that_scope g"
  unfolding unbinding_one_token_revokes_only_that_scope_def shorthands
  by (rule passes_deploy, assumption)
    (rule suite_steps | assumption | simp add: picture_facts)+

lemma unauthorized_configuration_rotation_reverts_and_leaves_state_passes: "inj g \<Longrightarrow> unauthorized_configuration_rotation_reverts_and_leaves_state g"
  unfolding unauthorized_configuration_rotation_reverts_and_leaves_state_def shorthands
  by (rule passes_deploy, assumption)
    (rule suite_steps | assumption | simp add: picture_facts)+

lemma unauthorized_bind_and_unbind_revert_and_leave_state_passes: "inj g \<Longrightarrow> unauthorized_bind_and_unbind_revert_and_leave_state g"
  unfolding unauthorized_bind_and_unbind_revert_and_leave_state_def shorthands
  by (rule passes_deploy, assumption)
    (rule suite_steps | assumption | simp add: picture_facts)+

lemma unauthorized_freeze_reverts_and_leaves_state_passes: "inj g \<Longrightarrow> unauthorized_freeze_reverts_and_leaves_state g"
  unfolding unauthorized_freeze_reverts_and_leaves_state_def shorthands
  by (rule passes_deploy, assumption)
    (rule suite_steps | assumption | simp add: picture_facts)+

lemma admin_policy_rotation_is_effective_and_gated_passes: "inj g \<Longrightarrow> admin_policy_rotation_is_effective_and_gated g"
  unfolding admin_policy_rotation_is_effective_and_gated_def shorthands
  by (rule passes_deploy, assumption)
    (rule suite_steps | assumption | simp add: picture_facts)+

section \<open>Loops\<close>

lemma for_all_keeps:
  assumes "\<And>x s. x \<in> set xs \<Longrightarrow> I s \<Longrightarrow> \<exists>s'. body x s = Some s' \<and> I s'" and "I s"
  shows "\<exists>s'. for_all xs body s = Some s' \<and> I s'"
  using assms
proof (induction xs arbitrary: s)
  case (Cons x xs)
  obtain s' where "body x s = Some s'" and "I s'" using Cons.prems(1) [of x s] Cons.prems(2) by auto
  with Cons.IH [of s'] Cons.prems(1) show ?case by auto
qed simp

lemma combos_after_length: "accs \<in> set (combos_after n pool cur) \<Longrightarrow> length accs = n + length cur"
  by (induction n arbitrary: cur) fastforce+

lemma combos_length: "accs \<in> set (combos n pool) \<Longrightarrow> length accs = n"
  by (simp add: combos_def combos_after_length)

lemma hook_keeps:
  assumes "portrays g c n P s" and "predict_roles op = Some roles" and "length roles = length accs"
    and "predicted c P op tk accs = Some r"
  shows "\<exists>s'. expect (ctx_hook op tk accs s) r = Some s' \<and> portrays g c n P s'"
  using ctx_hook_predicted [OF assms(1-3), of tk] assms(4) by (auto simp: expect_def)

definition arities :: "(string \<times> nat) list" where
  "arities = [(''register'', 1), (''merge'', 1), (''withdraw'', 1), (''deposit'', 2), (''transfer'', 2), (''transfer_from'', 3)]"

lemma arity_roles: "(op, n) \<in> set arities \<Longrightarrow> \<exists>roles. predict_roles op = Some roles \<and> length roles = n"
  by (auto simp: arities_def predict_roles_def)

lemma matrix_keeps:
  assumes "portrays g c n P s"
    and "\<And>tk. tk \<in> set tokens \<Longrightarrow> pic_bound P tk \<and>
      pic_frozen P tk = (\<lambda>p. frozen_alice_on_a \<and> tk = ctx_token_a c \<and> p = ctx_alice c)"
  shows "\<exists>s'. assert_matrix_matches_oracle c tokens frozen_alice_on_a (pic_blocked P) (pic_passthrough P) s = Some s' \<and>
    portrays g c n P s'"
  unfolding assert_matrix_matches_oracle_def arities_def [symmetric]
proof (rule for_all_keeps [where I = "portrays g c n P"])
  fix tk s
  assume tk: "tk \<in> set tokens" and p: "portrays g c n P s"
  show "\<exists>s'. for_all arities (\<lambda>(op, arity). for_all (combos arity (matrix_pool c)) (\<lambda>accs s. do {
       expected \<leftarrow> predict op True True (pic_passthrough P) (\<lambda>p. p = ctx_alice c \<or> p = ctx_bob c)
         (\<lambda>p. frozen_alice_on_a \<and> tk = ctx_token_a c \<and> p = ctx_alice c) (pic_blocked P) accs;
       expect (ctx_hook op tk accs s) expected
     })) s = Some s' \<and> portrays g c n P s'"
  proof (rule for_all_keeps [where I = "portrays g c n P", OF _ p])
    fix x s
    assume x: "x \<in> set arities" and p: "portrays g c n P s"
    obtain op arity where xe: "x = (op, arity)" by (cases x)
    with x obtain roles where roles: "predict_roles op = Some roles" "length roles = arity" using arity_roles by blast
    show "\<exists>s'. (case x of (op, arity) \<Rightarrow> for_all (combos arity (matrix_pool c)) (\<lambda>accs s. do {
         expected \<leftarrow> predict op True True (pic_passthrough P) (\<lambda>p. p = ctx_alice c \<or> p = ctx_bob c)
           (\<lambda>p. frozen_alice_on_a \<and> tk = ctx_token_a c \<and> p = ctx_alice c) (pic_blocked P) accs;
         expect (ctx_hook op tk accs s) expected
       })) s = Some s' \<and> portrays g c n P s'"
      unfolding xe prod.case
    proof (rule for_all_keeps [where I = "portrays g c n P", OF _ p])
      fix accs s
      assume accs: "accs \<in> set (combos arity (matrix_pool c))" and p: "portrays g c n P s"
      have len: "length roles = length accs" using combos_length [OF accs] roles(2) by simp
      have "predicted c P op tk accs = predict op True True (pic_passthrough P) (\<lambda>p. p = ctx_alice c \<or> p = ctx_bob c)
          (\<lambda>p. frozen_alice_on_a \<and> tk = ctx_token_a c \<and> p = ctx_alice c) (pic_blocked P) accs"
        using assms(2) [OF tk] by (simp add: predicted_def)
      moreover have "\<exists>r. predicted c P op tk accs = Some r"
        using assms(2) [OF tk] roles(1) len by (simp add: predicted_def predict_def)
      ultimately show "\<exists>s'. (do {
           expected \<leftarrow> predict op True True (pic_passthrough P) (\<lambda>p. p = ctx_alice c \<or> p = ctx_bob c)
             (\<lambda>p. frozen_alice_on_a \<and> tk = ctx_token_a c \<and> p = ctx_alice c) (pic_blocked P) accs;
           expect (ctx_hook op tk accs s) expected
         }) = Some s' \<and> portrays g c n P s'"
        using hook_keeps [OF p roles(1) len] by auto
    qed
  qed
qed (rule assms(1))

lemma passes_matrix:
  assumes "portrays g c n P s" and "pic_blocked P = blocked" and "pic_passthrough P = passthrough"
    and "\<forall>tk\<in>set tokens. pic_bound P tk \<and>
      pic_frozen P tk = (\<lambda>p. frozen_alice_on_a \<and> tk = ctx_token_a c \<and> p = ctx_alice c)"
    and "\<And>s'. portrays g c n P s' \<Longrightarrow> passes (k s')"
  shows "passes (Option.bind (assert_matrix_matches_oracle c tokens frozen_alice_on_a blocked passthrough s) k)"
  using matrix_keeps [OF assms(1), of tokens frozen_alice_on_a] assms(2-5) by auto

text \<open>Hooks on an unbound token.\<close>

lemma unbound_keeps:
  assumes "portrays g c n P s" and "(op, arity) \<in> set arities" and "\<not> pic_bound P tk"
  shows "\<exists>s'. for_all (combos arity pool) (\<lambda>accs s. expect (ctx_hook op tk accs s) (Inl UnboundTokenErr)) s = Some s' \<and>
    portrays g c n P s'"
proof (rule for_all_keeps [where I = "portrays g c n P"])
  fix accs s
  assume "accs \<in> set (combos arity pool)" and p: "portrays g c n P s"
  then obtain roles where roles: "predict_roles op = Some roles" "length roles = length accs"
    using arity_roles [OF assms(2)] combos_length by auto
  show "\<exists>s'. expect (ctx_hook op tk accs s) (Inl UnboundTokenErr) = Some s' \<and> portrays g c n P s'"
    by (rule hook_keeps [OF p roles]) (simp add: predicted_def predict_def assms(3))
qed (rule assms(1))

lemma passes_unbound:
  assumes "portrays g c n P s" and "(op, arity) \<in> set arities" and "\<not> pic_bound P tk"
    and "\<And>s'. portrays g c n P s' \<Longrightarrow> passes (k s')"
  shows "passes (Option.bind
    (for_all (combos arity pool) (\<lambda>accs s. expect (ctx_hook op tk accs s) (Inl UnboundTokenErr)) s) k)"
  using unbound_keeps [OF assms(1-3), of pool] assms(4) by auto

section \<open>The invariant suite passes\<close>

lemmas matrix_facts = picture_facts arities_def fun_eq_iff

lemma every_outcome_matches_the_oracle_in_the_open_state_passes:
  "inj g \<Longrightarrow> every_outcome_matches_the_oracle_in_the_open_state g"
  unfolding every_outcome_matches_the_oracle_in_the_open_state_def shorthands
  by (rule passes_deploy, assumption)
    (rule suite_steps passes_matrix | assumption | simp add: matrix_facts)+

lemma every_outcome_matches_the_oracle_with_frozen_and_blocked_parties_passes:
  "inj g \<Longrightarrow> every_outcome_matches_the_oracle_with_frozen_and_blocked_parties g"
  unfolding every_outcome_matches_the_oracle_with_frozen_and_blocked_parties_def shorthands
  by (rule passes_deploy, assumption)
    (rule suite_steps passes_matrix | assumption | simp add: matrix_facts)+

lemma frozen_until_unfrozen_regardless_of_policy_configuration_passes:
  "inj g \<Longrightarrow> frozen_until_unfrozen_regardless_of_policy_configuration g"
  unfolding frozen_until_unfrozen_regardless_of_policy_configuration_def shorthands for_all.simps prod.case Option.bind_assoc
  by (rule passes_deploy, assumption)
    (rule suite_steps passes_matrix | assumption | simp only: bind.bind_lunit | simp add: matrix_facts)+

lemma out_of_scope_never_allows_an_operation_passes:
  "inj g \<Longrightarrow> out_of_scope_never_allows_an_operation g"
  unfolding out_of_scope_never_allows_an_operation_def shorthands for_all.simps prod.case Option.bind_assoc
  by (rule passes_deploy, assumption)
    (rule suite_steps passes_unbound | assumption | simp only: bind.bind_lunit | simp add: matrix_facts)+

lemma snapshot_reads:
  assumes "portrays g c n P s"
  shows "\<exists>s'. snapshot c s =
      Some ((case st_config_version (state_in s) of None \<Rightarrow> 0 | Some k \<Rightarrow> k) #
        map of_bool [pic_bound P (ctx_token_a c), pic_bound P (ctx_token_b c),
          pic_frozen P (ctx_token_a c) (ctx_alice c), pic_frozen P (ctx_token_a c) (ctx_bob c),
          pic_frozen P (ctx_token_a c) (ctx_carol c), pic_frozen P (ctx_token_b c) (ctx_alice c),
          pic_frozen P (ctx_token_b c) (ctx_bob c), pic_frozen P (ctx_token_b c) (ctx_carol c)], s') \<and>
    portrays g c n P s' \<and> state_in s' = state_in s"
proof -
  let ?I = "\<lambda>s'. portrays g c n P s' \<and> state_in s' = state_in s"
  have bound: "\<exists>s2. ctx_token_is_bound tk s1 = Some (pic_bound P tk, s2) \<and> ?I s2" if "?I s1" for tk s1
    using token_is_bound_reads [of g c n P s1 tk] that by auto
  have frozen: "\<exists>s2. ctx_is_frozen tk acc s1 = Some (pic_frozen P tk acc, s2) \<and> ?I s2" if "?I s1" for tk acc s1
    using is_frozen_reads [of g c n P s1 tk acc] that by auto
  have "?I s" using assms by simp
  from bound [OF this, of "ctx_token_a c"] obtain s1 where 1: "ctx_token_is_bound (ctx_token_a c) s = Some (pic_bound P (ctx_token_a c), s1)" "?I s1" by blast
  from bound [OF 1(2), of "ctx_token_b c"] obtain s2 where 2: "ctx_token_is_bound (ctx_token_b c) s1 = Some (pic_bound P (ctx_token_b c), s2)" "?I s2" by blast
  from frozen [OF 2(2), of "ctx_token_a c" "ctx_alice c"] obtain s3 where 3: "ctx_is_frozen (ctx_token_a c) (ctx_alice c) s2 = Some (pic_frozen P (ctx_token_a c) (ctx_alice c), s3)" "?I s3" by blast
  from frozen [OF 3(2), of "ctx_token_a c" "ctx_bob c"] obtain s4 where 4: "ctx_is_frozen (ctx_token_a c) (ctx_bob c) s3 = Some (pic_frozen P (ctx_token_a c) (ctx_bob c), s4)" "?I s4" by blast
  from frozen [OF 4(2), of "ctx_token_a c" "ctx_carol c"] obtain s5 where 5: "ctx_is_frozen (ctx_token_a c) (ctx_carol c) s4 = Some (pic_frozen P (ctx_token_a c) (ctx_carol c), s5)" "?I s5" by blast
  from frozen [OF 5(2), of "ctx_token_b c" "ctx_alice c"] obtain s6 where 6: "ctx_is_frozen (ctx_token_b c) (ctx_alice c) s5 = Some (pic_frozen P (ctx_token_b c) (ctx_alice c), s6)" "?I s6" by blast
  from frozen [OF 6(2), of "ctx_token_b c" "ctx_bob c"] obtain s7 where 7: "ctx_is_frozen (ctx_token_b c) (ctx_bob c) s6 = Some (pic_frozen P (ctx_token_b c) (ctx_bob c), s7)" "?I s7" by blast
  from frozen [OF 7(2), of "ctx_token_b c" "ctx_carol c"] obtain s8 where 8: "ctx_is_frozen (ctx_token_b c) (ctx_carol c) s7 = Some (pic_frozen P (ctx_token_b c) (ctx_carol c), s8)" "?I s8" by blast
  show ?thesis
    using config_version_reads [OF assms] 1(1) 2(1) 3(1) 4(1) 5(1) 6(1) 7(1) 8 by (simp add: snapshot_def)
qed

text \<open>A block that cannot change the state is not seen by the snapshot around it.\<close>

lemma passes_around_snapshots:
  assumes "portrays g c n P s"
    and "\<And>s1. portrays g c n P s1 \<Longrightarrow> \<exists>s2. block s1 = Some s2 \<and> portrays g c n P s2 \<and> state_in s2 = state_in s1"
  shows "passes (Option.bind (snapshot c s) (\<lambda>(before, s). Option.bind (block s) (\<lambda>s. expect (snapshot c s) before)))"
proof -
  obtain v s1 where 1: "snapshot c s = Some (v, s1)" "portrays g c n P s1" "state_in s1 = state_in s"
    using snapshot_reads [OF assms(1)] by auto
  obtain s2 where 2: "block s1 = Some s2" "portrays g c n P s2" "state_in s2 = state_in s1"
    using assms(2) [OF 1(2)] by blast
  obtain s3 where "snapshot c s2 = Some (v, s3)"
    using snapshot_reads [OF assms(1)] snapshot_reads [OF 2(2)] 1(1,3) 2(3) by auto
  with 1 2 show ?thesis by (simp add: expect_def)
qed

lemma hooks_keep_state:
  assumes "portrays g c n P s" and "predict_roles op = Some roles" and "length roles = length accs"
  shows "\<exists>s'. for_all tokens (\<lambda>tk s. ignore (ctx_hook op tk accs s)) s = Some s' \<and>
    (portrays g c n P s' \<and> state_in s' = state_in s)"
  by (rule for_all_keeps [where I = "\<lambda>s'. portrays g c n P s' \<and> state_in s' = state_in s"])
    (use ctx_hook_predicted assms in \<open>fastforce simp: ignore_def\<close>)+

lemma hook_evaluations_never_write_contract_state_passes:
  assumes "inj g"
  shows "hook_evaluations_never_write_contract_state g"
proof -
  have traffic: "\<exists>s2. for_all ops (\<lambda>(op, accs). for_all tokens (\<lambda>tk s. ignore (ctx_hook op tk accs s))) s1 = Some s2 \<and>
      (portrays g c n P s2 \<and> state_in s2 = state_in s1)"
    if "portrays g c n P s1" and ops: "list_all (\<lambda>(op, accs). \<exists>roles. predict_roles op = Some roles \<and> length roles = length accs) ops"
    for c n P s1 tokens and ops :: "(string \<times> address list) list"
  proof (rule for_all_keeps [where I = "\<lambda>s2. portrays g c n P s2 \<and> state_in s2 = state_in s1"])
    fix x s
    assume x: "x \<in> set ops" and s: "portrays g c n P s \<and> state_in s = state_in s1"
    obtain op accs where xe: "x = (op, accs)" by (cases x)
    with x ops obtain roles where roles: "predict_roles op = Some roles" "length roles = length accs"
      by (auto simp: list_all_iff)
    from hooks_keep_state [OF _ this, of g c n P s tokens] s
    show "\<exists>s'. (case x of (op, accs) \<Rightarrow> for_all tokens (\<lambda>tk s. ignore (ctx_hook op tk accs s))) s = Some s' \<and>
        portrays g c n P s' \<and> state_in s' = state_in s1"
      unfolding xe by auto
  qed (use that in simp)
  show ?thesis
    unfolding hook_evaluations_never_write_contract_state_def Let_def
    by (rule passes_deploy, rule assms)
      (rule suite_steps assms passes_around_snapshots traffic [unfolded conj_assoc] | assumption
        | simp add: matrix_facts)+
qed

section \<open>Tests on a bare environment\<close>

text \<open>Run on the abstract state itself: the world's ledger stands at \<open>st\<close>.\<close>

definition stands_at :: "enforcement \<Rightarrow> world \<Rightarrow> bool" where
  "stands_at st s \<longleftrightarrow> well_typed ledger_host (kept s) \<and> state_in s = st \<and> \<not> mocked s"

lemma passes_authorized:
  assumes "stands_at st s" and "entry_of func args = Some call"
    and "spec_step st (\<lambda>_. True) (fixture_answer (contracts s)) call = Done st' evs"
    and "\<And>s'. stands_at st' s' \<Longrightarrow> passes (k s')"
  shows "passes (Option.bind (unwrap (authorized_call func args s)) k)"
  using authorized_Done [of s func args call st' evs] assms
  by (auto simp: stands_at_def unwrap_def)

lemma passes_refused:
  assumes "stands_at st s" and "entry_of func args = Some call"
    and "spec_step st (\<lambda>_. False) (fixture_answer (contracts s)) call = Rejected err" and "passes (k s)"
  shows "passes (Option.bind (expect (call_args func args s) (Inl err)) k)"
  using try_contract_step [of s func args call] assms by (simp add: stands_at_def expect_def call_args_def)

lemma passes_unsigned:
  assumes "stands_at st s" and "entry_of func args = Some call"
    and "spec_step st (\<lambda>_. False) (fixture_answer (contracts s)) call = Trapped" and "passes (k s)"
  shows "passes (Option.bind (assert_reverted func args s) k)"
  using try_contract_step [of s func args call] assms by (simp add: stands_at_def assert_reverted_def)

lemma passes_view_bound:
  assumes "stands_at st s" and "st_bindings st tk \<noteq> None" and "\<And>s'. passes (k s')"
  shows "passes (Option.bind (expect (view_bool ''token_is_bound'' [tk] s) True) k)"
  using suite.is_token_bound_eq [where cs = "contracts s" and auths = "mocked s" and e = "kept s"] assms
  by (simp add: stands_at_def view_bool_def read_token_is_bound_def expect_def Let_def)

lemma stands_at_generated: "stands_at st s \<Longrightarrow> stands_at st (s\<lparr>minted := m\<rparr>)"
  by (simp add: stands_at_def)

lemma stands_at_new: "stands_at (state_in new_env) new_env"
  by (simp add: stands_at_def blank_state)

lemmas bare_steps = passes_authorized passes_refused passes_unsigned passes_view_bound
lemmas bare_facts =
  entry_of_def address_call_def admin_only_def bound_to_def decide_def verdict_outcome_def blank_state

lemma double_initialization_cannot_rotate_the_admin_passes:
  "double_initialization_cannot_rotate_the_admin g"
  unfolding double_initialization_cannot_rotate_the_admin_def generate_def Let_def prod.case
  by (rule passes_authorized, (rule stands_at_generated)+, rule stands_at_new)
    (rule bare_steps | assumption | simp add: bare_facts)+

lemma unconfigured_contract_never_allows_an_operation_passes:
  "unconfigured_contract_never_allows_an_operation g"
  unfolding unconfigured_contract_never_allows_an_operation_def generate_def Let_def prod.case for_all.simps Option.bind_assoc
  by (rule passes_authorized, (rule stands_at_generated)+, rule stands_at_new)
    (rule bare_steps | assumption | simp only: bind.bind_lunit append.simps list.map | simp add: bare_facts)+

section \<open>Both suites\<close>

lemma security_suite_passes: "inj g \<Longrightarrow> list_all id (security_suite g)"
  by (simp add: security_suite_def
      unbound_token_cannot_trigger_enforcement_passes
      token_cannot_borrow_another_tokens_binding_passes
      frozen_account_cannot_bypass_through_any_operation_passes
      policy_blocked_account_cannot_bypass_through_any_operation_passes
      delegation_cannot_route_around_a_blocked_owner_passes
      disabling_the_policy_does_not_lift_a_freeze_passes
      sac_passthrough_still_denies_unauthorized_depositors_passes
      freeze_state_never_leaks_across_tokens_passes
      unbinding_one_token_revokes_only_that_scope_passes
      unauthorized_configuration_rotation_reverts_and_leaves_state_passes
      unauthorized_bind_and_unbind_revert_and_leave_state_passes
      unauthorized_freeze_reverts_and_leaves_state_passes
      double_initialization_cannot_rotate_the_admin_passes
      admin_policy_rotation_is_effective_and_gated_passes)

lemma invariant_suite_passes: "inj g \<Longrightarrow> list_all id (invariant_suite g)"
  by (simp add: invariant_suite_def
      hook_evaluations_never_write_contract_state_passes
      frozen_until_unfrozen_regardless_of_policy_configuration_passes
      every_outcome_matches_the_oracle_in_the_open_state_passes
      every_outcome_matches_the_oracle_with_frozen_and_blocked_parties_passes
      out_of_scope_never_allows_an_operation_passes
      unconfigured_contract_never_allows_an_operation_passes)

end
