(* ===== verification/Property_Suite.thy ===== *)
theory Property_Suite
  imports Integration_Suites "HOL-Library.Word"
begin

unbundle bit_operations_syntax

text \<open>
  The deterministic property suite, \<^verbatim>\<open>contracts/compliance-hooks/tests/fuzz.rs\<close>: the splitmix64 generator on
  64-bit words, the state mirror, one random transition or evaluation with the mirror kept in step, and
  the whole run. The suite runs three seeds of 600 steps; here every seed and every length that the 32-bit
  configuration version allows passes (\<open>run_sequence_passes\<close>), because one step keeps the mirror a picture of
  the contract (\<open>fuzz_step_keeps\<close>).
\<close>

section \<open>The generator\<close>

type_synonym u64 = "64 word"

definition rng_next :: "u64 \<Rightarrow> u64 \<times> u64" where
  "rng_next state =
     (let state = state + 0x9e3779b97f4a7c15;
          z = state;
          z = (z XOR drop_bit 30 z) * 0xbf58476d1ce4e5b9;
          z = (z XOR drop_bit 27 z) * 0x94d049bb133111eb
      in (z XOR drop_bit 31 z, state))"

definition rng_below :: "nat \<Rightarrow> u64 \<Rightarrow> nat \<times> u64" where
  "rng_below n rng = (let (x, rng) = rng_next rng in (unat (x mod of_nat n), rng))"

definition rng_chance :: "u64 \<Rightarrow> u64 \<Rightarrow> bool \<times> u64" where
  "rng_chance percent rng = (let (x, rng) = rng_next rng in (x mod 100 < percent, rng))"

section \<open>The mirror\<close>

definition ACCOUNTS :: "nat list" where
  "ACCOUNTS = [0, 1, 2, 3]"

definition OPS :: "(string \<times> nat) list" where
  "OPS = [(''register'', 1), (''merge'', 1), (''withdraw'', 1), (''deposit'', 2), (''transfer'', 2), (''transfer_from'', 3)]"

record mirror =
  mirror_bound :: "bool list"
  mirror_frozen :: "bool list list"
  mirror_blocked :: "nat option"
  mirror_passthrough :: bool

definition fuzz_pool :: "ctx \<Rightarrow> address list" where
  "fuzz_pool c = [ctx_alice c, ctx_bob c, ctx_carol c, ctx_spender c]"

definition token_at :: "ctx \<Rightarrow> nat \<Rightarrow> address" where
  "token_at c ti = (if ti = 0 then ctx_token_a c else ctx_token_b c)"

fun position :: "'a list \<Rightarrow> 'a \<Rightarrow> nat option" where
  "position [] x = None"
| "position (y # ys) x = (if y = x then Some 0 else map_option Suc (position ys x))"

definition assert_views_match :: "ctx \<Rightarrow> mirror \<Rightarrow> address list \<Rightarrow> world \<Rightarrow> world option" where
  "assert_views_match c m pool =
     for_all [0, 1] (\<lambda>ti s. do {
       s \<leftarrow> expect (ctx_token_is_bound (token_at c ti) s) (mirror_bound m ! ti);
       for_all ACCOUNTS (\<lambda>j s. expect (ctx_is_frozen (token_at c ti) (pool ! j) s) (mirror_frozen m ! ti ! j)) s
     })"

definition predict_for :: "ctx \<Rightarrow> mirror \<Rightarrow> address list \<Rightarrow> nat \<Rightarrow> string \<Rightarrow> address list \<Rightarrow> (contract_error + unit) option" where
  "predict_for c m pool ti op accs =
     predict op (mirror_bound m ! ti) True (mirror_passthrough m) (\<lambda>p. p = ctx_alice c \<or> p = ctx_bob c)
       (\<lambda>p. case position pool p of Some j \<Rightarrow> mirror_frozen m ! ti ! j | None \<Rightarrow> False)
       (map_option (\<lambda>j. pool ! j) (mirror_blocked m)) accs"

section \<open>One step\<close>

text \<open>The arms of the step. Each returns the generator, the mirror and the world, or panics.\<close>

type_synonym fuzz_state = "u64 \<times> mirror \<times> world"

text \<open>The result must be the expected one, and the mirror only moves when the contract confirms.\<close>

definition fuzz_flag :: "bool \<Rightarrow> ctx \<Rightarrow> address list \<Rightarrow> nat \<Rightarrow> nat \<Rightarrow> fuzz_state \<Rightarrow> fuzz_state option" where
  "fuzz_flag flag c pool ti j = (\<lambda>(rng, m, s). do {
     let expected = (if \<not> mirror_bound m ! ti then Inl UnboundTokenErr else Inr ());
     (res, s) \<leftarrow> authorized_call (if flag then ''freeze'' else ''unfreeze'')
       [AddressVal (token_at c ti), AddressVal (pool ! j)] s;
     if res \<noteq> expected then None
     else Some (rng,
       (if res = Inr () then m\<lparr>mirror_frozen := (mirror_frozen m)[ti := (mirror_frozen m ! ti)[j := flag]]\<rparr> else m), s)
   })"

definition fuzz_configure :: "(nat \<Rightarrow> address) \<Rightarrow> address list \<Rightarrow> fuzz_state \<Rightarrow> fuzz_state option" where
  "fuzz_configure g pool = (\<lambda>(rng, m, s). do {
     let (sac_passthrough, rng) = rng_chance 50 rng;
     let (off, rng) = rng_chance 25 rng;
     let (blocked, rng, m, s) =
       (if off then (None, rng, m, s)
        else (let (bj, rng) = rng_below (length ACCOUNTS) rng;
                  (policy, s) = enroll g (Policy (Some (pool ! bj))) s
              in (Some policy, rng, m\<lparr>mirror_blocked := Some bj\<rparr>, s)));
     s \<leftarrow> expect (authorized_call ''set_config'' [into_val blocked, BoolVal sac_passthrough] s) (Inr ());
     let m = (if blocked = None then m\<lparr>mirror_blocked := None\<rparr> else m);
     Some (rng, m\<lparr>mirror_passthrough := sac_passthrough\<rparr>, s)
   })"

definition fuzz_unbind :: "ctx \<Rightarrow> nat \<Rightarrow> fuzz_state \<Rightarrow> fuzz_state option" where
  "fuzz_unbind c ti = (\<lambda>(rng, m, s). do {
     s \<leftarrow> expect (authorized_call ''unbind_token'' [AddressVal (token_at c ti)] s) (Inr ());
     Some (rng, m\<lparr>mirror_bound := (mirror_bound m)[ti := False]\<rparr>, s)
   })"

definition fuzz_bind :: "(nat \<Rightarrow> address) \<Rightarrow> ctx \<Rightarrow> nat \<Rightarrow> fuzz_state \<Rightarrow> fuzz_state option" where
  "fuzz_bind g c ti = (\<lambda>(rng, m, s). do {
     let (sac, s) = enroll g (Sac (ctx_alice c) (ctx_bob c)) s;
     s \<leftarrow> expect (authorized_call ''bind_token'' [AddressVal (token_at c ti), into_val (Some sac)] s) (Inr ());
     Some (rng, m\<lparr>mirror_bound := (mirror_bound m)[ti := True]\<rparr>, s)
   })"

fun draw_parties :: "nat \<Rightarrow> address list \<Rightarrow> u64 \<Rightarrow> address list \<times> u64" where
  "draw_parties 0 pool rng = ([], rng)"
| "draw_parties (Suc n) pool rng =
     (let (j, rng) = rng_below (length ACCOUNTS) rng;
          (accs, rng) = draw_parties n pool rng
      in (pool ! j # accs, rng))"

definition fuzz_hook :: "ctx \<Rightarrow> address list \<Rightarrow> nat \<Rightarrow> fuzz_state \<Rightarrow> fuzz_state option" where
  "fuzz_hook c pool ti = (\<lambda>(rng, m, s). do {
     let (k, rng) = rng_below (length OPS) rng;
     let (op, arity) = OPS ! k;
     let (accs, rng) = draw_parties arity pool rng;
     expected \<leftarrow> predict_for c m pool ti op accs;
     s \<leftarrow> expect (ctx_hook op (token_at c ti) accs s) expected;
     Some (rng, m, s)
   })"

definition fuzz_step :: "(nat \<Rightarrow> address) \<Rightarrow> ctx \<Rightarrow> address list \<Rightarrow> fuzz_state \<Rightarrow> fuzz_state option" where
  "fuzz_step g c pool = (\<lambda>(rng, m, s).
     let (x, rng) = rng_next rng;
         roll = x mod 100;
         (ti, rng) = rng_below 2 rng;
         (j, rng) = rng_below (length ACCOUNTS) rng;
         st = (rng, m, s)
     in if roll < 12 then fuzz_flag True c pool ti j st
        else if roll < 24 then fuzz_flag False c pool ti j st
        else if roll < 40 then fuzz_configure g pool st
        else if roll < 52 then fuzz_unbind c ti st
        else if roll < 64 then fuzz_bind g c ti st
        else fuzz_hook c pool ti st)"

section \<open>The run\<close>

definition fresh_mirror :: mirror where
  "fresh_mirror =
    \<lparr>mirror_bound = [True, True], mirror_frozen = replicate 2 (replicate 4 False), mirror_blocked = None,
     mirror_passthrough = True\<rparr>"

text \<open>The numbers of the steps still to be taken are the list.\<close>

fun run_steps :: "(nat \<Rightarrow> address) \<Rightarrow> ctx \<Rightarrow> address list \<Rightarrow> nat list \<Rightarrow> fuzz_state \<Rightarrow> fuzz_state option" where
  "run_steps g c pool [] st = Some st"
| "run_steps g c pool (step_no # later) st = do {
     (rng, m, s) \<leftarrow> fuzz_step g c pool st;
     s \<leftarrow> (if step_no mod 64 = 63 then assert_views_match c m pool s else Some s);
     run_steps g c pool later (rng, m, s)
   }"

definition run_sequence :: "(nat \<Rightarrow> address) \<Rightarrow> u64 \<Rightarrow> nat \<Rightarrow> bool" where
  "run_sequence g seed steps = passes (do {
     (c, s) \<leftarrow> deploy g;
     let pool = fuzz_pool c;
     (rng, m, s) \<leftarrow> run_steps g c pool [0..<steps] (seed, fresh_mirror, s);
     assert_views_match c m pool s
   })"

definition random_sequences_match_the_oracle_seed_a :: "(nat \<Rightarrow> address) \<Rightarrow> bool" where
  "random_sequences_match_the_oracle_seed_a g = run_sequence g 0x5a176a1fcafe0001 600"

definition random_sequences_match_the_oracle_seed_b :: "(nat \<Rightarrow> address) \<Rightarrow> bool" where
  "random_sequences_match_the_oracle_seed_b g = run_sequence g 0x5a176a1fcafe0002 600"

definition random_sequences_match_the_oracle_seed_c :: "(nat \<Rightarrow> address) \<Rightarrow> bool" where
  "random_sequences_match_the_oracle_seed_c g = run_sequence g 0x5a176a1fcafe0003 600"

definition property_suite :: "(nat \<Rightarrow> address) \<Rightarrow> bool list" where
  "property_suite g =
     [random_sequences_match_the_oracle_seed_a g, random_sequences_match_the_oracle_seed_b g,
      random_sequences_match_the_oracle_seed_c g]"

section \<open>Draws are in range\<close>

lemma rng_below_less:
  assumes "0 < n" and "n < 2 ^ 64" and "rng_below n rng = (k, rng')"
  shows "k < n"
proof -
  obtain x where "k = unat (x mod (of_nat n :: u64))" using assms(3) by (auto simp: rng_below_def split: prod.splits)
  then have "k = unat x mod n" using assms(2) by (simp add: unat_mod_distrib unat_of_nat take_bit_nat_eq_self)
  with assms(1) show ?thesis by simp
qed

lemma draw_parties_length: "draw_parties n pool rng = (accs, rng') \<Longrightarrow> length accs = n"
  by (induction n arbitrary: rng accs rng') (auto simp: Let_def split: prod.splits)

section \<open>Positions\<close>

lemma position_Some: "position xs x = Some i \<Longrightarrow> i < length xs \<and> xs ! i = x"
  by (induction xs arbitrary: i) (auto split: if_splits)

lemma position_nth: "distinct xs \<Longrightarrow> i < length xs \<Longrightarrow> position xs (xs ! i) = Some i"
  by (induction xs arbitrary: i) (auto simp: nth_Cons split: nat.splits)

section \<open>The mirror is a picture\<close>

definition tokens_of :: "ctx \<Rightarrow> address list" where
  "tokens_of c = [ctx_token_a c, ctx_token_b c]"

definition entry_at :: "address list \<Rightarrow> 'b list \<Rightarrow> 'b \<Rightarrow> address \<Rightarrow> 'b" where
  "entry_at keys vals none key = (case position keys key of Some i \<Rightarrow> vals ! i | None \<Rightarrow> none)"

lemma entry_at_update:
  assumes "distinct keys" and "length vals = length keys" and "i < length keys"
  shows "entry_at keys (vals[i := v]) none = (entry_at keys vals none)(keys ! i := v)"
proof
  fix key
  show "entry_at keys (vals[i := v]) none key = ((entry_at keys vals none)(keys ! i := v)) key"
  proof (cases "key = keys ! i")
    case True
    then show ?thesis using assms by (simp add: entry_at_def position_nth)
  next
    case False
    then show ?thesis
      using assms by (auto simp: entry_at_def nth_list_update split: option.splits dest!: position_Some)
  qed
qed

lemma entry_at_nth: "distinct keys \<Longrightarrow> i < length keys \<Longrightarrow> entry_at keys vals none (keys ! i) = vals ! i"
  by (simp add: entry_at_def position_nth)

definition picture_of :: "ctx \<Rightarrow> mirror \<Rightarrow> picture" where
  "picture_of c m =
    \<lparr>pic_bound = entry_at (tokens_of c) (mirror_bound m) False,
     pic_frozen = (\<lambda>tk. entry_at (fuzz_pool c) (entry_at (tokens_of c) (mirror_frozen m) (replicate 4 False) tk) False),
     pic_blocked = map_option (\<lambda>j. fuzz_pool c ! j) (mirror_blocked m),
     pic_passthrough = mirror_passthrough m\<rparr>"

definition told_apart :: "ctx \<Rightarrow> bool" where
  "told_apart c \<longleftrightarrow> distinct (fuzz_pool c) \<and> distinct (tokens_of c)"

definition in_shape :: "mirror \<Rightarrow> bool" where
  "in_shape m \<longleftrightarrow> length (mirror_bound m) = 2 \<and> length (mirror_frozen m) = 2 \<and>
     (\<forall>row\<in>set (mirror_frozen m). length row = 4)"

lemma token_at_nth: "ti < 2 \<Longrightarrow> token_at c ti = tokens_of c ! ti"
  by (auto simp: token_at_def tokens_of_def nth_Cons split: nat.splits)

lemma lengths [simp]: "length (fuzz_pool c) = 4" "length (tokens_of c) = 2" "length ACCOUNTS = 4" "length OPS = 6"
  by (simp_all add: fuzz_pool_def tokens_of_def ACCOUNTS_def OPS_def)

lemma picture_reads:
  assumes "told_apart c" and "ti < 2"
  shows "pic_bound (picture_of c m) (token_at c ti) = mirror_bound m ! ti"
    and "pic_frozen (picture_of c m) (token_at c ti) = entry_at (fuzz_pool c) (mirror_frozen m ! ti) False"
  using assms by (simp_all add: picture_of_def token_at_nth entry_at_nth told_apart_def)

lemma picture_bound_update:
  assumes "told_apart c" and "in_shape m" and "ti < 2"
  shows "picture_of c (m\<lparr>mirror_bound := (mirror_bound m)[ti := b]\<rparr>) =
    (picture_of c m)\<lparr>pic_bound := (pic_bound (picture_of c m))(token_at c ti := b)\<rparr>"
  using assms by (simp add: picture_of_def token_at_nth entry_at_update told_apart_def in_shape_def)

lemma picture_flag_update:
  assumes "told_apart c" and "in_shape m" and "ti < 2" and "j < 4"
  shows "picture_of c (m\<lparr>mirror_frozen := (mirror_frozen m)[ti := (mirror_frozen m ! ti)[j := flag]]\<rparr>) =
    with_flag (token_at c ti) (fuzz_pool c ! j) flag (picture_of c m)"
proof -
  have row: "length (mirror_frozen m ! ti) = 4" using assms(2,3) by (simp add: in_shape_def)
  have "entry_at (tokens_of c) ((mirror_frozen m)[ti := (mirror_frozen m ! ti)[j := flag]]) (replicate 4 False) =
      (entry_at (tokens_of c) (mirror_frozen m) (replicate 4 False))(token_at c ti := (mirror_frozen m ! ti)[j := flag])"
    using assms by (simp add: token_at_nth entry_at_update told_apart_def in_shape_def)
  moreover have "entry_at (fuzz_pool c) ((mirror_frozen m ! ti)[j := flag]) False =
      (entry_at (fuzz_pool c) (mirror_frozen m ! ti) False)(fuzz_pool c ! j := flag)"
    using assms row by (simp add: entry_at_update told_apart_def)
  moreover have "entry_at (tokens_of c) (mirror_frozen m) (replicate 4 False) (token_at c ti) = mirror_frozen m ! ti"
    using assms by (simp add: token_at_nth entry_at_nth told_apart_def)
  ultimately show ?thesis by (simp add: picture_of_def with_flag_def fun_eq_iff)
qed

lemma predict_for_picture:
  assumes "told_apart c" and "ti < 2"
  shows "predict_for c m (fuzz_pool c) ti op accs = predicted c (picture_of c m) op (token_at c ti) accs"
  unfolding predict_for_def predicted_def picture_reads [OF assms]
  by (simp add: picture_of_def entry_at_def [abs_def])

section \<open>Every step keeps the mirror\<close>

definition in_step :: "(nat \<Rightarrow> address) \<Rightarrow> ctx \<Rightarrow> nat \<Rightarrow> fuzz_state \<Rightarrow> bool" where
  "in_step g c n = (\<lambda>(rng, m, s). in_shape m \<and> portrays g c n (picture_of c m) s)"

lemma in_shape_flag:
  assumes "in_shape m" and "ti < 2"
  shows "in_shape (m\<lparr>mirror_frozen := (mirror_frozen m)[ti := (mirror_frozen m ! ti)[j := flag]]\<rparr>)"
proof -
  have "length (mirror_frozen m ! ti) = 4" using assms by (simp add: in_shape_def)
  then have "length row = 4" if "row \<in> set ((mirror_frozen m)[ti := (mirror_frozen m ! ti)[j := flag]])" for row
    using subsetD [OF set_update_subset_insert that] assms(1) by (auto simp: in_shape_def)
  with assms(1) show ?thesis by (simp add: in_shape_def)
qed

lemma fuzz_flag_keeps:
  assumes "told_apart c" and "in_step g c n (rng, m, s)" and "ti < 2" and "j < 4"
  shows "\<exists>st. fuzz_flag flag c (fuzz_pool c) ti j (rng, m, s) = Some st \<and> in_step g c n st"
proof -
  let ?tk = "token_at c ti" and ?acc = "fuzz_pool c ! j"
  have shape: "in_shape m" and p: "portrays g c n (picture_of c m) s" using assms(2) by (simp_all add: in_step_def)
  show ?thesis
  proof (cases "mirror_bound m ! ti")
    case True
    obtain s' where "authorized_call (flag_call flag) [AddressVal ?tk, AddressVal ?acc] s = Some (Inr (), s')"
      and "portrays g c n (with_flag ?tk ?acc flag (picture_of c m)) s'"
      using flag_bound [OF p, of ?tk flag ?acc] picture_reads(1) [OF assms(1,3)] True by auto
    with True in_shape_flag [OF shape assms(3), of j flag] show ?thesis
      unfolding picture_flag_update [OF assms(1) shape assms(3,4), symmetric]
      by (auto simp: fuzz_flag_def flag_call_def in_step_def)
  next
    case False
    have "authorized_call (flag_call flag) [AddressVal ?tk, AddressVal ?acc] s = Some (Inl UnboundTokenErr, s)"
      using flag_unbound [OF p] picture_reads(1) [OF assms(1,3)] False by simp
    with False assms(2) show ?thesis by (simp add: fuzz_flag_def flag_call_def)
  qed
qed

lemma fuzz_configure_keeps:
  assumes "inj g" and "in_step g c n (rng, m, s)" and "n < 4294967295"
  shows "\<exists>st. fuzz_configure g (fuzz_pool c) (rng, m, s) = Some st \<and> in_step g c (Suc n) st"
proof -
  have shape: "in_shape m" and p: "portrays g c n (picture_of c m) s" using assms(2) by (simp_all add: in_step_def)
  obtain sac rng1 off rng2 where r: "rng_chance 50 rng = (sac, rng1)" "rng_chance 25 rng1 = (off, rng2)"
    by (metis surj_pair)
  show ?thesis
  proof (cases off)
    case True
    have "policy_blocks (contracts s) None None" by (simp add: policy_blocks_def)
    then obtain s' where "authorized_call ''set_config'' [into_val None, BoolVal sac] s = Some (Inr (), s')"
      and "portrays g c (Suc n) ((picture_of c m)\<lparr>pic_blocked := None, pic_passthrough := sac\<rparr>) s'"
      using config_result [OF p _ assms(3)] by blast
    with r True shape show ?thesis
      by (auto simp: fuzz_configure_def expect_def in_step_def in_shape_def picture_of_def)
  next
    case False
    obtain bj rng3 where b: "rng_below 4 rng2 = (bj, rng3)" by (metis surj_pair)
    let ?d = "Policy (Some (fuzz_pool c ! bj))"
    obtain pol s1 where e: "enroll g ?d s = (pol, s1)" by (metis surj_pair)
    have p1: "portrays g c n (picture_of c m) s1" and "contracts s1 pol = Some ?d"
      using enroll_result [OF p assms(1), of ?d] e by simp_all
    then have "policy_blocks (contracts s1) (Some pol) (Some (fuzz_pool c ! bj))" by (simp add: policy_blocks_def)
    then obtain s' where "authorized_call ''set_config'' [into_val (Some pol), BoolVal sac] s1 = Some (Inr (), s')"
      and "portrays g c (Suc n) ((picture_of c m)\<lparr>pic_blocked := Some (fuzz_pool c ! bj), pic_passthrough := sac\<rparr>) s'"
      using config_result [OF p1 _ assms(3)] by blast
    with r False b e shape show ?thesis
      by (auto simp: fuzz_configure_def expect_def in_step_def in_shape_def picture_of_def)
  qed
qed

lemma fuzz_unbind_keeps:
  assumes "told_apart c" and "in_step g c n (rng, m, s)" and "ti < 2"
  shows "\<exists>st. fuzz_unbind c ti (rng, m, s) = Some st \<and> in_step g c n st"
proof -
  have shape: "in_shape m" and p: "portrays g c n (picture_of c m) s" using assms(2) by (simp_all add: in_step_def)
  from unbind_result [OF p, of "token_at c ti"] show ?thesis
    unfolding picture_bound_update [OF assms(1) shape assms(3), symmetric]
    using shape by (auto simp: fuzz_unbind_def expect_def in_step_def in_shape_def)
qed

lemma fuzz_bind_keeps:
  assumes "inj g" and "told_apart c" and "in_step g c n (rng, m, s)" and "ti < 2"
  shows "\<exists>st. fuzz_bind g c ti (rng, m, s) = Some st \<and> in_step g c n st"
proof -
  have shape: "in_shape m" and p: "portrays g c n (picture_of c m) s" using assms(3) by (simp_all add: in_step_def)
  let ?d = "Sac (ctx_alice c) (ctx_bob c)"
  obtain sac s1 where e: "enroll g ?d s = (sac, s1)" by (metis surj_pair)
  have p1: "portrays g c n (picture_of c m) s1" and d: "contracts s1 sac = Some ?d"
    using enroll_result [OF p assms(1), of ?d] e by simp_all
  from bind_result [OF p1 d, of "token_at c ti"] show ?thesis
    unfolding picture_bound_update [OF assms(2) shape assms(4), symmetric]
    using shape e by (auto simp: fuzz_bind_def expect_def in_step_def in_shape_def)
qed

lemma fuzz_hook_keeps:
  assumes "told_apart c" and "in_step g c n (rng, m, s)" and "ti < 2"
  shows "\<exists>st. fuzz_hook c (fuzz_pool c) ti (rng, m, s) = Some st \<and> in_step g c n st"
proof -
  have shape: "in_shape m" and p: "portrays g c n (picture_of c m) s" using assms(2) by (simp_all add: in_step_def)
  obtain k rng1 where k: "rng_below 6 rng = (k, rng1)" by (metis surj_pair)
  then have "k < length arities" using rng_below_less [OF _ _ k] by (simp add: arities_def)
  then have "OPS ! k \<in> set arities" by (metis OPS_def arities_def nth_mem)
  then obtain op arity roles where op: "OPS ! k = (op, arity)"
    and roles: "predict_roles op = Some roles" "length roles = arity"
    using arity_roles by (metis surj_pair)
  obtain accs rng2 where draw: "draw_parties arity (fuzz_pool c) rng1 = (accs, rng2)" by (metis surj_pair)
  then have len: "length roles = length accs" using roles(2) draw_parties_length by simp
  obtain r s' where "ctx_hook op (token_at c ti) accs s = Some (r, s')"
    and "predicted c (picture_of c m) op (token_at c ti) accs = Some r" and "portrays g c n (picture_of c m) s'"
    using ctx_hook_predicted [OF p roles(1) len] by blast
  with k op draw shape show ?thesis
    by (simp add: fuzz_hook_def predict_for_picture [OF assms(1,3)] expect_def in_step_def)
qed

lemma either_arm:
  "\<exists>y. p = Some y \<and> Q y \<Longrightarrow> \<exists>y. q = Some y \<and> Q y \<Longrightarrow> \<exists>y. (if b then p else q) = Some y \<and> Q y"
  by simp

lemma fuzz_step_keeps:
  assumes "inj g" and "told_apart c" and "in_step g c n st" and "n < 4294967295"
  shows "\<exists>st'. fuzz_step g c (fuzz_pool c) st = Some st' \<and> in_step g c (Suc n) st'"
proof -
  obtain rng m s where st: "st = (rng, m, s)" by (cases st)
  obtain x rng1 ti rng2 j rng3 where draws: "rng_next rng = (x, rng1)" "rng_below 2 rng1 = (ti, rng2)"
    "rng_below 4 rng2 = (j, rng3)" by (metis surj_pair)
  have ti: "ti < 2" and j: "j < 4"
    using rng_below_less [OF _ _ draws(2)] rng_below_less [OF _ _ draws(3)] by simp_all
  have now: "in_step g c n (rng3, m, s)" using assms(3) st by (simp add: in_step_def)
  have later: "\<exists>st'. r = Some st' \<and> in_step g c (Suc n) st'" if "\<exists>st'. r = Some st' \<and> in_step g c n st'" for r
    using that portrays_more [of g c n] by (fastforce simp: in_step_def)
  note arms = later [OF fuzz_flag_keeps [OF assms(2) now ti j]] fuzz_configure_keeps [OF assms(1) now assms(4)]
    later [OF fuzz_unbind_keeps [OF assms(2) now ti]] later [OF fuzz_bind_keeps [OF assms(1,2) now ti]]
    later [OF fuzz_hook_keeps [OF assms(2) now ti]]
  show ?thesis
    unfolding st fuzz_step_def prod.case draws Let_def lengths
    by (intro either_arm arms)
qed

section \<open>Every run passes\<close>

lemma views_match:
  assumes "told_apart c" and "in_step g c n (rng, m, s)"
  shows "\<exists>s'. assert_views_match c m (fuzz_pool c) s = Some s' \<and> in_step g c n (rng, m, s')"
  unfolding assert_views_match_def
proof (rule for_all_keeps [where I = "\<lambda>s. in_step g c n (rng, m, s)", OF _ assms(2)])
  fix ti s
  assume "ti \<in> set [0, 1 :: nat]" and s: "in_step g c n (rng, m, s)"
  then have ti: "ti < 2" by auto
  obtain s1 where s1: "expect (ctx_token_is_bound (token_at c ti) s) (mirror_bound m ! ti) = Some s1"
    and "in_step g c n (rng, m, s1)"
    using token_is_bound_reads [of g c n "picture_of c m" s "token_at c ti"] s
    by (auto simp: picture_reads [OF assms(1) ti] in_step_def expect_def)
  moreover have "\<exists>s'. for_all ACCOUNTS
      (\<lambda>j s. expect (ctx_is_frozen (token_at c ti) (fuzz_pool c ! j) s) (mirror_frozen m ! ti ! j)) s1 = Some s' \<and>
      in_step g c n (rng, m, s')" 
  proof (rule for_all_keeps [where I = "\<lambda>s. in_step g c n (rng, m, s)", OF _ \<open>in_step g c n (rng, m, s1)\<close>])
    fix j s
    assume "j \<in> set ACCOUNTS" and s: "in_step g c n (rng, m, s)"
    then have "j < 4" by (auto simp: ACCOUNTS_def)
    then have "pic_frozen (picture_of c m) (token_at c ti) (fuzz_pool c ! j) = mirror_frozen m ! ti ! j"
      using assms(1) by (simp add: picture_reads [OF assms(1) ti] entry_at_nth told_apart_def)
    then show "\<exists>s'. expect (ctx_is_frozen (token_at c ti) (fuzz_pool c ! j) s) (mirror_frozen m ! ti ! j) = Some s' \<and>
        in_step g c n (rng, m, s')"
      using is_frozen_reads [of g c n "picture_of c m" s "token_at c ti" "fuzz_pool c ! j"] s
      by (auto simp: in_step_def expect_def)
  qed
  ultimately show "\<exists>s'. (do {
       s \<leftarrow> expect (ctx_token_is_bound (token_at c ti) s) (mirror_bound m ! ti);
       for_all ACCOUNTS (\<lambda>j s. expect (ctx_is_frozen (token_at c ti) (fuzz_pool c ! j) s) (mirror_frozen m ! ti ! j)) s
     }) = Some s' \<and> in_step g c n (rng, m, s')" by simp
qed

lemma run_steps_keeps:
  assumes "inj g" and "told_apart c" and "in_step g c n st" and "n + length later < 4294967296"
  shows "\<exists>st'. run_steps g c (fuzz_pool c) later st = Some st' \<and> in_step g c (n + length later) st'"
  using assms(3,4)
proof (induction later arbitrary: n st)
  case (Cons step_no later)
  obtain rng m s where 1: "fuzz_step g c (fuzz_pool c) st = Some (rng, m, s)" "in_step g c (Suc n) (rng, m, s)"
    using fuzz_step_keeps [OF assms(1,2) Cons.prems(1)] Cons.prems(2) by auto
  obtain s' where "(if step_no mod 64 = 63 then assert_views_match c m (fuzz_pool c) s else Some s) = Some s'"
    and "in_step g c (Suc n) (rng, m, s')"
    using views_match [OF assms(2) 1(2)] 1(2) by (cases "step_no mod 64 = 63") auto
  with 1 Cons.IH [of "Suc n" "(rng, m, s')"] Cons.prems(2) show ?case by auto
qed simp

lemma fresh_told_apart: "inj g \<Longrightarrow> told_apart (fresh_ctx g)"
  by (simp add: told_apart_def fuzz_pool_def tokens_of_def fresh_ctx_def inj_eq)

lemma fresh_picture: "inj g \<Longrightarrow> picture_of (fresh_ctx g) fresh_mirror = open_picture g None True"
  by (auto simp: picture_of_def fresh_mirror_def open_picture_def entry_at_def tokens_of_def fuzz_pool_def fresh_ctx_def
      fun_eq_iff numeral_2_eq_2 numeral_eq_Suc split: option.splits)

lemma run_sequence_passes:
  assumes "inj g" and "steps < 4294967295"
  shows "run_sequence g seed steps"
proof -
  obtain s where d: "deploy g = Some (fresh_ctx g, s)" and p: "portrays g (fresh_ctx g) 1 (open_picture g None True) s"
    using deploy_result [OF assms(1), of None True] by (auto simp: deploy_def)
  let ?c = "fresh_ctx g"
  have start: "in_step g ?c 1 (seed, fresh_mirror, s)"
    using p by (simp add: in_step_def in_shape_def fresh_picture [OF assms(1)]) (simp add: fresh_mirror_def)
  obtain rng m s' where r: "run_steps g ?c (fuzz_pool ?c) [0..<steps] (seed, fresh_mirror, s) = Some (rng, m, s')"
    and "in_step g ?c (1 + length [0..<steps]) (rng, m, s')"
    using run_steps_keeps [OF assms(1) fresh_told_apart [OF assms(1)] start, of "[0..<steps]"] assms(2) by auto
  from views_match [OF fresh_told_apart [OF assms(1)] this(2)] d r show ?thesis
    by (auto simp: run_sequence_def Let_def)
qed

lemma property_suite_passes: "inj g \<Longrightarrow> list_all id (property_suite g)"
  by (simp add: property_suite_def random_sequences_match_the_oracle_seed_a_def
      random_sequences_match_the_oracle_seed_b_def random_sequences_match_the_oracle_seed_c_def run_sequence_passes)

section \<open>Random sequences\<close>

text \<open>C5: a contract driven at random always does what the oracle says: for every seed and every number of
  steps below the last 32-bit value, on pairwise distinct generated addresses, no step panics, every admin
  call answers what the mirror expects, every hook answers what the oracle predicts from the mirror, and
  the views agree with the mirror at every audit and at the end.\<close>

theorem random_sequences_match_the_oracle:
  assumes "inj g" and "steps < 4294967295"
  shows "run_sequence g seed steps"
  by (rule run_sequence_passes [OF assms])

definition numbered_address :: "nat \<Rightarrow> address" where
  "numbered_address n = replicate n (CHR ''A'')"

lemma inj_numbered_address: "inj numbered_address"
proof (rule injI)
  fix m n
  assume "numbered_address m = numbered_address n"
  then have "length (numbered_address m) = length (numbered_address n)" by simp
  then show "m = n" by (simp add: numbered_address_def)
qed

theorem random_sequences_match_the_oracle_witness:
  "run_sequence numbered_address 0x5a176a1fcafe0004 10000"
  by (rule random_sequences_match_the_oracle [OF inj_numbered_address]) simp

end
