(* ===== verification/Gate_Paths.thy ===== *)
theory Gate_Paths
  imports Integration_Picture
begin

text \<open>
  The gate-path benchmarks, \<^verbatim>\<open>crates/compliance/benches/gate_paths.rs\<close>: every benchmark as a definition of
  the same name that sets up its fixture, asserts the decision of the timed closure and runs it again
  for each iteration. The clock is not modelled; what a path costs is the list of its cross-contract
  calls, taken from a tracing host. \<open>gate_paths_cost\<close> is the call-count table of \<^verbatim>\<open>docs/performance.md\<close>.
\<close>

section \<open>Fixture\<close>

record bench =
  bench_token :: address
  bench_stranger :: address
  bench_alice :: address
  bench_bob :: address
  bench_spender :: address

text \<open>A closure run inside the host contract.\<close>

definition in_host :: "(store chost \<Rightarrow> store \<Rightarrow> store) \<Rightarrow> world \<Rightarrow> world" where
  "in_host f s = s\<lparr>kept := f (suite_host (contracts s) (mocked s)) (kept s)\<rparr>"

definition bench_fixture :: "(nat \<Rightarrow> address) \<Rightarrow> bench \<times> world" where
  "bench_fixture g =
     (let (host, s) = generate g new_env;
          (tk, s) = generate g s;
          (stranger, s) = generate g s;
          (alice, s) = generate g s;
          (bob, s) = generate g s;
          (spender, s) = generate g s;
          (sac, s) = enroll g (Sac alice bob) s;
          s = in_host (\<lambda>H e. storage_bind H e tk (Some sac)) s
      in (\<lparr>bench_token = tk, bench_stranger = stranger, bench_alice = alice, bench_bob = bob,
           bench_spender = spender\<rparr>, s))"

definition bench_configure :: "(nat \<Rightarrow> address) \<Rightarrow> address option \<Rightarrow> bool \<Rightarrow> world \<Rightarrow> world option" where
  "bench_configure g blocked passthrough s =
     (let (policy, s) = enroll g (Policy blocked) s in
      map_option (\<lambda>e. s\<lparr>kept := e\<rparr>)
        (set_compliance_config (suite_host (contracts s) (mocked s)) (kept s)
           \<lparr>cfg_policy = Some policy, cfg_sac_passthrough = passthrough\<rparr>))"

section \<open>Measuring\<close>

type_synonym metered = "store \<times> call list"

type_synonym timed = "metered chost \<Rightarrow> metered \<Rightarrow> (compliance_decision \<times> metered) option"

text \<open>The iterations, whose result is dropped.\<close>

fun iterate :: "nat \<Rightarrow> (metered \<Rightarrow> (compliance_decision \<times> metered) option) \<Rightarrow> metered \<Rightarrow> metered option" where
  "iterate 0 f m = Some m"
| "iterate (Suc n) f m = do { (_, m) \<leftarrow> f m; iterate n f m }"

text \<open>The cross-contract calls of the asserted run and of \<open>n\<close> iterations; \<open>None\<close> is a panic.\<close>

definition measure_path :: "compliance_decision \<Rightarrow> timed \<Rightarrow> nat \<Rightarrow> world \<Rightarrow> call list option" where
  "measure_path expected timed n s = do {
     let f = timed (tracing (suite_host (contracts s) (mocked s)));
     (decision, m) \<leftarrow> f (kept s, []);
     m \<leftarrow> (if decision \<noteq> expected then None else Some m);
     map_option snd (iterate n f m)
   }"

section \<open>The benchmarks\<close>

definition structural_denial_unconfigured :: "(nat \<Rightarrow> address) \<Rightarrow> nat \<Rightarrow> call list option" where
  "structural_denial_unconfigured g n = do {
     let (f, s) = bench_fixture g;
     measure_path (Deny InvalidConfiguration)
       (\<lambda>H m. evaluate_register H m (bench_token f) (bench_alice f)) n s
   }"

definition structural_denial_unbound_token :: "(nat \<Rightarrow> address) \<Rightarrow> nat \<Rightarrow> call list option" where
  "structural_denial_unbound_token g n = do {
     let (f, s) = bench_fixture g;
     s \<leftarrow> bench_configure g None False s;
     measure_path (Deny UnboundToken)
       (\<lambda>H m. evaluate_register H m (bench_stranger f) (bench_alice f)) n s
   }"

definition freeze_denial_first_party :: "(nat \<Rightarrow> address) \<Rightarrow> nat \<Rightarrow> call list option" where
  "freeze_denial_first_party g n = do {
     let (f, s) = bench_fixture g;
     s \<leftarrow> bench_configure g None False s;
     let s = in_host (\<lambda>H e. storage_freeze H e (bench_token f) (bench_alice f)) s;
     measure_path (Deny AccountFrozen)
       (\<lambda>H m. evaluate_deposit H m (bench_token f) (bench_alice f) (bench_bob f)) n s
   }"

definition freeze_denial_second_party :: "(nat \<Rightarrow> address) \<Rightarrow> nat \<Rightarrow> call list option" where
  "freeze_denial_second_party g n = do {
     let (f, s) = bench_fixture g;
     s \<leftarrow> bench_configure g None False s;
     let s = in_host (\<lambda>H e. storage_freeze H e (bench_token f) (bench_bob f)) s;
     measure_path (Deny AccountFrozen)
       (\<lambda>H m. evaluate_deposit H m (bench_token f) (bench_alice f) (bench_bob f)) n s
   }"

definition policy_denial_second_party :: "(nat \<Rightarrow> address) \<Rightarrow> nat \<Rightarrow> call list option" where
  "policy_denial_second_party g n = do {
     let (f, s) = bench_fixture g;
     s \<leftarrow> bench_configure g (Some (bench_bob f)) False s;
     measure_path (Deny PolicyDenied)
       (\<lambda>H m. evaluate_deposit H m (bench_token f) (bench_alice f) (bench_bob f)) n s
   }"

definition allow_register_single_party :: "(nat \<Rightarrow> address) \<Rightarrow> nat \<Rightarrow> call list option" where
  "allow_register_single_party g n = do {
     let (f, s) = bench_fixture g;
     s \<leftarrow> bench_configure g None False s;
     measure_path Allow (\<lambda>H m. evaluate_register H m (bench_token f) (bench_alice f)) n s
   }"

definition allow_deposit_two_parties :: "(nat \<Rightarrow> address) \<Rightarrow> nat \<Rightarrow> call list option" where
  "allow_deposit_two_parties g n = do {
     let (f, s) = bench_fixture g;
     s \<leftarrow> bench_configure g None False s;
     measure_path Allow (\<lambda>H m. evaluate_deposit H m (bench_token f) (bench_alice f) (bench_bob f)) n s
   }"

definition allow_transfer_from_three_parties :: "(nat \<Rightarrow> address) \<Rightarrow> nat \<Rightarrow> call list option" where
  "allow_transfer_from_three_parties g n = do {
     let (f, s) = bench_fixture g;
     s \<leftarrow> bench_configure g None False s;
     measure_path Allow
       (\<lambda>H m. evaluate_transfer_from H m (bench_token f) (bench_spender f) (bench_alice f) (bench_bob f)) n s
   }"

definition allow_withdraw_double_screen :: "(nat \<Rightarrow> address) \<Rightarrow> nat \<Rightarrow> call list option" where
  "allow_withdraw_double_screen g n = do {
     let (f, s) = bench_fixture g;
     s \<leftarrow> bench_configure g None False s;
     measure_path Allow (\<lambda>H m. evaluate_withdraw H m (bench_token f) (bench_alice f)) n s
   }"

definition full_gate_sac_passthrough :: "(nat \<Rightarrow> address) \<Rightarrow> nat \<Rightarrow> call list option" where
  "full_gate_sac_passthrough g n = do {
     let (f, s) = bench_fixture g;
     s \<leftarrow> bench_configure g None True s;
     measure_path Allow (\<lambda>H m. evaluate_deposit H m (bench_token f) (bench_alice f) (bench_bob f)) n s
   }"

text \<open>The targets of the group, each with the documented number of cross-contract calls of one run.\<close>

definition gate_paths :: "(nat \<Rightarrow> address) \<Rightarrow> nat \<Rightarrow> (call list option \<times> nat) list" where
  "gate_paths g n =
     [(structural_denial_unconfigured g n, 0),
      (structural_denial_unbound_token g n, 0),
      (freeze_denial_first_party g n, 0),
      (freeze_denial_second_party g n, 1),
      (policy_denial_second_party g n, 2),
      (allow_register_single_party g n, 1),
      (allow_deposit_two_parties g n, 2),
      (allow_transfer_from_three_parties g n, 3),
      (allow_withdraw_double_screen g n, 2),
      (full_gate_sac_passthrough g n, 4)]"

section \<open>What a path costs\<close>

text \<open>One run of the pipeline on the tracing host: the decision, the calls, and nothing else changed.\<close>

lemma traced_run:
  assumes "well_typed ledger_host e"
  shows "\<exists>e'. evaluate (tracing (suite_host cs auths)) (e, calls) tk op accs =
      Some (decide (state_of ledger_host e) (fixture_answer cs) tk op accs,
        (e', calls @ evaluation_calls (state_of ledger_host e) (fixture_answer cs) tk op accs)) \<and>
    well_typed ledger_host e' \<and> state_of ledger_host e' = state_of ledger_host e"
proof -
  let ?H = "suite_host cs auths"
  note T = suite.tracing_view_contract [of cs auths]
  have wt: "well_typed ?H e" "well_typed (tracing ?H) (e, calls)" using assms by simp_all
  obtain d m where ev: "evaluate (tracing ?H) (e, calls) tk op accs = Some (d, m)" and q: "quiet (tracing ?H) (e, calls) m"
    using contract_host.evaluate_total [OF view_contract_host.axioms(1) [OF T] wt(2)] by blast
  have "d = decide (state_of ledger_host e) (fixture_answer cs) tk op accs"
    using view_contract_host.evaluate_decide [OF T wt(2), of tk op accs] ev by simp
  moreover have "snd m = calls @ evaluation_calls (state_of ledger_host e) (fixture_answer cs) tk op accs"
    using suite.evaluate_calls [OF wt(1), of calls tk op accs] ev by simp
  moreover have "well_typed ledger_host (fst m)" "state_of ledger_host (fst m) = state_of ledger_host e"
    using quiet_well_typed [of ?H e "fst m"] quiet_state_of [of ?H e "fst m"] q assms by simp_all
  ultimately show ?thesis using ev by (metis prod.collapse)
qed

lemma iterate_calls:
  assumes "well_typed ledger_host e"
  shows "\<exists>m. iterate n (\<lambda>m. evaluate (tracing (suite_host cs auths)) m tk op accs) (e, calls) = Some m \<and>
    length (snd m) = length calls + n * length (evaluation_calls (state_of ledger_host e) (fixture_answer cs) tk op accs)"
  using assms
proof (induction n arbitrary: e calls)
  case (Suc n)
  obtain e' where run: "evaluate (tracing (suite_host cs auths)) (e, calls) tk op accs =
      Some (decide (state_of ledger_host e) (fixture_answer cs) tk op accs,
        (e', calls @ evaluation_calls (state_of ledger_host e) (fixture_answer cs) tk op accs))"
    and e': "well_typed ledger_host e'" "state_of ledger_host e' = state_of ledger_host e"
    using traced_run [OF Suc.prems] by blast
  from Suc.IH [OF e'(1), of "calls @ evaluation_calls (state_of ledger_host e) (fixture_answer cs) tk op accs"] run e'(2)
  show ?case by auto
qed simp

lemma path_cost:
  assumes "well_typed ledger_host (kept s)"
    and "decide (state_of ledger_host (kept s)) (fixture_answer (contracts s)) tk op accs = expected"
    and "length (evaluation_calls (state_of ledger_host (kept s)) (fixture_answer (contracts s)) tk op accs) = cost"
  shows "map_option length (measure_path expected (\<lambda>H m. evaluate H m tk op accs) n s) = Some (Suc n * cost)"
proof -
  let ?cs = "contracts s"
  let ?calls = "evaluation_calls (state_of ledger_host (kept s)) (fixture_answer ?cs) tk op accs"
  obtain e' where run: "evaluate (tracing (suite_host ?cs (mocked s))) (kept s, []) tk op accs = Some (expected, (e', ?calls))"
    and e': "well_typed ledger_host e'" "state_of ledger_host e' = state_of ledger_host (kept s)"
    using traced_run [OF assms(1), of ?cs "mocked s" "[]" tk op accs] assms(2) by auto
  obtain m where "iterate n (\<lambda>m. evaluate (tracing (suite_host ?cs (mocked s))) m tk op accs) (e', ?calls) = Some m"
    and "length (snd m) = length ?calls + n * length ?calls"
    using iterate_calls [OF e'(1), of n ?cs "mocked s" tk op accs ?calls] e'(2) by auto
  with run assms(3) show ?thesis by (simp add: measure_path_def)
qed

text \<open>The fixture, and the two writes a benchmark makes to it.\<close>

lemma suite_writes:
  assumes "well_typed ledger_host e"
  shows "state_of ledger_host (storage_bind (suite_host cs auths) e tk sac) = (state_of ledger_host e)
      \<lparr>st_bindings := (st_bindings (state_of ledger_host e))(tk := Some \<lparr>binding_sac = sac\<rparr>)\<rparr>"
    "state_of ledger_host (storage_freeze (suite_host cs auths) e tk acc) = (state_of ledger_host e)\<lparr>st_frozen :=
      (st_frozen (state_of ledger_host e))(tk := (st_frozen (state_of ledger_host e) tk)(acc := True))\<rparr>"
    "well_typed ledger_host (storage_bind (suite_host cs auths) e tk sac)"
    "well_typed ledger_host (storage_freeze (suite_host cs auths) e tk acc)"
  using suite.storage_bind_state [of cs auths e tk sac] suite.storage_freeze_state [of cs auths e tk acc]
    suite.well_typed_writes(5,7) [of cs auths e] assms by simp_all

definition bench_names :: "(nat \<Rightarrow> address) \<Rightarrow> bench" where
  "bench_names g = \<lparr>bench_token = g 1, bench_stranger = g 2, bench_alice = g 3, bench_bob = g 4, bench_spender = g 5\<rparr>"

text \<open>The state of the bound and configured token, with the accounts of \<open>frozen\<close> frozen.\<close>

definition bench_state :: "(nat \<Rightarrow> address) \<Rightarrow> compliance_config option \<Rightarrow> u32 option \<Rightarrow> address option \<Rightarrow> enforcement" where
  "bench_state g cfg version frozen =
    \<lparr>st_admin = None, st_config = cfg, st_config_version = None, st_version = version,
     st_bindings = (\<lambda>_. None)(g 1 := Some \<lparr>binding_sac = Some (g 6)\<rparr>),
     st_frozen = (case frozen of None \<Rightarrow> (\<lambda>_ _. False) | Some acc \<Rightarrow> (\<lambda>_ _. False)(g 1 := (\<lambda>_. False)(acc := True)))\<rparr>"

definition bench_world :: "(nat \<Rightarrow> address) \<Rightarrow> world" where
  "bench_world g = snd (bench_fixture g)"

lemma bench_fixture_eq: "bench_fixture g = (bench_names g, bench_world g)"
  by (simp add: bench_world_def bench_fixture_def generate_def enroll_def new_env_def bench_names_def Let_def eval_nat_numeral)

lemma bench_world_facts:
  "kept (bench_world g) = storage_bind (suite_host [g 6 \<mapsto> Sac (g 3) (g 4)] False) (kept new_env) (g 1) (Some (g 6))"
  "contracts (bench_world g) = [g 6 \<mapsto> Sac (g 3) (g 4)]" "minted (bench_world g) = 7"
  by (simp_all add: bench_world_def bench_fixture_def generate_def enroll_def new_env_def in_host_def Let_def eval_nat_numeral)

lemma bench_world_state:
  "well_typed ledger_host (kept (bench_world g))"
  "state_of ledger_host (kept (bench_world g)) = bench_state g None None None"
  using blank_state(2) by (simp_all add: bench_world_facts suite_writes blank_state(1) bench_state_def)

text \<open>The contracts that answer: the SAC of the fixture and the policy of the benchmark.\<close>

definition bench_contracts :: "(nat \<Rightarrow> address) \<Rightarrow> address option \<Rightarrow> address \<Rightarrow> fixture option" where
  "bench_contracts g blocked = [g 6 \<mapsto> Sac (g 3) (g 4), g 7 \<mapsto> Policy blocked]"

definition bench_config :: "(nat \<Rightarrow> address) \<Rightarrow> bool \<Rightarrow> compliance_config" where
  "bench_config g passthrough = \<lparr>cfg_policy = Some (g 7), cfg_sac_passthrough = passthrough\<rparr>"

lemma bench_configure_result:
  obtains s where "bench_configure g blocked passthrough (bench_world g) = Some s" and "well_typed ledger_host (kept s)"
    and "state_of ledger_host (kept s) = bench_state g (Some (bench_config g passthrough)) (Some VERSION) None"
    and "contracts s = bench_contracts g blocked"
proof -
  let ?s = "snd (enroll g (Policy blocked) (bench_world g))"
  let ?cfg = "bench_config g passthrough"
  have k: "kept ?s = kept (bench_world g)" "contracts ?s = bench_contracts g blocked"
    by (simp_all add: enroll_def generate_def bench_world_facts bench_contracts_def Let_def)
  have "well_typed (suite_host (contracts ?s) (mocked ?s)) (kept ?s)" using bench_world_state(1) by (simp add: k)
  then obtain e' where
    w: "set_compliance_config (suite_host (contracts ?s) (mocked ?s)) (kept ?s) ?cfg = Some e'"
    and e': "well_typed (suite_host (contracts ?s) (mocked ?s)) e'"
    and st: "state_of (suite_host (contracts ?s) (mocked ?s)) e' = (state_of (suite_host (contracts ?s) (mocked ?s)) (kept ?s))
      \<lparr>st_config := Some ?cfg, st_version := (case st_version (state_of (suite_host (contracts ?s) (mocked ?s)) (kept ?s)) of
        None \<Rightarrow> Some VERSION | v \<Rightarrow> v)\<rparr>"
    by (rule suite.set_compliance_config_eq)
  have "bench_configure g blocked passthrough (bench_world g) = Some (?s\<lparr>kept := e'\<rparr>)"
    using w by (simp add: bench_configure_def bench_config_def enroll_def generate_def bench_world_facts(3) Let_def)
  moreover have "state_of ledger_host e' = bench_state g (Some ?cfg) (Some VERSION) None"
    using st by (simp add: k bench_world_state(2)) (simp add: bench_state_def)
  ultimately show thesis using that [of "?s\<lparr>kept := e'\<rparr>"] e' k(2) by simp
qed

lemma unconfigured_path:
  assumes "decide (bench_state g None None None) (fixture_answer [g 6 \<mapsto> Sac (g 3) (g 4)]) tk op accs = expected"
    and "length (evaluation_calls (bench_state g None None None) (fixture_answer [g 6 \<mapsto> Sac (g 3) (g 4)]) tk op accs) = cost"
  shows "map_option length (measure_path expected (\<lambda>H m. evaluate H m tk op accs) n (bench_world g)) = Some (Suc n * cost)"
  by (rule path_cost) (use assms in \<open>simp_all add: bench_world_state bench_world_facts(2)\<close>)

lemma configured_path:
  assumes "decide (bench_state g (Some (bench_config g passthrough)) (Some VERSION) None)
      (fixture_answer (bench_contracts g blocked)) tk op accs = expected"
    and "length (evaluation_calls (bench_state g (Some (bench_config g passthrough)) (Some VERSION) None)
      (fixture_answer (bench_contracts g blocked)) tk op accs) = cost"
  shows "map_option length (Option.bind (bench_configure g blocked passthrough (bench_world g))
    (measure_path expected (\<lambda>H m. evaluate H m tk op accs) n)) = Some (Suc n * cost)"
proof (rule bench_configure_result [of g blocked passthrough])
  fix s
  assume s: "bench_configure g blocked passthrough (bench_world g) = Some s" "well_typed ledger_host (kept s)"
    "state_of ledger_host (kept s) = bench_state g (Some (bench_config g passthrough)) (Some VERSION) None"
    "contracts s = bench_contracts g blocked"
  from path_cost [OF s(2), unfolded s(3,4), OF assms, of n] show ?thesis by (simp add: s(1))
qed

lemma frozen_path:
  assumes "decide (bench_state g (Some (bench_config g passthrough)) (Some VERSION) (Some acc))
      (fixture_answer (bench_contracts g blocked)) tk op accs = expected"
    and "length (evaluation_calls (bench_state g (Some (bench_config g passthrough)) (Some VERSION) (Some acc))
      (fixture_answer (bench_contracts g blocked)) tk op accs) = cost"
  shows "map_option length (Option.bind (bench_configure g blocked passthrough (bench_world g))
    (\<lambda>s. measure_path expected (\<lambda>H m. evaluate H m tk op accs) n (in_host (\<lambda>H e. storage_freeze H e (g 1) acc) s))) =
    Some (Suc n * cost)"
proof (rule bench_configure_result [of g blocked passthrough])
  fix s
  assume s: "bench_configure g blocked passthrough (bench_world g) = Some s" "well_typed ledger_host (kept s)"
    "state_of ledger_host (kept s) = bench_state g (Some (bench_config g passthrough)) (Some VERSION) None"
    "contracts s = bench_contracts g blocked"
  let ?s = "in_host (\<lambda>H e. storage_freeze H e (g 1) acc) s"
  have t: "well_typed ledger_host (kept ?s)" "contracts ?s = bench_contracts g blocked"
    "state_of ledger_host (kept ?s) = bench_state g (Some (bench_config g passthrough)) (Some VERSION) (Some acc)"
    by (simp_all add: in_host_def suite_writes s) (simp add: bench_state_def fun_eq_iff)
  from path_cost [OF t(1), unfolded t(2,3), OF assms, of n] show ?thesis by (simp add: s(1))
qed

text \<open>The table of the documentation: each path decides as the benchmark asserts and pays its documented
  number of cross-contract calls, in the asserted run and in every iteration.\<close>

lemmas path_defs = decide_def evaluation_calls_def party_calls_def policy_calls_def sac_calls_def party_verdict_def
  freeze_verdict_def policy_verdict_def sac_verdict_def fixture_answer_def fixture_is_authorized_def
  fixture_authorized_def ask_call_def bench_state_def bench_config_def bench_contracts_def POLICY_FN_def SAC_AUTHORIZED_FN_def

lemma gate_paths_cost:
  assumes "inj g"
  shows "list_all (\<lambda>(calls, cost). map_option length calls = Some (Suc n * cost)) (gate_paths g n)"
proof -
  note start = bench_fixture_eq [of g] Let_def prod.case evaluate_entry_defs bench_names_def bench.simps
  note facts = path_defs inj_eq [OF assms]
  have "map_option length (structural_denial_unconfigured g n) = Some (Suc n * 0)"
    unfolding structural_denial_unconfigured_def start
    by (rule unconfigured_path) (simp_all add: facts)
  moreover have "map_option length (structural_denial_unbound_token g n) = Some (Suc n * 0)"
    unfolding structural_denial_unbound_token_def start
    by (rule configured_path) (simp_all add: facts)
  moreover have "map_option length (freeze_denial_first_party g n) = Some (Suc n * 0)"
    unfolding freeze_denial_first_party_def start
    by (rule frozen_path) (simp_all add: facts)
  moreover have "map_option length (freeze_denial_second_party g n) = Some (Suc n * 1)"
    unfolding freeze_denial_second_party_def start
    by (rule frozen_path) (simp_all add: facts)
  moreover have "map_option length (policy_denial_second_party g n) = Some (Suc n * 2)"
    unfolding policy_denial_second_party_def start
    by (rule configured_path) (simp_all add: facts)
  moreover have "map_option length (allow_register_single_party g n) = Some (Suc n * 1)"
    unfolding allow_register_single_party_def start
    by (rule configured_path) (simp_all add: facts)
  moreover have "map_option length (allow_deposit_two_parties g n) = Some (Suc n * 2)"
    unfolding allow_deposit_two_parties_def start
    by (rule configured_path) (simp_all add: facts)
  moreover have "map_option length (allow_transfer_from_three_parties g n) = Some (Suc n * 3)"
    unfolding allow_transfer_from_three_parties_def start
    by (rule configured_path) (simp_all add: facts)
  moreover have "map_option length (allow_withdraw_double_screen g n) = Some (Suc n * 2)"
    unfolding allow_withdraw_double_screen_def start
    by (rule configured_path) (simp_all add: facts)
  moreover have "map_option length (full_gate_sac_passthrough g n) = Some (Suc n * 4)"
    unfolding full_gate_sac_passthrough_def start
    by (rule configured_path) (simp_all add: facts)
  ultimately show ?thesis
    unfolding gate_paths_def list.pred_inject prod.case by (intro conjI) (assumption | simp only: list.pred_inject)+
qed

end
