(* ===== verification/Process_Suite.thy ===== *)
theory Process_Suite
  imports Cli_Suite Cli_Runner
begin

text \<open>
  The process-level suite of the CLI, \<^verbatim>\<open>cli/tests/cli.rs\<close>: the whole program is run on a fake \<^verbatim>\<open>stellar\<close>
  binary, and its exit code and outputs are examined. Every test function is a definition of the same
  name but the one on \<^verbatim>\<open>--help\<close>, which \<^verbatim>\<open>clap\<close> answers. An argument vector is given by what \<^verbatim>\<open>clap\<close> parses it
  to, a configuration file by the record that \<^verbatim>\<open>serde_json\<close> reads from it; the shell script of the fake is
  written out as a function of the argument vector and of its one environment variable.
\<close>

section \<open>The fake binary\<close>

definition shaped_address :: "char \<Rightarrow> char \<Rightarrow> string" where
  "shaped_address letter fill = letter # replicate 55 fill"

definition echo :: "string \<Rightarrow> process_output" where
  "echo s = \<lparr>exited_ok = True, bytes_stdout = s @ [newline], bytes_stderr = []\<rparr>"

definition exit_with :: "string \<Rightarrow> process_output" where
  "exit_with msg = \<lparr>exited_ok = False, bytes_stdout = [], bytes_stderr = msg @ [newline]\<rparr>"

text \<open>The loop over the arguments: whether \<^verbatim>\<open>--\<close> was seen, the function, the token, the previous argument.\<close>

fun scan_args :: "bool \<Rightarrow> string \<Rightarrow> string \<Rightarrow> string \<Rightarrow> string list \<Rightarrow> string \<times> string" where
  "scan_args seen fn tok prev [] = (fn, tok)"
| "scan_args seen fn tok prev (a # rest) =
     (if a = ''--'' then scan_args True fn tok prev rest
      else scan_args seen (if seen \<and> fn = [] then a else fn) (if prev = ''--token'' then a else tok) a rest)"

definition fake_stellar :: "string \<Rightarrow> string \<Rightarrow> bool \<Rightarrow> string list \<Rightarrow> process_output" where
  "fake_stellar admin policy probe_allows args =
     (if take 2 args = [''network'', ''ls''] then echo ''testnet''
      else
        (let (fn, tok) = scan_args False [] [] [] args in
         if fn = ''initialized'' then echo ''true''
         else if fn = ''admin'' then echo admin
         else if fn = ''config'' then echo (json_answer policy)
         else if fn = ''config_version'' \<or> fn = ''state_version'' then echo ''1''
         else if fn = ''token_is_bound'' then (if tok = admin then echo ''false'' else echo ''true'')
         else if fn = ''before_transfer'' then
           (if probe_allows then echo ''null''
            else exit_with ''error: transaction simulation failed: HostError: Error(Contract, #2)'')
         else exit_with (''unexpected function: '' @ fn)))"

text \<open>The fake of the last test only answers \<^verbatim>\<open>network ls\<close>.\<close>

definition listing_stellar :: "string list \<Rightarrow> process_output" where
  "listing_stellar args =
     (if take 2 args = [''network'', ''ls''] then echo ''local''
      else \<lparr>exited_ok = True, bytes_stdout = [], bytes_stderr = []\<rparr>)"

definition installed :: "string \<Rightarrow> (string list \<Rightarrow> process_output) \<Rightarrow> 'w spawner" where
  "installed path answer w bin args =
     (if bin = path then (Inr (answer args), w) else (Inl ''No such file or directory (os error 2)'', w))"

section \<open>Running the program\<close>

text \<open>The world is what has been printed; the only file is the configuration.\<close>

definition terminal :: "string \<Rightarrow> string list cli_host" where
  "terminal config_file =
    \<lparr>run_stellar = (\<lambda>w _. (Inl [], w)), print_line = (\<lambda>w line. w @ [line]), env_var = (\<lambda>_ _. None),
     path_exists = (\<lambda>_ path. path = config_file),
     read_file = (\<lambda>_ path. if path = config_file then Inr ''{}'' else Inl ''No such file or directory (os error 2)''),
     write_file = (\<lambda>w _ _. (Inr (), w))\<rparr>"

definition reading :: "deployment \<Rightarrow> string \<Rightarrow> json_codec" where
  "reading cfg policy =
    \<lparr>config_from_str = (\<lambda>_. Inr cfg), config_to_string_pretty = (\<lambda>_. Inr []),
     json_policy_field = (\<lambda>s. if s = json_answer policy then Some policy else None)\<rparr>"

definition run_binary ::
  "deployment \<Rightarrow> string \<Rightarrow> string list spawner \<Rightarrow> cli \<Rightarrow> (nat \<times> string option) \<times> string list" where
  "run_binary cfg policy spawn args = cli_process spawn (terminal ''configuration.json'') (reading cfg policy) args []"

definition success :: "(nat \<times> string option) \<times> string list \<Rightarrow> bool" where
  "success out \<longleftrightarrow> fst (fst out) = 0"

definition stdout_text :: "(nat \<times> string option) \<times> string list \<Rightarrow> string" where
  "stdout_text out = concat (map (\<lambda>line. line @ [newline]) (snd out))"

definition stderr_text :: "(nat \<times> string option) \<times> string list \<Rightarrow> string" where
  "stderr_text out = (case snd (fst out) of None \<Rightarrow> [] | Some line \<Rightarrow> line @ [newline])"

definition invoked :: "string \<Rightarrow> string \<Rightarrow> command \<Rightarrow> cli" where
  "invoked config bin cmd = \<lparr>cli_config = config, cli_source = None, cli_stellar_bin = bin, cli_command = cmd\<rparr>"

text \<open>The addresses of the smoke tests.\<close>

definition SMOKE_ADMIN :: string where "SMOKE_ADMIN = shaped_address (CHR ''G'') (CHR ''A'')"

definition SMOKE_POLICY :: string where "SMOKE_POLICY = shaped_address (CHR ''C'') (CHR ''D'')"

definition SMOKE_TOKEN :: string where "SMOKE_TOKEN = shaped_address (CHR ''C'') (CHR ''E'')"

definition SMOKE_HOOKS :: string where "SMOKE_HOOKS = shaped_address (CHR ''C'') (CHR ''B'')"

definition verify_config :: "string \<Rightarrow> string \<Rightarrow> string \<Rightarrow> deployment" where
  "verify_config admin policy tk =
    \<lparr>dep_network = ''testnet'', dep_rpc_url = ''https://soroban-testnet.stellar.org'',
     dep_network_passphrase = ''Test SDF Network ; September 2015'',
     dep_hooks_contract_id = SMOKE_HOOKS,
     dep_policy = Some \<lparr>policy_contract_id = policy\<rparr>, dep_sac_passthrough = False,
     dep_admin = \<lparr>admin_public_key = admin, admin_stellar_identity = None,
       admin_secret_key_env = Some ''SAFEGUARD_ADMIN_SK_UNSET''\<rparr>,
     dep_tokens = [\<lparr>token_alias = ''usd'', token_contract_id = tk, token_sac_contract_id = None\<rparr>]\<rparr>"

definition minimal_config :: "string option \<Rightarrow> deployment" where
  "minimal_config identity =
    \<lparr>dep_network = ''local'', dep_rpc_url = ''http://localhost:8000/rpc'',
     dep_network_passphrase = ''Standalone Network ; February 2017'',
     dep_hooks_contract_id = ''CA'' @ ELLIPSIS @ ''HOOKS'', dep_policy = None, dep_sac_passthrough = False,
     dep_admin = \<lparr>admin_public_key = ''G'' @ ELLIPSIS @ ''ADMIN'', admin_stellar_identity = identity,
       admin_secret_key_env = None\<rparr>,
     dep_tokens = []\<rparr>"

section \<open>The tests\<close>

definition smoke_output :: "bool \<Rightarrow> (nat \<times> string option) \<times> string list" where
  "smoke_output probe_allows =
     run_binary (verify_config SMOKE_ADMIN SMOKE_POLICY SMOKE_TOKEN) SMOKE_POLICY
       (installed ''fake-stellar'' (fake_stellar SMOKE_ADMIN SMOKE_POLICY probe_allows))
       (invoked ''configuration.json'' ''fake-stellar'' (Verify None None))"

definition verify_runs_a_read_only_smoke_test_with_no_secret_key :: bool where
  "verify_runs_a_read_only_smoke_test_with_no_secret_key \<longleftrightarrow>
     (let out = smoke_output False in
      success out \<and> contains (stdout_text out) ''no secret key'' \<and>
      list_all (contains (stdout_text out))
        [''PASS  contract reachable'', ''PASS  initialized'', ''PASS  admin matches the config'',
         ''PASS  compliance configuration present'', ''PASS  recorded policy matches the contract'',
         ''PASS  token usd bound'', ''PASS  fail-closed probe''] \<and>
      contains (stdout_text out) ''9 passed, 0 failed, 1 skipped'')"

definition verify_exits_non_zero_when_the_gate_stops_failing_closed :: bool where
  "verify_exits_non_zero_when_the_gate_stops_failing_closed \<longleftrightarrow>
     (let out = smoke_output True in
      \<not> success out \<and> contains (stdout_text out) ''FAIL  fail-closed probe'' \<and>
      contains (stdout_text out) ''8 passed, 1 failed'' \<and>
      contains (stderr_text out) ''deployment verification failed'')"

definition verify_rejects_a_placeholder_source_account_before_any_ledger_call :: bool where
  "verify_rejects_a_placeholder_source_account_before_any_ledger_call \<longleftrightarrow>
     (let out = run_binary (minimal_config None) [] (installed ''fake-stellar'' listing_stellar)
            (invoked ''configuration.json'' ''no-such-stellar-binary'' (Verify None None)) in
      \<not> success out \<and> contains (stderr_text out) ''--source-account'' \<and>
      \<not> contains (stderr_text out) ''failed to run'')"

definition errors_reference_is_offline_and_complete :: bool where
  "errors_reference_is_offline_and_complete \<longleftrightarrow>
     (let out = run_binary (minimal_config None) [] (installed [] listing_stellar)
            (invoked ''configuration.json'' ''stellar'' (Errors None)) in
      success out \<and>
      list_all (\<lambda>(code, name). contains (stdout_text out) name \<and> contains (stdout_text out) code)
        [('' 2'', ''unbound_token''), ('' 3'', ''policy_denied''), ('' 4'', ''account_frozen''),
         ('' 5'', ''spender_not_authorized''), ('' 8'', ''sac_authorization_failed''),
         ('' 9'', ''invalid_configuration''), (''10'', ''policy_unavailable''), (''12'', ''already_initialized'')])"

definition errors_decodes_a_single_code :: bool where
  "errors_decodes_a_single_code \<longleftrightarrow>
     (let out = run_binary (minimal_config None) [] (installed [] listing_stellar)
            (invoked ''configuration.json'' ''stellar'' (Errors (Some 4))) in
      success out \<and> contains (stdout_text out) ''account_frozen'')"

definition missing_config_fails_with_a_clear_message :: bool where
  "missing_config_fails_with_a_clear_message \<longleftrightarrow>
     (let out = run_binary (minimal_config None) [] (installed [] listing_stellar)
            (invoked ''/nonexistent/configuration.json'' ''stellar'' (Show None None)) in
      \<not> success out \<and> contains (stderr_text out) ''cannot read config'')"

definition unknown_token_is_rejected_with_a_precise_error :: bool where
  "unknown_token_is_rejected_with_a_precise_error \<longleftrightarrow>
     (let out = run_binary (minimal_config (Some ''admin'')) [] (installed ''fake-stellar'' listing_stellar)
            (invoked ''configuration.json'' ''fake-stellar'' (FreezeCmd ''nope'' (''G'' @ ELLIPSIS))) in
      \<not> success out \<and> contains (stderr_text out) ''unknown token'')"

section \<open>They pass\<close>

lemma process_tests:
  "errors_decodes_a_single_code"
  "missing_config_fails_with_a_clear_message"
  "unknown_token_is_rejected_with_a_precise_error"
  "verify_rejects_a_placeholder_source_account_before_any_ledger_call"
  by code_simp+

lemma errors_reference_test: "errors_reference_is_offline_and_complete"
  by code_simp

text \<open>What the runner makes of the fake's outputs.\<close>

definition decoded :: "process_output \<Rightarrow> run_outcome" where
  "decoded out = \<lparr>run_ok = exited_ok out, run_stdout = utf8_lossy (bytes_stdout out), run_stderr = utf8_lossy (bytes_stderr out)\<rparr>"

definition is_ascii :: "string \<Rightarrow> bool" where
  "is_ascii s \<longleftrightarrow> list_all (\<lambda>c. (of_char c :: nat) < 0x80) s"

lemma ascii_line: "is_ascii s \<Longrightarrow> utf8_lossy (s @ [newline]) = s @ [newline]"
  by (intro utf8_lossy_keeps_valid ascii_valid) (auto simp: is_ascii_def list_all_iff newline_def)

lemma decoded_line:
  "is_ascii s \<Longrightarrow> decoded (echo s) = ok_line s"
  "is_ascii s \<Longrightarrow> decoded (exit_with s) = err_line s"
  by (simp_all add: decoded_def echo_def exit_with_def ok_line_def ok_out_def err_line_def err_out_def ascii_line)

lemma ascii_outputs:
  "is_ascii ''testnet''" "is_ascii ''true''" "is_ascii ''false''" "is_ascii ''1''" "is_ascii ''null''"
  "is_ascii SMOKE_ADMIN" "is_ascii (json_answer SMOKE_POLICY)"
  "is_ascii ''error: transaction simulation failed: HostError: Error(Contract, #2)''"
  by code_simp+

lemma smoke_run_stellar:
  "run_stellar (runner_host (installed bin f) bin C) w args = (Inr (decoded (f args)), w)"
  by (simp add: runner_host_def stellar_run_def installed_def decoded_def)

lemma smoke_view:
  "view (runner_host (installed bin f) bin C) sa i network func params w =
    (read_view (Inr (decoded (f (view_args sa i network func params)))), w)"
  by (simp add: view_reads smoke_run_stellar)

lemma smoke_gate:
  "gate (runner_host (installed bin f) bin C) sa i network func params w =
    (read_gate (Inr (decoded (f (view_args sa i network func params)))), w)"
  by (simp add: gate_reads smoke_run_stellar)

lemma smoke_strings:
  "SMOKE_ADMIN \<noteq> ''--''" "SMOKE_HOOKS \<noteq> ''--''" "SMOKE_TOKEN \<noteq> ''--''" "SMOKE_ADMIN \<noteq> ''--token''" "SMOKE_HOOKS \<noteq> ''--token''"
  "SMOKE_TOKEN \<noteq> ''--token''" "SMOKE_TOKEN \<noteq> SMOKE_ADMIN" "is_stellar_address SMOKE_ADMIN"
  "unquote SMOKE_ADMIN = SMOKE_ADMIN" "unquote (json_answer SMOKE_POLICY) \<noteq> ''null''" "text_trim (json_answer SMOKE_POLICY) \<noteq> []"
  by code_simp+

lemma smoke_reads:
  "read_view (Inr (ok_line SMOKE_ADMIN)) = Inr SMOKE_ADMIN"
  "read_view (Inr (ok_line (json_answer SMOKE_POLICY))) = Inr (json_answer SMOKE_POLICY)"
  by code_simp+

lemma smoke_refusal:
  "read_gate (Inr (err_line ''error: transaction simulation failed: HostError: Error(Contract, #2)'')) =
     Inr (Denied (Rejection UnboundToken))"
  using decode_scripted [of "[newline] @ ''error: transaction simulation failed: HostError: ''" UnboundTokenErr "[newline]"]
  by (simp add: read_gate_def err_line_def err_out_def combined_def code_texts revert_texts revert_marker_def newline_def)

text \<open>The report on a terminal: one or two lines per check between the header and the summary.\<close>

definition check_lines :: "check \<Rightarrow> string list" where
  "check_lines c = (''  '' @ status_tag (check_status c) @ ''  '' @ check_name c) #
     (if check_detail c = [] then [] else [''        '' @ check_detail c])"

definition summary_line :: "check list \<Rightarrow> string" where
  "summary_line cs = nat_text (count_status Pass cs) @ '' passed, '' @ nat_text (count_status Fail cs) @ '' failed, '' @
     nat_text (count_status Skip cs) @ '' skipped''"

lemma terminal_println: "println (runner_host spawn bin (terminal f)) line w = (Inr (), w @ [line])"
  by (simp add: println_def runner_host_def terminal_def)

lemma terminal_checks:
  "for_each cs (print_check (runner_host spawn bin (terminal f))) w = (Inr (), w @ concat (map check_lines cs))"
proof (induction cs arbitrary: w)
  case (Cons c cs)
  have "print_check (runner_host spawn bin (terminal f)) c w = (Inr (), w @ check_lines c)"
    by (simp add: print_check_def and_do_def terminal_println check_lines_def done_with_def)
  then show ?case by (simp add: and_do_def Cons.IH)
qed (simp add: done_with_def)

lemma terminal_report:
  "print_report (runner_host spawn bin (terminal f)) cs cfg sa w =
    (Inr (), w @ [''safeguard-hooks verify '' @ EM_DASH @ '' read-only, no secret key'', ''network: '' @ dep_network cfg,
      ''hooks contract: '' @ dep_hooks_contract_id cfg, ''source account: '' @ sa @ '' (simulated, never signs)'', []] @
      concat (map check_lines cs) @ [[], summary_line cs])"
  by (simp add: print_report_def and_do_def terminal_println terminal_checks summary_line_def)

definition smoke_checks :: "bool \<Rightarrow> check list" where
  "smoke_checks allows = fst (verify
     (runner_host (installed ''fake-stellar'' (fake_stellar SMOKE_ADMIN SMOKE_POLICY allows)) ''fake-stellar''
       (terminal ''configuration.json''))
     (reading (verify_config SMOKE_ADMIN SMOKE_POLICY SMOKE_TOKEN) SMOKE_POLICY)
     (verify_config SMOKE_ADMIN SMOKE_POLICY SMOKE_TOKEN) SMOKE_ADMIN None [])"

lemmas smoke_simps = smoke_view smoke_gate fake_stellar_def view_args_def param_args_def address_param_def smoke_strings
  decoded_line ascii_outputs smoke_reads smoke_refusal scripted_views scripted_gates scripted_texts scripted_numbers

lemma smoke_verdicts:
  "map (\<lambda>c. (check_name c, check_status c)) (smoke_checks allows) =
     [(''contract reachable'', Pass), (''initialized'', Pass), (''admin matches the config'', Pass),
      (''compliance configuration present'', Pass), (''recorded policy matches the contract'', Pass),
      (''config_version'', Pass), (''state_version'', Pass), (''token usd bound'', Pass),
      (''fail-closed probe'', if allows then Fail else Pass), (''gate sample'', Skip)]"
  unfolding smoke_checks_def verify_config_def reading_def
  by (simp add: smoke_simps verify_def check_initialized_def check_admin_def check_config_def check_recorded_policy_def version_floors_def
  check_version_def check_binding_def check_tokens_def judge_probe_def check_probe_def check_sample_def
  check_defs Let_def)

lemma smoke_world:
  "snd (verify
     (runner_host (installed ''fake-stellar'' (fake_stellar SMOKE_ADMIN SMOKE_POLICY allows)) ''fake-stellar''
       (terminal ''configuration.json''))
     (reading (verify_config SMOKE_ADMIN SMOKE_POLICY SMOKE_TOKEN) SMOKE_POLICY)
     (verify_config SMOKE_ADMIN SMOKE_POLICY SMOKE_TOKEN) SMOKE_ADMIN None []) = []"
  unfolding verify_config_def reading_def
  by (simp add: smoke_simps verify_def check_admin_def check_config_def version_floors_def check_tokens_def
      check_probe_def check_sample_def Let_def)

lemma count_verdicts: "count_status s cs = length (filter (\<lambda>p. snd p = s) (map (\<lambda>c. (check_name c, check_status c)) cs))"
  by (induction cs) (simp_all add: count_status_def)

lemma smoke_counts:
  "count_status Fail (smoke_checks allows) = (if allows then 1 else 0)"
  "count_status Pass (smoke_checks allows) = (if allows then 8 else 9)"
  "count_status Skip (smoke_checks allows) = 1" "length (smoke_checks allows) = 10"
proof -
  show "count_status Fail (smoke_checks allows) = (if allows then 1 else 0)"
    "count_status Pass (smoke_checks allows) = (if allows then 8 else 9)" "count_status Skip (smoke_checks allows) = 1"
    by (simp_all add: count_verdicts smoke_verdicts)
  from smoke_verdicts [of allows] have "length (map (\<lambda>c. (check_name c, check_status c)) (smoke_checks allows)) = 10" by simp
  then show "length (smoke_checks allows) = 10" by simp
qed

lemma smoke_listed: "list_ex (\<lambda>line. text_trim line = ''testnet'') (text_lines (''testnet'' @ [newline]))"
  by code_simp

lemma smoke_output_eq:
  "snd (fst (smoke_output allows)) =
     (if allows then Some (CROSS_MARK @ '' '' @ ''deployment verification failed: '' @ nat_text 1 @ '' of '' @ nat_text 10 @ '' checks failed'')
      else None)"
  "success (smoke_output allows) \<longleftrightarrow> \<not> allows"
  "\<exists>header. snd (smoke_output allows) = header @ concat (map check_lines (smoke_checks allows)) @ [[], summary_line (smoke_checks allows)] \<and>
     ''safeguard-hooks verify '' @ EM_DASH @ '' read-only, no secret key'' \<in> set header"
proof -
  let ?C = "runner_host (installed ''fake-stellar'' (fake_stellar SMOKE_ADMIN SMOKE_POLICY allows)) ''fake-stellar''
       (terminal ''configuration.json'') :: string list cli_host"
  let ?cfg = "verify_config SMOKE_ADMIN SMOKE_POLICY SMOKE_TOKEN"
  let ?J = "reading ?cfg SMOKE_POLICY"
  have v: "verify ?C ?J ?cfg SMOKE_ADMIN None [] = (smoke_checks allows, [])"
    using smoke_world [of allows] unfolding smoke_checks_def by (metis prod.collapse)
  have cfg: "dep_network ?cfg = ''testnet''" "admin_public_key (dep_admin ?cfg) = SMOKE_ADMIN"
    by (simp_all add: verify_config_def)
  have net: "ensure_network ?C ?cfg [] = (Inr (), [])"
    using smoke_listed
    by (simp add: ensure_network_def and_do_def smoke_run_stellar fake_stellar_def network_list_args_def decoded_line
        ascii_outputs ok_line_def ok_out_def cfg(1) done_with_def)
  have load: "config_load ?C ?J ''configuration.json'' [] = (Inr ?cfg, [])"
    by (simp add: config_load_def runner_host_def terminal_def reading_def)
  let ?report = "[''safeguard-hooks verify '' @ EM_DASH @ '' read-only, no secret key'', ''network: '' @ dep_network ?cfg,
      ''hooks contract: '' @ dep_hooks_contract_id ?cfg, ''source account: '' @ SMOKE_ADMIN @ '' (simulated, never signs)'', []] @
      concat (map check_lines (smoke_checks allows)) @ [[], summary_line (smoke_checks allows)]"
  have run: "run_verify ?C ?J ?cfg None None [] =
      ((if allows then Inl (''deployment verification failed: '' @ nat_text 1 @ '' of '' @ nat_text 10 @ '' checks failed'') else Inr ()),
       ?report)"
    by (simp add: run_verify_def cfg(2) smoke_strings(8) and_do_def net v terminal_report smoke_counts fail_with_def done_with_def Let_def)
  have out: "smoke_output allows =
      ((if allows then (1, Some (CROSS_MARK @ '' '' @ ''deployment verification failed: '' @ nat_text 1 @ '' of '' @ nat_text 10 @ '' checks failed''))
        else (0, None)), ?report)"
    unfolding smoke_output_def run_binary_def cli_process_def invoked_def cli_main_def cli_run_def
    by (simp only: cli.simps command.simps and_do_def load run prod.case sum.case) (cases allows; simp)
  show "snd (fst (smoke_output allows)) =
     (if allows then Some (CROSS_MARK @ '' '' @ ''deployment verification failed: '' @ nat_text 1 @ '' of '' @ nat_text 10 @ '' checks failed'')
      else None)" "success (smoke_output allows) \<longleftrightarrow> \<not> allows"
    by (simp_all add: out success_def)
  show "\<exists>header. snd (smoke_output allows) = header @ concat (map check_lines (smoke_checks allows)) @ [[], summary_line (smoke_checks allows)] \<and>
     ''safeguard-hooks verify '' @ EM_DASH @ '' read-only, no secret key'' \<in> set header"
    unfolding out snd_conv by (intro exI conjI, rule refl) simp
qed

lemma contains_line: "line \<in> set (snd out) \<Longrightarrow> sublist pat line \<Longrightarrow> contains (stdout_text out) pat"
proof -
  assume "line \<in> set (snd out)" and pat: "sublist pat line"
  then obtain before after where "snd out = before @ line # after" by (meson split_list)
  then have "sublist line (stdout_text out)" by (auto simp: stdout_text_def sublist_def)
  from sublist_order.order_trans [OF pat this] have "sublist pat (stdout_text out)" .
  then show ?thesis by (simp add: contains_def text_find_None)
qed

lemma shown_verdict:
  assumes "(name, st) \<in> set (map (\<lambda>c. (check_name c, check_status c)) (smoke_checks allows))"
  shows "contains (stdout_text (smoke_output allows)) (status_tag st @ ''  '' @ name)"
proof -
  obtain c where c: "c \<in> set (smoke_checks allows)" "check_name c = name" "check_status c = st" using assms by auto
  have "(''  '' @ status_tag st @ ''  '' @ name) \<in> set (check_lines c)" by (simp add: check_lines_def c)
  with c(1) smoke_output_eq(3) [of allows]
  have "(''  '' @ status_tag st @ ''  '' @ name) \<in> set (snd (smoke_output allows))" by auto
  then show ?thesis by (rule contains_line) (rule sublist_append_leftI)
qed

lemma count_texts: "nat_text 0 = ''0''" "nat_text (Suc 0) = ''1''" "nat_text 8 = ''8''" "nat_text 9 = ''9''" "nat_text 10 = ''10''"
  by code_simp+

lemma shown_summary:
  "sublist pat (summary_line (smoke_checks allows)) \<Longrightarrow> contains (stdout_text (smoke_output allows)) pat"
  using smoke_output_eq(3) [of allows] by (auto intro!: contains_line [of "summary_line (smoke_checks allows)"])

lemma verify_runs_a_read_only_smoke_test_with_no_secret_key_test:
  "verify_runs_a_read_only_smoke_test_with_no_secret_key"
proof -
  have "contains (stdout_text (smoke_output False)) ''no secret key''"
    by (rule contains_line [of "''safeguard-hooks verify '' @ EM_DASH @ '' read-only, no secret key''"])
      (use smoke_output_eq(3) [of False] in auto, simp add: sublist_def, rule exI [of _ "''safeguard-hooks verify '' @ EM_DASH @ '' read-only, ''"], simp)
  moreover have "contains (stdout_text (smoke_output False)) ''9 passed, 0 failed, 1 skipped''"
    by (rule shown_summary) (simp add: summary_line_def smoke_counts count_texts sublist_Cons_right)
  moreover note shown_verdict [of "''contract reachable''" Pass False] shown_verdict [of "''initialized''" Pass False]
    shown_verdict [of "''admin matches the config''" Pass False]
    shown_verdict [of "''compliance configuration present''" Pass False]
    shown_verdict [of "''recorded policy matches the contract''" Pass False]
    shown_verdict [of "''token usd bound''" Pass False] shown_verdict [of "''fail-closed probe''" Pass False]
  ultimately show ?thesis
    by (simp add: verify_runs_a_read_only_smoke_test_with_no_secret_key_def smoke_output_eq(2) smoke_verdicts status_tag_def)
qed

lemma verify_exits_non_zero_when_the_gate_stops_failing_closed_test:
  "verify_exits_non_zero_when_the_gate_stops_failing_closed"
proof -
  have "contains (stdout_text (smoke_output True)) ''8 passed, 1 failed''"
    by (rule shown_summary) (simp add: summary_line_def smoke_counts count_texts sublist_Cons_right)
  moreover have "contains (stderr_text (smoke_output True)) ''deployment verification failed''"
    by (simp add: stderr_text_def smoke_output_eq(1) contains_def CROSS_MARK_def)
  moreover note shown_verdict [of "''fail-closed probe''" Fail True]
  ultimately show ?thesis
    by (simp add: verify_exits_non_zero_when_the_gate_stops_failing_closed_def smoke_output_eq(2) smoke_verdicts status_tag_def)
qed

definition process_suite :: "bool list" where
  "process_suite =
     [verify_runs_a_read_only_smoke_test_with_no_secret_key,
      verify_exits_non_zero_when_the_gate_stops_failing_closed,
      verify_rejects_a_placeholder_source_account_before_any_ledger_call,
      errors_reference_is_offline_and_complete,
      errors_decodes_a_single_code,
      missing_config_fails_with_a_clear_message,
      unknown_token_is_rejected_with_a_precise_error]"

lemma process_suite_passes: "list_all id process_suite"
  by (simp add: process_suite_def process_tests errors_reference_test
      verify_runs_a_read_only_smoke_test_with_no_secret_key_test
      verify_exits_non_zero_when_the_gate_stops_failing_closed_test)

end
