(* ===== verification/Test_Suites.thy ===== *)
theory Test_Suites
  imports Evaluator_Suite Contract_Suite Crate_Suites Cli_Suite Property_Suite Gate_Paths Process_Suite
begin

text \<open>
  The test suites of the repository as one property: the model passes the tests that the program is
  developed against.
\<close>

text \<open>C33: the test suites pass on the model: every unit test of the evaluator, of the contract, of the
  smaller crates and of the CLI, every process-level test of the binary but the one on \<^verbatim>\<open>--help\<close>, every
  security scenario, every invariant with its full policy matrix and every seed of the random suite holds,
  and every gate-path benchmark drives its path, in each of its iterations, at the documented number of
  cross-contract calls; for all pairwise distinct generated addresses, every lifetime of a new entry that outlives the jump of
  the TTL test without leaving it above the renewal threshold, and every serializer under which the saved
  record parses back.\<close>

theorem test_suites_pass:
  assumes "inj g" and "inj h" and "6000000 < life" and "life < 6501120"
    and "parse_config (print_config saved_config @ [newline]) = Inr saved_config"
  shows "list_all id (evaluator_suite g life) \<and> list_all id (contract_suite g life) \<and>
    list_all id (crate_suites g life) \<and> list_all id (cli_suite print_config parse_config) \<and>
    list_all id (security_suite h) \<and> list_all id (invariant_suite h) \<and> list_all id (property_suite h) \<and>
    list_all id process_suite \<and>
    list_all (\<lambda>(calls, cost). map_option length calls = Some (Suc n * cost)) (gate_paths h n)"
  using evaluator_suite_passes [OF assms(1)] contract_suite_passes [OF assms(1)] crate_suites_pass [OF assms(1,3,4)]
    cli_suite_passes [of parse_config print_config, OF assms(5)] security_suite_passes [OF assms(2)]
    invariant_suite_passes [OF assms(2)] property_suite_passes [OF assms(2)] gate_paths_cost [OF assms(2), of n]
    process_suite_passes by simp

fun actor_name :: "actor \<Rightarrow> address" where
  "actor_name TheToken = ''CTOKEN''"
| "actor_name TokenB = ''CTOKENB''"
| "actor_name Alice = ''GALICE''"
| "actor_name Bob = ''GBOB''"
| "actor_name Carol = ''GCAROL''"
| "actor_name Delegate = ''GSPENDER''"
| "actor_name Stranger = ''CSTRANGER''"
| "actor_name Operator = ''GADMIN''"
| "actor_name Newcomer = ''GNEWCOMER''"
| "actor_name TheSac = ''CSAC''"
| "actor_name SacB = ''CSACB''"
| "actor_name ThePolicy = ''CPOLICY''"
| "actor_name PolicyB = ''CPOLICYB''"
| "actor_name Ghost = ''CGHOST''"

lemma inj_actor_name: "inj actor_name"
proof (rule injI)
  fix a b
  assume "actor_name a = actor_name b"
  then show "a = b" by (cases a; cases b) simp_all
qed

theorem test_suites_pass_witness:
  "list_all id (contract_suite actor_name 6311999) \<and>
   list_all id (cli_suite dep_hooks_contract_id
     (\<lambda>s. Inr (saved_config\<lparr>dep_hooks_contract_id := butlast s\<rparr>))) \<and>
   list_all id (security_suite numbered_address)"
proof -
  let ?parse = "\<lambda>s. Inr (saved_config\<lparr>dep_hooks_contract_id := butlast s\<rparr>) :: string + deployment"
  have "?parse (dep_hooks_contract_id saved_config @ [newline]) = Inr saved_config" by simp
  from test_suites_pass [of actor_name numbered_address 6311999 ?parse dep_hooks_contract_id,
      OF inj_actor_name inj_numbered_address _ _ this]
  show ?thesis by simp
qed

end
