(* ===== verification/Cli_Bounds.thy ===== *)
theory Cli_Bounds
  imports Cli_Guarantees
begin

text \<open>
  How often a command of the CLI starts the \<^verbatim>\<open>stellar\<close> binary. Every run is a process the operator
  waits for, so a bound on their number is what makes a command end. \<open>runs_at_most n m\<close> says that the
  action \<open>m\<close> appends at most \<open>n\<close> runs to the log of a recording host; it composes along the CLI's
  sequencing and its loops over the recorded tokens, and gives a bound per command in the size of the
  deployment record.
\<close>

section \<open>Counting runs\<close>

definition runs_at_most :: "nat \<Rightarrow> ('w \<times> effect list \<Rightarrow> 'r \<times> ('w \<times> effect list)) \<Rightarrow> bool" where
  "runs_at_most n m \<longleftrightarrow> (\<forall>w. \<exists>es. snd (snd (m w)) = snd w @ es \<and> length (ran es) \<le> n)"

lemma runs_at_mostD: "runs_at_most n m \<Longrightarrow> length (ran (snd (snd (m (w, []))))) \<le> n"
  unfolding runs_at_most_def by (metis append_Nil snd_conv)

lemma runs_at_most_mono: "runs_at_most n m \<Longrightarrow> n \<le> k \<Longrightarrow> runs_at_most k m"
  unfolding runs_at_most_def by (meson le_trans)

lemma runs_pure:
  "runs_at_most 0 (done_with x)" "runs_at_most 0 (fail_with msg)" "runs_at_most 0 (lift_result r)"
  "runs_at_most 0 (\<lambda>w. (y, w))" "runs_at_most 0 (\<lambda>w. (f w, w))"
  by (simp_all add: runs_at_most_def done_with_def fail_with_def lift_result_def)

lemma runs_println: "runs_at_most 0 (println (recording C) line)"
  by (simp add: runs_at_most_def recording_println)

lemma runs_write: "runs_at_most 0 (\<lambda>w. write_file (recording C) w path text)"
  by (simp add: runs_at_most_def recording_write)

lemma runs_stellar: "runs_at_most 1 (\<lambda>w. run_stellar (recording C) w args)"
  by (simp add: runs_at_most_def recording_run)

lemma runs_bind:
  assumes "runs_at_most n m" and "\<And>x. runs_at_most k (f x)"
  shows "runs_at_most (n + k) (\<lambda>w. case m w of (x, w) \<Rightarrow> f x w)"
  unfolding runs_at_most_def
proof
  fix w
  obtain x w1 where m: "m w = (x, w1)" by (cases "m w")
  obtain es where es: "snd w1 = snd w @ es" "length (ran es) \<le> n"
    using assms(1) m unfolding runs_at_most_def by (metis snd_conv)
  obtain es' where "snd (snd (f x w1)) = snd w1 @ es'" "length (ran es') \<le> k"
    using assms(2) [of x] unfolding runs_at_most_def by blast
  with m es show "\<exists>es. snd (snd (case m w of (x, w) \<Rightarrow> f x w)) = snd w @ es \<and> length (ran es) \<le> n + k"
    by (auto intro!: exI [of _ "es @ es'"])
qed

lemma runs_sum:
  assumes "\<And>x. runs_at_most n (f x)" and "\<And>y. runs_at_most n (g y)"
  shows "runs_at_most n (\<lambda>w. case s of Inl x \<Rightarrow> f x w | Inr y \<Rightarrow> g y w)"
  using assms by (cases s) simp_all

lemma runs_if:
  "runs_at_most n m \<Longrightarrow> runs_at_most n m' \<Longrightarrow> runs_at_most n (\<lambda>w. if b w then m w else m' w)"
  by (simp add: runs_at_most_def)

lemma runs_pair: "(\<And>x y. runs_at_most n (k x y)) \<Longrightarrow> runs_at_most n (case p of (x, y) \<Rightarrow> k x y)"
  by (cases p) simp

lemma runs_and_do:
  assumes "runs_at_most n m" and "\<And>x. runs_at_most k (f x)"
  shows "runs_at_most (n + k) (and_do m f)"
proof -
  have "runs_at_most k (\<lambda>w. case r of Inl msg \<Rightarrow> (Inl msg, w) | Inr x \<Rightarrow> f x w)" for r
    by (intro runs_sum runs_at_most_mono [OF runs_pure(4)] assms(2)) simp
  from runs_bind [OF assms(1), of k, OF this] show ?thesis
    by (simp add: and_do_def [abs_def] sum.case_eq_if case_prod_unfold)
qed

lemma runs_print_and:
  "(\<And>x. runs_at_most n (f x)) \<Longrightarrow> runs_at_most n (and_do (println (recording C) line) f)"
  using runs_and_do [OF runs_println] by fastforce

lemma runs_lift_and: "(\<And>x. runs_at_most n (f x)) \<Longrightarrow> runs_at_most n (and_do (lift_result r) f)"
  using runs_and_do [OF runs_pure(3)] by fastforce

lemma runs_map_err: "runs_at_most n m \<Longrightarrow> runs_at_most n (map_err f m)"
  by (simp add: runs_at_most_def)

lemma runs_for_each:
  assumes "\<And>x. runs_at_most n (body x)"
  shows "runs_at_most (n * length xs) (for_each xs body)"
proof (induction xs)
  case Nil
  then show ?case by (simp add: runs_pure)
next
  case (Cons x xs)
  from runs_and_do [OF assms, of "n * length xs" "\<lambda>_. for_each xs body", OF Cons.IH] show ?case by simp
qed

section \<open>One call\<close>

lemma runs_app_invoke: "runs_at_most 1 (app_invoke (recording C) A func params)"
  unfolding app_invoke_def using runs_and_do [OF runs_stellar runs_pure(3)] by fastforce

lemma runs_app_read: "runs_at_most 1 (app_read (recording C) A func params)"
  unfolding app_read_def by (rule runs_app_invoke)

lemma runs_send_raw: "runs_at_most 1 (send_raw (recording C) args)"
  unfolding send_raw_def
  by (rule runs_at_most_mono [OF runs_and_do [OF runs_stellar, where k = 0]]) (simp_all add: runs_pure)

lemma runs_hooks_invoke: "runs_at_most 1 (hooks_invoke (recording C) source i network func params)"
  unfolding hooks_invoke_def
  by (rule runs_at_most_mono [OF runs_and_do [OF runs_stellar, where k = 0]]) (simp_all add: runs_lift_and runs_pure)

lemma runs_then: "runs_at_most 1 m \<Longrightarrow> (\<And>x. runs_at_most n (f x)) \<Longrightarrow> runs_at_most (Suc n) (and_do m f)"
  using runs_and_do [of 1 m n f] by simp

lemmas runs_invoke_and = runs_then [OF runs_app_invoke] runs_then [OF runs_app_read] runs_then [OF runs_hooks_invoke]
  runs_then [OF runs_send_raw] runs_then [OF runs_stellar]

lemma runs_view: "runs_at_most 1 (view (recording C) sa i network func params)"
proof -
  have "runs_at_most 0 (\<lambda>w. case y of Inl err \<Rightarrow> (Inl err, w)
      | Inr r \<Rightarrow> if run_ok r then (Inr (case outcome_value r of None \<Rightarrow> [] | Some v \<Rightarrow> v), w)
          else (let s = combined r in case decode_contract_error s of
               Some revert \<Rightarrow> (Inl (describe revert), w)
             | None \<Rightarrow> (Inl (case last_nonempty s of Some l \<Rightarrow> l | None \<Rightarrow> no_output), w)))" for y
    by (auto simp: runs_at_most_def Let_def split: sum.splits option.splits)
  from runs_bind [OF runs_stellar, where k = 0, OF this] show ?thesis
    by (simp add: view_def [abs_def] Let_def)
qed

lemma runs_gate: "runs_at_most 1 (gate (recording C) sa i network func params)"
proof -
  have "runs_at_most 0 (\<lambda>w. case y of Inl err \<Rightarrow> (Inl err, w)
      | Inr r \<Rightarrow> if run_ok r then (Inr Allowed, w)
          else (let s = combined r in case decode_contract_error s of
               Some revert \<Rightarrow> (Inr (Denied revert), w)
             | None \<Rightarrow> (Inl (case last_nonempty s of Some l \<Rightarrow> l | None \<Rightarrow> no_output), w)))" for y
    by (auto simp: runs_at_most_def Let_def split: sum.splits option.splits)
  from runs_bind [OF runs_stellar, where k = 0, OF this] show ?thesis
    by (simp add: gate_def [abs_def] Let_def)
qed

section \<open>The commands\<close>

lemma runs_fail_or: "runs_at_most n m \<Longrightarrow> runs_at_most n (if b then fail_with msg else m)"
  "runs_at_most n m \<Longrightarrow> runs_at_most n (if b then done_with x else m)"
  by (simp_all add: runs_at_most_mono [OF runs_pure(1)] runs_at_most_mono [OF runs_pure(2)])

lemma runs_ensure_network: "runs_at_most 2 (ensure_network (recording C) cfg)"
  unfolding ensure_network_def numeral_2_eq_2 One_nat_def
  by (intro runs_invoke_and(5) runs_fail_or runs_pure(1))

lemma runs_config_load: "runs_at_most 0 (config_load (recording C) J path)"
  by (simp add: runs_at_most_def config_load_def split: sum.splits)

lemma runs_show_target:
  "runs_at_most (if account = None then 1 else 2) (show_target (recording C) A account i)"
proof (cases account)
  case None
  have "runs_at_most (Suc 0) (show_target (recording C) A None i)"
    unfolding show_target_def option.case by (intro runs_invoke_and(2) runs_print_and runs_pure(1))
  with None show ?thesis by simp
next
  case (Some acc)
  have "runs_at_most (Suc (Suc 0)) (show_target (recording C) A (Some acc) i)"
    unfolding show_target_def option.case by (intro runs_invoke_and(2) runs_print_and runs_println)
  with Some show ?thesis by (simp add: numeral_2_eq_2)
qed

lemma runs_app_show:
  "runs_at_most (4 + (if tk = None then length (dep_tokens (app_config A)) else 1) * (if account = None then 1 else 2))
     (app_show (recording C) A tk account)"
proof -
  let ?k = "if account = None then 1 else 2 :: nat"
  have targets: "runs_at_most (?k * length is) (for_each is (show_target (recording C) A account))" for "is"
    by (rule runs_for_each) (rule runs_show_target)
  have one: "runs_at_most ?k (and_do (lift_result r) (\<lambda>i. for_each [i] (show_target (recording C) A account)))" for r
    using targets [of "[_]"] by (intro runs_lift_and) simp
  have tail: "runs_at_most ((if tk = None then length (dep_tokens (app_config A)) else 1) * ?k)
      (case tk of
         Some t \<Rightarrow>
           and_do (lift_result (resolve_token (app_config A) t)) (\<lambda>i. for_each [i] (show_target (recording C) A account))
       | None \<Rightarrow>
           if dep_tokens (app_config A) = [] then println (recording C) ''tokens: none configured''
           else for_each (map token_contract_id (dep_tokens (app_config A))) (show_target (recording C) A account))"
  proof (cases tk)
    case None
    then show ?thesis
      using targets [of "map token_contract_id (dep_tokens (app_config A))"]
      by (simp add: runs_println mult.commute)
  next
    case (Some t)
    then show ?thesis using one by simp
  qed
  have "runs_at_most (Suc (Suc (Suc (Suc n)))) (app_show (recording C) A tk account)"
    if "n = (if tk = None then length (dep_tokens (app_config A)) else 1) * ?k" for n
    unfolding app_show_def by (intro runs_print_and runs_invoke_and(2)) (rule tail [folded that])
  from this [OF refl] show ?thesis by (simp add: numeral_eq_Suc)
qed

lemma runs_record:
  "runs_at_most 0 (case config_path of
     Some path \<Rightarrow>
       and_do (config_save (recording C) J cfg path) (\<lambda>_. println (recording C) (a path))
   | None \<Rightarrow> println (recording C) b)"
proof -
  have save: "runs_at_most 0 (config_save (recording C) J cfg path)" for path
    unfolding config_save_def using runs_and_do [OF runs_map_err [OF runs_pure(3)] runs_map_err [OF runs_write]] by simp
  from runs_and_do [OF this runs_println] show ?thesis
    by (cases config_path) (simp_all add: runs_println)
qed

lemma runs_deploy_hooks: "runs_at_most 1 (deploy_hooks (recording C) cfg source wasm)"
  unfolding deploy_hooks_def [abs_def] One_nat_def
  by (intro runs_if runs_print_and runs_invoke_and(4) runs_lift_and runs_pure(1) runs_at_most_mono [OF runs_pure(2)] le0)

lemma runs_resolve_policy: "runs_at_most (length (policy_deploy_args cfg source sample_wasm blocked policy_id no_policy))
    (resolve_policy (recording C) cfg source sample_wasm blocked policy_id no_policy)"
proof (cases "no_policy \<or> policy_id \<noteq> None \<or> sample_wasm = None")
  case True
  then have "resolve_policy (recording C) cfg source sample_wasm blocked policy_id no_policy =
      done_with (if no_policy then None else if policy_id = None then map_option policy_contract_id (dep_policy cfg) else policy_id)"
    by (auto simp: resolve_policy_def fun_eq_iff)
  then show ?thesis by (simp add: runs_at_most_mono [OF runs_pure(1)])
next
  case False
  then obtain wasm where opts: "\<not> no_policy" "policy_id = None" "sample_wasm = Some wasm" by auto
  have "runs_at_most (Suc 0) (resolve_policy (recording C) cfg source (Some wasm) blocked None False)"
    unfolding resolve_policy_def [abs_def] if_False option.case Let_def
    by (intro runs_if runs_print_and runs_invoke_and(4) runs_lift_and runs_pure(1) runs_at_most_mono [OF runs_pure(2)] le0)
  with opts show ?thesis by (simp add: policy_deploy_args_def)
qed

lemma runs_bring_up: "runs_at_most (2 + length (dep_tokens cfg)) (bring_up (recording C) cfg source i pol sac)"
proof -
  have "runs_at_most (1 * length (dep_tokens cfg)) (for_each (dep_tokens cfg) (\<lambda>t.
        and_do (hooks_invoke (recording C) source i (dep_network cfg) ''bind_token''
          [(''token'', address_param (token_contract_id t)), (''sac'', opt_address (token_sac_contract_id t))]) (\<lambda>_.
        println (recording C) (''bound token '' @ token_alias t))))"
    unfolding One_nat_def by (intro runs_for_each runs_invoke_and(3) runs_println)
  then show ?thesis
    unfolding bring_up_def Let_def numeral_2_eq_2 add_Suc add_0
    by (intro runs_print_and runs_invoke_and(3)) simp
qed

lemma runs_run_deploy:
  "runs_at_most (3 + length (policy_deploy_args cfg source sample_wasm blocked policy_id no_policy) + length (dep_tokens cfg))
     (run_deploy (recording C) J cfg config_path source wasm sample_wasm blocked policy_id no_policy sac)"
proof -
  have "runs_at_most (1 + (length (policy_deploy_args cfg source sample_wasm blocked policy_id no_policy) +
      (2 + length (dep_tokens cfg) + 0)))
     (run_deploy (recording C) J cfg config_path source wasm sample_wasm blocked policy_id no_policy sac)"
    unfolding run_deploy_def Let_def
    by (intro runs_and_do runs_deploy_hooks runs_resolve_policy runs_bring_up runs_record)
  then show ?thesis by (rule runs_at_most_mono) simp
qed

section \<open>The smoke test\<close>

lemma runs_check_versions: "runs_at_most (length fs) (check_versions (recording C) cfg sa fs)"
proof (induction fs)
  case Nil
  have "check_versions (recording C) cfg sa [] = (\<lambda>w. ([], w))" by (simp add: fun_eq_iff)
  then show ?case by (simp add: runs_pure)
next
  case (Cons f fs)
  obtain func label floor_value where f: "f = (func, label, floor_value)" by (cases f)
  have rest: "runs_at_most (length fs + 0) (\<lambda>w. case check_versions (recording C) cfg sa fs w of (cs, w) \<Rightarrow> (c # cs, w))" for c
    by (rule runs_bind [OF Cons.IH]) (rule runs_pure)
  have "runs_at_most (1 + length fs) (check_versions (recording C) cfg sa ((func, label, floor_value) # fs))"
    unfolding check_versions.simps [abs_def]
    by (intro runs_bind runs_view runs_sum) (rule rest [simplified])+
  then show ?case unfolding f by (rule runs_at_most_mono) simp
qed

lemma runs_check_bindings: "runs_at_most (length ts) (check_bindings (recording C) cfg sa ts)"
proof (induction ts)
  case Nil
  have "check_bindings (recording C) cfg sa [] = (\<lambda>w. ([], w))" by (simp add: fun_eq_iff)
  then show ?case by (simp add: runs_pure)
next
  case (Cons t ts)
  have "runs_at_most (1 + (length ts + 0)) (check_bindings (recording C) cfg sa (t # ts))"
    unfolding check_bindings.simps [abs_def] by (intro runs_bind runs_view Cons.IH runs_pure)
  then show ?case by (rule runs_at_most_mono) simp
qed

lemma runs_check_samples: "runs_at_most (length ts) (check_samples (recording C) cfg sa account ts)"
proof (induction ts)
  case Nil
  have "check_samples (recording C) cfg sa account [] = (\<lambda>w. ([], w))" by (simp add: fun_eq_iff)
  then show ?case by (simp add: runs_pure)
next
  case (Cons t ts)
  have "runs_at_most (1 + (length ts + 0)) (check_samples (recording C) cfg sa account (t # ts))"
    unfolding check_samples.simps [abs_def] by (intro runs_bind runs_gate Cons.IH runs_pure)
  then show ?case by (rule runs_at_most_mono) simp
qed

lemma runs_check_admin: "runs_at_most 1 (check_admin (recording C) cfg sa)"
proof -
  have "runs_at_most (1 + 0) (check_admin (recording C) cfg sa)"
    unfolding check_admin_def [abs_def] Let_def by (intro runs_bind runs_view runs_sum runs_pure)
  then show ?thesis by simp
qed

lemma runs_check_config: "runs_at_most 1 (check_config (recording C) J cfg sa)"
proof -
  have "runs_at_most (1 + 0) (check_config (recording C) J cfg sa)"
    unfolding check_config_def [abs_def] Let_def by (intro runs_bind runs_view runs_sum runs_if runs_pure)
  then show ?thesis by simp
qed

lemma runs_check_tokens: "runs_at_most (length (dep_tokens cfg)) (check_tokens (recording C) cfg sa)"
proof -
  have "runs_at_most (length (dep_tokens cfg) + 0) (check_tokens (recording C) cfg sa)"
    unfolding check_tokens_def [abs_def] by (intro runs_bind runs_check_bindings runs_pure)
  then show ?thesis by simp
qed

lemma runs_check_probe: "runs_at_most 2 (check_probe (recording C) cfg sa)"
proof -
  have judged: "runs_at_most 1 (\<lambda>w. case gate (recording C) sa i n func params w of (answer, w) \<Rightarrow> ([judge_probe p answer], w))"
    for i n func params p
    by (rule runs_at_most_mono [OF runs_bind [OF runs_gate, where k = 0]]) (simp_all add: runs_pure)
  have "runs_at_most (1 + 1) (check_probe (recording C) cfg sa)"
    unfolding check_probe_def [abs_def] Let_def
    by (intro runs_bind runs_view runs_sum runs_if judged runs_at_most_mono [OF runs_pure(4) zero_le])
  then show ?thesis by (rule runs_at_most_mono) simp
qed

lemma runs_check_sample:
  "runs_at_most (if account = None then 0 else length (dep_tokens cfg)) (check_sample (recording C) cfg sa account configured)"
  by (cases account; cases configured)
    (simp_all add: check_sample_def [abs_def] runs_pure runs_at_most_mono [OF runs_pure(4)]
      runs_check_samples [unfolded eta_contract_eq])

definition verify_runs :: "deployment \<Rightarrow> string option \<Rightarrow> nat" where
  "verify_runs cfg account = 7 + length (dep_tokens cfg) + (if account = None then 0 else length (dep_tokens cfg))"

lemma runs_verify: "runs_at_most (verify_runs cfg account) (verify (recording C) J cfg sa account)"
proof -
  have "runs_at_most (1 + (1 + (1 + (length version_floors + (length (dep_tokens cfg) + (2 +
      ((if account = None then 0 else length (dep_tokens cfg)) + 0))))))) (verify (recording C) J cfg sa account)"
    unfolding verify_def [abs_def] Let_def
    by (intro runs_bind runs_sum runs_view runs_check_admin runs_check_config runs_check_versions runs_check_tokens
        runs_check_probe runs_check_sample runs_pair runs_pure runs_at_most_mono [OF runs_pure(4) zero_le])
  then show ?thesis by (rule runs_at_most_mono) (simp add: verify_runs_def version_floors_def)
qed

section \<open>The bound of a command\<close>

text \<open>
  Every command but \<open>errors\<close> lists the registered networks and may add one (two runs); an administrative
  command then invokes once, \<open>show\<close> reads four values and one or two per token, \<open>deploy\<close> deploys one or
  two contracts and sends two invocations and one per token, \<open>verify\<close> simulates seven views and one or
  two per token.
\<close>

definition command_runs :: "deployment \<Rightarrow> command \<Rightarrow> nat" where
  "command_runs cfg cmd =
     (case cmd of
        Errors _ \<Rightarrow> 0
      | Verify _ account \<Rightarrow> 2 + verify_runs cfg account
      | Show tk account \<Rightarrow>
          6 + (if tk = None then length (dep_tokens cfg) else 1) * (if account = None then 1 else 2)
      | DeployCmd opts \<Rightarrow>
          5 + (if opt_sample_policy_wasm opts = None \<or> opt_no_policy opts \<or> opt_policy_id opts \<noteq> None then 0 else 1) +
          length (dep_tokens cfg)
      | _ \<Rightarrow> 3)"

lemma runs_run_verify: "runs_at_most (2 + verify_runs cfg account) (run_verify (recording C) J cfg sa account)"
proof -
  have report: "runs_at_most 0 (print_report (recording C) cs cfg s)" for cs s
  proof -
    have "runs_at_most 0 (print_check (recording C) c)" for c
      unfolding print_check_def by (auto intro!: runs_print_and runs_println runs_pure)
    then have "runs_at_most (0 * length cs) (for_each cs (print_check (recording C)))" by (rule runs_for_each)
    then have "runs_at_most (0 + 0) (and_do (for_each cs (print_check (recording C))) f)"
      if "\<And>x. runs_at_most 0 (f x)" for f :: "_ \<Rightarrow> ('a \<times> effect list, unit) action"
      using that by (intro runs_and_do) simp_all
    then show ?thesis unfolding print_report_def by (intro runs_print_and) (simp add: runs_print_and runs_println)
  qed
  have checks: "runs_at_most (verify_runs cfg account + 0)
      (\<lambda>w. case verify (recording C) J cfg s account w of (cs, w) \<Rightarrow> (Inr cs, w))" for s
    by (intro runs_bind runs_verify runs_pure)
  have verdict: "runs_at_most 0 (if 0 < n then fail_with msg else done_with ())" for n :: nat and msg
    by (simp add: runs_pure)
  have "runs_at_most (2 + (verify_runs cfg account + 0 + (0 + 0))) (and_do (ensure_network (recording C) cfg) (\<lambda>_.
        and_do (\<lambda>w. case verify (recording C) J cfg s account w of (cs, w) \<Rightarrow> (Inr cs, w)) (\<lambda>cs.
        and_do (print_report (recording C) cs cfg s) (\<lambda>_. if 0 < k cs then fail_with (m cs) else done_with ()))))"
    for s m and k :: "_ \<Rightarrow> nat"
    by (intro runs_and_do runs_ensure_network checks report verdict)
  then show ?thesis
    unfolding run_verify_def Let_def by (simp add: runs_fail_or)
qed

lemma runs_run_admin:
  assumes "\<And>code. cmd \<noteq> Errors code" and "\<And>s a. cmd \<noteq> Verify s a"
  shows "runs_at_most (command_runs (app_config A) cmd - 2) (run_admin (recording C) J A cmd)"
proof -
  have one: "runs_at_most (Suc 0) (and_do (app_invoke (recording C) A func params) (\<lambda>_. println (recording C) line))"
    for func params line by (intro runs_invoke_and runs_println)
  have resolved: "runs_at_most (Suc 0) (and_do (lift_result r) (\<lambda>i.
      and_do (app_invoke (recording C) A func (p i)) (\<lambda>_. println (recording C) (l i))))"
    for r :: "string + string" and func p l by (intro runs_lift_and one)
  show ?thesis
  proof (cases cmd)
    case (DeployCmd opts)
    have "length (policy_deploy_args (app_config A) (app_source A) (opt_sample_policy_wasm opts) (opt_policy_blocked opts)
        (opt_policy_id opts) (opt_no_policy opts)) \<le>
        (if opt_sample_policy_wasm opts = None \<or> opt_no_policy opts \<or> opt_policy_id opts \<noteq> None then 0 else 1)"
      by (auto simp: policy_deploy_args_def split: option.splits)
    with DeployCmd show ?thesis
      by (auto simp: run_admin_def command_runs_def intro!: runs_at_most_mono [OF runs_run_deploy])
  next
    case (Show tk account)
    have "run_admin (recording C) J A cmd = app_show (recording C) A tk account" by (simp add: Show run_admin_def)
    then show ?thesis
      by (simp only:) (rule runs_at_most_mono [OF runs_app_show], simp add: Show command_runs_def)
  qed (use assms one resolved in \<open>simp_all add: run_admin_def command_runs_def app_init_def app_configure_def app_bind_def
    app_unbind_def app_freeze_def app_unfreeze_def app_freeze_op_def Let_def\<close>)
qed

lemma runs_print_errors: "runs_at_most 0 (print_errors (recording C) code)"
proof -
  have "runs_at_most (0 * length ALL_REASONS) (for_each ALL_REASONS (\<lambda>reason. println (recording C) (l reason)))" for l
    by (rule runs_for_each) (rule runs_println)
  then have "runs_at_most (0 + 0) (and_do (for_each ALL_REASONS (\<lambda>reason. println (recording C) (l reason)))
      (\<lambda>_. println (recording C) l'))" for l l'
    by (intro runs_and_do runs_println) simp
  then show ?thesis
    unfolding print_errors_def by (cases code) (simp_all add: runs_println runs_print_and)
qed

text \<open>What a command does once its configuration is loaded.\<close>

definition after_load :: "'w cli_host \<Rightarrow> json_codec \<Rightarrow> cli \<Rightarrow> deployment \<Rightarrow> ('w, unit) action" where
  "after_load C J args cfg =
     (case cli_command args of
        Verify source_account account \<Rightarrow> run_verify C J cfg source_account account
      | cmd \<Rightarrow>
          and_do (ensure_network C cfg) (\<lambda>_.
          and_do (\<lambda>w. (admin_source C w cfg (cli_source args), w)) (\<lambda>source.
          run_admin C J \<lparr>app_config = cfg, app_config_path = cli_config args, app_source = source\<rparr> cmd)))"

lemma cli_run_after_load:
  "\<forall>code. cli_command args \<noteq> Errors code \<Longrightarrow> cli_run C J args = and_do (config_load C J (cli_config args)) (after_load C J args)"
  by (cases "cli_command args") (simp_all add: cli_run_def after_load_def [abs_def])

lemma runs_after_load:
  assumes "\<forall>code. cli_command args \<noteq> Errors code"
  shows "runs_at_most (command_runs cfg (cli_command args)) (after_load (recording C) J args cfg)"
proof (cases "\<exists>s a. cli_command args = Verify s a")
  case True
  then show ?thesis using runs_run_verify by (auto simp: after_load_def command_runs_def)
next
  case False
  let ?A = "\<lambda>source. \<lparr>app_config = cfg, app_config_path = cli_config args, app_source = source\<rparr>"
  have "2 \<le> command_runs cfg (cli_command args)"
    using assms by (auto simp: command_runs_def split: command.splits)
  moreover have "runs_at_most (command_runs cfg (cli_command args) - 2) (run_admin (recording C) J (?A source) (cli_command args))"
    for source
    using runs_run_admin [of "cli_command args" "?A source"] assms False by simp
  ultimately have "runs_at_most (command_runs cfg (cli_command args)) (and_do (ensure_network (recording C) cfg) (\<lambda>_.
      and_do (\<lambda>w. (admin_source (recording C) w cfg (cli_source args), w)) (\<lambda>source.
      run_admin (recording C) J (?A source) (cli_command args))))"
    by (intro runs_at_most_mono [OF runs_and_do [OF runs_ensure_network runs_and_do [OF runs_pure(5)]]]) auto
  with assms False show ?thesis by (cases "cli_command args") (simp_all add: after_load_def)
qed

text \<open>C31: every command of the CLI ends after a bounded number of runs of the \<^verbatim>\<open>stellar\<close> binary, whatever
  these runs answer: none for the offline reference or when the configuration cannot be loaded, and otherwise
  a number that depends on the options and on the count of recorded tokens alone. No command polls or
  retries.\<close>

theorem every_command_is_bounded:
  "length (ran (snd (snd (cli_run (recording C) J args (w, []))))) \<le>
     (case fst (config_load C J (cli_config args) w) of
        Inl _ \<Rightarrow> 0
      | Inr cfg \<Rightarrow> command_runs cfg (cli_command args))"
proof (cases "\<exists>code. cli_command args = Errors code")
  case True
  then show ?thesis using runs_at_mostD [OF runs_print_errors, of C _ w] by (auto simp: cli_run_def)
next
  case False
  then have run: "cli_run (recording C) J args = and_do (config_load (recording C) J (cli_config args)) (after_load (recording C) J args)"
    by (intro cli_run_after_load) simp
  have load: "config_load (recording C) J (cli_config args) (w, []) = (fst (config_load C J (cli_config args) w), (w, []))"
    by (auto simp: config_load_def recording_def split: sum.splits)
  show ?thesis
    using False runs_at_mostD [OF runs_after_load, of args C J _ w]
    by (auto simp: run and_do_def load split: sum.splits)
qed

text \<open>
  The bounds are attained, for an administrative command, \<open>show\<close>, \<open>deploy\<close> and \<open>verify\<close>: on a host that
  answers every run with a fresh contract address, where the network has to be registered first, the
  command starts the binary exactly that often.
\<close>

definition demo_runs :: "command \<Rightarrow> nat" where
  "demo_runs cmd = length (ran (snd (snd (cli_run (recording (steady_host (\<lambda>_. Inr (said demo_id)))) demo_codec
     \<lparr>cli_config = ''c.json'', cli_source = Some ''admin'', cli_stellar_bin = ''stellar'', cli_command = cmd\<rparr> ((), [])))))"

lemma bounds_are_attained:
  "list_all (\<lambda>cmd. demo_runs cmd = command_runs demo_deployment cmd)
     [FreezeCmd ''usd'' ''GBAD'', Show None (Some ''GBAD''),
      DeployCmd \<lparr>opt_hooks_wasm = ''hooks.wasm'', opt_sample_policy_wasm = Some ''policy.wasm'',
        opt_policy_blocked = Some ''GBAD'', opt_policy_id = None, opt_no_policy = False,
        opt_sac_passthrough = None, opt_save = True\<rparr>]"
  by code_simp

lemma verify_bound_is_attained:
  "demo_runs (Verify (Some (CHR ''G'' # replicate 55 (CHR ''A''))) (Some (CHR ''G'' # replicate 55 (CHR ''B'')))) =
     command_runs demo_deployment (Verify None (Some ''GBAD''))"
  by code_simp

end
