(* ===== verification/Spec2Isabelle.thy ===== *)
theory Spec2Isabelle
  imports Shown_State Test_Suites Cli_Bounds Cli_Runner
begin

text \<open>
  Safeguard Hooks: the on-chain compliance enforcement contract and its operator CLI.

  THE PROGRAM. A confidential token calls the \<^verbatim>\<open>compliance-hooks\<close> contract before every operation
  (\<^verbatim>\<open>before_register\<close>, \<^verbatim>\<open>before_deposit\<close>, ...). The contract looks up its configuration and the token's
  binding, then screens every party of the operation: freeze flag (local storage), external policy
  (cross-contract view), underlying asset contract (cross-contract view). The first refusal is
  returned as an error code; nothing is written by a hook. An admin initializes the contract, sets the
  policy, binds tokens and freezes accounts; each change publishes an audit event. The operator CLI
  (\<^verbatim>\<open>cli/\<close>) drives the contract through the stellar binary and decodes the error codes back.

  THEORIES, in dependency order, and the code they model:
  \<^item> \<open>Prelude\<close>: machine types, the keyed-table interface, checked \<^verbatim>\<open>u32\<close> addition.
  \<^item> \<open>Hook_Core\<close> (\<^verbatim>\<open>crates/hook-core\<close>): operations, party roles, reasons, decisions, contexts.
  \<^item> \<open>Soroban_Host\<close>: the calls on \<^verbatim>\<open>Env\<close> as a record of functions, the laws the program relies on as the
    locales \<open>soroban_host\<close> and \<open>view_host\<close>, a concrete ledger, and a host that records calls.
  \<^item> \<open>Events\<close> (\<^verbatim>\<open>crates/events\<close>): events, emitters, and the replay of an event log.
  \<^item> \<open>Storage\<close> (\<^verbatim>\<open>crates/storage\<close>): keys, typed entries, access functions, TTL renewal; the abstract state
    \<open>enforcement\<close> that they implement; the interfaces \<open>storage_cell\<close> and \<open>entry_table\<close>.
  \<^item> \<open>Authorization\<close> (\<^verbatim>\<open>crates/authorization\<close>), \<open>Policy_Client\<close> (\<^verbatim>\<open>crates/policy-client\<close>,
    \<^verbatim>\<open>crates/compliance/src/sac.rs\<close>).
  \<^item> \<open>Compliance\<close> (\<^verbatim>\<open>crates/compliance/src/evaluator.rs\<close>): the gates, the loop, the evaluation; their
    specification \<open>decide\<close>; the gate interfaces \<open>quiet_gate\<close>, \<open>verdict_gate\<close>, \<open>traced_gate\<close>.
  \<^item> \<open>Contract\<close> (\<^verbatim>\<open>contracts/compliance-hooks/src/lib.rs\<close>): errors, entry points, reads, dispatch.
  \<^item> \<open>Enforcement\<close>: the abstract contract \<open>spec_step\<close> and the refinement \<open>dispatch_implements\<close>.
  \<^item> \<open>Lifecycle\<close>: reachable states, runs, the invariant \<open>coherent\<close> between state and event log.
  \<^item> \<open>Sample_Policy\<close> (\<^verbatim>\<open>contracts/sample-policy\<close>, and \<^verbatim>\<open>predict\<close> of the integration suites).
  \<^item> \<open>Contract_Guarantees\<close>: properties C1 to C21 but C5 and C8.
  \<^item> \<open>Text\<close>, \<open>Cli_Host\<close>: the string functions of the CLI, its outside world, recorded effects.
  \<^item> \<open>Cli_Config\<close> (\<^verbatim>\<open>cli/src/config.rs\<close>), \<open>Cli_Stellar\<close> (\<^verbatim>\<open>cli/src/stellar.rs\<close>), \<open>Cli_Verify\<close> and \<open>Cli_App\<close>
    (\<^verbatim>\<open>cli/src/main.rs\<close>): the CLI; \<open>Cli_Health\<close>, \<open>Cli_Effects\<close>: what its reports mean and what it does;
    \<open>Cli_Runner\<close>: the runner that starts the binary and decodes its output, the variables and defaults that
    stand in for absent flags, and the whole program on both.
  \<^item> \<open>Cli_Guarantees\<close>: properties C22 to C30, the network registration and the offline error
    reference; \<open>Cli_Bounds\<close>: how often each command starts the binary (C31).
  \<^item> \<open>Operations\<close>, \<open>Operational_Guarantees\<close>: the error surface of every entry point, the exact conditions
    of a trap, recovery by the admin (C36 to C38).
  \<^item> \<open>Live_Network\<close>: the interface \<open>live_network\<close>, a network that executes what the CLI sends, and the state
    in which \<^verbatim>\<open>deploy\<close> leaves the contract; \<open>Live_Commands\<close>: its extension \<open>registered_network\<close> and what
    an administrative command does to the contract; \<open>Relayed_Report\<close>: a binary that shows the contract's replies,
    and what the smoke test then says of the contract; \<open>Simulated_Network\<close>: the concrete network of
    ledgers, addressed by argument vectors, that interprets them; \<open>Shown_State\<close>: what \<^verbatim>\<open>show\<close> prints (C32).
  \<^item> \<open>Test_Bed\<close>: the environment of the unit suites, with the contracts they register; \<open>Evaluator_Suite\<close>,
    \<open>Contract_Suite\<close>, \<open>Crate_Suites\<close>, \<open>Cli_Suite\<close>: every unit test of the evaluator, the contract, the
    other crates and the CLI as an executable definition.
  \<^item> \<open>Integration_Bed\<close> (\<^verbatim>\<open>tests/common/mod.rs\<close> of the contract): the fixtures, the invocation helpers and the
    deployment context of the integration suites; \<open>Integration_Picture\<close>: the abstract picture of such a
    deployment and one rule per helper; \<open>Integration_Suites\<close> (\<^verbatim>\<open>security.rs\<close>, \<^verbatim>\<open>invariants.rs\<close>) and
    \<open>Property_Suite\<close> (\<^verbatim>\<open>fuzz.rs\<close>): every test, and the random suite for every seed and length (C5).
  \<^item> \<open>Gate_Paths\<close> (\<^verbatim>\<open>crates/compliance/benches/gate_paths.rs\<close>): the benchmarked paths and the calls each makes;
    \<open>Process_Suite\<close> (\<^verbatim>\<open>cli/tests/cli.rs\<close>): the tests that start the binary; \<open>Test_Suites\<close>: all suites pass (C33).
  \<^item> This theory: C8, C34, C35, C39 and C40.

  CORRESPONDENCE. Rust functions keep their names (with a prefix where two crates share one: the storage
  crate's \<^verbatim>\<open>is_frozen\<close> is \<open>storage_is_frozen\<close>, the contract's is \<open>read_is_frozen\<close>). \<^verbatim>\<open>Env\<close> is the pair of a
  host record \<open>H\<close> and a host state \<open>e\<close>; functions that can write, publish, extend a TTL or call out
  return the new state. \<open>None\<close> is a trap, which aborts the invocation. \<^verbatim>\<open>u32\<close> is a 32-bit word and its
  only addition traps on overflow, as the release profile demands.

  WHAT THE LEMMAS SHOW. Every access function implements the abstract state (\<open>contract_host\<close>); every gate
  implements a verdict and gates compose (\<open>verdict_gate_then\<close>); the evaluation is the first denial in
  canonical order (\<open>evaluate_decide\<close>) and makes exactly the listed calls (\<open>evaluate_calls\<close>); every entry
  point implements its transition (\<open>dispatch_implements\<close>); the invariant holds in every reachable
  state (\<open>coherent_reachable\<close>). For the CLI: decoding inverts reporting (\<open>decode_revert_text\<close>), the
  report of the smoke test is exact (\<open>verify_healthy\<close>), the effects of every command are listed. Across
  both: a successful bring-up leaves exactly the recorded state (\<open>run_deploy_establishes\<close>), a successful
  administrative command is one abstract transition (\<open>admin_command_commits\<close>), and the report is clean if
  and only if its checks hold of the contract (\<open>healthy_iff_claim\<close>), which is less than that the contract
  is as recorded (\<open>claim_leaves_open\<close>).

  WHERE DOCS AND CODE DIFFER, the theorems state the code. The cases a reader of \<^verbatim>\<open>docs/\<close> meets first: a refused
  spender is \<^verbatim>\<open>SpenderNotAuthorized\<close> (C3); a removed policy escapes the smoke test (C24, C35); \<^verbatim>\<open>show\<close> reads the
  ledger before it resolves an alias (C32); removing the policy helps a policy-blocked account (C38).

  BOUNDS. There is no fuel: all recursion is structural or has a measure (\<open>strip_front\<close>, \<open>nat_text\<close>,
  \<open>utf8_lossy\<close>). The random suite is proved for runs of fewer than 2^32 - 1 steps: the deployment writes
  version one, a step advances it at most once, and the contract traps rather than pass the last value.

  NOT MODELLED. The encoding of events and storage keys that the SDK's macros generate, metering and
  archival of entries, re-entrance (the host forbids it), \<^verbatim>\<open>clap\<close>'s argument parsing and \<^verbatim>\<open>serde\<close>'s JSON
  (parameters), the unprintable non-ASCII cases of \<^verbatim>\<open>{:?}\<close>, the clock of the benches, the help text
  (\<^verbatim>\<open>clap\<close> generates it), and the test support of the storage crate. The scripts, schemas and examples are
  not Rust.

  PLAN. Modelled: the decision path, the state it reads, the administration that writes it, the audit
  log, the CLI with its runner, the CLI and the contract end to end (\<^verbatim>\<open>deploy\<close>, \<^verbatim>\<open>verify\<close>, \<^verbatim>\<open>show\<close>, the
  administrative commands), the unit, process and integration suites, the benchmarked paths. What is left of
  the Rust code is the SDK's generated surface, the command-line parser and the serializer, which are
  parameters here.
\<close>

section \<open>The CLI and the contract together\<close>

text \<open>A network whose one contract is the demonstration ledger.\<close>

definition sim_demo :: sim_world where
  "sim_demo = \<lparr>sim_contracts = (\<lambda>_. demo_ledger), sim_ids = [''CHOOKS'']\<rparr>"

definition sim_deployment :: deployment where
  "sim_deployment = demo_deployment\<lparr>dep_tokens :=
     [\<lparr>token_alias = ''usd'', token_contract_id = ''CTOKEN'', token_sac_contract_id = None\<rparr>]\<rparr>"

lemma sim_demo_ledger: "sim_contracts sim_demo i = demo_ledger"
  by (simp add: sim_demo_def)

lemma demo_plain: "plain ''GADMIN''" "plain ''CPOLICY''" "plain (u32_text 1)" "''CPOLICY'' \<noteq> ''{}''"
  by code_simp+

lemma demo_version: "st_version (state_of ledger_host demo_ledger) = Some 1"
  by (simp add: demo_ledger_eq state_of_def ledger_host_def)

lemma sim_demo_reads:
  "relays_reads ledger_host demo_ledger sim_codec (sim_answers sim_demo) sim_deployment source_account"
  by (rule sim_relays_reads [of sim_demo sim_deployment source_account, unfolded sim_demo_ledger])
    (auto simp: demo_well_typed demo_facts demo_versions demo_version demo_plain)

text \<open>C34: the smoke test sees the contract's decision: when the binary relays the contract's reply to the
  simulated call, \<^verbatim>\<open>gate\<close> reports a transfer as allowed exactly when the pipeline allows it, and as
  refused with the pipeline's own reason otherwise.\<close>

theorem sampled_gate_is_the_decision:
  assumes "view_contract_host H" and "well_typed H e"
    and "relays (fst (run_stellar C w (view_args source_account hooks network ''before_transfer''
        [(''token'', tk), (''from'', src), (''to'', dst)]))) (dispatch H e (BeforeTransfer tk src dst))"
  shows "fst (gate C source_account hooks network ''before_transfer''
      [(''token'', tk), (''from'', src), (''to'', dst)] w) =
    (case decide (state_of H e) (views_of H e) tk Transfer [src, dst] of
       Allow \<Rightarrow> Inr Allowed | Deny r \<Rightarrow> Inr (Denied (Rejection r)))"
  by (simp add: gate_reads relayed_transfer [OF assms] case_prod_beta)

theorem sampled_gate_is_the_decision_witness:
  "fst (gate sim_host ''GADMIN'' ''CHOOKS'' ''local'' ''before_transfer''
      [(''token'', ''CTOKEN''), (''from'', ''GALICE''), (''to'', ''GFROZEN'')] sim_demo) =
     Inr (Denied (Rejection AccountFrozen))"
proof -
  have "relays (fst (run_stellar sim_host sim_demo (view_args ''GADMIN'' ''CHOOKS'' ''local'' ''before_transfer''
      [(''token'', ''CTOKEN''), (''from'', ''GALICE''), (''to'', ''GFROZEN'')])))
    (dispatch ledger_host demo_ledger (BeforeTransfer ''CTOKEN'' ''GALICE'' ''GFROZEN''))"
    by (simp add: sim_host_def sim_stellar_view sim_view_def param_args_def sim_demo_ledger shown_relays)
  from sampled_gate_is_the_decision [OF ledger_hosts(2) demo_well_typed this] show ?thesis
    by (simp add: decide_def demo_facts party_verdict_def freeze_verdict_def policy_verdict_def sac_verdict_def
        demo_views_def POLICY_FN_def SAC_AUTHORIZED_FN_def)
qed

lemma judge_unconfigured:
  "check_status (judge_probe probe (Inr (Denied (Rejection InvalidConfiguration)))) = Fail"
  by (simp add: judge_probe_def)

lemma clean_report_holds:
  assumes "view_contract_host H" and "well_typed H e" and "relays_transfers H e ans cfg source_account account"
    and "relays_reads H e J ans cfg source_account" and "views_purely C ans w"
    and "admin_public_key (dep_admin cfg) \<noteq> ''null''"
  shows "((\<forall>c\<in>set (fst (verify C J cfg source_account account w)). check_status c \<noteq> Fail) \<longleftrightarrow>
      report_claim (state_of H e) (views_of H e) cfg account) \<and>
    (policy_confirmed (fst (verify C J cfg source_account account w)) \<longleftrightarrow> uses_recorded_policy (state_of H e) cfg)"
  using verify_healthy [OF assms(5), of J cfg source_account account] healthy_iff_claim [OF assms(1-4,6)]
    verify_confirms [OF assms(5), of J cfg source_account account] policy_in_use_iff [OF _ assms(2,4)] assms(1)
  by (auto simp: no_failure_def view_contract_host_def)

text \<open>C35: the smoke test is exact about the contract: with a binary that shows the contract's replies to the
  simulated calls and leaves the ledger alone, the report has no failing check if and only if the contract
  holds the recorded admin, is configured, with no policy other than the recorded one where both are
  named, has both versions stamped, binds every recorded token and not the admin's address, and reaches a
  real decision for a sampled account on every token. The recorded policy is the one in use if and only if
  the report has the passing line about it; without that line a clean report leaves the policy open, and
  it never compares the SAC passthrough or the SACs. On an unconfigured contract the fail-closed probe is
  reported as a failure too.\<close>

theorem clean_report_is_exact:
  assumes "view_contract_host H" and "well_typed H e" and "relays_transfers H e ans cfg source_account account"
    and "relays_reads H e J ans cfg source_account" and "views_purely C ans w"
    and "admin_public_key (dep_admin cfg) \<noteq> ''null''"
  shows "((\<forall>c\<in>set (fst (verify C J cfg source_account account w)). check_status c \<noteq> Fail) \<longleftrightarrow>
      report_claim (state_of H e) (views_of H e) cfg account) \<and>
    (policy_confirmed (fst (verify C J cfg source_account account w)) \<longleftrightarrow> uses_recorded_policy (state_of H e) cfg) \<and>
    (st_config (state_of H e) = None \<longrightarrow>
      map check_status (fst (check_probe C cfg source_account w)) = [Fail])"
proof (subst conj_assoc [symmetric], intro conjI [OF clean_report_holds [OF assms]] impI)
  let ?admin = "admin_public_key (dep_admin cfg)"
  assume "st_config (state_of H e) = None"
  then have "ask_transfer ans cfg source_account ?admin ?admin = Inr (Denied (Rejection InvalidConfiguration))"
    using sampled_gate [OF assms(1-3), of ?admin ?admin] by (simp add: sampled_calls_def decide_def)
  with assms(5) show "map check_status (fst (check_probe C cfg source_account w)) = [Fail]"
    by (auto simp: check_probe_def gate_reads view_reads ask_transfer_def address_param_def views_purely_def
        judge_unconfigured Let_def split: sum.splits)
qed

theorem clean_report_is_exact_witness:
  "list_all (\<lambda>c. check_status c \<noteq> Fail)
      (fst (verify sim_host sim_codec sim_deployment ''GADMIN'' (Some ''GDENIED'') sim_demo)) \<and>
   \<not> policy_confirmed (fst (verify sim_host sim_codec sim_deployment ''GADMIN'' (Some ''GDENIED'') sim_demo))"
proof -
  have "dep_hooks_contract_id sim_deployment = ''CHOOKS''" by (simp add: sim_deployment_def demo_deployment_def)
  then have t: "relays_transfers ledger_host demo_ledger (sim_answers sim_demo) sim_deployment ''GADMIN'' (Some ''GDENIED'')"
    using sim_relays_transfers [of sim_demo sim_deployment "''GADMIN''"] by (simp add: sim_demo_ledger)
  have "admin_public_key (dep_admin sim_deployment) \<noteq> ''null''"
    by (simp add: sim_deployment_def demo_deployment_def)
  from clean_report_is_exact [OF ledger_hosts(2) demo_well_typed t sim_demo_reads sim_views_purely this]
  show ?thesis
    by (simp add: list_all_iff report_claim_def demo_facts demo_versions demo_version demo_unbound sim_deployment_def
        demo_deployment_def no_policy_conflict_def uses_recorded_policy_def decide_def party_verdict_def
        freeze_verdict_def policy_verdict_def sac_verdict_def demo_views_def POLICY_FN_def)
qed

section \<open>From the command line to the contract\<close>

text \<open>C8: an administrative command does to the contract what the operator means by it: on a network that
  executes what it is sent, when the CLI ends without an error, the recorded contract has gone through
  exactly the transition of the call that the command stands for under the loaded record (the token
  resolved, the policy, passthrough and SAC defaulted from the record), decided by the signatures of that
  invocation, and it is still in a reachable state.\<close>

theorem admin_command_does_what_it_says:
  assumes "registered_network H C chain known wasm"
    and "cli_run C J args w = (Inr (), w')" and "fst (config_load C J (cli_config args) w) = Inr cfg"
    and "commanded cfg (cli_command args) = Some c" and "i = dep_hooks_contract_id cfg"
    and "i \<in> known w" and "reachable H (chain w i)"
  shows "reachable H (chain w' i) \<and>
    (\<exists>e evs. quiet H (chain w i) e \<and>
      (\<forall>ask. spec_step (state_of H (chain w i)) (authorized H e) ask c = Done (state_of H (chain w' i)) evs))"
  using registered_network.admin_command_commits [OF assms] by blast

text \<open>Initializing a contract that has just been deployed.\<close>

definition sim_blank :: sim_world where
  "sim_blank = \<lparr>sim_contracts = (\<lambda>_. blank_ledger), sim_ids = [''CHOOKS'']\<rparr>"

definition init_args :: cli where
  "init_args = \<lparr>cli_config = ''c.json'', cli_source = Some ''GADMIN'', cli_stellar_bin = ''stellar'', cli_command = Init\<rparr>"

lemma demo_registered: "list_ex (\<lambda>line. text_trim line = ''local'') (text_lines ''local'')"
  by code_simp

lemma sim_ensure_network: "dep_network cfg = ''local'' \<Longrightarrow> ensure_network sim_host cfg w = (Inr (), w)"
  using demo_registered
  by (simp add: ensure_network_def and_do_def sim_host_def sim_stellar_network said_def done_with_def)

lemma sim_init_runs: "\<exists>w'. cli_run sim_host sim_codec init_args sim_blank = (Inr (), w')"
proof -
  let ?A = "\<lparr>app_config = demo_deployment, app_config_path = ''c.json'', app_source = ''GADMIN''\<rparr>"
  have blank: "sim_contracts sim_blank ''CHOOKS'' = blank_ledger" "''CHOOKS'' \<in> set (sim_ids sim_blank)"
    by (simp_all add: sim_blank_def)
  let ?st = "(state_of ledger_host blank_ledger)\<lparr>st_admin := Some ''GADMIN'', st_version := Some VERSION\<rparr>"
  obtain w' where "hooks_invoke sim_host ''GADMIN'' ''CHOOKS'' ''local'' (fst (request (Initialize ''GADMIN'')))
      (snd (request (Initialize ''GADMIN''))) sim_blank = (Inr (), w')"
    using sim_send [OF blank(2), unfolded blank(1), OF sim.pristine_reachable [OF blank_pristine], of "Initialize ''GADMIN''"
        "''GADMIN''" ?st "[InitializedEv ''GADMIN'']"]
    by (auto simp: pristine_state [OF blank_pristine])
  then obtain out where "run_stellar sim_host sim_blank (invoke_args (Some ''GADMIN'') ''CHOOKS'' ''local'' ''initialize''
      [(''admin'', address_param ''GADMIN'')]) = (Inr out, w')" and "run_ok out"
    using sim.hooks_invoke_Inr by fastforce
  then have "app_init sim_host ?A sim_blank = (Inr (), w')"
    by (simp add: app_init_def app_invoke_def and_do_def demo_deployment_def lift_result_def interpret_outcome_def Let_def)
  moreover have "config_load sim_host sim_codec ''c.json'' sim_blank = (Inr demo_deployment, sim_blank)"
    by (simp add: config_load_def sim_host_def sim_codec_def demo_codec_def)
  moreover have "ensure_network sim_host demo_deployment sim_blank = (Inr (), sim_blank)"
    by (rule sim_ensure_network) (simp add: demo_deployment_def)
  ultimately show ?thesis
    by (simp add: cli_run_def init_args_def and_do_def run_admin_def admin_source_def)
qed

theorem admin_command_does_what_it_says_witness:
  "\<exists>w'. cli_run sim_host sim_codec init_args sim_blank = (Inr (), w') \<and>
    st_admin (state_of ledger_host (sim_contracts w' ''CHOOKS'')) = Some ''GADMIN''"
proof -
  obtain w' where run: "cli_run sim_host sim_codec init_args sim_blank = (Inr (), w')" using sim_init_runs by blast
  have blank: "sim_contracts sim_blank ''CHOOKS'' = blank_ledger" by (simp add: sim_blank_def)
  have load: "fst (config_load sim_host sim_codec (cli_config init_args) sim_blank) = Inr demo_deployment"
    by (simp add: config_load_def sim_host_def sim_codec_def demo_codec_def)
  have means: "commanded demo_deployment (cli_command init_args) = Some (Initialize ''GADMIN'')"
    by (simp add: commanded_def init_args_def demo_deployment_def)
  have "reachable ledger_host (sim_contracts w' ''CHOOKS'') \<and>
    (\<exists>e evs. quiet ledger_host (sim_contracts sim_blank ''CHOOKS'') e \<and>
      (\<forall>ask. spec_step (state_of ledger_host (sim_contracts sim_blank ''CHOOKS'')) (authorized ledger_host e) ask
        (Initialize ''GADMIN'') = Done (state_of ledger_host (sim_contracts w' ''CHOOKS'')) evs))"
    by (rule admin_command_does_what_it_says [OF sim.registered_network_axioms run load means])
      (simp_all add: demo_deployment_def sim_blank_def sim.pristine_reachable [OF blank_pristine])
  then obtain signs evs where
    "spec_step (state_of ledger_host blank_ledger) signs undefined (Initialize ''GADMIN'') =
      Done (state_of ledger_host (sim_contracts w' ''CHOOKS'')) evs"
    unfolding blank by blast
  then have "st_admin (state_of ledger_host (sim_contracts w' ''CHOOKS'')) = Some ''GADMIN''"
    by (auto split: if_splits dest!: arg_cong [where f = st_admin])
  with run show ?thesis by blast
qed

section \<open>From the record to the contract\<close>

text \<open>C39: a bring-up leaves what the record says: on a network that executes what it is sent, when \<^verbatim>\<open>deploy\<close>
  succeeds there is a contract that did not exist before, whose state is exactly the one of the record it
  reports: the recorded admin, the chosen policy and passthrough at version one, the recorded tokens bound
  to their recorded SACs (of a token listed twice, the last entry) and no other, nothing frozen.\<close>

theorem deploy_establishes_the_record:
  assumes "live_network H C chain known wasm"
    and "run_deploy C J cfg config_path source wasm sample_wasm blocked policy_id no_policy sac_opt w = (Inr (), w')"
  shows "\<exists>hooks_id pol. hooks_id \<notin> known w \<and> hooks_id \<in> known w' \<and>
    policy_choice cfg sample_wasm policy_id no_policy pol \<and> reachable H (chain w' hooks_id) \<and>
    state_of H (chain w' hooks_id) = recorded_state (recorded_config cfg hooks_id pol
      (case sac_opt of Some b \<Rightarrow> b | None \<Rightarrow> dep_sac_passthrough cfg))"
  using live_network.run_deploy_establishes [OF assms] by blast

text \<open>The bring-up of the demonstration record on an empty network.\<close>

definition sim_empty :: sim_world where
  "sim_empty = \<lparr>sim_contracts = (\<lambda>_. blank_ledger), sim_ids = []\<rparr>"

lemma sim_deploy_runs:
  "\<exists>w'. run_deploy sim_host sim_codec demo_deployment None ''GADMIN'' ''hooks.wasm'' None None None False None sim_empty =
    (Inr (), w')"
proof -
  let ?w1 = "sim_empty\<lparr>sim_contracts := (sim_contracts sim_empty)(demo_id := blank_ledger), sim_ids := [demo_id]\<rparr>"
  have "parse_deployed_id demo_id = Some demo_id" by code_simp
  then have d: "deploy_hooks sim_host demo_deployment ''GADMIN'' ''hooks.wasm'' sim_empty = (Inr demo_id, ?w1)"
    by (simp add: deploy_hooks_def send_raw_def and_do_def sim_host_def println_def sim_stellar_deploy sim_deploy_def
        sim_new_ids_def sim_empty_def demo_id_def said_def lift_result_def done_with_def)
  obtain w' where "bring_up sim_host demo_deployment ''GADMIN'' demo_id None False ?w1 = (Inr (), w')"
    using sim_bring_up [of demo_id ?w1 "''GADMIN''" demo_deployment] blank_pristine by (auto simp: demo_deployment_def)
  then show ?thesis
    by (simp add: run_deploy_def and_do_def d resolve_policy_def done_with_def Let_def)
      (simp add: demo_deployment_def)
qed

theorem deploy_establishes_the_record_witness:
  "\<exists>w' hooks_id. run_deploy sim_host sim_codec demo_deployment None ''GADMIN'' ''hooks.wasm'' None None None False None
      sim_empty = (Inr (), w') \<and>
    st_bindings (state_of ledger_host (sim_contracts w' hooks_id)) ''CUSD'' = Some \<lparr>binding_sac = Some ''CSAC''\<rparr>"
proof -
  obtain w' where run: "run_deploy sim_host sim_codec demo_deployment None ''GADMIN'' ''hooks.wasm'' None None None False
      None sim_empty = (Inr (), w')"
    using sim_deploy_runs by blast
  obtain i pol sac where "state_of ledger_host (sim_contracts w' i) = recorded_state (recorded_config demo_deployment i pol sac)"
    using deploy_establishes_the_record [OF sim.live_network_axioms run] by blast
  then have "st_bindings (state_of ledger_host (sim_contracts w' i)) ''CUSD'' = Some \<lparr>binding_sac = Some ''CSAC''\<rparr>"
    by (simp add: recorded_state_def recorded_bindings_def recorded_config_def demo_deployment_def)
  with run show ?thesis by blast
qed

text \<open>C40: deploy, then verify: a successful \<^verbatim>\<open>deploy\<close> of a record (whose admin address is not itself listed
  as a token) has deployed a new contract and settled on a policy, and right afterwards the smoke test of
  the record it reports, with that contract and that policy, has no failing check, on a network that
  executes what it is sent and shows this one contract's replies to the calls of this report; and the
  report confirms the policy whenever there is one.\<close>

theorem deploy_then_verify_is_clean:
  assumes "live_network H C chain known wasm" and "view_contract_host H"
    and "run_deploy C J cfg config_path source wasm sample_wasm blocked policy_id no_policy sac_opt w = (Inr (), w')"
    and "admin_public_key (dep_admin cfg) \<notin> token_contract_id ` set (dep_tokens cfg)"
    and "admin_public_key (dep_admin cfg) \<noteq> ''null''"
    and "views_purely C ans w'"
  shows "\<exists>hooks_id w1 pol w2.
    deploy_hooks C cfg source wasm w = (Inr hooks_id, w1) \<and>
    resolve_policy C cfg source sample_wasm blocked policy_id no_policy w1 = (Inr pol, w2) \<and>
    hooks_id \<notin> known w \<and> hooks_id \<in> known w' \<and> policy_choice cfg sample_wasm policy_id no_policy pol \<and>
    (let saved = recorded_config cfg hooks_id pol (case sac_opt of Some b \<Rightarrow> b | None \<Rightarrow> dep_sac_passthrough cfg);
         report = fst (verify C J saved source_account None w') in
     relays_transfers H (chain w' hooks_id) ans saved source_account None \<longrightarrow>
     relays_reads H (chain w' hooks_id) J ans saved source_account \<longrightarrow>
     (\<forall>c\<in>set report. check_status c \<noteq> Fail) \<and> (policy_confirmed report \<longleftrightarrow> pol \<noteq> None))"
proof -
  let ?sac = "case sac_opt of Some b \<Rightarrow> b | None \<Rightarrow> dep_sac_passthrough cfg"
  obtain i w1 pol w2 where s: "deploy_hooks C cfg source wasm w = (Inr i, w1)"
      "resolve_policy C cfg source sample_wasm blocked policy_id no_policy w1 = (Inr pol, w2)"
    and k: "i \<notin> known w" "i \<in> known w'" "policy_choice cfg sample_wasm policy_id no_policy pol"
    and reach: "reachable H (chain w' i)"
    and st: "state_of H (chain w' i) = recorded_state (recorded_config cfg i pol ?sac)"
    using live_network.run_deploy_record [OF assms(1,3)] by metis
  let ?cfg = "recorded_config cfg i pol ?sac"
  have wt: "well_typed H (chain w' i)"
    using assms(1) reach by (intro contract_host.well_typed_reachable) (simp_all add: live_network_def)
  have admin: "admin_public_key (dep_admin ?cfg) \<noteq> ''null''" using assms(5) by (simp add: recorded_config_def)
  have claim: "report_claim (recorded_state ?cfg) ask ?cfg None" for ask
    using assms(4) by (rule recorded_claim)
  have used: "uses_recorded_policy (recorded_state ?cfg) ?cfg \<longleftrightarrow> pol \<noteq> None"
    by (auto simp: uses_recorded_policy_def recorded_state_def recorded_config_def)
  have "(\<forall>c\<in>set (fst (verify C J ?cfg source_account None w')). check_status c \<noteq> Fail) \<and>
      (policy_confirmed (fst (verify C J ?cfg source_account None w')) \<longleftrightarrow> pol \<noteq> None)"
    if t: "relays_transfers H (chain w' i) ans ?cfg source_account None"
      and r: "relays_reads H (chain w' i) J ans ?cfg source_account"
    using clean_report_holds [OF assms(2) wt t r assms(6) admin] claim used st by simp
  with s k show ?thesis unfolding Let_def by blast
qed

lemma recorded_plain:
  "plain (admin_public_key (dep_admin demo_deployment))" "plain (u32_text VERSION)" "plain (u32_text 1)"
  by code_simp+

theorem deploy_then_verify_is_clean_witness:
  "\<exists>w' hooks_id. run_deploy sim_host sim_codec demo_deployment None ''GADMIN'' ''hooks.wasm'' None None None False None
      sim_empty = (Inr (), w') \<and> hooks_id \<in> set (sim_ids w') \<and>
    list_all (\<lambda>c. check_status c \<noteq> Fail)
      (fst (verify sim_host sim_codec (recorded_config demo_deployment hooks_id None False) ''GADMIN'' None w'))"
proof -
  obtain w' where run: "run_deploy sim_host sim_codec demo_deployment None ''GADMIN'' ''hooks.wasm'' None None None False None
      sim_empty = (Inr (), w')"
    using sim_deploy_runs by blast
  have sac: "(case None of Some b \<Rightarrow> b | None \<Rightarrow> dep_sac_passthrough demo_deployment) = False"
    by (simp add: demo_deployment_def)
  have "admin_public_key (dep_admin demo_deployment) \<notin> token_contract_id ` set (dep_tokens demo_deployment)"
    "admin_public_key (dep_admin demo_deployment) \<noteq> ''null''"
    by (simp_all add: demo_deployment_def)
  note clean = deploy_then_verify_is_clean [OF sim.live_network_axioms ledger_hosts(2) run this sim_views_purely,
      of "''GADMIN''", unfolded sac Let_def]
  obtain i w1 pol w2 where choice: "policy_choice demo_deployment None None False pol" and i: "i \<in> set (sim_ids w')"
      "i \<notin> set (sim_ids sim_empty)"
    and report: "relays_transfers ledger_host (sim_contracts w' i) (sim_answers w') (recorded_config demo_deployment i pol False) ''GADMIN'' None \<longrightarrow>
      relays_reads ledger_host (sim_contracts w' i) sim_codec (sim_answers w') (recorded_config demo_deployment i pol False) ''GADMIN'' \<longrightarrow>
      (\<forall>c\<in>set (fst (verify sim_host sim_codec (recorded_config demo_deployment i pol False) ''GADMIN'' None w')).
        check_status c \<noteq> Fail)"
    using clean by blast
  have none: "pol = None" using choice by (simp add: policy_choice_def demo_deployment_def)
  obtain j where only: "set (sim_ids w') = insert j (set (sim_ids sim_empty))" and r: "reachable ledger_host (sim_contracts w' j)"
    and st: "\<exists>p. policy_choice demo_deployment None None False p \<and>
      state_of ledger_host (sim_contracts w' j) = recorded_state (recorded_config demo_deployment j p False)"
    using sim.run_deploy_establishes [OF run, unfolded sac] by blast
  have j: "j = i" using only i by (simp add: sim_empty_def)
  let ?cfg = "recorded_config demo_deployment i None False"
  have id: "dep_hooks_contract_id ?cfg = i" by (simp add: recorded_config_def)
  have facts: "state_of ledger_host (sim_contracts w' i) = recorded_state ?cfg"
    using st by (auto simp: j policy_choice_def demo_deployment_def)
  have "relays_reads ledger_host (sim_contracts w' (dep_hooks_contract_id ?cfg)) sim_codec (sim_answers w') ?cfg ''GADMIN''"
  proof (rule sim_relays_reads, unfold id facts)
    show "well_typed ledger_host (sim_contracts w' i)" by (rule ledger_contract.well_typed_reachable [OF r [unfolded j]])
  qed (use recorded_plain in \<open>auto simp: recorded_state_def recorded_config_def\<close>)
  moreover have "relays_transfers ledger_host (sim_contracts w' (dep_hooks_contract_id ?cfg)) (sim_answers w') ?cfg ''GADMIN'' None"
    by (rule sim_relays_transfers)
  ultimately have "list_all (\<lambda>c. check_status c \<noteq> Fail) (fst (verify sim_host sim_codec ?cfg ''GADMIN'' None w'))"
    using report unfolding none id list_all_iff by blast
  with run i(1) show ?thesis by blast
qed

end
